(* ===== verification/Rode_Prelude.thy ===== *)
theory Rode_Prelude
  imports Main "HOL-Library.Word" "HOL-Library.Sublist"
begin

text \<open>
  What every other theory of the library shares: the fact collections the component
  proofs are driven by, generic lemmas on lists and options, and the names of the
  machine types the Go sources use.

  Go's \<open>string\<close> is a sequence of bytes, which is what \<open>string\<close> (a list of 8-bit
  characters) is here; \<open>len\<close>, indexing and comparison count bytes on both sides.
\<close>

section \<open>Fact collections\<close>

named_theorems io_run "inversion of a computation that returned normally"
named_theorems io_emits "which external calls a computation can make"
named_theorems go_str "functions of the Go string library on concatenations"
named_theorems outcome_simps "results of operations, branch by branch"

section \<open>Machine types\<close>

type_synonym uint32 = "32 word"
type_synonym int32 = "32 word"

section \<open>Lists\<close>

primrec first_some :: "'a option list \<Rightarrow> 'a option" where
  "first_some [] = None"
| "first_some (x # xs) = (case x of Some a \<Rightarrow> Some a | None \<Rightarrow> first_some xs)"

lemma first_some_None: "first_some xs = None \<longleftrightarrow> set xs \<subseteq> {None}"
  by (induction xs) (auto split: option.splits)

lemma first_some_Some_mem: "first_some xs = Some a \<Longrightarrow> Some a \<in> set xs"
  by (induction xs) (auto split: option.splits)

lemma first_some_append:
  "first_some (xs @ ys) = (case first_some xs of Some a \<Rightarrow> Some a | None \<Rightarrow> first_some ys)"
  by (induction xs) (auto split: option.splits)

lemma first_some_skip: "set xs \<subseteq> {None} \<Longrightarrow> first_some (xs @ ys) = first_some ys"
  by (simp add: first_some_append first_some_None [THEN iffD2])

lemma length_map_of_distinct_keys:
  "distinct (map fst xs) \<Longrightarrow> (k, v) \<in> set xs \<Longrightarrow> map_of xs k = Some v"
  by (rule map_of_is_SomeI)

lemma list_all_concat_map:
  "list_all P (concat (map f xs)) \<longleftrightarrow> list_all (\<lambda>x. list_all P (f x)) xs"
  by (induction xs) auto

text \<open>
  Looking a key up in an association list that stands for a Go map: insertion keeps the
  list's keys distinct, so the first entry is the only one.
\<close>

primrec alist_put :: "'k \<Rightarrow> 'v \<Rightarrow> ('k \<times> 'v) list \<Rightarrow> ('k \<times> 'v) list" where
  "alist_put k v [] = [(k, v)]"
| "alist_put k v (x # xs) = (if fst x = k then (k, v) # xs else x # alist_put k v xs)"

lemma map_of_alist_put [simp]: "map_of (alist_put k v xs) = (map_of xs)(k \<mapsto> v)"
  by (induction xs) (auto simp: fun_eq_iff)

lemma keys_alist_put: "fst ` set (alist_put k v xs) = insert k (fst ` set xs)"
  by (induction xs) auto

lemma distinct_alist_put: "distinct (map fst xs) \<Longrightarrow> distinct (map fst (alist_put k v xs))"
proof (induction xs)
  case Nil
  then show ?case by simp
next
  case (Cons x xs)
  have keys: "set (map fst (alist_put k v xs)) = insert k (set (map fst xs))"
    using keys_alist_put [of k v xs] by simp
  show ?case
  proof (cases "fst x = k")
    case True
    with Cons.prems show ?thesis by simp
  next
    case False
    with Cons keys show ?thesis by simp
  qed
qed

lemma alist_put_new: "k \<notin> fst ` set xs \<Longrightarrow> alist_put k v xs = xs @ [(k, v)]"
  by (induction xs) auto

end
