(* ===== verification/Proto_Types.thy ===== *)
theory Proto_Types
  imports Rode_Prelude
begin

text \<open>
  The messages of the API (\<open>proto/v1alpha1\<close>) and the Grafeas messages the server
  handles (\<open>protodeps/grafeas\<close>), one record per generated struct, with the struct's
  fields in their order. The bookkeeping fields of the protobuf runtime (\<open>state\<close>,
  \<open>sizeCache\<close>, \<open>unknownFields\<close>) carry no data of the message and are left out.
  A pointer to a message that can be nil is an \<open>option\<close>; a repeated field is a list,
  whose empty value is the nil slice (which is what decoding a message without elements
  leaves in the field). A field name keeps the Go name after a
  prefix for its message, since record fields share one name space.
\<close>

section \<open>Well-known types\<close>

text \<open>\<open>timestamppb.Timestamp\<close>; fields of this type are nil when the option is \<open>None\<close>.\<close>

datatype timestamp = Timestamp (ts_seconds: int) (ts_nanos: int)

text \<open>The payload of a message the server passes through without looking inside.\<close>

type_synonym opaque = string

section \<open>rode\_policy.proto\<close>

record policy_entity =
  pe_Id :: string
  pe_Version :: uint32
  pe_Message :: string
  pe_RegoContent :: string
  pe_SourcePath :: string
  pe_Created :: "timestamp option"

record policy =
  p_Id :: string
  p_Name :: string
  p_Description :: string
  p_CurrentVersion :: uint32
  p_Policy :: "policy_entity option"
  p_Created :: "timestamp option"
  p_Updated :: "timestamp option"
  p_Deleted :: bool

record policy_group =
  pg_Name :: string
  pg_Description :: string
  pg_Created :: "timestamp option"
  pg_Updated :: "timestamp option"
  pg_Deleted :: bool

record policy_assignment =
  pa_Id :: string
  pa_PolicyVersionId :: string
  pa_PolicyGroup :: string
  pa_Created :: "timestamp option"
  pa_Updated :: "timestamp option"

record violation =
  v_Id :: string
  v_Name :: string
  v_Description :: string
  v_Message :: string
  v_Link :: string
  v_Pass :: bool

record evaluate_policy_request =
  epr_Policy :: string
  epr_ResourceUri :: string

record evaluate_policy_result =
  eres_Pass :: bool
  eres_Created :: "timestamp option"
  eres_Violations :: "violation list"

record evaluate_policy_response =
  ersp_Pass :: bool
  ersp_Changed :: bool
  ersp_Result :: "evaluate_policy_result list"
  ersp_Explanation :: "string list"

record validate_policy_request =
  vpr_Policy :: string

record validate_policy_response =
  vps_Policy :: string
  vps_Compile :: bool
  vps_Errors :: "string list"

record get_policy_request =
  gpr_Id :: string

record delete_policy_request =
  dpr_Id :: string

record list_policies_request =
  lpr_Filter :: string
  lpr_PageSize :: int32
  lpr_PageToken :: string

record list_policies_response =
  lps_Policies :: "policy list"
  lps_NextPageToken :: string

record list_policy_versions_request =
  lvr_Id :: string
  lvr_Filter :: string
  lvr_PageSize :: int32
  lvr_PageToken :: string

record list_policy_versions_response =
  lvs_Versions :: "policy_entity list"
  lvs_NextPageToken :: string

record update_policy_request =
  upr_Policy :: "policy option"

record get_policy_group_request =
  ggr_Name :: string

record delete_policy_group_request =
  dgr_Name :: string

record list_policy_groups_request =
  lgr_Filter :: string
  lgr_PageSize :: int32
  lgr_PageToken :: string

record list_policy_groups_response =
  lgs_PolicyGroups :: "policy_group list"
  lgs_NextPageToken :: string

record get_policy_assignment_request =
  gar_Id :: string

record delete_policy_assignment_request =
  dar_Id :: string

record list_policy_assignments_request =
  lar_Filter :: string
  lar_PageSize :: int32
  lar_PageToken :: string
  lar_PolicyId :: string
  lar_PolicyGroup :: string

record list_policy_assignments_response =
  las_PolicyAssignments :: "policy_assignment list"
  las_NextPageToken :: string

section \<open>rode\_resource.proto\<close>

datatype resource_type =
    RESOURCE_TYPE_UNSPECIFIED
  | DOCKER
  | GIT
  | MAVEN
  | FILE
  | NPM
  | NUGET
  | PIP
  | DEBIAN
  | RPM

record resource =
  r_Id :: string
  r_Name :: string
  r_Type :: resource_type
  r_Created :: "timestamp option"

record resource_version =
  rv_Version :: string
  rv_Names :: "string list"
  rv_Created :: "timestamp option"

record list_resources_request =
  lrr_Filter :: string
  lrr_PageSize :: int32
  lrr_PageToken :: string

record list_resources_response =
  lrs_Resources :: "resource list"
  lrs_NextPageToken :: string

record list_resource_versions_request =
  lrv_Id :: string
  lrv_Filter :: string
  lrv_PageSize :: int32
  lrv_PageToken :: string

record list_resource_versions_response =
  lrvs_Versions :: "resource_version list"
  lrvs_NextPageToken :: string

section \<open>rode\_evaluation.proto\<close>

record resource_evaluation_source =
  res_Name :: string
  res_Url :: string

record resource_evaluation =
  re_Id :: string
  re_Pass :: bool
  re_Source :: "resource_evaluation_source option"
  re_Created :: "timestamp option"
  re_ResourceVersion :: "resource_version option"
  re_PolicyGroup :: string

record policy_evaluation =
  pev_Id :: string
  pev_ResourceEvaluationId :: string
  pev_Pass :: bool
  pev_PolicyVersionId :: string
  pev_Violations :: "violation list"

record resource_evaluation_request =
  rer_ResourceUri :: string
  rer_PolicyGroup :: string
  rer_Source :: "resource_evaluation_source option"

record resource_evaluation_result =
  rres_ResourceEvaluation :: "resource_evaluation option"
  rres_PolicyEvaluations :: "policy_evaluation list"

record get_resource_evaluation_request =
  gre_Id :: string

record list_resource_evaluations_request =
  lre_ResourceUri :: string
  lre_Filter :: string
  lre_PageSize :: int32
  lre_PageToken :: string

record list_resource_evaluations_response =
  lres_ResourceEvaluations :: "resource_evaluation_result list"
  lres_NextPageToken :: string

section \<open>Grafeas occurrences and notes\<close>

datatype note_kind =
    NOTE_KIND_UNSPECIFIED
  | VULNERABILITY
  | BUILD
  | IMAGE
  | PACKAGE
  | DEPLOYMENT
  | DISCOVERY
  | ATTESTATION
  | INTOTO

record artifact =
  art_Checksum :: string
  art_Id :: string
  art_Names :: "string list"

text \<open>
  Of a build's provenance the server reads the built artifacts only; the other fields
  travel as one opaque value.
\<close>

record build_provenance =
  bp_Id :: string
  bp_BuiltArtifacts :: "artifact list"
  bp_Rest :: opaque

record build_details =
  bd_Provenance :: "build_provenance option"
  bd_ProvenanceBytes :: string

text \<open>The oneof \<open>details\<close>: the pointer of the build variant may itself be nil.\<close>

datatype occurrence_details =
    Occurrence_Vulnerability opaque
  | Occurrence_Build "build_details option"
  | Occurrence_DerivedImage opaque
  | Occurrence_Installation opaque
  | Occurrence_Deployment opaque
  | Occurrence_Discovered opaque
  | Occurrence_Attestation opaque
  | Occurrence_Intoto opaque

record grafeas_resource =
  gr_Name :: string
  gr_Uri :: string
  gr_ContentHash :: "opaque option"

record occurrence =
  o_Name :: string
  o_Resource :: "grafeas_resource option"
  o_NoteName :: string
  o_Kind :: note_kind
  o_Remediation :: string
  o_CreateTime :: "timestamp option"
  o_UpdateTime :: "timestamp option"
  o_Details :: "occurrence_details option"

record grafeas_note =
  n_Name :: string
  n_ShortDescription :: string
  n_LongDescription :: string
  n_Kind :: note_kind
  n_RelatedUrl :: "opaque list"
  n_ExpirationTime :: "timestamp option"
  n_CreateTime :: "timestamp option"
  n_UpdateTime :: "timestamp option"
  n_RelatedNoteNames :: "string list"
  n_Type :: "opaque option"

record evaluate_policy_input =
  epi_Occurrences :: "occurrence list"

section \<open>Requests to Grafeas\<close>

record g_list_occurrences_request =
  glo_Parent :: string
  glo_Filter :: string
  glo_PageSize :: int32
  glo_PageToken :: string

record g_list_occurrences_response =
  glos_Occurrences :: "occurrence list"
  glos_NextPageToken :: string

record g_list_notes_request =
  gln_Parent :: string
  gln_Filter :: string
  gln_PageSize :: int32
  gln_PageToken :: string

record g_list_notes_response =
  glns_Notes :: "grafeas_note list"
  glns_NextPageToken :: string

record g_create_note_request =
  gcn_Parent :: string
  gcn_NoteId :: string
  gcn_Note :: "grafeas_note option"

record g_batch_create_notes_request =
  gbn_Parent :: string
  gbn_Notes :: "(string \<times> grafeas_note) list"

record g_batch_create_notes_response =
  gbns_Notes :: "grafeas_note list"

record g_batch_create_occurrences_request =
  gbo_Parent :: string
  gbo_Occurrences :: "occurrence list"

record g_batch_create_occurrences_response =
  gbos_Occurrences :: "occurrence list"

record g_update_occurrence_request =
  guo_Name :: string
  guo_Occurrence :: "occurrence option"
  guo_UpdateMask :: "string list option"

record project =
  prj_Name :: string

section \<open>rode.proto\<close>

record batch_create_occurrences_request =
  bco_Occurrences :: "occurrence list"

record batch_create_occurrences_response =
  bcos_Occurrences :: "occurrence list"

record list_versioned_resource_occurrences_request =
  lvo_ResourceUri :: string
  lvo_PageSize :: int32
  lvo_PageToken :: string
  lvo_FetchRelatedNotes :: bool

record list_versioned_resource_occurrences_response =
  lvos_Occurrences :: "occurrence list"
  lvos_NextPageToken :: string
  lvos_RelatedNotes :: "(string \<times> grafeas_note) list"

record list_occurrences_request =
  lor_Filter :: string
  lor_PageSize :: int32
  lor_PageToken :: string

record list_occurrences_response =
  los_Occurrences :: "occurrence list"
  los_NextPageToken :: string

record update_occurrence_request =
  uor_Id :: string
  uor_Occurrence :: "occurrence option"
  uor_UpdateMask :: "string list option"

record register_collector_request =
  rcr_Id :: string
  rcr_Notes :: "grafeas_note list"

record register_collector_response =
  rcs_Notes :: "(string \<times> grafeas_note) list"

record create_note_request =
  cnr_NoteId :: string
  cnr_Note :: "grafeas_note option"

end
