(* ===== verification/Go_Strings.thy ===== *)
theory Go_Strings
  imports Rode_Prelude
begin

text \<open>
  The functions of Go's \<open>strings\<close>, \<open>strconv\<close> and \<open>fmt\<close> packages that the
  sources call: \<open>strings.Split\<close> and \<open>strings.Join\<close> on a one-byte separator,
  \<open>strings.ContainsRune\<close>, \<open>strings.TrimPrefix\<close>, \<open>strings.Replace\<close> of one byte,
  \<open>strconv.Atoi\<close> with its syntax and range errors, and the \<open>%d\<close> verb on an
  unsigned number. The lemmas say how they invert each other.
\<close>

section \<open>Splitting and joining\<close>

fun split_on :: "char \<Rightarrow> string \<Rightarrow> string list" where
  "split_on c [] = [[]]"
| "split_on c (x # xs) =
     (if x = c then [] # split_on c xs
      else (case split_on c xs of [] \<Rightarrow> [[x]] | y # ys \<Rightarrow> (x # y) # ys))"

fun join_with :: "string \<Rightarrow> string list \<Rightarrow> string" where
  "join_with sep [] = []"
| "join_with sep [x] = x"
| "join_with sep (x # y # ys) = x @ sep @ join_with sep (y # ys)"

definition contains_char :: "string \<Rightarrow> char \<Rightarrow> bool" where
  "contains_char s c \<longleftrightarrow> c \<in> set s"

definition has_prefix :: "string \<Rightarrow> string \<Rightarrow> bool" where
  "has_prefix s p \<longleftrightarrow> take (length p) s = p"

definition trim_prefix :: "string \<Rightarrow> string \<Rightarrow> string" where
  "trim_prefix s p = (if has_prefix s p then drop (length p) s else s)"

definition replace_char :: "char \<Rightarrow> char \<Rightarrow> string \<Rightarrow> string" where
  "replace_char old new s = map (\<lambda>c. if c = old then new else c) s"

lemma split_on_nonempty [simp]: "split_on c s \<noteq> []"
  by (cases s) (auto split: list.splits)

lemma split_on_no_sep [go_str]: "c \<notin> set s \<Longrightarrow> split_on c s = [s]"
  by (induction s) auto

lemma split_on_sep [go_str]: "c \<notin> set a \<Longrightarrow> split_on c (a @ c # b) = a # split_on c b"
  by (induction a) auto

lemma length_split_on: "length (split_on c s) = Suc (count_list s c)"
  by (induction s) (auto split: list.splits)

lemma join_split_on: "join_with [c] (split_on c s) = s"
proof (induction s)
  case Nil
  then show ?case by simp
next
  case (Cons x xs)
  obtain y ys where eq: "split_on c xs = y # ys"
    by (cases "split_on c xs") auto
  with Cons show ?case by (cases ys) auto
qed

lemma split_on_pieces_no_sep: "p \<in> set (split_on c s) \<Longrightarrow> c \<notin> set p"
  by (induction s arbitrary: p) (auto split: list.splits if_splits)

lemma split_on_two_iff:
  "split_on c s = [a, b] \<longleftrightarrow> s = a @ c # b \<and> c \<notin> set a \<and> c \<notin> set b"
proof
  assume eq: "split_on c s = [a, b]"
  have "s = join_with [c] [a, b]" using join_split_on [of c s] eq by simp
  moreover have "c \<notin> set a" "c \<notin> set b"
    using split_on_pieces_no_sep [of _ c s] eq by auto
  ultimately show "s = a @ c # b \<and> c \<notin> set a \<and> c \<notin> set b" by simp
qed (auto simp: go_str)

lemma length_split_on_two_iff: "length (split_on c s) = 2 \<longleftrightarrow> count_list s c = 1"
  by (simp add: length_split_on)

lemma has_prefix_append [simp, go_str]: "has_prefix (p @ s) p"
  by (simp add: has_prefix_def)

lemma trim_prefix_append [simp, go_str]: "trim_prefix (p @ s) p = s"
  by (simp add: trim_prefix_def)

lemma has_prefix_iff: "has_prefix s p \<longleftrightarrow> (\<exists>t. s = p @ t)"
proof
  assume "has_prefix s p"
  then have "s = p @ drop (length p) s"
    by (metis append_take_drop_id has_prefix_def)
  then show "\<exists>t. s = p @ t" ..
qed (auto simp: has_prefix_def)

lemma replace_char_id: "old \<notin> set s \<Longrightarrow> replace_char old new s = s"
  by (induction s) (auto simp: replace_char_def)

lemma replace_char_gone: "old \<noteq> new \<Longrightarrow> old \<notin> set (replace_char old new s)"
  by (auto simp: replace_char_def)

section \<open>Decimal numbers\<close>

definition digit_char :: "nat \<Rightarrow> char" where
  "digit_char d = char_of (48 + d)"

definition char_digit :: "char \<Rightarrow> nat option" where
  "char_digit c =
     (let n = of_char c :: nat in if 48 \<le> n \<and> n \<le> 57 then Some (n - 48) else None)"

fun format_nat :: "nat \<Rightarrow> string" where
  "format_nat n =
     (if n < 10 then [digit_char n] else format_nat (n div 10) @ [digit_char (n mod 10)])"

declare format_nat.simps [simp del]

definition format_int :: "int \<Rightarrow> string" where
  "format_int i = (if i < 0 then CHR ''-'' # format_nat (nat (- i)) else format_nat (nat i))"

datatype num_error = ErrSyntax | ErrRange

text \<open>The digit loop of \<open>strconv.ParseUint\<close> in base 10, 64 bits.\<close>

fun parse_uint_loop :: "nat \<Rightarrow> string \<Rightarrow> num_error + nat" where
  "parse_uint_loop n [] = Inr n"
| "parse_uint_loop n (c # cs) =
     (case char_digit c of
        None \<Rightarrow> Inl ErrSyntax
      | Some d \<Rightarrow> if 10 * n + d > 2 ^ 64 - 1 then Inl ErrRange
                  else parse_uint_loop (10 * n + d) cs)"

definition parse_signed :: "bool \<Rightarrow> string \<Rightarrow> num_error + int" where
  "parse_signed neg s =
     (if s = [] then Inl ErrSyntax
      else (case parse_uint_loop 0 s of
        Inl e \<Rightarrow> Inl e
      | Inr un \<Rightarrow>
          if \<not> neg \<and> un \<ge> 2 ^ 63 then Inl ErrRange
          else if neg \<and> un > 2 ^ 63 then Inl ErrRange
          else Inr (if neg then - int un else int un)))"

definition atoi :: "string \<Rightarrow> num_error + int" where
  "atoi s = (case s of
       [] \<Rightarrow> Inl ErrSyntax
     | c # cs \<Rightarrow>
         if c = CHR ''-'' then parse_signed True cs
         else if c = CHR ''+'' then parse_signed False cs
         else parse_signed False s)"

lemma of_char_digit_char: "d < 10 \<Longrightarrow> (of_char (digit_char d) :: nat) = 48 + d"
  by (simp add: digit_char_def)

lemma char_digit_digit_char [simp]: "d < 10 \<Longrightarrow> char_digit (digit_char d) = Some d"
  by (simp add: char_digit_def of_char_digit_char)

lemma char_digit_less: "char_digit c = Some d \<Longrightarrow> d < 10"
  by (auto simp: char_digit_def Let_def split: if_splits)

lemma format_nat_digits: "c \<in> set (format_nat n) \<Longrightarrow> \<exists>d < 10. c = digit_char d"
proof (induction n rule: format_nat.induct)
  case (1 n)
  show ?case
  proof (cases "n < 10")
    case True
    with "1.prems" show ?thesis by (auto simp: format_nat.simps [of n])
  next
    case False
    with "1.prems" have "c \<in> set (format_nat (n div 10)) \<or> c = digit_char (n mod 10)"
      by (auto simp: format_nat.simps [of n])
    then show ?thesis
    proof
      assume "c = digit_char (n mod 10)"
      moreover have "n mod 10 < 10" by simp
      ultimately show ?thesis by blast
    qed (rule "1.IH" [OF False])
  qed
qed

lemma format_nat_nonempty [simp]: "format_nat n \<noteq> []"
  by (subst format_nat.simps) simp

lemma char_digit_punctuation [simp]:
  "char_digit (CHR ''.'') = None" "char_digit (CHR ''-'') = None" "char_digit (CHR ''+'') = None"
  by (simp_all add: char_digit_def)

lemma format_nat_no_punctuation:
  assumes "char_digit c = None"
  shows "c \<notin> set (format_nat n)"
  using assms format_nat_digits [of c n] by auto

lemma parse_uint_loop_format_nat:
  "n < 2 ^ 64 \<Longrightarrow> parse_uint_loop 0 (format_nat n @ cs) = parse_uint_loop n cs"
proof (induction n arbitrary: cs rule: format_nat.induct)
  case (1 n)
  show ?case
  proof (cases "n < 10")
    case True
    then show ?thesis by (simp add: format_nat.simps [of n])
  next
    case False
    with "1" have "parse_uint_loop 0 (format_nat (n div 10) @ digit_char (n mod 10) # cs)
        = parse_uint_loop (n div 10) (digit_char (n mod 10) # cs)"
      by simp
    also have "\<dots> = parse_uint_loop n cs"
      using "1.prems" by simp
    finally show ?thesis
      using False by (simp add: format_nat.simps [of n])
  qed
qed

lemma atoi_format_nat [simp, go_str]:
  assumes "n < 2 ^ 63"
  shows "atoi (format_nat n) = Inr (int n)"
proof -
  obtain c cs where eq: "format_nat n = c # cs"
    by (cases "format_nat n") auto
  have "c \<noteq> CHR ''-''" "c \<noteq> CHR ''+''"
    using eq format_nat_no_punctuation [of "CHR ''-''" n]
      format_nat_no_punctuation [of "CHR ''+''" n] by auto
  then have "atoi (format_nat n) = parse_signed False (format_nat n)"
    using eq by (simp add: atoi_def)
  also have "\<dots> = Inr (int n)"
  proof -
    have "n < 2 ^ 64" using assms by simp
    from parse_uint_loop_format_nat [OF this, of "[]"]
    have "parse_uint_loop 0 (format_nat n) = Inr n" by simp
    moreover have "\<not> 2 ^ 63 \<le> n" using assms by simp
    ultimately show ?thesis by (simp only: parse_signed_def) simp
  qed
  finally show ?thesis .
qed

lemma format_nat_inj:
  assumes "format_nat m = format_nat n" "m < 2 ^ 63" "n < 2 ^ 63"
  shows "m = n"
proof -
  have "(Inr (int m) :: num_error + int) = Inr (int n)"
    by (simp only: atoi_format_nat [OF assms(2), symmetric] assms(1) atoi_format_nat [OF assms(3)])
  then show ?thesis by (simp only: sum.inject of_nat_eq_iff)
qed

section \<open>Printing and parsing\<close>

text \<open>
  The contract between a function that builds an identifier from its parts and one that
  reads the parts back: on well-formed parts, reading undoes building. Whoever relies on
  it gets that different parts have different identifiers.
\<close>

locale print_parse =
  fixes print :: "'a \<Rightarrow> string"
    and parse :: "string \<Rightarrow> 'a option"
    and wf :: "'a \<Rightarrow> bool"
  assumes parse_print: "wf x \<Longrightarrow> parse (print x) = Some x"
begin

lemma print_inject: "wf x \<Longrightarrow> wf y \<Longrightarrow> print x = print y \<longleftrightarrow> x = y"
  using parse_print by (metis option.inject)

lemma inj_on_print: "inj_on print {x. wf x}"
  by (rule inj_onI) (simp add: print_inject)

lemma distinct_print: "distinct xs \<Longrightarrow> list_all wf xs \<Longrightarrow> distinct (map print xs)"
  by (induction xs) (auto simp: list_all_iff print_inject)

end

lemma format_nat_print_parse:
  "print_parse format_nat
     (\<lambda>s. case atoi s of Inl _ \<Rightarrow> None | Inr i \<Rightarrow> Some (nat i)) (\<lambda>n. n < 2 ^ 63)"
  by unfold_locales (subst atoi_format_nat, auto)

interpretation decimal: print_parse format_nat
    "\<lambda>s. case atoi s of Inl _ \<Rightarrow> None | Inr i \<Rightarrow> Some (nat i)" "\<lambda>n. n < 2 ^ 63"
  by (rule format_nat_print_parse)

end
