(* ===== verification/External_Api.thy ===== *)
theory External_Api
  imports Proto_Types Go_Strings
begin

text \<open>
  The requests and replies the server exchanges with code that is not in the
  repository: the Elasticsearch client library (\<open>esutil\<close>, \<open>filtering\<close>), the index
  manager, HTTP (for Open Policy Agent) and gRPC (for Grafeas). Only the shape of the
  data the sources build or read is given here. What the other side does with a request
  is never defined: every operation of the model takes it as a parameter.
\<close>

section \<open>Errors\<close>

text \<open>The status codes of \<open>google.golang.org/grpc/codes\<close>.\<close>

datatype grpc_code =
    OK | Canceled | Unknown | InvalidArgument | DeadlineExceeded | NotFound | AlreadyExists
  | PermissionDenied | ResourceExhausted | FailedPrecondition | Aborted | OutOfRange
  | Unimplemented | Internal | Unavailable | DataLoss | Unauthenticated

text \<open>
  A Go \<open>error\<close> value. \<open>StatusError\<close> is what \<open>status.Errorf\<close> makes: a code, a
  message, the error the message was extended with (\<open>"%s: %s"\<close>) and the details
  attached to it. \<open>Errorf\<close> and \<open>ErrorList\<close> are \<open>fmt.Errorf\<close> with one error, or a
  list of errors, after the message; \<open>ErrorNew\<close> has a message only. \<open>NumError\<close> is the
  error of \<open>strconv.Atoi\<close>, with the text that is not a number. \<open>ClientErr\<close> is the
  \<open>clientError\<close> of \<open>opa/error.go\<close>: its type, its message and what caused it.
\<close>

datatype client_error_type =
    OpaClientErrorTypeGetPolicy
  | OpaClientErrorTypePolicyNotFound
  | OpaClientErrorTypePublishPolicy
  | OpaClientErrorTypeHTTP
  | OpaClientErrorTypeBadResponse
  | OpaClientErrorTypeLoadPolicy

datatype go_error =
    ErrorNew string
  | ClientErr client_error_type string "go_error option"
  | Errorf string go_error
  | ErrorList string "go_error list"
  | NumError string num_error
  | StatusError grpc_code string "go_error option" "validate_policy_response list"

text \<open>\<open>status.Code\<close>, which is also \<open>status.Convert(err).Code()\<close>.\<close>

fun status_code :: "go_error \<Rightarrow> grpc_code" where
  "status_code (StatusError c _ _ _) = c"
| "status_code _ = Unknown"

section \<open>Elasticsearch\<close>

datatype es_message =
    MsgPolicy policy
  | MsgPolicyEntity policy_entity
  | MsgPolicyGroup policy_group
  | MsgPolicyAssignment policy_assignment
  | MsgResource resource
  | MsgResourceVersion resource_version
  | MsgResourceEvaluation resource_evaluation
  | MsgPolicyEvaluation policy_evaluation
  | MsgEmpty

record es_join =
  join_Field :: string
  join_Name :: string
  join_Parent :: string

datatype bulk_operation = BULK_CREATE | BULK_INDEX

record bulk_item =
  bi_Operation :: bulk_operation
  bi_Message :: es_message
  bi_DocumentId :: string
  bi_Join :: "es_join option"
  bi_Routing :: string

record bulk_request =
  br_Index :: string
  br_Refresh :: string
  br_Items :: "bulk_item list"

record create_request =
  cr_Index :: string
  cr_Refresh :: string
  cr_Message :: es_message
  cr_DocumentId :: string

record update_request =
  ur_Index :: string
  ur_DocumentId :: string
  ur_Refresh :: string
  ur_Message :: es_message
  ur_Routing :: string

record get_request =
  gt_Index :: string
  gt_DocumentId :: string
  gt_Routing :: string

record multi_get_item =
  mgi_Id :: string
  mgi_Index :: string
  mgi_Routing :: string

record multi_get_request =
  mg_Index :: string
  mg_DocumentIds :: "string list"
  mg_Items :: "multi_get_item list"

text \<open>The queries of \<open>filtering.Query\<close> the sources build, and what a filter parses to.\<close>

datatype es_query =
    QTerm string string
  | QPrefix string string
  | QHasParent string es_query
  | QMust "es_query list"
  | QFilter string

record es_search =
  s_Query :: es_query
  s_SortCreatedDesc :: bool
  s_Routing :: string

record pagination =
  pgn_Size :: int
  pgn_Token :: string

record search_request =
  sr_Index :: string
  sr_Search :: es_search
  sr_Pagination :: "pagination option"

record multi_search_request =
  ms_Index :: string
  ms_Searches :: "es_search list"

record delete_request =
  dr_Index :: string
  dr_Search :: es_search
  dr_Refresh :: string

record es_error =
  ee_Type :: string
  ee_Reason :: string

record bulk_item_status =
  bs_Status :: int
  bs_Error :: "es_error option"

record bulk_response_item =
  bri_Create :: "bulk_item_status option"
  bri_Index :: "bulk_item_status option"

record bulk_response =
  brs_Items :: "bulk_response_item list"

record get_response =
  grs_Id :: string
  grs_Found :: bool
  grs_Source :: string

record multi_get_response =
  mgr_Docs :: "get_response list"

record search_hit =
  hit_ID :: string
  hit_Source :: string

record search_response =
  srs_Total :: int
  srs_Hits :: "search_hit list"
  srs_NextPageToken :: string

record multi_search_response =
  msr_Responses :: "search_response list"

record update_response =
  urs_Version :: int

section \<open>HTTP\<close>

record http_response =
  http_StatusCode :: int
  http_Status :: string
  http_Body :: string

section \<open>The calls that leave the process\<close>

text \<open>One constructor per external operation, with the request it carries.\<close>

datatype event =
    EsCreate create_request
  | EsBulk bulk_request
  | EsUpdate update_request
  | EsDelete delete_request
  | EsGet get_request
  | EsMultiGet multi_get_request
  | EsSearch search_request
  | EsMultiSearch multi_search_request
  | IxInitialize
  | IxCreateIndex string string string
  | GrBatchCreateOccurrences g_batch_create_occurrences_request
  | GrListOccurrences g_list_occurrences_request
  | GrUpdateOccurrence g_update_occurrence_request
  | GrListNotes g_list_notes_request
  | GrBatchCreateNotes g_batch_create_notes_request
  | GrCreateNote g_create_note_request
  | GrGetProject string
  | GrCreateProject project
  | HttpGet string
  | HttpPut string string
  | HttpPost string string

text \<open>The calls that change what Elasticsearch stores.\<close>

fun es_write :: "event \<Rightarrow> bool" where
  "es_write (EsCreate _) = True"
| "es_write (EsBulk _) = True"
| "es_write (EsUpdate _) = True"
| "es_write (EsDelete _) = True"
| "es_write _ = False"

text \<open>The calls that change what any of the other services stores.\<close>

fun mutating :: "event \<Rightarrow> bool" where
  "mutating (EsGet _) = False"
| "mutating (EsMultiGet _) = False"
| "mutating (EsSearch _) = False"
| "mutating (EsMultiSearch _) = False"
| "mutating (GrListOccurrences _) = False"
| "mutating (GrListNotes _) = False"
| "mutating (GrGetProject _) = False"
| "mutating (HttpGet _) = False"
| "mutating (HttpPost _ _) = False"
| "mutating _ = True"

lemma es_write_mutating: "es_write ev \<Longrightarrow> mutating ev"
  by (cases ev) simp_all

end
