(* ===== verification/Go_Effects.thy ===== *)
theory Go_Effects
  imports External_Api
begin

text \<open>
  How a Go function that calls out, fails or panics is a HOL function.

  The world of a call has two parts. \<open>ext\<close> is the state of everything outside the
  process (the clock, Elasticsearch, Grafeas, Open Policy Agent, an identity provider), of a
  type that is left open; \<open>trace\<close> is the list of the requests made so far to Elasticsearch,
  Grafeas and Open Policy Agent, oldest first. A
  computation takes a world and returns an outcome and the next world: the Go function
  returned a value and a nil error (\<open>Ok\<close>), a non-nil error (\<open>Err\<close>), or it panicked
  (\<open>Panic\<close>), which no \<open>if err != nil\<close> of a caller sees.
\<close>

section \<open>Outcomes and worlds\<close>

datatype 'a outcome = Ok 'a | Err go_error | Panic string

record 'w world =
  ext :: 'w
  trace :: "event list"

type_synonym ('w, 'a) io = "'w world \<Rightarrow> 'a outcome \<times> 'w world"

definition ret :: "'a \<Rightarrow> ('w, 'a) io" where
  "ret x = (\<lambda>s. (Ok x, s))"

definition fail :: "go_error \<Rightarrow> ('w, 'a) io" where
  "fail e = (\<lambda>s. (Err e, s))"

definition panic :: "string \<Rightarrow> ('w, 'a) io" where
  "panic msg = (\<lambda>s. (Panic msg, s))"

text \<open>
  \<open>x, err := f(); if err != nil { return nil, wrap(err) }; k(x)\<close>. The identity for
  \<open>wrap\<close> is \<open>return nil, err\<close>.
\<close>

definition attempt ::
  "('w, 'a) io \<Rightarrow> (go_error \<Rightarrow> go_error) \<Rightarrow> ('a \<Rightarrow> ('w, 'b) io) \<Rightarrow> ('w, 'b) io" where
  "attempt f wrap k = (\<lambda>s. case f s of
       (Ok x, s') \<Rightarrow> k x s'
     | (Err e, s') \<Rightarrow> (Err (wrap e), s')
     | (Panic p, s') \<Rightarrow> (Panic p, s'))"

text \<open>\<open>x, err := f()\<close> where the code after it looks at the error itself.\<close>

definition inspect ::
  "('w, 'a) io \<Rightarrow> (go_error + 'a \<Rightarrow> ('w, 'b) io) \<Rightarrow> ('w, 'b) io" where
  "inspect f k = (\<lambda>s. case f s of
       (Ok x, s') \<Rightarrow> k (Inr x) s'
     | (Err e, s') \<Rightarrow> k (Inl e) s'
     | (Panic p, s') \<Rightarrow> (Panic p, s'))"

text \<open>A pure function that returns a value or an error.\<close>

definition lift :: "go_error + 'a \<Rightarrow> ('w, 'a) io" where
  "lift r = (case r of Inl e \<Rightarrow> fail e | Inr x \<Rightarrow> ret x)"

text \<open>Reading through a pointer, and indexing a slice: both panic where Go panics.\<close>

definition deref :: "'a option \<Rightarrow> ('w, 'a) io" where
  "deref p = (case p of None \<Rightarrow> panic ''invalid memory address or nil pointer dereference''
                      | Some x \<Rightarrow> ret x)"

definition index_at :: "'a list \<Rightarrow> nat \<Rightarrow> ('w, 'a) io" where
  "index_at xs i = (if i < length xs then ret (xs ! i) else panic ''index out of range'')"

text \<open>One call of an external operation: its request goes on the trace.\<close>

definition external :: "event \<Rightarrow> ('w \<Rightarrow> (go_error + 'a) \<times> 'w) \<Rightarrow> ('w, 'a) io" where
  "external ev f = (\<lambda>s. case f (ext s) of (r, x) \<Rightarrow>
      ((case r of Inl e \<Rightarrow> Err e | Inr a \<Rightarrow> Ok a),
       s\<lparr>ext := x, trace := trace s @ [ev]\<rparr>))"

text \<open>A value taken from outside without a request: the clock, a fresh UUID, the order in
  which Go happens to walk a map.\<close>

definition draw :: "('w \<Rightarrow> 'a \<times> 'w) \<Rightarrow> ('w, 'a) io" where
  "draw f = (\<lambda>s. case f (ext s) of (a, x) \<Rightarrow> (Ok a, s\<lparr>ext := x\<rparr>))"

text \<open>A call of a library that depends on the outside and may change it, but is no request of
  the service: opening a listener, dialling, checking a token against the keys of an
  identity provider, which may be fetched or be there from before.\<close>

definition consult :: "('w \<Rightarrow> (go_error + 'a) \<times> 'w) \<Rightarrow> ('w, 'a) io" where
  "consult f = attempt (draw f) id lift"

text \<open>\<open>for _, x := range xs { acc = body(x, acc) }\<close>, leaving at the first error.\<close>

fun for_each :: "'a list \<Rightarrow> 'acc \<Rightarrow> ('a \<Rightarrow> 'acc \<Rightarrow> ('w, 'acc) io) \<Rightarrow> ('w, 'acc) io" where
  "for_each [] acc body = ret acc"
| "for_each (x # xs) acc body = attempt (body x acc) id (\<lambda>acc'. for_each xs acc' body)"

section \<open>Inversion of a run that returned\<close>

lemma ret_Ok [io_run, simp]: "ret x s = (Ok y, s') \<longleftrightarrow> y = x \<and> s' = s"
  by (auto simp: ret_def)

lemma fail_Ok [io_run, simp]: "fail e s \<noteq> (Ok y, s')"
  by (simp add: fail_def)

lemma panic_Ok [io_run, simp]: "panic p s \<noteq> (Ok y, s')"
  by (simp add: panic_def)

lemma attempt_Ok [io_run]:
  "attempt f w k s = (Ok y, s') \<longleftrightarrow> (\<exists>x s1. f s = (Ok x, s1) \<and> k x s1 = (Ok y, s'))"
  by (auto simp: attempt_def split: prod.splits outcome.splits)

lemma inspect_Ok [io_run]:
  "inspect f k s = (Ok y, s') \<longleftrightarrow>
     (\<exists>x s1. f s = (Ok x, s1) \<and> k (Inr x) s1 = (Ok y, s')) \<or>
     (\<exists>e s1. f s = (Err e, s1) \<and> k (Inl e) s1 = (Ok y, s'))"
  by (auto simp: inspect_def split: prod.splits outcome.splits)

lemma lift_Ok [io_run, simp]: "lift r s = (Ok y, s') \<longleftrightarrow> r = Inr y \<and> s' = s"
  by (auto simp: lift_def split: sum.splits)

lemma deref_Ok [io_run, simp]: "deref p s = (Ok y, s') \<longleftrightarrow> p = Some y \<and> s' = s"
  by (auto simp: deref_def split: option.splits)

lemma index_at_Ok [io_run, simp]:
  "index_at xs i s = (Ok y, s') \<longleftrightarrow> i < length xs \<and> y = xs ! i \<and> s' = s"
  by (auto simp: index_at_def)

lemma external_Ok [io_run]:
  "external ev f s = (Ok y, s') \<longleftrightarrow>
     (\<exists>x. f (ext s) = (Inr y, x) \<and> s' = s\<lparr>ext := x, trace := trace s @ [ev]\<rparr>)"
  by (auto simp: external_def split: prod.splits sum.splits)

lemma draw_Ok [io_run]:
  "draw f s = (Ok y, s') \<longleftrightarrow> (\<exists>x. f (ext s) = (y, x) \<and> s' = s\<lparr>ext := x\<rparr>)"
  by (auto simp: draw_def split: prod.splits)

lemma consult_Ok [io_run]: "consult f s = (Ok y, s') \<longleftrightarrow> (\<exists>x. f (ext s) = (Inr y, x) \<and> s' = s\<lparr>ext := x\<rparr>)"
  by (auto simp: consult_def attempt_Ok draw_Ok)

lemma consult_world: "snd (consult f s) = s\<lparr>ext := snd (f (ext s))\<rparr>"
  by (simp add: consult_def attempt_def draw_def lift_def ret_def fail_def split: prod.split sum.split)

lemma if_Ok [io_run]:
  "(if b then f else g) s = (Ok y, s') \<longleftrightarrow> (if b then f s = (Ok y, s') else g s = (Ok y, s'))"
  by simp

text \<open>The same for a run that returned an error or panicked.\<close>

lemma ret_not_Ok [io_run, simp]: "ret x s \<noteq> (Err e, s')" "ret x s \<noteq> (Panic p, s')"
  by (simp_all add: ret_def)

lemma fail_Err [io_run, simp]:
  "fail e s = (Err e', s') \<longleftrightarrow> e' = e \<and> s' = s" "fail e s \<noteq> (Panic p, s')"
  by (auto simp: fail_def)

lemma panic_Panic [io_run, simp]:
  "panic p s = (Panic p', s') \<longleftrightarrow> p' = p \<and> s' = s" "panic p s \<noteq> (Err e, s')"
  by (auto simp: panic_def)

lemma attempt_Err [io_run]:
  "attempt f w k s = (Err e, s') \<longleftrightarrow>
     (\<exists>e0. f s = (Err e0, s') \<and> e = w e0) \<or>
     (\<exists>x s1. f s = (Ok x, s1) \<and> k x s1 = (Err e, s'))"
  by (auto simp: attempt_def split: prod.splits outcome.splits)

lemma attempt_Panic [io_run]:
  "attempt f w k s = (Panic p, s') \<longleftrightarrow>
     f s = (Panic p, s') \<or> (\<exists>x s1. f s = (Ok x, s1) \<and> k x s1 = (Panic p, s'))"
  by (auto simp: attempt_def split: prod.splits outcome.splits)

lemma lift_Err [io_run, simp]:
  "lift r s = (Err e, s') \<longleftrightarrow> r = Inl e \<and> s' = s" "lift r s \<noteq> (Panic p, s')"
  by (auto simp: lift_def split: sum.splits)

lemma deref_Panic [io_run, simp]:
  "deref q s = (Panic p, s') \<longleftrightarrow>
     q = None \<and> p = ''invalid memory address or nil pointer dereference'' \<and> s' = s"
  "deref q s \<noteq> (Err e, s')"
  by (auto simp: deref_def split: option.splits)

lemma index_at_Panic [io_run, simp]:
  "index_at xs i s = (Panic p, s') \<longleftrightarrow> length xs \<le> i \<and> p = ''index out of range'' \<and> s' = s"
  "index_at xs i s \<noteq> (Err e, s')"
  by (auto simp: index_at_def)

lemma external_Err [io_run]:
  "external ev f s = (Err e, s') \<longleftrightarrow>
     (\<exists>x. f (ext s) = (Inl e, x) \<and> s' = s\<lparr>ext := x, trace := trace s @ [ev]\<rparr>)"
  "external ev f s \<noteq> (Panic p, s')"
  by (auto simp: external_def split: prod.splits sum.splits)

lemma draw_not_Ok [io_run, simp]: "draw f s \<noteq> (Err e, s')" "draw f s \<noteq> (Panic p, s')"
  by (auto simp: draw_def split: prod.splits)

section \<open>Running a computation forwards\<close>

text \<open>
  Results of the combinators applied to a world; with these in the simpset a concrete
  or a partly known run evaluates.
\<close>

lemma ret_run [simp]: "ret x s = (Ok x, s)"
  by (simp add: ret_def)

lemma fail_run [simp]: "fail e s = (Err e, s)"
  by (simp add: fail_def)

lemma panic_run [simp]: "panic p s = (Panic p, s)"
  by (simp add: panic_def)

lemma attempt_ret [simp]: "attempt (ret x) w k = k x"
  by (simp add: attempt_def fun_eq_iff)

lemma attempt_fail [simp]: "attempt (fail e) w k = fail (w e)"
  by (simp add: attempt_def fun_eq_iff)

lemma attempt_panic [simp]: "attempt (panic p) w k = panic p"
  by (simp add: attempt_def fun_eq_iff)

lemma lift_simps [simp]: "lift (Inr x) = ret x" "lift (Inl e) = fail e"
  by (simp_all add: lift_def)

lemma deref_simps [simp]:
  "deref (Some x) = ret x"
  "deref None = panic ''invalid memory address or nil pointer dereference''"
  by (simp_all add: deref_def)

section \<open>Which external calls a computation makes\<close>

text \<open>
  \<open>emits P f\<close>: whatever the outside answers, each external call \<open>f\<close> makes satisfies
  \<open>P\<close>, and the calls made before stay where they are on the trace. The rules follow
  the combinators, so that \<open>intro io_emits\<close> decomposes a handler.
\<close>

definition emits :: "(event \<Rightarrow> bool) \<Rightarrow> ('w, 'a) io \<Rightarrow> bool" where
  "emits P f \<longleftrightarrow> (\<forall>s. \<exists>es. trace (snd (f s)) = trace s @ es \<and> list_all P es)"

lemma emitsD:
  assumes "emits P f" "f s = (r, s')"
  obtains es where "trace s' = trace s @ es" "list_all P es"
  using assms unfolding emits_def by (metis snd_conv)

lemma emits_ret [io_emits, intro]: "emits P (ret x)"
  by (auto simp: emits_def)

lemma emits_fail [io_emits, intro]: "emits P (fail e)"
  by (auto simp: emits_def)

lemma emits_panic [io_emits, intro]: "emits P (panic p)"
  by (auto simp: emits_def)

lemma emits_lift [io_emits, intro]: "emits P (lift r)"
  by (auto simp: lift_def split: sum.splits)

lemma emits_deref [io_emits, intro]: "emits P (deref p)"
  by (auto simp: deref_def split: option.splits)

lemma emits_index_at [io_emits, intro]: "emits P (index_at xs i)"
  by (auto simp: index_at_def)

lemma emits_external [io_emits, intro]: "P ev \<Longrightarrow> emits P (external ev f)"
  by (auto simp: emits_def external_def split: prod.splits)

lemma emits_draw [io_emits, intro]: "emits P (draw f)"
  by (auto simp: emits_def draw_def split: prod.splits)

lemma emits_consult [io_emits, intro]: "emits P (consult f)"
  by (auto simp: emits_def consult_world)

lemma emits_bind:
  assumes f: "emits P f" and k: "\<And>x. emits P (k x)" and h: "\<And>e. emits P (h e)"
  shows "\<exists>es. trace (snd (case f s of (Ok x, s') \<Rightarrow> k x s' | (Err e, s') \<Rightarrow> h e s'
          | (Panic p, s') \<Rightarrow> (Panic p, s'))) = trace s @ es \<and> list_all P es"
proof -
  obtain r s1 where run: "f s = (r, s1)" by (cases "f s")
  from f run obtain es where es: "trace s1 = trace s @ es" "list_all P es"
    by (rule emitsD)
  show ?thesis
  proof (cases r)
    case (Ok x)
    obtain es' where "trace (snd (k x s1)) = trace s1 @ es'" "list_all P es'"
      using k unfolding emits_def by blast
    with es run Ok show ?thesis by auto
  next
    case (Err e)
    obtain es' where "trace (snd (h e s1)) = trace s1 @ es'" "list_all P es'"
      using h unfolding emits_def by blast
    with es run Err show ?thesis by auto
  next
    case (Panic p)
    with es run show ?thesis by auto
  qed
qed

lemma emits_attempt [io_emits, intro]:
  assumes "emits P f" "\<And>x. emits P (k x)"
  shows "emits P (attempt f w k)"
  using emits_bind [of P f k "\<lambda>e. fail (w e)"] assms emits_fail
  unfolding emits_def attempt_def fail_run by blast

text \<open>The same, with what is known of the value the first part returned.\<close>

lemma emits_attempt_known:
  assumes f: "emits P f" and k: "\<And>s x s'. f s = (Ok x, s') \<Longrightarrow> emits P (k x)"
  shows "emits P (attempt f w k)"
  unfolding emits_def
proof
  fix s
  obtain r s1 where run: "f s = (r, s1)" by (cases "f s")
  from f run obtain es where es: "trace s1 = trace s @ es" "list_all P es" by (rule emitsD)
  show "\<exists>es. trace (snd (attempt f w k s)) = trace s @ es \<and> list_all P es"
  proof (cases r)
    case (Ok x)
    with k run have "emits P (k x)" by blast
    then obtain es' where "trace (snd (k x s1)) = trace s1 @ es'" "list_all P es'"
      unfolding emits_def by blast
    with es run Ok show ?thesis by (auto simp: attempt_def)
  qed (use es run in \<open>auto simp: attempt_def\<close>)
qed

lemma emits_inspect [io_emits, intro]:
  assumes "emits P f" "\<And>r. emits P (k r)"
  shows "emits P (inspect f k)"
  using emits_bind [of P f "\<lambda>x. k (Inr x)" "\<lambda>e. k (Inl e)"] assms
  unfolding emits_def inspect_def by blast

lemma emits_if [io_emits, intro]:
  "(b \<Longrightarrow> emits P f) \<Longrightarrow> (\<not> b \<Longrightarrow> emits P g) \<Longrightarrow> emits P (if b then f else g)"
  by simp

lemma emits_case_option [io_emits, intro]:
  "emits P f \<Longrightarrow> (\<And>x. emits P (g x)) \<Longrightarrow> emits P (case opt of None \<Rightarrow> f | Some x \<Rightarrow> g x)"
  by (cases opt) auto

lemma emits_case_sum [io_emits, intro]:
  "(\<And>e. emits P (f e)) \<Longrightarrow> (\<And>x. emits P (g x)) \<Longrightarrow>
     emits P (case r of Inl e \<Rightarrow> f e | Inr x \<Rightarrow> g x)"
  by (cases r) auto

lemma emits_case_prod [io_emits, intro]:
  "(\<And>a b. emits P (f a b)) \<Longrightarrow> emits P (case p of (a, b) \<Rightarrow> f a b)"
  by (cases p) auto

lemma emits_case_list [io_emits, intro]:
  "emits P f \<Longrightarrow> (\<And>x xs. emits P (g x xs)) \<Longrightarrow>
     emits P (case l of [] \<Rightarrow> f | x # xs \<Rightarrow> g x xs)"
  by (cases l) auto

lemma emits_Let [io_emits, intro]: "(\<And>x. emits P (f x)) \<Longrightarrow> emits P (let x = v in f x)"
  by (simp add: Let_def)

lemma emits_for_each [io_emits, intro]:
  "(\<And>x acc. emits P (body x acc)) \<Longrightarrow> emits P (for_each xs acc body)"
  by (induction xs arbitrary: acc) auto

lemma emits_weaken: "emits P f \<Longrightarrow> (\<And>ev. P ev \<Longrightarrow> Q ev) \<Longrightarrow> emits Q f"
  unfolding emits_def by (metis list.pred_mono_strong)

text \<open>
  \<open>silent f\<close>: no external call at all. \<open>reads_only f\<close>: nothing outside is changed.
  \<open>stores_nothing f\<close>: nothing is written to Elasticsearch.
\<close>

abbreviation silent :: "('w, 'a) io \<Rightarrow> bool" where
  "silent f \<equiv> emits (\<lambda>_. False) f"

abbreviation reads_only :: "('w, 'a) io \<Rightarrow> bool" where
  "reads_only f \<equiv> emits (\<lambda>ev. \<not> mutating ev) f"

abbreviation stores_nothing :: "('w, 'a) io \<Rightarrow> bool" where
  "stores_nothing f \<equiv> emits (\<lambda>ev. \<not> es_write ev) f"

lemma reads_only_stores_nothing: "reads_only f \<Longrightarrow> stores_nothing f"
  by (erule emits_weaken) (auto dest: es_write_mutating)

lemma silent_trace: "silent f \<Longrightarrow> f s = (r, s') \<Longrightarrow> trace s' = trace s"
  by (auto elim!: emitsD simp: list_all_iff)

lemma silent_emits: "silent f \<Longrightarrow> emits P f"
  by (erule emits_weaken) simp

end
