(* ===== verification/Manager_Base.thy ===== *)
theory Manager_Base
  imports Go_Effects
begin

text \<open>
  What the four managers have in common: the Elasticsearch client, its configuration,
  the index manager and the filter parser they hold (the same four fields in
  \<open>pkg/policy/manager.go\<close>, \<open>assignment_manager.go\<close>, \<open>policy_group_manager.go\<close> and
  \<open>pkg/resource/manager.go\<close>), the package-level functions they call, and the shared
  helpers of \<open>pkg/util/util.go\<close> and \<open>pkg/constants/constants.go\<close>.
\<close>

section \<open>Constants\<close>

definition RodeProjectSlug :: string where
  "RodeProjectSlug = ''projects/rode''"

definition PoliciesDocumentKind :: string where
  "PoliciesDocumentKind = ''policies''"

definition PolicyGroupsDocumentKind :: string where
  "PolicyGroupsDocumentKind = ''policy-groups''"

definition PolicyAssignmentsDocumentKind :: string where
  "PolicyAssignmentsDocumentKind = ''policy-assignments''"

definition ResourcesDocumentKind :: string where
  "ResourcesDocumentKind = ''resources''"

definition EvaluationsDocumentKind :: string where
  "EvaluationsDocumentKind = ''evaluations''"

definition MaxPageSize :: nat where
  "MaxPageSize = 1000"

section \<open>External operations a manager is built with\<close>

text \<open>The methods of \<open>esutil.Client\<close>.\<close>

record 'w es_client =
  esc_Create :: "create_request \<Rightarrow> 'w \<Rightarrow> (go_error + string) \<times> 'w"
  esc_Bulk :: "bulk_request \<Rightarrow> 'w \<Rightarrow> (go_error + bulk_response) \<times> 'w"
  esc_Update :: "update_request \<Rightarrow> 'w \<Rightarrow> (go_error + update_response) \<times> 'w"
  esc_Delete :: "delete_request \<Rightarrow> 'w \<Rightarrow> (go_error + unit) \<times> 'w"
  esc_Get :: "get_request \<Rightarrow> 'w \<Rightarrow> (go_error + get_response) \<times> 'w"
  esc_MultiGet :: "multi_get_request \<Rightarrow> 'w \<Rightarrow> (go_error + multi_get_response) \<times> 'w"
  esc_Search :: "search_request \<Rightarrow> 'w \<Rightarrow> (go_error + search_response) \<times> 'w"
  esc_MultiSearch :: "multi_search_request \<Rightarrow> 'w \<Rightarrow> (go_error + multi_search_response) \<times> 'w"

text \<open>The methods of \<open>indexmanager.IndexManager\<close>; names are computed, not fetched.\<close>

record 'w index_manager =
  im_Initialize :: "'w \<Rightarrow> (go_error + unit) \<times> 'w"
  im_IndexName :: "string \<Rightarrow> string \<Rightarrow> string"
  im_AliasName :: "string \<Rightarrow> string \<Rightarrow> string"
  im_CreateIndex :: "string \<Rightarrow> string \<Rightarrow> string \<Rightarrow> 'w \<Rightarrow> (go_error + unit) \<times> 'w"

text \<open>
  \<open>protojson\<close>: decoding a stored document into each message type. The flag is
  \<open>DiscardUnknown\<close>; without it an unknown field is an error.
\<close>

record codec =
  cd_Policy :: "bool \<Rightarrow> string \<Rightarrow> go_error + policy"
  cd_PolicyEntity :: "bool \<Rightarrow> string \<Rightarrow> go_error + policy_entity"
  cd_PolicyGroup :: "bool \<Rightarrow> string \<Rightarrow> go_error + policy_group"
  cd_PolicyAssignment :: "bool \<Rightarrow> string \<Rightarrow> go_error + policy_assignment"
  cd_Resource :: "bool \<Rightarrow> string \<Rightarrow> go_error + resource"
  cd_ResourceVersion :: "bool \<Rightarrow> string \<Rightarrow> go_error + resource_version"
  cd_ResourceEvaluation :: "bool \<Rightarrow> string \<Rightarrow> go_error + resource_evaluation"
  cd_PolicyEvaluation :: "bool \<Rightarrow> string \<Rightarrow> go_error + policy_evaluation"
  cd_MarshalInput :: "evaluate_policy_input \<Rightarrow> string"

text \<open>
  What the sources read of a parsed Rego module (\<open>open-policy-agent/opa/ast\<close>): the
  rules of a name, the text of a rule's key, and for each expression of a rule's body its
  operator, its terms when they are a list of terms, and the keys of a term that is an
  object. The texts are those of the library's \<open>String\<close> methods. Module parsing and
  compilation return the texts of their errors, and \<open>rg_Unquote\<close> is the unquoting of a
  Go string literal, failing where the text is not one.
\<close>

record rego_term =
  rt_String :: string
  rt_Object :: "string list option"

record rego_expr =
  ex_Operator :: string
  ex_Terms :: "rego_term list option"

record rego_rule =
  rl_Key :: "string option"
  rl_Body :: "rego_expr list"

type_synonym rego_module = "string \<Rightarrow> rego_rule list"

record rego_lib =
  rg_ParseModule :: "string \<Rightarrow> string + rego_module"
  rg_Compile :: "rego_module \<Rightarrow> string list"
  rg_Unquote :: "string \<Rightarrow> string option"

text \<open>
  Package-level functions: \<open>timestamppb.Now\<close>, \<open>uuid.New\<close>, and the order in which a
  \<open>range\<close> over a map walks its keys, which Go leaves open and may change from one loop
  to the next.
\<close>

record 'w runtime =
  rt_Now :: "'w \<Rightarrow> timestamp \<times> 'w"
  rt_Uuid :: "'w \<Rightarrow> string \<times> 'w"
  rt_KeyOrder :: "string list \<Rightarrow> 'w \<Rightarrow> string list \<times> 'w"
  rt_HandlerOrder :: "'w \<Rightarrow> resource_type list \<times> 'w"

definition range_orders_ok :: "'w runtime \<Rightarrow> bool" where
  "range_orders_ok rt \<longleftrightarrow>
     (\<forall>ks x. distinct ks \<longrightarrow> distinct (fst (rt_KeyOrder rt ks x))
        \<and> set (fst (rt_KeyOrder rt ks x)) = set ks)"

section \<open>Managers\<close>

text \<open>\<open>config.ElasticsearchConfig\<close>.\<close>

record elasticsearch_config =
  esc_Host :: string
  esc_Username :: string
  esc_Password :: string
  esc_Refresh :: string

record 'w manager =
  esClient :: "'w es_client"
  esConfig :: elasticsearch_config
  indexManager :: "'w index_manager"
  filterer :: "string \<Rightarrow> go_error + es_query"
  runtime :: "'w runtime"
  codec :: codec
  rego :: rego_lib

definition NewManager ::
  "'w es_client \<Rightarrow> elasticsearch_config \<Rightarrow> 'w index_manager \<Rightarrow> (string \<Rightarrow> go_error + es_query)
     \<Rightarrow> 'w runtime \<Rightarrow> codec \<Rightarrow> rego_lib \<Rightarrow> 'w manager" where
  "NewManager es cfg im flt rt cd rg =
     \<lparr>esClient = es, esConfig = cfg, indexManager = im, filterer = flt,
      runtime = rt, codec = cd, rego = rg\<rparr>"

abbreviation refresh_of :: "'w manager \<Rightarrow> string" where
  "refresh_of m \<equiv> esc_Refresh (esConfig m)"

abbreviation alias_of :: "'w manager \<Rightarrow> string \<Rightarrow> string" where
  "alias_of m kind \<equiv> im_AliasName (indexManager m) kind ''''"

text \<open>The calls a manager makes.\<close>

abbreviation es_create :: "'w manager \<Rightarrow> create_request \<Rightarrow> ('w, string) io" where
  "es_create m req \<equiv> external (EsCreate req) (esc_Create (esClient m) req)"

abbreviation es_bulk :: "'w manager \<Rightarrow> bulk_request \<Rightarrow> ('w, bulk_response) io" where
  "es_bulk m req \<equiv> external (EsBulk req) (esc_Bulk (esClient m) req)"

abbreviation es_update :: "'w manager \<Rightarrow> update_request \<Rightarrow> ('w, update_response) io" where
  "es_update m req \<equiv> external (EsUpdate req) (esc_Update (esClient m) req)"

abbreviation es_delete :: "'w manager \<Rightarrow> delete_request \<Rightarrow> ('w, unit) io" where
  "es_delete m req \<equiv> external (EsDelete req) (esc_Delete (esClient m) req)"

abbreviation es_get :: "'w manager \<Rightarrow> get_request \<Rightarrow> ('w, get_response) io" where
  "es_get m req \<equiv> external (EsGet req) (esc_Get (esClient m) req)"

abbreviation es_multi_get :: "'w manager \<Rightarrow> multi_get_request \<Rightarrow> ('w, multi_get_response) io" where
  "es_multi_get m req \<equiv> external (EsMultiGet req) (esc_MultiGet (esClient m) req)"

abbreviation es_search :: "'w manager \<Rightarrow> search_request \<Rightarrow> ('w, search_response) io" where
  "es_search m req \<equiv> external (EsSearch req) (esc_Search (esClient m) req)"

abbreviation es_multi_search ::
  "'w manager \<Rightarrow> multi_search_request \<Rightarrow> ('w, multi_search_response) io" where
  "es_multi_search m req \<equiv> external (EsMultiSearch req) (esc_MultiSearch (esClient m) req)"

abbreviation now :: "'w manager \<Rightarrow> ('w, timestamp) io" where
  "now m \<equiv> draw (rt_Now (runtime m))"

abbreviation new_uuid :: "'w manager \<Rightarrow> ('w, string) io" where
  "new_uuid m \<equiv> draw (rt_Uuid (runtime m))"

section \<open>pkg/util/util.go\<close>

definition GrpcErrorWithCode :: "string \<Rightarrow> go_error option \<Rightarrow> grpc_code \<Rightarrow> go_error" where
  "GrpcErrorWithCode message err code = (case err of
       None \<Rightarrow> StatusError code message None []
     | Some e \<Rightarrow> StatusError code message (Some e) [])"

definition GrpcInternalError :: "string \<Rightarrow> go_error option \<Rightarrow> go_error" where
  "GrpcInternalError message err = GrpcErrorWithCode message err Internal"

definition bulk_error_text :: "string \<Rightarrow> int \<Rightarrow> es_error \<Rightarrow> go_error" where
  "bulk_error_text what st e =
     ErrorNew (what @ '' ['' @ format_int st @ ''] '' @ ee_Type e @ '': '' @ ee_Reason e)"

definition bulk_item_error :: "bulk_response_item \<Rightarrow> go_error option" where
  "bulk_item_error item = (case bri_Create item of
       Some c \<Rightarrow> (case bs_Error c of
           Some e \<Rightarrow> Some (bulk_error_text ''error creating new policy version'' (bs_Status c) e)
         | None \<Rightarrow> (case bri_Index item of
               Some i \<Rightarrow> map_option (bulk_error_text ''error updating policy'' (bs_Status i)) (bs_Error i)
             | None \<Rightarrow> None))
     | None \<Rightarrow> (case bri_Index item of
           Some i \<Rightarrow> map_option (bulk_error_text ''error updating policy'' (bs_Status i)) (bs_Error i)
         | None \<Rightarrow> None))"

definition CheckBulkResponseErrors :: "bulk_response \<Rightarrow> go_error option" where
  "CheckBulkResponseErrors response =
     (let bulkErrors = List.map_filter bulk_item_error (brs_Items response)
      in if length bulkErrors > 0 then Some (ErrorList ''errors'' bulkErrors) else None)"

lemma status_code_GrpcErrorWithCode [simp]: "status_code (GrpcErrorWithCode msg e c) = c"
  by (simp add: GrpcErrorWithCode_def split: option.splits)

lemma status_code_GrpcInternalError [simp]: "status_code (GrpcInternalError msg e) = Internal"
  by (simp add: GrpcInternalError_def)

lemma map_filter_Nil_iff: "List.map_filter f xs = [] \<longleftrightarrow> (\<forall>x\<in>set xs. f x = None)"
  by (induction xs) (auto simp: List.map_filter_simps split: option.splits)

text \<open>A bulk request counts as done exactly when no item of the reply carries an error.\<close>

lemma CheckBulkResponseErrors_None:
  "CheckBulkResponseErrors response = None \<longleftrightarrow>
     (\<forall>item\<in>set (brs_Items response). bulk_item_error item = None)"
  by (simp add: CheckBulkResponseErrors_def Let_def map_filter_Nil_iff)

text \<open>
  \<open>if err := check(resp); err != nil { return nil, wrap(err) }\<close> after a bulk request.
\<close>

definition check_bulk :: "bulk_response \<Rightarrow> (go_error \<Rightarrow> go_error) \<Rightarrow> ('w, unit) io" where
  "check_bulk response wrap = (case CheckBulkResponseErrors response of
       Some e \<Rightarrow> fail (wrap e) | None \<Rightarrow> ret ())"

lemma emits_check_bulk [io_emits, intro]: "emits P (check_bulk response wrap)"
  by (auto simp: check_bulk_def split: option.splits)

lemma check_bulk_Ok [io_run, simp]:
  "check_bulk response wrap s = (Ok u, s') \<longleftrightarrow> CheckBulkResponseErrors response = None \<and> s' = s"
  by (auto simp: check_bulk_def split: option.splits)

section \<open>Listing\<close>

text \<open>
  The paging options and the search every listing operation builds:
  \<open>if request.PageSize != 0\<close> the size goes over as a signed number.
\<close>

definition page_options :: "int32 \<Rightarrow> string \<Rightarrow> pagination option" where
  "page_options n token =
     (if n \<noteq> 0 then Some \<lparr>pgn_Size = sint n, pgn_Token = token\<rparr> else None)"

definition append_filter ::
  "'w manager \<Rightarrow> es_query list \<Rightarrow> string \<Rightarrow> go_error + es_query list" where
  "append_filter m queries flt =
     (if flt \<noteq> '''' then (case filterer m flt of Inl e \<Rightarrow> Inl e | Inr q \<Rightarrow> Inr (queries @ [q]))
      else Inr queries)"

text \<open>Decoding the hits of a search one by one, leaving at the first that does not decode.\<close>

fun decode_all :: "('h \<Rightarrow> go_error + 'a) \<Rightarrow> 'h list \<Rightarrow> go_error + 'a list" where
  "decode_all dec [] = Inr []"
| "decode_all dec (h # hs) = (case dec h of
      Inl e \<Rightarrow> Inl e
    | Inr x \<Rightarrow> (case decode_all dec hs of Inl e \<Rightarrow> Inl e | Inr xs \<Rightarrow> Inr (x # xs)))"

lemma decode_all_Inr: "decode_all dec hs = Inr xs \<longleftrightarrow> list_all2 (\<lambda>h x. dec h = Inr x) hs xs"
proof (induction hs arbitrary: xs)
  case Nil
  then show ?case by auto
next
  case (Cons h hs)
  show ?case by (cases xs) (auto simp: Cons.IH [symmetric] split: sum.splits)
qed

lemma decode_all_length: "decode_all dec hs = Inr xs \<Longrightarrow> length xs = length hs"
  by (simp add: decode_all_Inr list_all2_lengthD)

lemma decode_all_nth: "decode_all dec hs = Inr xs \<Longrightarrow> i < length hs \<Longrightarrow> dec (hs ! i) = Inr (xs ! i)"
  by (simp add: decode_all_Inr list_all2_conv_all_nth)

lemma append_filter_Inr:
  "append_filter m qs flt = Inr qs' \<longleftrightarrow>
     (if flt = '''' then qs' = qs else (\<exists>q. filterer m flt = Inr q \<and> qs' = qs @ [q]))"
  by (auto simp: append_filter_def split: sum.splits)

end
