(* ===== verification/Policy_Id.thy ===== *)
theory Policy_Id
  imports Manager_Base
begin

text \<open>
  Identifiers of policies, policy versions, version counters and assignments:
  \<open>policyVersionId\<close>, \<open>policyCounterId\<close>, \<open>parsePolicyVersionId\<close> of
  \<open>pkg/policy/manager.go\<close> and \<open>policyAssignmentId\<close> of \<open>assignment_manager.go\<close>. The
  lemmas say when reading an identifier gives back what it was built from, and what
  happens to a version number that does not fit 32 bits.
\<close>

section \<open>Building and reading identifiers\<close>

definition policyVersionId :: "string \<Rightarrow> uint32 \<Rightarrow> string" where
  "policyVersionId policyId version = policyId @ ''.'' @ format_nat (unat version)"

definition policyCounterId :: "string \<Rightarrow> string" where
  "policyCounterId policyId = policyId @ ''.counter''"

definition policyAssignmentId :: "string \<Rightarrow> string \<Rightarrow> string" where
  "policyAssignmentId policyId policyGroupName =
     ''policies/'' @ policyId @ ''/assignments/'' @ policyGroupName"

definition parsePolicyVersionId :: "string \<Rightarrow> go_error + string \<times> uint32" where
  "parsePolicyVersionId i =
     (if \<not> contains_char i (CHR ''.'') then Inr (i, 0)
      else (let pieces = split_on (CHR ''.'') i in
        if length pieces \<noteq> 2 then Inl (ErrorNew ''invalid policy version id'')
        else (case atoi (pieces ! 1) of
          Inl e \<Rightarrow> Inl (NumError (pieces ! 1) e)
        | Inr version \<Rightarrow> Inr (pieces ! 0, word_of_int version))))"

section \<open>Their laws\<close>

lemma parse_plain [go_str]: "CHR ''.'' \<notin> set i \<Longrightarrow> parsePolicyVersionId i = Inr (i, 0)"
  by (simp add: parsePolicyVersionId_def contains_char_def)

lemma parse_dotted [go_str]:
  assumes "CHR ''.'' \<notin> set i" "CHR ''.'' \<notin> set n"
  shows "parsePolicyVersionId (i @ ''.'' @ n) =
    (case atoi n of Inl e \<Rightarrow> Inl (NumError n e) | Inr v \<Rightarrow> Inr (i, word_of_int v))"
  using assms by (simp add: parsePolicyVersionId_def contains_char_def go_str Let_def split: sum.splits)

lemma parse_decimal:
  assumes "CHR ''.'' \<notin> set i" "n < 2 ^ 63"
  shows "parsePolicyVersionId (i @ ''.'' @ format_nat n) = Inr (i, word_of_nat n)"
proof -
  have "CHR ''.'' \<notin> set (format_nat n)"
    by (rule format_nat_no_punctuation) simp
  from parse_dotted [OF assms(1) this] atoi_format_nat [OF assms(2)]
  show ?thesis by (simp only: sum.case of_int_of_nat_eq)
qed

lemma parse_policyVersionId:
  assumes "CHR ''.'' \<notin> set i"
  shows "parsePolicyVersionId (policyVersionId i v) = Inr (i, v)"
proof -
  have "unat v < 2 ^ 32" using unsigned_less [of v] by simp
  also have "(2::nat) ^ 32 < 2 ^ 63" by simp
  finally show ?thesis
    unfolding policyVersionId_def by (subst parse_decimal [OF assms]) simp_all
qed

lemma parsePolicyVersionId_Inr:
  assumes "parsePolicyVersionId s = Inr (i, v)"
  shows "CHR ''.'' \<notin> set i"
  using assms split_on_pieces_no_sep [of "split_on (CHR ''.'') s ! 0" "CHR ''.''" s]
  by (auto simp: parsePolicyVersionId_def contains_char_def Let_def split: if_splits sum.splits)

lemma parse_policyCounterId:
  assumes "CHR ''.'' \<notin> set i"
  shows "parsePolicyVersionId (policyCounterId i) = Inl (NumError ''counter'' ErrSyntax)"
proof -
  have "atoi ''counter'' = Inl ErrSyntax"
    by (simp add: atoi_def parse_signed_def char_digit_def)
  then show ?thesis
    using parse_dotted [OF assms, of "''counter''"] by (simp add: policyCounterId_def)
qed

text \<open>
  The version identifiers as a print/parse pair: policy ids without a dot (a UUID has
  none) and any version.
\<close>

interpretation version_id: print_parse
    "\<lambda>(i, v). policyVersionId i v"
    "\<lambda>s. case parsePolicyVersionId s of Inl _ \<Rightarrow> None | Inr p \<Rightarrow> Some p"
    "\<lambda>(i, v). CHR ''.'' \<notin> set i"
  by unfold_locales (auto simp: parse_policyVersionId)

definition split_assignment_id :: "string \<Rightarrow> (string \<times> string) option" where
  "split_assignment_id s = (case split_on (CHR ''/'') s of
       [_, p, _, g] \<Rightarrow> Some (p, g) | _ \<Rightarrow> None)"

interpretation assignment_id: print_parse
    "\<lambda>(p, g). policyAssignmentId p g" split_assignment_id
    "\<lambda>(p, g). CHR ''/'' \<notin> set p \<and> CHR ''/'' \<notin> set g"
proof
  fix x :: "string \<times> string"
  assume wf: "case x of (p, g) \<Rightarrow> CHR ''/'' \<notin> set p \<and> CHR ''/'' \<notin> set g"
  obtain p g where x: "x = (p, g)" by (cases x)
  have "split_on (CHR ''/'') (''policies'' @ CHR ''/'' # p @ CHR ''/'' # ''assignments'' @ CHR ''/'' # g)
      = [''policies'', p, ''assignments'', g]"
    using wf x by (simp add: split_on_sep split_on_no_sep del: append.simps split_on.simps)
  then show "split_assignment_id (case x of (p, g) \<Rightarrow> policyAssignmentId p g) = Some x"
    using x by (simp add: split_assignment_id_def policyAssignmentId_def)
qed

lemma policyVersionId_neq_policyCounterId:
  assumes "CHR ''.'' \<notin> set i"
  shows "policyVersionId i v \<noteq> policyCounterId i"
  using parse_policyVersionId [OF assms, of v] parse_policyCounterId [OF assms] by auto


section \<open>Properties\<close>

lemma policyVersionId_inject:
  assumes "CHR ''.'' \<notin> set i"
  shows "policyVersionId j w = policyVersionId i v \<longleftrightarrow> j = i \<and> w = v"
proof
  assume eq: "policyVersionId j w = policyVersionId i v"
  have dots: "count_list (policyVersionId k u) (CHR ''.'') = Suc (count_list k (CHR ''.''))" for k u
    using format_nat_no_punctuation [of "CHR ''.''" "unat u"]
    by (simp add: policyVersionId_def)
  from dots [of j w] dots [of i v] eq assms have "CHR ''.'' \<notin> set j"
    by (simp add: count_list_0_iff)
  with version_id.print_inject [of "(j, w)" "(i, v)"] assms eq show "j = i \<and> w = v" by simp
qed simp

text \<open>C27: a policy id without a dot, a version of it and its counter document are told
  apart by their ids: the version id reads back as the policy and the version, the plain id
  as the policy and version 0, the counter id as neither, and no other policy or version
  has the same version id.\<close>

theorem version_id_round_trip:
  assumes "CHR ''.'' \<notin> set i"
  shows "parsePolicyVersionId (policyVersionId i v) = Inr (i, v) \<and>
    parsePolicyVersionId i = Inr (i, 0) \<and>
    parsePolicyVersionId (policyCounterId i) = Inl (NumError ''counter'' ErrSyntax) \<and>
    (\<forall>j w. policyVersionId j w = policyVersionId i v \<longrightarrow> j = i \<and> w = v)"
  using parse_policyVersionId parse_plain parse_policyCounterId policyVersionId_inject assms by simp

theorem version_id_round_trip_witness:
  "parsePolicyVersionId (policyVersionId ''p1'' 7) = Inr (''p1'', 7)"
  using version_id_round_trip [of "''p1''" 7] by simp

lemma word_of_nat_mod:
  assumes "n mod 2 ^ 32 = unat (v :: uint32)"
  shows "word_of_nat n = v"
  using assms by (simp add: word_unat_eq_iff unsigned_of_nat take_bit_eq_mod)

text \<open>C36: a version number in an id is read modulo \<open>2 ^ 32\<close>: adding a multiple of it to
  the number reads as the same version, so a request can name one version by many ids.\<close>

theorem version_number_wraps:
  assumes "CHR ''.'' \<notin> set i" "unat v + k * 2 ^ 32 < 2 ^ 63"
  shows "parsePolicyVersionId (i @ ''.'' @ format_nat (unat v + k * 2 ^ 32)) =
    parsePolicyVersionId (policyVersionId i v)"
proof -
  have "unat v < 2 ^ 32" using unsigned_less [of v] by simp
  then have "(unat v + k * 2 ^ 32) mod 2 ^ 32 = unat v" by simp
  then have "(word_of_nat (unat v + k * 2 ^ 32) :: uint32) = v"
    by (rule word_of_nat_mod)
  with parse_decimal [OF assms] parse_policyVersionId [OF assms(1), of v] show ?thesis by simp
qed

lemma char_of_digits:
  "char_of (49 :: nat) = CHR ''1''" "char_of (50 :: nat) = CHR ''2''" "char_of (52 :: nat) = CHR ''4''"
  "char_of (54 :: nat) = CHR ''6''" "char_of (55 :: nat) = CHR ''7''" "char_of (57 :: nat) = CHR ''9''"
  by code_simp+

theorem version_number_wraps_witness:
  "parsePolicyVersionId ''p.4294967297'' = Inr (''p'', 1)"
proof -
  have "''p.4294967297'' = ''p'' @ ''.'' @ format_nat (unat (1 :: uint32) + 1 * 2 ^ 32)"
    by (simp add: digit_char_def format_nat.simps char_of_digits)
  with version_number_wraps [of "''p''" 1 1] parse_policyVersionId [of "''p''" 1]
  show ?thesis by simp
qed

end
