(* ===== verification/Policy_Validation.thy ===== *)
theory Policy_Validation
  imports Manager_Base
begin

text \<open>
  Checking the Rego source of a policy: \<open>ValidatePolicy\<close>, \<open>validatePolicy\<close>,
  \<open>validateRodeRequirementsForPolicy\<close> and \<open>validateResultTermsInBody\<close> of
  \<open>pkg/policy/manager.go\<close>. None of them calls out; the Rego parser and compiler are the
  parameters \<open>rego\<close> of the manager. Two places can panic, a body whose assignment does
  not carry a list of terms and an object that is the first term, and both are branches
  of the model.
\<close>

section \<open>The requirements Rode puts on a policy\<close>

definition unquoted_keys :: "rego_lib \<Rightarrow> string list \<Rightarrow> string set" where
  "unquoted_keys rg keys =
     set (map (\<lambda>k. case rg_Unquote rg k of Some u \<Rightarrow> u | None \<Rightarrow> k) keys)"

definition result_fields_present :: "rego_lib \<Rightarrow> string list \<Rightarrow> bool" where
  "result_fields_present rg keys \<longleftrightarrow>
     (let keyMap = unquoted_keys rg keys in
      ''pass'' \<in> keyMap \<and> ''name'' \<in> keyMap \<and> ''id'' \<in> keyMap \<and> ''message'' \<in> keyMap)"

text \<open>
  The loop over the terms of one expression; \<open>prev\<close> is the text of the term before,
  which the code reads as \<open>terms[i-1]\<close>.
\<close>

fun check_terms :: "rego_lib \<Rightarrow> string option \<Rightarrow> rego_term list \<Rightarrow> bool outcome" where
  "check_terms rg prev [] = Ok True"
| "check_terms rg prev (t # ts) = (case rt_Object t of
       None \<Rightarrow> check_terms rg (Some (rt_String t)) ts
     | Some keys \<Rightarrow> (case prev of
           None \<Rightarrow> Panic ''index out of range [-1]''
         | Some p \<Rightarrow>
             if p = ''result'' \<and> \<not> result_fields_present rg keys then Ok False
             else check_terms rg (Some (rt_String t)) ts))"

fun validateResultTermsInBody :: "rego_lib \<Rightarrow> rego_expr list \<Rightarrow> bool outcome" where
  "validateResultTermsInBody rg [] = Ok True"
| "validateResultTermsInBody rg (b # body) =
     (if ex_Operator b = ''assign'' \<or> ex_Operator b = ''eq'' then
        (case ex_Terms b of
           None \<Rightarrow> Panic ''interface conversion: interface {} is not []*ast.Term''
         | Some terms \<Rightarrow> (case check_terms rg None terms of
               Ok True \<Rightarrow> validateResultTermsInBody rg body
             | r \<Rightarrow> r))
      else validateResultTermsInBody rg body)"

text \<open>
  The loop over the \<open>violations\<close> rules, which decides \<open>returnFieldsExist\<close>: it stays
  false when a rule breaks out, and when there is no rule at all.
\<close>

fun violations_return_fields :: "rego_lib \<Rightarrow> rego_rule list \<Rightarrow> bool outcome" where
  "violations_return_fields rg [] = Ok False"
| "violations_return_fields rg (r # rs) =
     (if rl_Key r \<noteq> Some ''result'' then Ok False
      else (case validateResultTermsInBody rg (rl_Body r) of
          Ok True \<Rightarrow> if rs = [] then Ok True else violations_return_fields rg rs
        | res \<Rightarrow> res))"

definition pass_block_error :: string where
  "pass_block_error =
     ''all policies must contain a \"pass\" block that returns a boolean result of the policy''"

definition violations_block_error :: string where
  "violations_block_error =
     ''all policies must contain a \"violations\" block that returns a map of results''"

definition result_fields_error :: string where
  "result_fields_error = ''all \"violations\" blocks must return a \"result\" ''
     @ ''that contains pass, id, message, and name fields''"

definition validateRodeRequirementsForPolicy :: "rego_lib \<Rightarrow> rego_module \<Rightarrow> string list outcome" where
  "validateRodeRequirementsForPolicy rg rmod =
     (case violations_return_fields rg (rmod ''violations'') of
        Ok returnFieldsExist \<Rightarrow>
          Ok ((if \<not> length (rmod ''pass'') > 0 then [pass_block_error] else [])
            @ (if \<not> length (rmod ''violations'') > 0 then [violations_block_error] else [])
            @ (if \<not> returnFieldsExist then [result_fields_error] else []))
      | Err e \<Rightarrow> Err e
      | Panic p \<Rightarrow> Panic p)"

section \<open>The validation operation\<close>

text \<open>
  A failed validation returns the response and the error together, so the result is a
  pair of pointers.
\<close>

definition ValidatePolicy ::
  "rego_lib \<Rightarrow> validate_policy_request \<Rightarrow> (validate_policy_response option \<times> go_error option) outcome"
where
  "ValidatePolicy rg req =
     (if length (vpr_Policy req) = 0 then
        Ok (None, Some (GrpcErrorWithCode ''empty policy passed in'' None InvalidArgument))
      else (case rg_ParseModule rg (vpr_Policy req) of
        Inl perr \<Rightarrow>
          (let message = \<lparr>vps_Policy = vpr_Policy req, vps_Compile = False, vps_Errors = [perr]\<rparr>
           in Ok (Some message, Some (StatusError InvalidArgument ''failed to parse the policy'' None [message])))
      | Inr rmod \<Rightarrow>
          (let cerrs = rg_Compile rg rmod in
           if cerrs \<noteq> [] then
             (let errorsList = replicate (length cerrs) [] @ cerrs;
                  message = \<lparr>vps_Policy = vpr_Policy req, vps_Compile = False, vps_Errors = errorsList\<rparr>
              in Ok (Some message, Some (StatusError InvalidArgument ''failed to compile the policy'' None [message])))
           else (case validateRodeRequirementsForPolicy rg rmod of
               Ok internalErrors \<Rightarrow>
                 if length internalErrors \<noteq> 0 then
                   (let message = \<lparr>vps_Policy = vpr_Policy req, vps_Compile = False,
                                   vps_Errors = internalErrors\<rparr>
                    in Ok (Some message, Some (StatusError InvalidArgument
                         ''policy compiled successfully but is missing Rode required fields'' None [message])))
                 else Ok (Some \<lparr>vps_Policy = vpr_Policy req, vps_Compile = True, vps_Errors = []\<rparr>, None)
             | Err e \<Rightarrow> Err e
             | Panic p \<Rightarrow> Panic p))))"

text \<open>\<open>validatePolicy\<close>: the check the create and update operations make.\<close>

definition validatePolicy :: "'w manager \<Rightarrow> policy_entity \<Rightarrow> ('w, unit) io" where
  "validatePolicy m ent = (case ValidatePolicy (rego m) \<lparr>vpr_Policy = pe_RegoContent ent\<rparr> of
       Ok (res, err) \<Rightarrow>
         (let errors = (case res of Some r \<Rightarrow> if \<not> vps_Compile r then vps_Errors r else [] | None \<Rightarrow> []);
              message = \<lparr>vps_Policy = pe_RegoContent ent, vps_Compile = False, vps_Errors = errors\<rparr>
          in if err \<noteq> None \<or> (case res of Some r \<Rightarrow> \<not> vps_Compile r | None \<Rightarrow> False)
             then fail (StatusError InvalidArgument ''failed to compile the provided policy'' None [message])
             else ret ())
     | Err e \<Rightarrow> fail e
     | Panic p \<Rightarrow> panic p)"

section \<open>What the validation accepts\<close>

text \<open>
  The rule the comment above \<open>validateRodeRequirementsForPolicy\<close> states, without loops:
  each object assigned to \<open>result\<close> in an assignment of a violations rule has the four
  fields.
\<close>

definition result_term_ok :: "rego_lib \<Rightarrow> string \<times> rego_term \<Rightarrow> bool" where
  "result_term_ok rg = (\<lambda>(before, t). before = ''result'' \<longrightarrow>
     (case rt_Object t of None \<Rightarrow> True | Some keys \<Rightarrow> result_fields_present rg keys))"

definition expr_result_ok :: "rego_lib \<Rightarrow> rego_expr \<Rightarrow> bool" where
  "expr_result_ok rg b \<longleftrightarrow>
     (ex_Operator b = ''assign'' \<or> ex_Operator b = ''eq'') \<longrightarrow>
     (case ex_Terms b of None \<Rightarrow> True
      | Some terms \<Rightarrow> list_all (result_term_ok rg) (zip (map rt_String terms) (tl terms)))"

definition rule_result_ok :: "rego_lib \<Rightarrow> rego_rule \<Rightarrow> bool" where
  "rule_result_ok rg r \<longleftrightarrow>
     rl_Key r = Some ''result'' \<and> list_all (expr_result_ok rg) (rl_Body r)"

text \<open>
  The shape the parser gives an assignment: a list of terms that starts with the
  operator, which is not an object. On such bodies nothing panics.
\<close>

definition expr_shaped :: "rego_expr \<Rightarrow> bool" where
  "expr_shaped b \<longleftrightarrow>
     (ex_Operator b = ''assign'' \<or> ex_Operator b = ''eq'') \<longrightarrow>
     (case ex_Terms b of None \<Rightarrow> False | Some [] \<Rightarrow> False | Some (t # ts) \<Rightarrow> rt_Object t = None)"

definition body_shaped :: "rego_module \<Rightarrow> bool" where
  "body_shaped rmod \<longleftrightarrow> (\<forall>r\<in>set (rmod ''violations''). list_all expr_shaped (rl_Body r))"

lemma check_terms_Some:
  "check_terms rg (Some p) ts =
     Ok (list_all (result_term_ok rg) (zip (p # map rt_String ts) ts))"
  by (induction ts arbitrary: p) (auto simp: result_term_ok_def split: option.splits)

lemma check_terms_None:
  "rt_Object t = None \<Longrightarrow> check_terms rg None (t # ts) =
     Ok (list_all (result_term_ok rg) (zip (map rt_String (t # ts)) ts))"
  by (simp add: check_terms_Some)

lemma validateResultTermsInBody_eq:
  "list_all expr_shaped body \<Longrightarrow>
     validateResultTermsInBody rg body = Ok (list_all (expr_result_ok rg) body)"
proof (induction body)
  case Nil
  then show ?case by simp
next
  case (Cons b body)
  then have IH: "validateResultTermsInBody rg body = Ok (list_all (expr_result_ok rg) body)"
    and b: "expr_shaped b" by simp_all
  show ?case
  proof (cases "ex_Operator b = ''assign'' \<or> ex_Operator b = ''eq''")
    case False
    then show ?thesis by (simp add: IH expr_result_ok_def [of rg b])
  next
    case True
    with b obtain t ts where terms: "ex_Terms b = Some (t # ts)" "rt_Object t = None"
      by (auto simp: expr_shaped_def split: option.splits list.splits)
    with True show ?thesis
      using check_terms_None [of t rg ts]
      by (auto simp: IH expr_result_ok_def [of rg b] split: bool.splits)
  qed
qed

lemma violations_return_fields_eq:
  "(\<forall>r\<in>set rs. list_all expr_shaped (rl_Body r)) \<Longrightarrow>
     violations_return_fields rg rs = Ok (rs \<noteq> [] \<and> list_all (rule_result_ok rg) rs)"
  by (induction rs)
    (auto simp: validateResultTermsInBody_eq rule_result_ok_def split: bool.splits)

lemma validateRodeRequirements_eq:
  assumes "body_shaped rmod"
  shows "validateRodeRequirementsForPolicy rg rmod =
    Ok ((if rmod ''pass'' = [] then [pass_block_error] else [])
      @ (if rmod ''violations'' = [] then [violations_block_error] else [])
      @ (if rmod ''violations'' \<noteq> [] \<and> list_all (rule_result_ok rg) (rmod ''violations'')
         then [] else [result_fields_error]))"
  using assms
  by (simp add: validateRodeRequirementsForPolicy_def violations_return_fields_eq body_shaped_def)

text \<open>A source Rode accepts, without loops and error lists.\<close>

definition valid_source :: "rego_lib \<Rightarrow> string \<Rightarrow> bool" where
  "valid_source rg source \<longleftrightarrow> source \<noteq> [] \<and> (\<exists>rmod. rg_ParseModule rg source = Inr rmod \<and> rg_Compile rg rmod = [] \<and>
     rmod ''pass'' \<noteq> [] \<and> rmod ''violations'' \<noteq> [] \<and> list_all (rule_result_ok rg) (rmod ''violations''))"

definition parsed_shapes_ok :: "rego_lib \<Rightarrow> bool" where
  "parsed_shapes_ok rg \<longleftrightarrow> (\<forall>source rmod. rg_ParseModule rg source = Inr rmod \<longrightarrow> body_shaped rmod)"

lemma validatePolicy_refused:
  assumes "ValidatePolicy (rego m) \<lparr>vpr_Policy = pe_RegoContent ent\<rparr> = Ok (res, Some err)"
  shows "\<exists>e. status_code e = InvalidArgument \<and> validatePolicy m ent = fail e"
  using assms unfolding validatePolicy_def Let_def
  by (intro exI [of _ "StatusError InvalidArgument ''failed to compile the provided policy'' None
    [\<lparr>vps_Policy = pe_RegoContent ent, vps_Compile = False,
      vps_Errors = (case res of Some r \<Rightarrow> if \<not> vps_Compile r then vps_Errors r else [] | None \<Rightarrow> [])\<rparr>]"]) simp

lemma validatePolicy_source:
  assumes "parsed_shapes_ok (rego m)"
  shows "if valid_source (rego m) (pe_RegoContent ent) then validatePolicy m ent = ret ()
    else \<exists>e. status_code e = InvalidArgument \<and> validatePolicy m ent = fail e"
proof (cases "valid_source (rego m) (pe_RegoContent ent)")
  case True
  then obtain rmod where parsed: "rg_ParseModule (rego m) (pe_RegoContent ent) = Inr rmod"
    and valid: "pe_RegoContent ent \<noteq> []" "rg_Compile (rego m) rmod = []" "rmod ''pass'' \<noteq> []"
      "rmod ''violations'' \<noteq> []" "list_all (rule_result_ok (rego m)) (rmod ''violations'')"
    unfolding valid_source_def by blast
  from assms parsed have "body_shaped rmod" unfolding parsed_shapes_ok_def by blast
  with parsed valid validateRodeRequirements_eq [of rmod "rego m"] True show ?thesis
    by (simp add: validatePolicy_def ValidatePolicy_def Let_def)
next
  case False
  have "\<exists>res err. ValidatePolicy (rego m) \<lparr>vpr_Policy = pe_RegoContent ent\<rparr> = Ok (res, Some err)"
  proof (cases "rg_ParseModule (rego m) (pe_RegoContent ent)")
    case (Inr rmod)
    with assms have "body_shaped rmod" unfolding parsed_shapes_ok_def by blast
    with Inr False validateRodeRequirements_eq [of rmod "rego m"] show ?thesis
      by (auto simp: valid_source_def ValidatePolicy_def Let_def)
  qed (simp add: ValidatePolicy_def Let_def)
  with False validatePolicy_refused show ?thesis by (auto simp del: status_code.simps)
qed

lemma validatePolicy_Ok:
  "validatePolicy m ent s = (Ok u, s') \<longleftrightarrow>
     s' = s \<and> ValidatePolicy (rego m) \<lparr>vpr_Policy = pe_RegoContent ent\<rparr> =
       Ok (Some \<lparr>vps_Policy = pe_RegoContent ent, vps_Compile = True, vps_Errors = []\<rparr>, None)"
  by (auto simp: validatePolicy_def ValidatePolicy_def Let_def
      split: outcome.splits sum.splits option.splits if_splits)

lemma silent_validatePolicy: "silent (validatePolicy m ent)"
  by (auto simp: validatePolicy_def Let_def intro!: io_emits
      split: outcome.splits)

lemma emits_validatePolicy [io_emits, intro]: "emits P (validatePolicy m ent)"
  by (rule silent_emits [OF silent_validatePolicy])

lemma ValidatePolicy_never_Err: "ValidatePolicy rg req \<noteq> Err e"
proof -
  have "check_terms rg prev ts \<noteq> Err e" for prev ts
    by (induction rg prev ts rule: check_terms.induct) (auto split: option.splits)
  then have "validateResultTermsInBody rg body \<noteq> Err e" for body
    by (induction body) (auto split: option.splits outcome.splits bool.splits)
  then have "violations_return_fields rg rs \<noteq> Err e" for rs
    by (induction rs) (auto split: outcome.splits bool.splits)
  then show ?thesis
    by (auto simp: ValidatePolicy_def validateRodeRequirementsForPolicy_def Let_def
        split: outcome.splits sum.splits if_splits)
qed


section \<open>Properties\<close>

text \<open>C24: validation answers for every source whose violations rules have the parser's
  shape: it accepts exactly the sources that parse, compile, have a pass and a violations
  rule and return all four fields from every result of every violations rule. A refusal is
  an InvalidArgument error; a response repeats the source, and says that it compiled
  exactly when there is no error, exactly when its list of errors is empty.\<close>

theorem ValidatePolicy_exact:
  assumes "\<And>rmod. rg_ParseModule rg (vpr_Policy req) = Inr rmod \<Longrightarrow> body_shaped rmod"
  shows "\<exists>res err. ValidatePolicy rg req = Ok (res, err) \<and>
    (err = None \<longleftrightarrow> vpr_Policy req \<noteq> [] \<and> (\<exists>rmod. rg_ParseModule rg (vpr_Policy req) = Inr rmod \<and>
       rg_Compile rg rmod = [] \<and> rmod ''pass'' \<noteq> [] \<and> rmod ''violations'' \<noteq> [] \<and>
       list_all (rule_result_ok rg) (rmod ''violations''))) \<and>
    (\<forall>e. err = Some e \<longrightarrow> status_code e = InvalidArgument) \<and>
    (err = None \<longrightarrow> res \<noteq> None) \<and>
    (\<forall>r. res = Some r \<longrightarrow> vps_Policy r = vpr_Policy req \<and>
       (vps_Compile r \<longleftrightarrow> err = None) \<and> (vps_Errors r = [] \<longleftrightarrow> err = None))"
proof (cases "vpr_Policy req = []")
  case True
  then show ?thesis by (simp add: ValidatePolicy_def)
next
  case False
  show ?thesis
  proof (cases "rg_ParseModule rg (vpr_Policy req)")
    case (Inl e)
    with False show ?thesis by (simp add: ValidatePolicy_def Let_def)
  next
    case (Inr rmod)
    from validateRodeRequirements_eq [OF assms [OF Inr]] Inr False
    show ?thesis by (cases "rg_Compile rg rmod = []") (auto simp: ValidatePolicy_def Let_def)
  qed
qed

text \<open>A source that parses but does not compile is refused with a list twice as long as
  the compiler's: as many empty strings as there are errors, and then the errors.\<close>

lemma ValidatePolicy_compile_errors:
  assumes "vpr_Policy req \<noteq> []" "rg_ParseModule rg (vpr_Policy req) = Inr rmod" "rg_Compile rg rmod = errs" "errs \<noteq> []"
  shows "\<exists>r e. ValidatePolicy rg req = Ok (Some r, Some e) \<and> status_code e = InvalidArgument \<and>
    \<not> vps_Compile r \<and> length (vps_Errors r) = 2 * length errs \<and>
    take (length errs) (vps_Errors r) = replicate (length errs) [] \<and> drop (length errs) (vps_Errors r) = errs"
  using assms by (simp add: ValidatePolicy_def Let_def)

end
