(* ===== verification/Policy_Manager.thy ===== *)
theory Policy_Manager
  imports Policy_Id Policy_Validation
begin

text \<open>
  The policy manager, \<open>pkg/policy/manager.go\<close>: a policy is three kinds of documents of
  one index, the policy itself, its versions (children of the policy under the join
  field, with the Rego source) and an empty counter document whose Elasticsearch version
  is the policy's latest version number.

  The code hands Elasticsearch a pointer to the policy it is still changing; what is
  written is the value at the time of the request, which is the value used here.
\<close>

section \<open>Constants and errors\<close>

definition policyDocumentJoinField :: string where
  "policyDocumentJoinField = ''join''"

definition policyRelationName :: string where
  "policyRelationName = ''policy''"

definition policyVersionRelationName :: string where
  "policyVersionRelationName = ''version''"

definition createErrorWithCode :: "string \<Rightarrow> go_error option \<Rightarrow> grpc_code \<Rightarrow> go_error" where
  "createErrorWithCode message err code = (case err of
       None \<Rightarrow> StatusError code message None []
     | Some e \<Rightarrow> StatusError code message (Some e) [])"

definition createError :: "string \<Rightarrow> go_error option \<Rightarrow> go_error" where
  "createError message err = createErrorWithCode message err Internal"

definition policiesAlias :: "'w manager \<Rightarrow> string" where
  "policiesAlias m = alias_of m PoliciesDocumentKind"

lemma status_code_createErrorWithCode [simp]: "status_code (createErrorWithCode msg e c) = c"
  by (simp add: createErrorWithCode_def split: option.splits)

lemma status_code_createError [simp]: "status_code (createError msg e) = Internal"
  by (simp add: createError_def)

section \<open>Operations\<close>

definition CreatePolicy :: "'w manager \<Rightarrow> policy \<Rightarrow> ('w, policy) io" where
  "CreatePolicy m pol =
     (if length (p_Name pol) = 0 then
        fail (StatusError InvalidArgument ''policy name not provided'' None [])
      else (case p_Policy pol of
        None \<Rightarrow> fail (StatusError InvalidArgument ''policy entity not provided'' None [])
      | Some ent \<Rightarrow>
        attempt (new_uuid m) id (\<lambda>policyId.
        let version = (1 :: uint32);
            versionId = policyVersionId policyId version in
        attempt (now m) id (\<lambda>currentTime.
        let pol1 = pol\<lparr>p_Id := policyId, p_Created := Some currentTime,
                       p_Updated := Some currentTime, p_CurrentVersion := version,
                       p_Policy := None\<rparr>;
            policyVersion = ent\<lparr>pe_Id := versionId, pe_Version := version,
                       pe_Message := ''Initial policy creation'',
                       pe_Created := Some currentTime\<rparr> in
        attempt (validatePolicy m policyVersion) id (\<lambda>_.
        attempt (es_bulk m
          \<lparr>br_Index = policiesAlias m,
           br_Refresh = refresh_of m,
           br_Items =
             [\<lparr>bi_Operation = BULK_CREATE, bi_Message = MsgPolicy pol1, bi_DocumentId = policyId,
               bi_Join = Some \<lparr>join_Field = policyDocumentJoinField,
                               join_Name = policyRelationName, join_Parent = ''''\<rparr>,
               bi_Routing = ''''\<rparr>,
              \<lparr>bi_Operation = BULK_CREATE, bi_Message = MsgEmpty,
               bi_DocumentId = policyCounterId policyId,
               bi_Join = None, bi_Routing = policyId\<rparr>,
              \<lparr>bi_Operation = BULK_CREATE, bi_Message = MsgPolicyEntity policyVersion,
               bi_DocumentId = versionId,
               bi_Join = Some \<lparr>join_Field = policyDocumentJoinField,
                               join_Name = policyVersionRelationName, join_Parent = policyId\<rparr>,
               bi_Routing = ''''\<rparr>]\<rparr>)
          (\<lambda>err. createError ''error creating policy'' (Some err)) (\<lambda>response.
        attempt (check_bulk response (\<lambda>err. createError ''policy creation failed'' (Some err))) id (\<lambda>_.
        ret (pol1\<lparr>p_Policy := Some policyVersion\<rparr>))))))))"

definition GetPolicyVersion :: "'w manager \<Rightarrow> string \<Rightarrow> ('w, policy_entity option) io" where
  "GetPolicyVersion m i =
     attempt (lift (parsePolicyVersionId i)) (\<lambda>err. Errorf ''error parsing policy version id'' err)
       (\<lambda>(policyId, version).
     attempt (es_get m \<lparr>gt_Index = policiesAlias m, gt_DocumentId = i, gt_Routing = policyId\<rparr>)
       (\<lambda>err. Errorf ''error fetching policy version'' err) (\<lambda>response.
     if \<not> grs_Found response then ret None
     else
       attempt (lift (cd_PolicyEntity (codec m) True (grs_Source response)))
         (\<lambda>err. createError ''error unmarshalling policy version'' (Some err)) (\<lambda>policyEntity.
       ret (Some policyEntity))))"

definition getPolicy :: "'w manager \<Rightarrow> string \<Rightarrow> ('w, policy) io" where
  "getPolicy m i =
     (if i = '''' then fail (createErrorWithCode ''must specify policy id'' None InvalidArgument)
      else
        attempt (es_get m \<lparr>gt_Index = policiesAlias m, gt_DocumentId = i, gt_Routing = ''''\<rparr>)
          (\<lambda>err. createError ''error fetching policy'' (Some err)) (\<lambda>response.
        if \<not> grs_Found response then fail (createErrorWithCode ''policy not found'' None NotFound)
        else
          attempt (lift (cd_Policy (codec m) True (grs_Source response)))
            (\<lambda>err. createError ''error unmarshalling policy'' (Some err)) (\<lambda>pol.
          ret pol)))"

definition GetPolicy :: "'w manager \<Rightarrow> get_policy_request \<Rightarrow> ('w, policy) io" where
  "GetPolicy m request =
     attempt (lift (parsePolicyVersionId (gpr_Id request)))
       (\<lambda>err. createErrorWithCode ''invalid policy id'' (Some err) InvalidArgument)
       (\<lambda>(policyId, version0).
     attempt (getPolicy m policyId) id (\<lambda>pol.
     let version = (if version0 = 0 then p_CurrentVersion pol else version0) in
     attempt (GetPolicyVersion m (policyVersionId (p_Id pol) version))
       (\<lambda>err. createError ''error getting policy version'' (Some err)) (\<lambda>policyEntity.
     case policyEntity of
       None \<Rightarrow> fail (createError ''policy version not found'' None)
     | Some ent \<Rightarrow> ret (pol\<lparr>p_Policy := Some ent\<rparr>))))"

definition DeletePolicy :: "'w manager \<Rightarrow> delete_policy_request \<Rightarrow> ('w, unit) io" where
  "DeletePolicy m request =
     attempt (getPolicy m (dpr_Id request)) id (\<lambda>pol.
     attempt (es_update m
       \<lparr>ur_Index = policiesAlias m, ur_DocumentId = dpr_Id request, ur_Refresh = refresh_of m,
        ur_Message = MsgPolicy (pol\<lparr>p_Deleted := True\<rparr>), ur_Routing = ''''\<rparr>)
       (\<lambda>err. createError ''error deleting policy and its versions'' (Some err)) (\<lambda>_.
     ret ()))"

text \<open>
  The second loop of \<open>ListPolicies\<close>: the \<open>i\<close>-th fetched version goes into the
  \<open>i\<close>-th policy of the page.
\<close>

fun attach_versions ::
  "'w manager \<Rightarrow> policy list \<Rightarrow> nat \<Rightarrow> get_response list \<Rightarrow> ('w, policy list) io" where
  "attach_versions m policies i [] = ret policies"
| "attach_versions m policies i (document # docs) =
     (if \<not> grs_Found document then
        fail (createError (''missing policy version with id '' @ grs_Id document) None)
      else
        attempt (lift (cd_PolicyEntity (codec m) True (grs_Source document)))
          (\<lambda>err. createError ''error unmarshalling policy entity'' (Some err)) (\<lambda>entity.
        attempt (index_at policies i) id (\<lambda>pol.
        attach_versions m (policies[i := pol\<lparr>p_Policy := Some entity\<rparr>]) (Suc i) docs)))"

definition decode_policy_hit :: "'w manager \<Rightarrow> search_hit \<Rightarrow> go_error + policy" where
  "decode_policy_hit m hit = (case cd_Policy (codec m) True (hit_Source hit) of
       Inl e \<Rightarrow> Inl e | Inr pol \<Rightarrow> Inr (pol\<lparr>p_Id := hit_ID hit\<rparr>))"

definition ListPolicies :: "'w manager \<Rightarrow> list_policies_request \<Rightarrow> ('w, list_policies_response) io" where
  "ListPolicies m request =
     attempt (lift (append_filter m
         [QTerm policyDocumentJoinField policyRelationName, QTerm ''deleted'' ''false'']
         (lpr_Filter request)))
       (\<lambda>err. createError ''error creating filter query'' (Some err)) (\<lambda>queries.
     attempt (es_search m
       \<lparr>sr_Index = policiesAlias m,
        sr_Search = \<lparr>s_Query = QMust queries, s_SortCreatedDesc = True, s_Routing = ''''\<rparr>,
        sr_Pagination = page_options (lpr_PageSize request) (lpr_PageToken request)\<rparr>)
       (\<lambda>err. createError ''error searching for policies'' (Some err)) (\<lambda>response.
     if length (srs_Hits response) = 0 then
       ret \<lparr>lps_Policies = [], lps_NextPageToken = ''''\<rparr>
     else
       attempt (lift (decode_all (decode_policy_hit m) (srs_Hits response)))
         (\<lambda>err. createError ''error unmarshalling policy'' (Some err)) (\<lambda>policies.
       attempt (es_multi_get m
         \<lparr>mg_Index = policiesAlias m, mg_DocumentIds = [],
          mg_Items = map (\<lambda>pol. \<lparr>mgi_Id = policyVersionId (p_Id pol) (p_CurrentVersion pol),
                                 mgi_Index = '''', mgi_Routing = p_Id pol\<rparr>) policies\<rparr>)
         (\<lambda>err. createError ''error fetching policy versions'' (Some err)) (\<lambda>versionsResponse.
       attempt (attach_versions m policies 0 (mgr_Docs versionsResponse)) id (\<lambda>policies'.
       ret \<lparr>lps_Policies = policies', lps_NextPageToken = srs_NextPageToken response\<rparr>)))))"

definition ListPolicyVersions ::
  "'w manager \<Rightarrow> list_policy_versions_request \<Rightarrow> ('w, list_policy_versions_response) io" where
  "ListPolicyVersions m request =
     attempt (lift (append_filter m
         [QHasParent policyRelationName (QTerm ''_id'' (lvr_Id request))] (lvr_Filter request)))
       (\<lambda>err. createError ''unable to create filter query'' (Some err)) (\<lambda>queries.
     attempt (es_search m
       \<lparr>sr_Index = policiesAlias m,
        sr_Search = \<lparr>s_Query = QMust queries, s_SortCreatedDesc = True, s_Routing = ''''\<rparr>,
        sr_Pagination = page_options (lvr_PageSize request) (lvr_PageToken request)\<rparr>)
       (\<lambda>err. createError ''error searching for policy versions'' (Some err)) (\<lambda>response.
     attempt (lift (decode_all (\<lambda>hit. cd_PolicyEntity (codec m) True (hit_Source hit))
         (srs_Hits response)))
       (\<lambda>err. createError ''error unmarshalling policy version'' (Some err)) (\<lambda>policyVersions.
     ret \<lparr>lvs_Versions = policyVersions, lvs_NextPageToken = srs_NextPageToken response\<rparr>)))"

definition incrementPolicyVersion :: "'w manager \<Rightarrow> string \<Rightarrow> ('w, uint32) io" where
  "incrementPolicyVersion m policyId =
     attempt (es_update m
       \<lparr>ur_Index = policiesAlias m, ur_DocumentId = policyCounterId policyId,
        ur_Refresh = refresh_of m, ur_Message = MsgEmpty, ur_Routing = policyId\<rparr>)
       (\<lambda>err. createError ''error updating policy version counter'' (Some err)) (\<lambda>updateResponse.
     ret (word_of_int (urs_Version updateResponse)))"

definition hasPolicyContentChanges :: "policy \<Rightarrow> policy \<Rightarrow> ('w, bool) io" where
  "hasPolicyContentChanges currentPolicy updatedPolicy =
     attempt (deref (p_Policy updatedPolicy)) id (\<lambda>updated.
     attempt (deref (p_Policy currentPolicy)) id (\<lambda>current.
     ret (\<not> (pe_RegoContent updated = pe_RegoContent current
             \<and> pe_SourcePath updated = pe_SourcePath current))))"

text \<open>
  The branch of \<open>UpdatePolicy\<close> for changed content: the policy with its new current
  version, the new version, and the bulk item that creates it.
\<close>

definition createNewVersion ::
  "'w manager \<Rightarrow> string \<Rightarrow> timestamp \<Rightarrow> policy \<Rightarrow> policy
     \<Rightarrow> ('w, policy \<times> policy_entity option \<times> bulk_item list) io" where
  "createNewVersion m policyId currentTime currentPolicy updatedPolicy =
     attempt (deref (p_Policy updatedPolicy)) id (\<lambda>policyVersion.
     attempt (validatePolicy m policyVersion) id (\<lambda>_.
     attempt (incrementPolicyVersion m policyId) id (\<lambda>newVersion.
     let version1 = policyVersion\<lparr>pe_Id := policyVersionId policyId newVersion,
                                  pe_Created := Some currentTime, pe_Version := newVersion,
                                  pe_Message := (if pe_Message policyVersion = '''' then ''Updated policy''
                                                 else pe_Message policyVersion)\<rparr> in
     ret (currentPolicy\<lparr>p_CurrentVersion := newVersion\<rparr>, Some version1,
          [\<lparr>bi_Operation = BULK_CREATE, bi_Message = MsgPolicyEntity version1,
            bi_DocumentId = pe_Id version1,
            bi_Join = Some \<lparr>join_Field = policyDocumentJoinField,
                            join_Name = policyVersionRelationName, join_Parent = policyId\<rparr>,
            bi_Routing = ''''\<rparr>]))))"

text \<open>The end of \<open>UpdatePolicy\<close>: the bulk request and its reply.\<close>

definition storePolicy ::
  "'w manager \<Rightarrow> string \<Rightarrow> policy \<Rightarrow> policy_entity option \<Rightarrow> bulk_item list \<Rightarrow> ('w, policy) io" where
  "storePolicy m policyId currentPolicy policyVersion versionItems =
     attempt (es_bulk m
       \<lparr>br_Index = policiesAlias m,
        br_Refresh = refresh_of m,
        br_Items =
          \<lparr>bi_Operation = BULK_INDEX, bi_Message = MsgPolicy (currentPolicy\<lparr>p_Policy := None\<rparr>),
           bi_DocumentId = policyId,
           bi_Join = Some \<lparr>join_Field = policyDocumentJoinField,
                           join_Name = policyRelationName, join_Parent = ''''\<rparr>,
           bi_Routing = ''''\<rparr> # versionItems\<rparr>)
       (\<lambda>err. createError ''error updating policy'' (Some err)) (\<lambda>response.
     attempt (check_bulk response (\<lambda>err. createError ''failed to update policy'' (Some err))) id (\<lambda>_.
     ret (currentPolicy\<lparr>p_Policy := policyVersion\<rparr>)))"

text \<open>Its middle: the fields a client may change, and a new version when the content changed.\<close>

definition applyUpdate :: "'w manager \<Rightarrow> policy \<Rightarrow> policy \<Rightarrow> ('w, policy) io" where
  "applyUpdate m updatedPolicy currentPolicy =
     attempt (now m) id (\<lambda>currentTime.
     let policyId = p_Id updatedPolicy;
         policy1 = currentPolicy\<lparr>p_Name := p_Name updatedPolicy,
                     p_Description := p_Description updatedPolicy,
                     p_Updated := Some currentTime\<rparr> in
     attempt (hasPolicyContentChanges policy1 updatedPolicy) id (\<lambda>changed.
     attempt (if changed then createNewVersion m policyId currentTime policy1 updatedPolicy
              else ret (policy1, p_Policy policy1, [])) id
       (\<lambda>(policy2, policyVersion, versionItems).
     storePolicy m policyId policy2 policyVersion versionItems)))"

definition UpdatePolicy :: "'w manager \<Rightarrow> update_policy_request \<Rightarrow> ('w, policy) io" where
  "UpdatePolicy m request =
     attempt (deref (upr_Policy request)) id (\<lambda>updatedPolicy.
     attempt (GetPolicy m \<lparr>gpr_Id = p_Id updatedPolicy\<rparr>) id (\<lambda>currentPolicy.
     if p_Deleted currentPolicy then
       fail (createErrorWithCode ''cannot update a deleted policy'' None FailedPrecondition)
     else applyUpdate m updatedPolicy currentPolicy))"

section \<open>Which calls the operations make\<close>

lemma reads_only_GetPolicyVersion: "reads_only (GetPolicyVersion m i)"
  unfolding GetPolicyVersion_def by (intro io_emits) simp

lemma reads_only_getPolicy: "reads_only (getPolicy m i)"
  unfolding getPolicy_def by (intro io_emits) simp

lemma reads_only_GetPolicy: "reads_only (GetPolicy m request)"
  unfolding GetPolicy_def by (intro io_emits reads_only_getPolicy reads_only_GetPolicyVersion)

lemma reads_only_attach_versions: "reads_only (attach_versions m policies i docs)"
  by (induction docs arbitrary: policies i) (auto intro!: io_emits)

lemma reads_only_ListPolicies: "reads_only (ListPolicies m request)"
  unfolding ListPolicies_def by (intro io_emits reads_only_attach_versions) simp_all

lemma reads_only_ListPolicyVersions: "reads_only (ListPolicyVersions m request)"
  unfolding ListPolicyVersions_def by (intro io_emits) simp

section \<open>What the operations do\<close>

lemmas policy_runs = attempt_Ok attempt_Err attempt_Panic external_Ok external_Err draw_Ok
  validatePolicy_Ok Let_def split_def

lemma GetPolicyVersion_Ok:
  "GetPolicyVersion m i s = (Ok r, s') \<longleftrightarrow>
     (\<exists>pid v resp x. parsePolicyVersionId i = Inr (pid, v) \<and>
        esc_Get (esClient m) \<lparr>gt_Index = policiesAlias m, gt_DocumentId = i, gt_Routing = pid\<rparr> (ext s)
          = (Inr resp, x) \<and>
        s' = s\<lparr>ext := x, trace := trace s @ [EsGet \<lparr>gt_Index = policiesAlias m, gt_DocumentId = i,
                                              gt_Routing = pid\<rparr>]\<rparr> \<and>
        (if grs_Found resp
         then \<exists>e. cd_PolicyEntity (codec m) True (grs_Source resp) = Inr e \<and> r = Some e
         else r = None))"
  unfolding GetPolicyVersion_def by (auto simp: policy_runs split: if_splits)

lemma getPolicy_Ok:
  "getPolicy m i s = (Ok p, s') \<longleftrightarrow>
     i \<noteq> '''' \<and> (\<exists>resp x.
        esc_Get (esClient m) \<lparr>gt_Index = policiesAlias m, gt_DocumentId = i, gt_Routing = ''''\<rparr> (ext s)
          = (Inr resp, x) \<and>
        s' = s\<lparr>ext := x, trace := trace s @ [EsGet \<lparr>gt_Index = policiesAlias m, gt_DocumentId = i,
                                              gt_Routing = ''''\<rparr>]\<rparr> \<and>
        grs_Found resp \<and> cd_Policy (codec m) True (grs_Source resp) = Inr p)"
  unfolding getPolicy_def by (auto simp: policy_runs split: if_splits)

lemma GetPolicy_Ok:
  assumes "GetPolicy m request s = (Ok q, s')"
  shows "\<exists>pid v p ent s1. parsePolicyVersionId (gpr_Id request) = Inr (pid, v) \<and>
     getPolicy m pid s = (Ok p, s1) \<and>
     GetPolicyVersion m (policyVersionId (p_Id p) (if v = 0 then p_CurrentVersion p else v)) s1
       = (Ok (Some ent), s') \<and>
     q = p\<lparr>p_Policy := Some ent\<rparr>"
  using assms unfolding GetPolicy_def
  by (auto simp: policy_runs split: option.splits)

text \<open>Getting a policy returns the stored policy with the content of one stored version:
  the version the id names, or the policy's current version when it names none (or names
  version 0). Two documents are read, and nothing else.\<close>

lemma GetPolicy_reads_version:
  assumes "GetPolicy m request s = (Ok q, s')"
  shows "\<exists>pid v p ent source routing. parsePolicyVersionId (gpr_Id request) = Inr (pid, v) \<and> pid \<noteq> [] \<and>
    cd_Policy (codec m) True source = Inr p \<and> q = p\<lparr>p_Policy := Some ent\<rparr> \<and>
    (\<exists>source'. cd_PolicyEntity (codec m) True source' = Inr ent) \<and>
    trace s' = trace s @
      [EsGet \<lparr>gt_Index = policiesAlias m, gt_DocumentId = pid, gt_Routing = []\<rparr>,
       EsGet \<lparr>gt_Index = policiesAlias m,
              gt_DocumentId = policyVersionId (p_Id q) (if v = 0 then p_CurrentVersion q else v),
              gt_Routing = routing\<rparr>]"
  using GetPolicy_Ok [OF assms] by (fastforce simp: getPolicy_Ok GetPolicyVersion_Ok split: if_splits)

text \<open>The documents a new policy is stored as.\<close>

definition creation_request :: "'w manager \<Rightarrow> policy \<Rightarrow> policy_entity \<Rightarrow> bulk_request" where
  "creation_request m q v = \<lparr>br_Index = policiesAlias m, br_Refresh = refresh_of m, br_Items =
     [\<lparr>bi_Operation = BULK_CREATE, bi_Message = MsgPolicy q, bi_DocumentId = p_Id q,
       bi_Join = Some \<lparr>join_Field = ''join'', join_Name = ''policy'', join_Parent = []\<rparr>, bi_Routing = []\<rparr>,
      \<lparr>bi_Operation = BULK_CREATE, bi_Message = MsgEmpty, bi_DocumentId = policyCounterId (p_Id q),
       bi_Join = None, bi_Routing = p_Id q\<rparr>,
      \<lparr>bi_Operation = BULK_CREATE, bi_Message = MsgPolicyEntity v, bi_DocumentId = policyVersionId (p_Id q) 1,
       bi_Join = Some \<lparr>join_Field = ''join'', join_Name = ''version'', join_Parent = p_Id q\<rparr>, bi_Routing = []\<rparr>]\<rparr>"

text \<open>C23: what creating a policy does, in every case. A policy without a name or without content
  is refused as invalid, before anything happens. Otherwise an id and the time are taken;
  a source the validation does not accept is refused as invalid, and nothing is sent. An
  accepted one goes out in one bulk request of three documents, each to be created under an
  id that must be new: the policy as it was given, under the fresh id, at version 1 and
  without its content; its version counter; and version 1 with the content as it was given,
  a child of the policy. The call answers the policy with that content exactly when the
  reply carries no error, and is an internal error otherwise. The parser is relied on to
  give each assignment its list of terms, operator first.\<close>

theorem CreatePolicy_exact:
  assumes "CreatePolicy m pol s = (out, s')" "parsed_shapes_ok (rego m)"
    "rt_Uuid (runtime m) (ext s) = (i, x)" "rt_Now (runtime m) x = (t, y)"
    "q = pol\<lparr>p_Id := i, p_Created := Some t, p_Updated := Some t, p_CurrentVersion := 1, p_Policy := None\<rparr>"
  shows "case p_Policy pol of
      None \<Rightarrow> s' = s \<and> (\<exists>e. out = Err e \<and> status_code e = InvalidArgument)
    | Some ent \<Rightarrow>
        if p_Name pol = [] then s' = s \<and> (\<exists>e. out = Err e \<and> status_code e = InvalidArgument)
        else if \<not> valid_source (rego m) (pe_RegoContent ent) then
          s' = s\<lparr>ext := y\<rparr> \<and> (\<exists>e. out = Err e \<and> status_code e = InvalidArgument)
        else \<exists>v reply z.
          v = ent\<lparr>pe_Id := policyVersionId i 1, pe_Version := 1, pe_Message := ''Initial policy creation'',
                  pe_Created := Some t\<rparr> \<and>
          esc_Bulk (esClient m) (creation_request m q v) y = (reply, z) \<and>
          s' = s\<lparr>ext := z, trace := trace s @ [EsBulk (creation_request m q v)]\<rparr> \<and>
          (if \<exists>r. reply = Inr r \<and> (\<forall>item\<in>set (brs_Items r). bulk_item_error item = None)
           then out = Ok (q\<lparr>p_Policy := Some v\<rparr>)
           else \<exists>e. out = Err e \<and> status_code e = Internal)"
proof (cases "p_Policy pol")
  case None
  with assms(1) show ?thesis by (cases "p_Name pol = []") (auto simp: CreatePolicy_def)
next
  case (Some ent)
  define v where "v = ent\<lparr>pe_Id := policyVersionId i 1, pe_Version := 1, pe_Message := ''Initial policy creation'',
                  pe_Created := Some t\<rparr>"
  define request where "request = creation_request m q v"
  obtain reply z where reply: "esc_Bulk (esClient m) request y = (reply, z)"
    by (cases "esc_Bulk (esClient m) request y")
  have draws: "new_uuid m s = (Ok i, s\<lparr>ext := x\<rparr>)" "now m (s\<lparr>ext := x\<rparr>) = (Ok t, s\<lparr>ext := y\<rparr>)"
    using assms(3,4) by (simp_all add: draw_def)
  show ?thesis
  proof (cases "p_Name pol = []")
    case True
    with Some assms(1) show ?thesis by (auto simp: CreatePolicy_def)
  next
    case False
    have run: "CreatePolicy m pol s = attempt (validatePolicy m v) id (\<lambda>_.
        attempt (es_bulk m request) (\<lambda>err. createError ''error creating policy'' (Some err)) (\<lambda>response.
        attempt (check_bulk response (\<lambda>err. createError ''policy creation failed'' (Some err))) id (\<lambda>_.
        ret (q\<lparr>p_Policy := Some v\<rparr>)))) (s\<lparr>ext := y\<rparr>)"
      unfolding CreatePolicy_def request_def creation_request_def policyDocumentJoinField_def
        policyRelationName_def policyVersionRelationName_def
      using False Some draws
      by (simp add: attempt_def [of "new_uuid m"] attempt_def [of "now m"] Let_def assms(5) v_def)
    have rego: "pe_RegoContent v = pe_RegoContent ent" by (simp add: v_def)
    show ?thesis
    proof (cases "valid_source (rego m) (pe_RegoContent ent)")
      case True
      then have "validatePolicy m v = ret ()"
        using validatePolicy_source [OF assms(2), of v] rego by simp
      then have "(out, s') = attempt (es_bulk m request) (\<lambda>err. createError ''error creating policy'' (Some err)) (\<lambda>response.
        attempt (check_bulk response (\<lambda>err. createError ''policy creation failed'' (Some err))) id (\<lambda>_.
        ret (q\<lparr>p_Policy := Some v\<rparr>))) (s\<lparr>ext := y\<rparr>)"
        using run assms(1) by simp
      then have sent: "s' = s\<lparr>ext := z, trace := trace s @ [EsBulk request]\<rparr> \<and>
          (if \<exists>r. reply = Inr r \<and> (\<forall>item\<in>set (brs_Items r). bulk_item_error item = None)
           then out = Ok (q\<lparr>p_Policy := Some v\<rparr>) else \<exists>e. out = Err e \<and> status_code e = Internal)"
        using reply
        by (cases reply) (auto simp: attempt_def external_def check_bulk_def CheckBulkResponseErrors_None [symmetric]
            split: option.splits)
      show ?thesis
        unfolding Some option.case if_not_P [OF False] if_not_P [of "\<not> valid_source (rego m) (pe_RegoContent ent)",
          unfolded not_not, OF True]
        by (intro exI [of _ v] exI [of _ reply] exI [of _ z] conjI)
          (rule v_def, rule reply [unfolded request_def], rule sent [unfolded request_def, THEN conjunct1],
           rule sent [unfolded request_def, THEN conjunct2])
    next
      case not_valid: False
      then obtain e where "status_code e = InvalidArgument" "validatePolicy m v = fail e"
        using validatePolicy_source [OF assms(2), of v] rego by auto
      with run assms(1) False Some not_valid show ?thesis by simp
    qed
  qed
qed

lemma validatePolicy_Err:
  "validatePolicy m ent s = (Err e, s') \<Longrightarrow> s' = s \<and> status_code e = InvalidArgument"
  using ValidatePolicy_never_Err
  by (auto simp: validatePolicy_def Let_def split: outcome.splits option.splits if_splits)

text \<open>A creation that fails either has made no external call, and then the error is the
  caller's (InvalidArgument), or has made the one bulk request, and then the error is
  internal. There is no other way to fail.\<close>

lemma CreatePolicy_errors:
  assumes "CreatePolicy m pol s = (Err e, s')"
  shows "(status_code e = InvalidArgument \<and> trace s' = trace s)
    \<or> (status_code e = Internal \<and> (\<exists>r. trace s' = trace s @ [EsBulk r]))"
  using assms unfolding CreatePolicy_def
  by (auto simp: policy_runs check_bulk_def dest!: validatePolicy_Err split: if_splits option.splits)

text \<open>Deleting a policy removes nothing: the policy document is read, and written back
  to the same id with its deleted flag set and everything else as it was.\<close>

lemma DeletePolicy_soft:
  assumes "DeletePolicy m request s = (Ok u, s')"
  shows "\<exists>p s1 req. getPolicy m (dpr_Id request) s = (Ok p, s1) \<and>
    trace s' = trace s1 @ [EsUpdate req] \<and> ur_Index req = policiesAlias m \<and>
    ur_DocumentId req = dpr_Id request \<and> ur_Message req = MsgPolicy (p\<lparr>p_Deleted := True\<rparr>)"
  using assms unfolding DeletePolicy_def
  by (auto simp: policy_runs)

lemma createNewVersion_Ok:
  assumes "createNewVersion m pid t cur upd s = (Ok (p2, pv, items), s')" "p_Policy upd = Some u"
  shows "\<exists>ent ur. trace s' = trace s @ [EsUpdate ur] \<and>
    ur_DocumentId ur = policyCounterId pid \<and> ur_Routing ur = pid \<and>
    p2 = cur\<lparr>p_CurrentVersion := pe_Version ent\<rparr> \<and> pv = Some ent \<and>
    pe_Id ent = policyVersionId pid (pe_Version ent) \<and> pe_RegoContent ent = pe_RegoContent u \<and>
    pe_SourcePath ent = pe_SourcePath u \<and> pe_Created ent = Some t \<and>
    map bi_Operation items = [BULK_CREATE] \<and> map bi_Message items = [MsgPolicyEntity ent] \<and>
    map bi_DocumentId items = [policyVersionId pid (pe_Version ent)] \<and>
    ValidatePolicy (rego m) \<lparr>vpr_Policy = pe_RegoContent ent\<rparr> =
      Ok (Some \<lparr>vps_Policy = pe_RegoContent ent, vps_Compile = True, vps_Errors = []\<rparr>, None)"
  using assms unfolding createNewVersion_def incrementPolicyVersion_def
  by (auto simp: policy_runs)

text \<open>
  A bulk request and the two facts about content the update relies on.
\<close>

lemma storePolicy_Ok:
  assumes "storePolicy m pid p2 pv items s = (Ok q, s')"
  shows "\<exists>r. trace s' = trace s @ [EsBulk r] \<and> br_Index r = policiesAlias m \<and>
     br_Items r = \<lparr>bi_Operation = BULK_INDEX, bi_Message = MsgPolicy (q\<lparr>p_Policy := None\<rparr>),
          bi_DocumentId = pid,
          bi_Join = Some \<lparr>join_Field = policyDocumentJoinField,
                          join_Name = policyRelationName, join_Parent = ''''\<rparr>,
          bi_Routing = ''''\<rparr> # items \<and> q = p2\<lparr>p_Policy := pv\<rparr>"
  using assms unfolding storePolicy_def by (auto simp: policy_runs)

lemma hasPolicyContentChanges_Ok:
  "hasPolicyContentChanges cur upd s = (Ok b, s') \<longleftrightarrow> s' = s \<and>
     (\<exists>u c. p_Policy upd = Some u \<and> p_Policy cur = Some c \<and>
        b = (\<not> (pe_RegoContent u = pe_RegoContent c \<and> pe_SourcePath u = pe_SourcePath c)))"
  unfolding hasPolicyContentChanges_def by (auto simp: policy_runs)

text \<open>
  A successful update, seen from outside: when the content changed one write of the
  counter, then one bulk request whose first item is the policy document.
\<close>

definition update_stored ::
  "'w manager \<Rightarrow> policy \<Rightarrow> policy \<Rightarrow> event list \<Rightarrow> policy \<Rightarrow> bool" where
  "update_stored m upd cur new_events q \<longleftrightarrow> (\<exists>t u c ent evs r items.
     p_Policy upd = Some u \<and> p_Policy cur = Some c \<and> p_Policy q = Some ent \<and>
     new_events = evs @ [EsBulk r] \<and> br_Index r = policiesAlias m \<and>
     br_Items r =
         \<lparr>bi_Operation = BULK_INDEX, bi_Message = MsgPolicy (q\<lparr>p_Policy := None\<rparr>),
          bi_DocumentId = p_Id upd,
          bi_Join = Some \<lparr>join_Field = policyDocumentJoinField,
                          join_Name = policyRelationName, join_Parent = ''''\<rparr>,
          bi_Routing = ''''\<rparr> # items \<and>
     q\<lparr>p_Policy := None\<rparr> = cur\<lparr>p_Name := p_Name upd, p_Description := p_Description upd,
          p_Updated := Some t, p_CurrentVersion := p_CurrentVersion q, p_Policy := None\<rparr> \<and>
     (if pe_RegoContent u = pe_RegoContent c \<and> pe_SourcePath u = pe_SourcePath c
      then evs = [] \<and> items = [] \<and> p_CurrentVersion q = p_CurrentVersion cur \<and> ent = c
      else \<exists>ur. evs = [EsUpdate ur] \<and> ur_DocumentId ur = policyCounterId (p_Id upd) \<and>
             pe_Version ent = p_CurrentVersion q \<and> pe_RegoContent ent = pe_RegoContent u \<and>
             pe_SourcePath ent = pe_SourcePath u \<and>
             map bi_Operation items = [BULK_CREATE] \<and>
             map bi_Message items = [MsgPolicyEntity ent] \<and>
             map bi_DocumentId items = [policyVersionId (p_Id upd) (p_CurrentVersion q)] \<and>
             ValidatePolicy (rego m) \<lparr>vpr_Policy = pe_RegoContent ent\<rparr> =
               Ok (Some \<lparr>vps_Policy = pe_RegoContent ent, vps_Compile = True, vps_Errors = []\<rparr>, None)))"

lemma applyUpdate_steps:
  assumes "applyUpdate m upd cur s = (Ok q, s')"
  shows "\<exists>t s2 chg p2 pv items s4. trace s2 = trace s \<and>
    hasPolicyContentChanges (cur\<lparr>p_Name := p_Name upd, p_Description := p_Description upd,
        p_Updated := Some t\<rparr>) upd s2 = (Ok chg, s2) \<and>
    (if chg then createNewVersion m (p_Id upd) t (cur\<lparr>p_Name := p_Name upd,
        p_Description := p_Description upd, p_Updated := Some t\<rparr>) upd
      else ret (cur\<lparr>p_Name := p_Name upd, p_Description := p_Description upd,
        p_Updated := Some t\<rparr>, p_Policy cur, [])) s2 = (Ok (p2, pv, items), s4) \<and>
    storePolicy m (p_Id upd) p2 pv items s4 = (Ok q, s')"
proof -
  from assms obtain t x where t: "rt_Now (runtime m) (ext s) = (t, x)"
    by (cases "rt_Now (runtime m) (ext s)") simp
  let ?s2 = "s\<lparr>ext := x\<rparr>"
  have "trace ?s2 = trace s" by simp
  moreover from assms t show ?thesis
    unfolding applyUpdate_def attempt_Ok Let_def draw_Ok split_paired_Ex prod.case
    by (intro exI [of _ t] exI [of _ ?s2]) (auto simp: hasPolicyContentChanges_Ok; blast)
qed

lemma applyUpdate_Ok:
  assumes "applyUpdate m upd cur s = (Ok q, s')"
  shows "\<exists>evs. trace s' = trace s @ evs \<and> update_stored m upd cur evs q"
proof -
  from applyUpdate_steps [OF assms] obtain t s2 chg p2 pv items s4 where
    now: "trace s2 = trace s"
    and chg: "hasPolicyContentChanges (cur\<lparr>p_Name := p_Name upd, p_Description := p_Description upd,
        p_Updated := Some t\<rparr>) upd s2 = (Ok chg, s2)"
    and ver: "(if chg then createNewVersion m (p_Id upd) t (cur\<lparr>p_Name := p_Name upd,
        p_Description := p_Description upd, p_Updated := Some t\<rparr>) upd
      else ret (cur\<lparr>p_Name := p_Name upd, p_Description := p_Description upd,
        p_Updated := Some t\<rparr>, p_Policy cur, [])) s2 = (Ok (p2, pv, items), s4)"
    and st: "storePolicy m (p_Id upd) p2 pv items s4 = (Ok q, s')"
    by blast
  from storePolicy_Ok [OF st] obtain r where r: "trace s' = trace s4 @ [EsBulk r]"
    "br_Index r = policiesAlias m"
    "br_Items r = \<lparr>bi_Operation = BULK_INDEX, bi_Message = MsgPolicy (q\<lparr>p_Policy := None\<rparr>),
          bi_DocumentId = p_Id upd,
          bi_Join = Some \<lparr>join_Field = policyDocumentJoinField,
                          join_Name = policyRelationName, join_Parent = ''''\<rparr>,
          bi_Routing = ''''\<rparr> # items" "q = p2\<lparr>p_Policy := pv\<rparr>"
    by blast
  from chg obtain u c where uc: "p_Policy upd = Some u" "p_Policy cur = Some c"
    "chg = (\<not> (pe_RegoContent u = pe_RegoContent c \<and> pe_SourcePath u = pe_SourcePath c))"
    by (auto simp: hasPolicyContentChanges_Ok)
  show ?thesis
  proof (cases chg)
    case False
    with ver have p2: "p2 = cur\<lparr>p_Name := p_Name upd, p_Description := p_Description upd,
        p_Updated := Some t\<rparr>" "pv = p_Policy cur" "items = []" "s4 = s2" by auto
    have "update_stored m upd cur [EsBulk r] q"
      unfolding update_stored_def using False uc r p2 by auto
    with r(1) p2 now show ?thesis by auto
  next
    case True
    with ver have "createNewVersion m (p_Id upd) t (cur\<lparr>p_Name := p_Name upd,
        p_Description := p_Description upd, p_Updated := Some t\<rparr>) upd s2 = (Ok (p2, pv, items), s4)"
      by simp
    from createNewVersion_Ok [OF this uc(1)] obtain ent ur where
      tr: "trace s4 = trace s2 @ [EsUpdate ur]" and new:
      "ur_DocumentId ur = policyCounterId (p_Id upd)"
      "p2 = cur\<lparr>p_Name := p_Name upd, p_Description := p_Description upd,
        p_Updated := Some t, p_CurrentVersion := pe_Version ent\<rparr>" "pv = Some ent"
      "pe_RegoContent ent = pe_RegoContent u" "pe_SourcePath ent = pe_SourcePath u"
      "map bi_Operation items = [BULK_CREATE]" "map bi_Message items = [MsgPolicyEntity ent]"
      "map bi_DocumentId items = [policyVersionId (p_Id upd) (pe_Version ent)]"
      "ValidatePolicy (rego m) \<lparr>vpr_Policy = pe_RegoContent ent\<rparr> =
      Ok (Some \<lparr>vps_Policy = pe_RegoContent ent, vps_Compile = True, vps_Errors = []\<rparr>, None)"
      by (elim exE conjE) (rule that, assumption+)

    have "update_stored m upd cur ([EsUpdate ur] @ [EsBulk r]) q"
      unfolding update_stored_def using True uc r new
      by (intro exI [of _ t] exI [of _ u] exI [of _ c] exI [of _ ent] exI [of _ "[EsUpdate ur]"]
          exI [of _ r] exI [of _ items]) auto
    with r(1) tr now show ?thesis by auto
  qed
qed

text \<open>A successful update was of a policy that exists and is not deleted. It changes
  name, description, update time and, when the content differs, the current version, and
  writes that policy back; only then is the counter increased and one new version document
  created, whose number is the policy's new current version and whose source passes the
  validation. Nothing else is written.\<close>

lemma UpdatePolicy_Ok:
  assumes "UpdatePolicy m request s = (Ok q, s')"
  shows "\<exists>upd cur s1 evs. upr_Policy request = Some upd \<and>
    GetPolicy m \<lparr>gpr_Id = p_Id upd\<rparr> s = (Ok cur, s1) \<and> \<not> p_Deleted cur \<and>
    trace s' = trace s1 @ evs \<and> update_stored m upd cur evs q"
proof -
  from assms obtain upd cur s1 where run: "upr_Policy request = Some upd"
    "GetPolicy m \<lparr>gpr_Id = p_Id upd\<rparr> s = (Ok cur, s1)" "\<not> p_Deleted cur"
    "applyUpdate m upd cur s1 = (Ok q, s')"
    unfolding UpdatePolicy_def by (auto simp: policy_runs split: if_splits)
  with applyUpdate_Ok [OF run(4)] show ?thesis by blast
qed

text \<open>An update of a deleted policy is refused as a failed precondition, after reads
  only.\<close>

lemma UpdatePolicy_deleted:
  assumes "GetPolicy m \<lparr>gpr_Id = p_Id upd\<rparr> s = (Ok cur, s1)" "p_Deleted cur"
  shows "UpdatePolicy m \<lparr>upr_Policy = Some upd\<rparr> s =
    (Err (createErrorWithCode ''cannot update a deleted policy'' None FailedPrecondition), s1) \<and>
    (\<exists>reads. trace s1 = trace s @ reads \<and> list_all (\<lambda>ev. \<not> mutating ev) reads)"
proof -
  obtain reads where "trace s1 = trace s @ reads" "list_all (\<lambda>ev. \<not> mutating ev) reads"
    by (rule emitsD [OF reads_only_GetPolicy assms(1)])
  with assms show ?thesis by (simp add: UpdatePolicy_def attempt_def)
qed

text \<open>An update whose policy has no content panics on a nil dereference, before anything
  is written, where creating such a policy is an InvalidArgument error.\<close>

lemma UpdatePolicy_nil_entity:
  assumes "GetPolicy m \<lparr>gpr_Id = p_Id upd\<rparr> s = (Ok cur, s1)" "\<not> p_Deleted cur" "p_Policy upd = None"
  shows "\<exists>s2. UpdatePolicy m \<lparr>upr_Policy = Some upd\<rparr> s =
    (Panic ''invalid memory address or nil pointer dereference'', s2) \<and> trace s2 = trace s1"
  using assms
  by (auto simp: UpdatePolicy_def applyUpdate_def hasPolicyContentChanges_def attempt_def draw_def
      Let_def split: prod.splits)

section \<open>Listing\<close>

lemma attach_versions_Ok:
  "attach_versions m policies i docs s = (Ok ps, s') \<Longrightarrow>
     s' = s \<and> length ps = length policies \<and> (docs = [] \<or> i + length docs \<le> length policies) \<and>
     (\<forall>j < length policies. if i \<le> j \<and> j < i + length docs
        then \<exists>ent. cd_PolicyEntity (codec m) True (grs_Source (docs ! (j - i))) = Inr ent \<and>
             grs_Found (docs ! (j - i)) \<and> ps ! j = (policies ! j)\<lparr>p_Policy := Some ent\<rparr>
        else ps ! j = policies ! j)"
proof (induction docs arbitrary: policies i)
  case Nil
  then show ?case by auto
next
  case (Cons d docs)
  then obtain ent where d: "grs_Found d" "cd_PolicyEntity (codec m) True (grs_Source d) = Inr ent"
    and i: "i < length policies"
    and rec: "attach_versions m (policies[i := (policies ! i)\<lparr>p_Policy := Some ent\<rparr>]) (Suc i) docs s
      = (Ok ps, s')"
    by (auto simp: policy_runs split: if_splits)
  note IH = Cons.IH [OF rec, unfolded length_list_update]
  then have at: "\<forall>j<length policies. if Suc i \<le> j \<and> j < Suc i + length docs
        then \<exists>ent'. cd_PolicyEntity (codec m) True (grs_Source (docs ! (j - Suc i))) = Inr ent' \<and>
             grs_Found (docs ! (j - Suc i)) \<and>
             ps ! j = (policies[i := (policies ! i)\<lparr>p_Policy := Some ent\<rparr>] ! j)\<lparr>p_Policy := Some ent'\<rparr>
        else ps ! j = policies[i := (policies ! i)\<lparr>p_Policy := Some ent\<rparr>] ! j"
    by (elim conjE)
  show ?case
  proof (intro conjI allI impI)
    fix j assume j: "j < length policies"
    from at [rule_format, OF j] have "if Suc i \<le> j \<and> j < Suc i + length docs
        then \<exists>ent'. cd_PolicyEntity (codec m) True (grs_Source (docs ! (j - Suc i))) = Inr ent' \<and>
             grs_Found (docs ! (j - Suc i)) \<and>
             ps ! j = (policies[i := (policies ! i)\<lparr>p_Policy := Some ent\<rparr>] ! j)\<lparr>p_Policy := Some ent'\<rparr>
        else ps ! j = policies[i := (policies ! i)\<lparr>p_Policy := Some ent\<rparr>] ! j"
      by simp
    then show "if i \<le> j \<and> j < i + length (d # docs)
        then \<exists>ent. cd_PolicyEntity (codec m) True (grs_Source ((d # docs) ! (j - i))) = Inr ent \<and>
             grs_Found ((d # docs) ! (j - i)) \<and> ps ! j = (policies ! j)\<lparr>p_Policy := Some ent\<rparr>
        else ps ! j = policies ! j"
      using d i j by (cases "j = i") (auto simp: nth_Cons' Suc_le_eq split: if_splits)
  qed (use IH i in auto)
qed

text \<open>What a page of policies answers, policy by policy, when the search found \<open>hits\<close>, they decode
  to \<open>stored\<close> and the multi-get answered \<open>docs\<close>.\<close>

definition page_policy :: "codec \<Rightarrow> search_hit list \<Rightarrow> policy list \<Rightarrow> get_response list \<Rightarrow> nat \<Rightarrow> policy \<Rightarrow> bool" where
  "page_policy cd hits stored docs j p \<longleftrightarrow>
     (if j < length docs
      then grs_Found (docs ! j) \<and> (\<exists>ent. cd_PolicyEntity cd True (grs_Source (docs ! j)) = Inr ent \<and>
        p = (stored ! j)\<lparr>p_Id := hit_ID (hits ! j), p_Policy := Some ent\<rparr>)
      else p = (stored ! j)\<lparr>p_Id := hit_ID (hits ! j)\<rparr>)"

lemma decode_policy_stored:
  assumes "decode_all (decode_policy_hit m) hits = Inr ps"
  obtains stored where "list_all2 (\<lambda>hit p. cd_Policy (codec m) True (hit_Source hit) = Inr p) hits stored"
    "ps = map2 (\<lambda>hit p. p\<lparr>p_Id := hit_ID hit\<rparr>) hits stored"
proof -
  from assms have "list_all2 (\<lambda>hit p. decode_policy_hit m hit = Inr p) hits ps" by (simp add: decode_all_Inr)
  then have "\<exists>stored. list_all2 (\<lambda>hit p. cd_Policy (codec m) True (hit_Source hit) = Inr p) hits stored \<and>
      ps = map2 (\<lambda>hit p. p\<lparr>p_Id := hit_ID hit\<rparr>) hits stored"
  proof (induction rule: list_all2_induct)
    case (Cons hit hits p ps)
    then obtain q stored where "cd_Policy (codec m) True (hit_Source hit) = Inr q" "p = q\<lparr>p_Id := hit_ID hit\<rparr>"
      "list_all2 (\<lambda>hit p. cd_Policy (codec m) True (hit_Source hit) = Inr p) hits stored"
      "ps = map2 (\<lambda>hit p. p\<lparr>p_Id := hit_ID hit\<rparr>) hits stored"
      by (auto simp: decode_policy_hit_def split: sum.splits)
    then show ?case by (intro exI [of _ "q # stored"]) simp
  qed simp
  with that show thesis by blast
qed

text \<open>C29: what a page of policies is made of. One search asks for the policies that are not deleted
  and that match the filter of the request, newest first, on the page the request names.
  When it finds none the page is empty. Otherwise each hit decodes to a policy, and one
  multi-get asks for the current version of each, under the id of its hit and in the order
  of the hits. Each document answered must exist and decode; the page has, in the order of
  the hits, the policy of each hit with the id of the hit and with the content the document
  at its place decodes to, and the page token of the search. Nothing else is asked.\<close>

theorem ListPolicies_current_versions:
  assumes "ListPolicies m request s = (Ok response, s')"
  shows "\<exists>extra search page x.
    (if lpr_Filter request = [] then extra = [] else \<exists>f. filterer m (lpr_Filter request) = Inr f \<and> extra = [f]) \<and>
    search = \<lparr>sr_Index = policiesAlias m, sr_Search = \<lparr>s_Query =
        QMust ([QTerm ''join'' ''policy'', QTerm ''deleted'' ''false''] @ extra), s_SortCreatedDesc = True, s_Routing = []\<rparr>,
      sr_Pagination = (if lpr_PageSize request = 0 then None
        else Some \<lparr>pgn_Size = sint (lpr_PageSize request), pgn_Token = lpr_PageToken request\<rparr>)\<rparr> \<and>
    esc_Search (esClient m) search (ext s) = (Inr page, x) \<and>
    (if srs_Hits page = [] then response = \<lparr>lps_Policies = [], lps_NextPageToken = []\<rparr> \<and>
       s' = s\<lparr>ext := x, trace := trace s @ [EsSearch search]\<rparr>
     else \<exists>stored fetch versions y.
       list_all2 (\<lambda>hit p. cd_Policy (codec m) True (hit_Source hit) = Inr p) (srs_Hits page) stored \<and>
       fetch = \<lparr>mg_Index = policiesAlias m, mg_DocumentIds = [], mg_Items = map2 (\<lambda>hit p.
         \<lparr>mgi_Id = policyVersionId (hit_ID hit) (p_CurrentVersion p), mgi_Index = [], mgi_Routing = hit_ID hit\<rparr>)
         (srs_Hits page) stored\<rparr> \<and>
       esc_MultiGet (esClient m) fetch x = (Inr versions, y) \<and>
       s' = s\<lparr>ext := y, trace := trace s @ [EsSearch search, EsMultiGet fetch]\<rparr> \<and>
       length (mgr_Docs versions) \<le> length (srs_Hits page) \<and>
       length (lps_Policies response) = length (srs_Hits page) \<and>
       (\<forall>j < length (srs_Hits page).
          page_policy (codec m) (srs_Hits page) stored (mgr_Docs versions) j (lps_Policies response ! j)) \<and>
       lps_NextPageToken response = srs_NextPageToken page)"
proof -
  from assms obtain queries page sa where
    q: "append_filter m [QTerm ''join'' ''policy'', QTerm ''deleted'' ''false''] (lpr_Filter request) = Inr queries"
    and search: "es_search m \<lparr>sr_Index = policiesAlias m,
        sr_Search = \<lparr>s_Query = QMust queries, s_SortCreatedDesc = True, s_Routing = ''''\<rparr>,
        sr_Pagination = page_options (lpr_PageSize request) (lpr_PageToken request)\<rparr> s = (Ok page, sa)"
    and rest: "if srs_Hits page = [] then response = \<lparr>lps_Policies = [], lps_NextPageToken = []\<rparr> \<and> s' = sa
      else \<exists>ps mg s1 policies. decode_all (decode_policy_hit m) (srs_Hits page) = Inr ps \<and>
        es_multi_get m \<lparr>mg_Index = policiesAlias m, mg_DocumentIds = [], mg_Items = map (\<lambda>pol.
          \<lparr>mgi_Id = policyVersionId (p_Id pol) (p_CurrentVersion pol), mgi_Index = '''', mgi_Routing = p_Id pol\<rparr>) ps\<rparr> sa
          = (Ok mg, s1) \<and>
        attach_versions m ps 0 (mgr_Docs mg) s1 = (Ok policies, s') \<and>
        response = \<lparr>lps_Policies = policies, lps_NextPageToken = srs_NextPageToken page\<rparr>"
    unfolding ListPolicies_def policyDocumentJoinField_def policyRelationName_def
    by (auto simp: attempt_Ok split: if_splits)
  from q obtain extra where extra: "queries = [QTerm ''join'' ''policy'', QTerm ''deleted'' ''false''] @ extra"
    "if lpr_Filter request = [] then extra = [] else \<exists>f. filterer m (lpr_Filter request) = Inr f \<and> extra = [f]"
    by (auto simp: append_filter_Inr split: if_splits)
  define request' where "request' = \<lparr>sr_Index = policiesAlias m, sr_Search = \<lparr>s_Query =
        QMust ([QTerm ''join'' ''policy'', QTerm ''deleted'' ''false''] @ extra), s_SortCreatedDesc = True, s_Routing = []\<rparr>,
      sr_Pagination = (if lpr_PageSize request = 0 then None
        else Some \<lparr>pgn_Size = sint (lpr_PageSize request), pgn_Token = lpr_PageToken request\<rparr>)\<rparr>"
  have "\<lparr>sr_Index = policiesAlias m, sr_Search = \<lparr>s_Query = QMust queries, s_SortCreatedDesc = True, s_Routing = ''''\<rparr>,
        sr_Pagination = page_options (lpr_PageSize request) (lpr_PageToken request)\<rparr> = request'"
    by (simp add: request'_def page_options_def extra(1))
  with search obtain x where search: "esc_Search (esClient m) request' (ext s) = (Inr page, x)"
    "sa = s\<lparr>ext := x, trace := trace s @ [EsSearch request']\<rparr>"
    by (auto simp: external_Ok)
  show ?thesis
  proof (cases "srs_Hits page = []")
    case True
    with rest search(2) have "response = \<lparr>lps_Policies = [], lps_NextPageToken = []\<rparr>"
      "s' = s\<lparr>ext := x, trace := trace s @ [EsSearch request']\<rparr>" by simp_all
    with True extra(2) search(1) request'_def show ?thesis
      by (intro exI [of _ extra] exI [of _ request'] exI [of _ page] exI [of _ x]) simp
  next
    case False
    with rest obtain ps mg s1 policies where ps: "decode_all (decode_policy_hit m) (srs_Hits page) = Inr ps"
      and mg: "es_multi_get m \<lparr>mg_Index = policiesAlias m, mg_DocumentIds = [], mg_Items = map (\<lambda>pol.
          \<lparr>mgi_Id = policyVersionId (p_Id pol) (p_CurrentVersion pol), mgi_Index = '''', mgi_Routing = p_Id pol\<rparr>) ps\<rparr> sa
          = (Ok mg, s1)"
      and att: "attach_versions m ps 0 (mgr_Docs mg) s1 = (Ok policies, s')"
      and response: "response = \<lparr>lps_Policies = policies, lps_NextPageToken = srs_NextPageToken page\<rparr>"
      by auto
    obtain stored where stored: "list_all2 (\<lambda>hit p. cd_Policy (codec m) True (hit_Source hit) = Inr p) (srs_Hits page) stored"
      and ps': "ps = map2 (\<lambda>hit p. p\<lparr>p_Id := hit_ID hit\<rparr>) (srs_Hits page) stored"
      by (rule decode_policy_stored [OF ps])
    have len: "length stored = length (srs_Hits page)" using list_all2_lengthD [OF stored] by simp
    define fetch where "fetch = \<lparr>mg_Index = policiesAlias m, mg_DocumentIds = [], mg_Items = map2 (\<lambda>hit p.
         \<lparr>mgi_Id = policyVersionId (hit_ID hit) (p_CurrentVersion p), mgi_Index = [], mgi_Routing = hit_ID hit\<rparr>)
         (srs_Hits page) stored\<rparr>"
    have "\<lparr>mg_Index = policiesAlias m, mg_DocumentIds = [], mg_Items = map (\<lambda>pol.
          \<lparr>mgi_Id = policyVersionId (p_Id pol) (p_CurrentVersion pol), mgi_Index = '''', mgi_Routing = p_Id pol\<rparr>) ps\<rparr> = fetch"
      by (simp add: fetch_def ps' comp_def split_def)
    with mg search(2) obtain y where fetched: "esc_MultiGet (esClient m) fetch x = (Inr mg, y)"
      "s1 = s\<lparr>ext := y, trace := trace s @ [EsSearch request', EsMultiGet fetch]\<rparr>"
      by (auto simp: external_Ok)
    from attach_versions_Ok [OF att] len ps' have ended: "s' = s1" "length policies = length (srs_Hits page)"
      "length (mgr_Docs mg) \<le> length (srs_Hits page)" by auto
    have "page_policy (codec m) (srs_Hits page) stored (mgr_Docs mg) j (policies ! j)" if "j < length (srs_Hits page)" for j
    proof -
      have "length ps = length (srs_Hits page)" "ps ! j = (stored ! j)\<lparr>p_Id := hit_ID (srs_Hits page ! j)\<rparr>"
        using len that by (simp_all add: ps')
      with attach_versions_Ok [OF att] that show ?thesis
        by (auto simp: page_policy_def split: if_splits)
    qed
    with False extra(2) search(1) stored fetched ended response show ?thesis
      by (intro exI [of _ extra] exI [of _ request'] exI [of _ page] exI [of _ x])
        (auto simp: request'_def fetch_def)
  qed
qed

end
