(* ===== verification/Policy_Group_Manager.thy ===== *)
theory Policy_Group_Manager
  imports Policy_Manager
begin

text \<open>
  The policy group manager, \<open>pkg/policy/policy_group_manager.go\<close>. A group is one document
  whose id is its name; deleting a group sets its flag and keeps the document.
\<close>

section \<open>Names\<close>

text \<open>The regular expression \<open>^[a-z0-9-_]+$\<close>.\<close>

definition group_name_char :: "char \<Rightarrow> bool" where
  "group_name_char c \<longleftrightarrow>
     (let n = of_char c :: nat in
      97 \<le> n \<and> n \<le> 122 \<or> 48 \<le> n \<and> n \<le> 57 \<or> n = 45 \<or> n = 95)"

definition policyGroupNamePattern :: "string \<Rightarrow> bool" where
  "policyGroupNamePattern s \<longleftrightarrow> s \<noteq> '''' \<and> list_all group_name_char s"

definition policyGroupsAlias :: "'w manager \<Rightarrow> string" where
  "policyGroupsAlias m = alias_of m PolicyGroupsDocumentKind"

lemma group_name_no_slash: "policyGroupNamePattern s \<Longrightarrow> CHR ''/'' \<notin> set s"
  by (auto simp: policyGroupNamePattern_def group_name_char_def Let_def list_all_iff)

lemma group_name_no_dot: "policyGroupNamePattern s \<Longrightarrow> CHR ''.'' \<notin> set s"
  by (auto simp: policyGroupNamePattern_def group_name_char_def Let_def list_all_iff)

section \<open>Operations\<close>

definition GetPolicyGroup :: "'w manager \<Rightarrow> get_policy_group_request \<Rightarrow> ('w, policy_group) io" where
  "GetPolicyGroup m request =
     (if ggr_Name request = '''' then
        fail (createErrorWithCode ''policy group name must be supplied'' None InvalidArgument)
      else
        attempt (es_get m \<lparr>gt_Index = policyGroupsAlias m, gt_DocumentId = ggr_Name request,
                           gt_Routing = ''''\<rparr>)
          (\<lambda>err. createError ''error retrieving policy group from elasticsearch'' (Some err)) (\<lambda>response.
        if \<not> grs_Found response then fail (createErrorWithCode ''policy group not found'' None NotFound)
        else
          attempt (lift (cd_PolicyGroup (codec m) False (grs_Source response)))
            (\<lambda>err. createError ''error unmarshalling policy group'' (Some err)) (\<lambda>policyGroup.
          ret policyGroup)))"

definition CreatePolicyGroup :: "'w manager \<Rightarrow> policy_group \<Rightarrow> ('w, policy_group) io" where
  "CreatePolicyGroup m policyGroup =
     inspect (GetPolicyGroup m \<lparr>ggr_Name = pg_Name policyGroup\<rparr>) (\<lambda>existing.
     case existing of
       Inr _ \<Rightarrow> fail (createErrorWithCode ''policy group already exists'' None AlreadyExists)
     | Inl err \<Rightarrow>
         if status_code err \<noteq> NotFound then fail err
         else if \<not> policyGroupNamePattern (pg_Name policyGroup) then
           fail (createErrorWithCode (''policy group name can only contain lowercase alphanumeric ''
             @ ''characters, dashes, and underscores.'') None InvalidArgument)
         else
           attempt (now m) id (\<lambda>currentTime.
           let group1 = policyGroup\<lparr>pg_Created := Some currentTime, pg_Updated := Some currentTime\<rparr> in
           attempt (es_create m
             \<lparr>cr_Index = policyGroupsAlias m, cr_Refresh = refresh_of m,
              cr_Message = MsgPolicyGroup group1, cr_DocumentId = pg_Name group1\<rparr>)
             (\<lambda>err. createError ''error creating policy group'' (Some err)) (\<lambda>_.
           ret group1)))"

definition ListPolicyGroups ::
  "'w manager \<Rightarrow> list_policy_groups_request \<Rightarrow> ('w, list_policy_groups_response) io" where
  "ListPolicyGroups m request =
     attempt (lift (append_filter m [QTerm ''deleted'' ''false''] (lgr_Filter request)))
       (\<lambda>err. createError ''error creating filter query'' (Some err)) (\<lambda>queries.
     attempt (es_search m
       \<lparr>sr_Index = policyGroupsAlias m,
        sr_Search = \<lparr>s_Query = QMust queries, s_SortCreatedDesc = True, s_Routing = ''''\<rparr>,
        sr_Pagination = page_options (lgr_PageSize request) (lgr_PageToken request)\<rparr>)
       (\<lambda>err. createError ''error searching for policy groups'' (Some err)) (\<lambda>searchResponse.
     attempt (lift (decode_all (\<lambda>hit. cd_PolicyGroup (codec m) False (hit_Source hit))
         (srs_Hits searchResponse)))
       (\<lambda>err. createError ''error unmarshalling policy group'' (Some err)) (\<lambda>groups.
     ret \<lparr>lgs_PolicyGroups = groups, lgs_NextPageToken = srs_NextPageToken searchResponse\<rparr>)))"

definition UpdatePolicyGroup :: "'w manager \<Rightarrow> policy_group \<Rightarrow> ('w, policy_group) io" where
  "UpdatePolicyGroup m policyGroup =
     attempt (GetPolicyGroup m \<lparr>ggr_Name = pg_Name policyGroup\<rparr>) id (\<lambda>currentPolicyGroup.
     if pg_Deleted currentPolicyGroup then
       fail (createErrorWithCode ''cannot update a deleted policy group'' None FailedPrecondition)
     else
       attempt (now m) id (\<lambda>currentTime.
       let group1 = currentPolicyGroup\<lparr>pg_Description := pg_Description policyGroup,
                                       pg_Updated := Some currentTime\<rparr> in
       attempt (es_update m
         \<lparr>ur_Index = policyGroupsAlias m, ur_DocumentId = pg_Name group1, ur_Refresh = refresh_of m,
          ur_Message = MsgPolicyGroup group1, ur_Routing = ''''\<rparr>)
         (\<lambda>err. createError ''error updating policy group'' (Some err)) (\<lambda>_.
       ret group1)))"

definition DeletePolicyGroup :: "'w manager \<Rightarrow> delete_policy_group_request \<Rightarrow> ('w, unit) io" where
  "DeletePolicyGroup m request =
     attempt (GetPolicyGroup m \<lparr>ggr_Name = dgr_Name request\<rparr>) id (\<lambda>currentPolicyGroup.
     attempt (es_update m
       \<lparr>ur_Index = policyGroupsAlias m, ur_DocumentId = dgr_Name request, ur_Refresh = refresh_of m,
        ur_Message = MsgPolicyGroup (currentPolicyGroup\<lparr>pg_Deleted := True\<rparr>), ur_Routing = ''''\<rparr>)
       (\<lambda>err. createError ''error marking policy group as deleted'' (Some err)) (\<lambda>_.
     ret ()))"

section \<open>Which calls the operations make\<close>

lemma reads_only_GetPolicyGroup: "reads_only (GetPolicyGroup m request)"
  unfolding GetPolicyGroup_def by (intro io_emits) simp

lemma reads_only_ListPolicyGroups: "reads_only (ListPolicyGroups m request)"
  unfolding ListPolicyGroups_def by (intro io_emits) simp

section \<open>What the operations do\<close>

lemmas group_runs = policy_runs inspect_Ok

lemma GetPolicyGroup_Ok:
  "GetPolicyGroup m request s = (Ok g, s') \<longleftrightarrow>
     ggr_Name request \<noteq> '''' \<and> (\<exists>resp x.
        esc_Get (esClient m) \<lparr>gt_Index = policyGroupsAlias m, gt_DocumentId = ggr_Name request,
                              gt_Routing = ''''\<rparr> (ext s) = (Inr resp, x) \<and>
        s' = s\<lparr>ext := x, trace := trace s @ [EsGet \<lparr>gt_Index = policyGroupsAlias m,
                gt_DocumentId = ggr_Name request, gt_Routing = ''''\<rparr>]\<rparr> \<and>
        grs_Found resp \<and> cd_PolicyGroup (codec m) False (grs_Source resp) = Inr g)"
  unfolding GetPolicyGroup_def by (auto simp: group_runs split: if_splits)

lemma GetPolicyGroup_Err:
  assumes "GetPolicyGroup m request s = (Err e, s')" "status_code e = NotFound"
  shows "ggr_Name request \<noteq> '''' \<and> (\<exists>resp.
     fst (esc_Get (esClient m) \<lparr>gt_Index = policyGroupsAlias m, gt_DocumentId = ggr_Name request,
                               gt_Routing = ''''\<rparr> (ext s)) = Inr resp \<and> \<not> grs_Found resp) \<and>
     trace s' = trace s @ [EsGet \<lparr>gt_Index = policyGroupsAlias m,
                gt_DocumentId = ggr_Name request, gt_Routing = ''''\<rparr>]"
  using assms unfolding GetPolicyGroup_def
  by (auto simp: attempt_Err attempt_Ok external_Ok external_Err createError_def createErrorWithCode_def
      split: if_splits)

text \<open>A policy group is created only under a legal name that was looked up and not
  found. What is stored, in one create request under that name, is what the caller gave
  with both times set, and that is what the caller gets back.\<close>

lemma CreatePolicyGroup_Ok:
  assumes "CreatePolicyGroup m pg s = (Ok g, s')"
  shows "\<exists>e s1 t. GetPolicyGroup m \<lparr>ggr_Name = pg_Name pg\<rparr> s = (Err e, s1) \<and> status_code e = NotFound \<and>
    policyGroupNamePattern (pg_Name pg) \<and>
    g = pg\<lparr>pg_Created := Some t, pg_Updated := Some t\<rparr> \<and>
    trace s' = trace s1 @ [EsCreate \<lparr>cr_Index = policyGroupsAlias m, cr_Refresh = refresh_of m,
      cr_Message = MsgPolicyGroup g, cr_DocumentId = pg_Name pg\<rparr>]"
  using assms unfolding CreatePolicyGroup_def
  by (auto simp: group_runs split: if_splits)

text \<open>Updating a group changes the stored group's description and update time and
  nothing else, so a name or a creation time in the request is ignored, and a deleted
  group cannot be updated.\<close>

lemma UpdatePolicyGroup_Ok:
  assumes "UpdatePolicyGroup m pg s = (Ok g, s')"
  shows "\<exists>cur s1 t req. GetPolicyGroup m \<lparr>ggr_Name = pg_Name pg\<rparr> s = (Ok cur, s1) \<and>
    \<not> pg_Deleted cur \<and> g = cur\<lparr>pg_Description := pg_Description pg, pg_Updated := Some t\<rparr> \<and>
    trace s' = trace s1 @ [EsUpdate req] \<and> ur_Index req = policyGroupsAlias m \<and>
    ur_DocumentId req = pg_Name cur \<and> ur_Message req = MsgPolicyGroup g"
  using assms unfolding UpdatePolicyGroup_def
  by (auto simp: group_runs split: if_splits)

text \<open>Deleting a group keeps its document: the stored group is written back with its
  deleted flag set.\<close>

lemma DeletePolicyGroup_Ok:
  assumes "DeletePolicyGroup m request s = (Ok u, s')"
  shows "\<exists>cur s1 req. GetPolicyGroup m \<lparr>ggr_Name = dgr_Name request\<rparr> s = (Ok cur, s1) \<and>
    trace s' = trace s1 @ [EsUpdate req] \<and> ur_Index req = policyGroupsAlias m \<and>
    ur_DocumentId req = dgr_Name request \<and> ur_Message req = MsgPolicyGroup (cur\<lparr>pg_Deleted := True\<rparr>)"
  using assms unfolding DeletePolicyGroup_def
  by (auto simp: group_runs)

end
