(* ===== verification/Assignment_Manager.thy ===== *)
theory Assignment_Manager
  imports Policy_Group_Manager
begin

text \<open>
  The assignment manager, \<open>pkg/policy/assignment_manager.go\<close>: an assignment attaches a
  version of a policy to a policy group. Creating and updating share
  \<open>validateAssignment\<close>, which takes the check that is particular to the operation as a
  function; since \<open>validateUpdate\<close> writes the original creation time into the message it
  checks, the validators return the assignment.
\<close>

definition policyAssignmentsAlias :: "'w manager \<Rightarrow> string" where
  "policyAssignmentsAlias m = alias_of m PolicyAssignmentsDocumentKind"

section \<open>Reading\<close>

definition GetPolicyAssignment ::
  "'w manager \<Rightarrow> get_policy_assignment_request \<Rightarrow> ('w, policy_assignment) io" where
  "GetPolicyAssignment m request =
     (if gar_Id request = '''' then
        fail (createErrorWithCode ''invalid policy assignment id'' None InvalidArgument)
      else
        attempt (es_get m \<lparr>gt_Index = policyAssignmentsAlias m, gt_DocumentId = gar_Id request,
                           gt_Routing = ''''\<rparr>)
          (\<lambda>err. createError ''error retrieving policy assignment'' (Some err)) (\<lambda>response.
        if \<not> grs_Found response then fail (createErrorWithCode ''assignment not found'' None NotFound)
        else
          attempt (lift (cd_PolicyAssignment (codec m) False (grs_Source response)))
            (\<lambda>err. createError ''error unmarshalling assignment'' (Some err)) (\<lambda>assignment.
          ret assignment)))"

section \<open>Validation\<close>

type_synonym 'w assignment_validator =
  "string \<Rightarrow> policy_assignment \<Rightarrow> ('w, policy_assignment) io"

definition validateCreate :: "'w manager \<Rightarrow> 'w assignment_validator" where
  "validateCreate m policyId assignment =
     inspect (GetPolicyAssignment m
         \<lparr>gar_Id = policyAssignmentId policyId (pa_PolicyGroup assignment)\<rparr>) (\<lambda>existing.
     case existing of
       Inr _ \<Rightarrow> fail (createErrorWithCode ''assignment already exists'' None AlreadyExists)
     | Inl err \<Rightarrow> if status_code err \<noteq> NotFound then fail err else ret assignment)"

definition validateUpdate :: "'w manager \<Rightarrow> 'w assignment_validator" where
  "validateUpdate m policyId assignment =
     attempt (GetPolicyAssignment m \<lparr>gar_Id = pa_Id assignment\<rparr>) id (\<lambda>currentAssignment.
     if pa_PolicyGroup currentAssignment \<noteq> pa_PolicyGroup assignment then
       fail (createErrorWithCode ''Updating policy group is forbidden'' None InvalidArgument)
     else
       (let currentPolicyId = (case parsePolicyVersionId (pa_PolicyVersionId currentAssignment) of
              Inl _ \<Rightarrow> '''' | Inr (i, _) \<Rightarrow> i) in
        if currentPolicyId \<noteq> policyId then
          fail (createErrorWithCode ''Updates may only change policy version, not policy'' None
            InvalidArgument)
        else ret (assignment\<lparr>pa_Created := pa_Created currentAssignment\<rparr>)))"

text \<open>The loop over the three fetched documents and the messages for a missing one.\<close>

fun check_found :: "get_response list \<Rightarrow> nat \<Rightarrow> string list \<Rightarrow> ('w, unit) io" where
  "check_found docs i [] = ret ()"
| "check_found docs i (message # messages) =
     attempt (index_at docs i) id (\<lambda>doc.
     if \<not> grs_Found doc then fail (createErrorWithCode message None FailedPrecondition)
     else check_found docs (Suc i) messages)"

text \<open>The second half of \<open>validateAssignment\<close>: the policy, its version and the group exist
  and neither the policy nor the group is deleted.\<close>

definition checkAssignmentTargets ::
  "'w manager \<Rightarrow> string \<Rightarrow> policy_assignment \<Rightarrow> ('w, unit) io" where
  "checkAssignmentTargets m policyId assignment =
     attempt (es_multi_get m
       \<lparr>mg_Index = '''', mg_DocumentIds = [],
        mg_Items =
          [\<lparr>mgi_Id = policyId, mgi_Index = alias_of m PoliciesDocumentKind, mgi_Routing = ''''\<rparr>,
           \<lparr>mgi_Id = pa_PolicyVersionId assignment, mgi_Index = alias_of m PoliciesDocumentKind,
            mgi_Routing = policyId\<rparr>,
           \<lparr>mgi_Id = pa_PolicyGroup assignment, mgi_Index = alias_of m PolicyGroupsDocumentKind,
            mgi_Routing = ''''\<rparr>]\<rparr>)
       (\<lambda>err. createError ''error retrieving policy version and group'' (Some err)) (\<lambda>response.
     attempt (check_found (mgr_Docs response) 0
       [''policy with id '' @ policyId @ '' not found'',
        ''policy version with id '' @ pa_PolicyVersionId assignment @ '' not found'',
        ''policy group named '' @ pa_PolicyGroup assignment @ '' not found'']) id (\<lambda>_.
     attempt (index_at (mgr_Docs response) 0) id (\<lambda>doc0.
     attempt (lift (cd_Policy (codec m) True (grs_Source doc0)))
       (\<lambda>err. createError ''error parsing policy'' (Some err)) (\<lambda>pol.
     if p_Deleted pol then
       fail (createErrorWithCode ''cannot create assignment for a policy that has been deleted'' None
         FailedPrecondition)
     else
       attempt (index_at (mgr_Docs response) 2) id (\<lambda>doc2.
       attempt (lift (cd_PolicyGroup (codec m) False (grs_Source doc2)))
         (\<lambda>err. createError ''error parsing policy group'' (Some err)) (\<lambda>grp.
       if pg_Deleted grp then
         fail (createErrorWithCode ''cannot assign a policy to a deleted policy group'' None
           FailedPrecondition)
       else ret ()))))))"

definition validateAssignment ::
  "'w manager \<Rightarrow> policy_assignment \<Rightarrow> 'w assignment_validator \<Rightarrow> ('w, policy_assignment) io" where
  "validateAssignment m assignment validate =
     (if pa_PolicyGroup assignment = '''' \<or> pa_PolicyVersionId assignment = '''' then
        fail (createErrorWithCode ''Must specify policy group and a policy version'' None
          InvalidArgument)
      else
        attempt (lift (parsePolicyVersionId (pa_PolicyVersionId assignment)))
          (\<lambda>err. createError ''error parsing policy version id'' (Some err)) (\<lambda>(policyId, version).
        if version = 0 then
          fail (createErrorWithCode ''Assignments must use policy version ids'' None InvalidArgument)
        else
          attempt (validate policyId assignment) id (\<lambda>assignment1.
          attempt (checkAssignmentTargets m policyId assignment1) id (\<lambda>_.
          ret assignment1))))"

section \<open>Writing\<close>

definition CreatePolicyAssignment ::
  "'w manager \<Rightarrow> policy_assignment \<Rightarrow> ('w, policy_assignment) io" where
  "CreatePolicyAssignment m assignment =
     attempt (validateAssignment m assignment (validateCreate m)) id (\<lambda>assignment1.
     let policyId = (case parsePolicyVersionId (pa_PolicyVersionId assignment1) of
              Inl _ \<Rightarrow> '''' | Inr (i, _) \<Rightarrow> i);
         assignmentId = policyAssignmentId policyId (pa_PolicyGroup assignment1) in
     attempt (now m) id (\<lambda>currentTime.
     let assignment2 = assignment1\<lparr>pa_Created := Some currentTime, pa_Updated := Some currentTime,
                                   pa_Id := assignmentId\<rparr> in
     attempt (es_create m
       \<lparr>cr_Index = policyAssignmentsAlias m, cr_Refresh = refresh_of m,
        cr_Message = MsgPolicyAssignment assignment2, cr_DocumentId = assignmentId\<rparr>)
       (\<lambda>err. createError ''error creating policy assignment'' (Some err)) (\<lambda>_.
     ret assignment2)))"

definition UpdatePolicyAssignment ::
  "'w manager \<Rightarrow> policy_assignment \<Rightarrow> ('w, policy_assignment) io" where
  "UpdatePolicyAssignment m assignment =
     (let assignmentId = pa_Id assignment in
      attempt (validateAssignment m assignment (validateUpdate m)) id (\<lambda>assignment1.
      attempt (now m) id (\<lambda>currentTime.
      let assignment2 = assignment1\<lparr>pa_Updated := Some currentTime\<rparr> in
      attempt (es_update m
        \<lparr>ur_Index = policyAssignmentsAlias m, ur_DocumentId = assignmentId, ur_Refresh = refresh_of m,
         ur_Message = MsgPolicyAssignment assignment2, ur_Routing = ''''\<rparr>)
        (\<lambda>err. createError ''error updating policy assignment in Elasticsearch'' (Some err)) (\<lambda>_.
      ret assignment2))))"

definition DeletePolicyAssignment ::
  "'w manager \<Rightarrow> delete_policy_assignment_request \<Rightarrow> ('w, unit) io" where
  "DeletePolicyAssignment m request =
     attempt (GetPolicyAssignment m \<lparr>gar_Id = dar_Id request\<rparr>) id (\<lambda>_.
     attempt (es_delete m
       \<lparr>dr_Index = policyAssignmentsAlias m,
        dr_Search = \<lparr>s_Query = QTerm ''_id'' (dar_Id request), s_SortCreatedDesc = False,
                     s_Routing = ''''\<rparr>,
        dr_Refresh = refresh_of m\<rparr>)
       (\<lambda>err. createError ''error deleting assignment'' (Some err)) (\<lambda>_.
     ret ()))"

definition assignment_queries :: "list_policy_assignments_request \<Rightarrow> es_query list" where
  "assignment_queries request =
     (if lar_PolicyGroup request \<noteq> '''' then [QTerm ''policyGroup'' (lar_PolicyGroup request)] else [])
     @ (if lar_PolicyId request \<noteq> ''''
        then [QPrefix ''policyVersionId'' (lar_PolicyId request @ ''.'')] else [])"

definition ListPolicyAssignments ::
  "'w manager \<Rightarrow> list_policy_assignments_request \<Rightarrow> ('w, list_policy_assignments_response) io" where
  "ListPolicyAssignments m request =
     attempt (lift (append_filter m (assignment_queries request) (lar_Filter request)))
       (\<lambda>err. createError ''error creating filter query'' (Some err)) (\<lambda>queries.
     attempt (es_search m
       \<lparr>sr_Index = policyAssignmentsAlias m,
        sr_Search = \<lparr>s_Query = QMust queries, s_SortCreatedDesc = True, s_Routing = ''''\<rparr>,
        sr_Pagination = page_options (lar_PageSize request) (lar_PageToken request)\<rparr>)
       (\<lambda>err. createError ''error searching for policy assignments'' (Some err)) (\<lambda>searchResponse.
     attempt (lift (decode_all (\<lambda>hit. cd_PolicyAssignment (codec m) False (hit_Source hit))
         (srs_Hits searchResponse)))
       (\<lambda>err. createError ''error unmarshalling assignment'' (Some err)) (\<lambda>assignments.
     ret \<lparr>las_PolicyAssignments = assignments,
          las_NextPageToken = srs_NextPageToken searchResponse\<rparr>)))"

section \<open>Which calls the operations make\<close>

lemma reads_only_GetPolicyAssignment: "reads_only (GetPolicyAssignment m request)"
  unfolding GetPolicyAssignment_def by (intro io_emits) simp

lemma reads_only_validateCreate: "reads_only (validateCreate m i a)"
  unfolding validateCreate_def by (intro io_emits reads_only_GetPolicyAssignment)

lemma reads_only_validateUpdate: "reads_only (validateUpdate m i a)"
  unfolding validateUpdate_def by (intro io_emits reads_only_GetPolicyAssignment)

lemma emits_check_found [io_emits]: "emits P (check_found docs i messages)"
  by (induction messages arbitrary: i) (auto intro!: io_emits)

lemma reads_only_checkAssignmentTargets: "reads_only (checkAssignmentTargets m i a)"
  unfolding checkAssignmentTargets_def by (intro io_emits) simp

lemma reads_only_validateAssignment:
  "(\<And>i b. reads_only (validate i b)) \<Longrightarrow> reads_only (validateAssignment m a validate)"
  unfolding validateAssignment_def by (intro io_emits reads_only_checkAssignmentTargets)

lemma reads_only_ListPolicyAssignments: "reads_only (ListPolicyAssignments m request)"
  unfolding ListPolicyAssignments_def by (intro io_emits) simp

section \<open>What the operations do\<close>

lemma GetPolicyAssignment_Ok:
  "GetPolicyAssignment m request s = (Ok a, s') \<longleftrightarrow>
     gar_Id request \<noteq> '''' \<and> (\<exists>resp x.
        esc_Get (esClient m) \<lparr>gt_Index = policyAssignmentsAlias m, gt_DocumentId = gar_Id request,
                              gt_Routing = ''''\<rparr> (ext s) = (Inr resp, x) \<and>
        s' = s\<lparr>ext := x, trace := trace s @ [EsGet \<lparr>gt_Index = policyAssignmentsAlias m,
                gt_DocumentId = gar_Id request, gt_Routing = ''''\<rparr>]\<rparr> \<and>
        grs_Found resp \<and> cd_PolicyAssignment (codec m) False (grs_Source resp) = Inr a)"
  unfolding GetPolicyAssignment_def by (auto simp: group_runs split: if_splits)

lemma all_less_Suc_shift: "(\<forall>j < Suc n. P j) \<longleftrightarrow> P 0 \<and> (\<forall>j < n. P (Suc j))"
  by (auto simp: less_Suc_eq_0_disj)

lemma check_found_Ok:
  "check_found docs i messages s = (Ok (), s') \<longleftrightarrow>
     s' = s \<and> (\<forall>j < length messages. i + j < length docs \<and> grs_Found (docs ! (i + j)))"
proof (induction messages arbitrary: i)
  case Nil
  then show ?case by auto
next
  case (Cons a messages)
  have "check_found docs i (a # messages) s = (Ok (), s') \<longleftrightarrow>
      i < length docs \<and> grs_Found (docs ! i) \<and> check_found docs (Suc i) messages s = (Ok (), s')"
    by (auto simp: attempt_Ok)
  then show ?case
    unfolding Cons.IH length_Cons all_less_Suc_shift by auto
qed

definition target_request :: "'w manager \<Rightarrow> string \<Rightarrow> policy_assignment \<Rightarrow> multi_get_request" where
  "target_request m policyId assignment =
     \<lparr>mg_Index = '''', mg_DocumentIds = [],
      mg_Items =
        [\<lparr>mgi_Id = policyId, mgi_Index = alias_of m PoliciesDocumentKind, mgi_Routing = ''''\<rparr>,
         \<lparr>mgi_Id = pa_PolicyVersionId assignment, mgi_Index = alias_of m PoliciesDocumentKind,
          mgi_Routing = policyId\<rparr>,
         \<lparr>mgi_Id = pa_PolicyGroup assignment, mgi_Index = alias_of m PolicyGroupsDocumentKind,
          mgi_Routing = ''''\<rparr>]\<rparr>"

lemma checkAssignmentTargets_Ok:
  assumes "checkAssignmentTargets m pid a s = (Ok u, s')"
  shows "\<exists>docs pol grp x.
    esc_MultiGet (esClient m) (target_request m pid a) (ext s) = (Inr \<lparr>mgr_Docs = docs\<rparr>, x) \<and>
    s' = s\<lparr>ext := x, trace := trace s @ [EsMultiGet (target_request m pid a)]\<rparr> \<and>
    3 \<le> length docs \<and> (\<forall>j < 3. grs_Found (docs ! j)) \<and>
    cd_Policy (codec m) True (grs_Source (docs ! 0)) = Inr pol \<and> \<not> p_Deleted pol \<and>
    cd_PolicyGroup (codec m) False (grs_Source (docs ! 2)) = Inr grp \<and> \<not> pg_Deleted grp"
proof -
  from assms obtain resp s1 v s2 where
    mg: "es_multi_get m (target_request m pid a) s = (Ok resp, s1)"
    and found: "check_found (mgr_Docs resp) 0
       [''policy with id '' @ pid @ '' not found'',
        ''policy version with id '' @ pa_PolicyVersionId a @ '' not found'',
        ''policy group named '' @ pa_PolicyGroup a @ '' not found''] s1 = (Ok v, s2)"
    and rest: "\<exists>pol grp. cd_Policy (codec m) True (grs_Source (mgr_Docs resp ! 0)) = Inr pol \<and>
       \<not> p_Deleted pol \<and>
       cd_PolicyGroup (codec m) False (grs_Source (mgr_Docs resp ! 2)) = Inr grp \<and>
       \<not> pg_Deleted grp \<and> s' = s2"
    unfolding checkAssignmentTargets_def target_request_def [symmetric] attempt_Ok
    by (auto simp: attempt_Ok simp del: check_found.simps split: if_splits)
  have v: "v = ()" by simp
  from found have all: "s2 = s1" "\<forall>j < 3. j < length (mgr_Docs resp) \<and> grs_Found (mgr_Docs resp ! j)"
    unfolding v check_found_Ok by simp_all
  then have "2 < length (mgr_Docs resp)" by auto
  then have "3 \<le> length (mgr_Docs resp)" by simp
  with all rest mg show ?thesis
    by (auto simp: external_Ok intro!: exI [of _ "mgr_Docs resp"])
qed


section \<open>The contract of a validator\<close>

text \<open>
  What \<open>validateAssignment\<close> relies on of the function it is given: it reads only, and the
  assignment it returns still names the same policy version, group and id.
\<close>

locale assignment_check =
  fixes m :: "'w manager" and validate :: "'w assignment_validator"
  assumes check_reads: "reads_only (validate i a)"
    and check_keeps: "validate i a s = (Ok b, s') \<Longrightarrow>
      pa_PolicyVersionId b = pa_PolicyVersionId a \<and> pa_PolicyGroup b = pa_PolicyGroup a \<and> pa_Id b = pa_Id a"
begin

lemma validate_reads: "reads_only (validateAssignment m a validate)"
  by (rule reads_only_validateAssignment, rule check_reads)

lemma validate_Ok:
  assumes "validateAssignment m a validate s = (Ok b, s')"
  shows "\<exists>pid v s1. pa_PolicyGroup a \<noteq> '''' \<and> pa_PolicyVersionId a \<noteq> '''' \<and>
    parsePolicyVersionId (pa_PolicyVersionId a) = Inr (pid, v) \<and> v \<noteq> 0 \<and>
    validate pid a s = (Ok b, s1) \<and> checkAssignmentTargets m pid b s1 = (Ok (), s') \<and>
    pa_PolicyVersionId b = pa_PolicyVersionId a \<and> pa_PolicyGroup b = pa_PolicyGroup a \<and> pa_Id b = pa_Id a"
proof -
  from assms obtain pid v s1 u where "pa_PolicyGroup a \<noteq> ''''" "pa_PolicyVersionId a \<noteq> ''''"
    "parsePolicyVersionId (pa_PolicyVersionId a) = Inr (pid, v)" "v \<noteq> 0"
    "validate pid a s = (Ok b, s1)" "checkAssignmentTargets m pid b s1 = (Ok u, s')"
    unfolding validateAssignment_def by (auto simp: attempt_Ok split: if_splits)
  with check_keeps show ?thesis by (cases u) blast
qed

end

lemma validateCreate_Ok:
  "validateCreate m i a s = (Ok b, s') \<longleftrightarrow> b = a \<and>
     (\<exists>e. GetPolicyAssignment m \<lparr>gar_Id = policyAssignmentId i (pa_PolicyGroup a)\<rparr> s = (Err e, s') \<and>
          status_code e = NotFound)"
  unfolding validateCreate_def by (auto simp: inspect_Ok split: if_splits)

lemma validateUpdate_Ok:
  "validateUpdate m i a s = (Ok b, s') \<longleftrightarrow>
     (\<exists>cur. GetPolicyAssignment m \<lparr>gar_Id = pa_Id a\<rparr> s = (Ok cur, s') \<and>
        pa_PolicyGroup cur = pa_PolicyGroup a \<and>
        (case parsePolicyVersionId (pa_PolicyVersionId cur) of Inl _ \<Rightarrow> '''' | Inr (j, _) \<Rightarrow> j) = i \<and>
        b = a\<lparr>pa_Created := pa_Created cur\<rparr>)"
  unfolding validateUpdate_def by (auto simp: attempt_Ok Let_def split: if_splits)

interpretation create_check: assignment_check m "validateCreate m" for m
  by unfold_locales (auto simp: validateCreate_Ok reads_only_validateCreate)

interpretation update_check: assignment_check m "validateUpdate m" for m
  by unfold_locales (auto simp: validateUpdate_Ok reads_only_validateUpdate)

text \<open>An assignment is created only for an explicit policy version and a group, when no
  assignment of that policy to that group exists and, at the time of the check, the policy,
  the version and the group all exist and neither policy nor group is deleted. One document
  is created, under the id made of the policy and the group.\<close>

lemma CreatePolicyAssignment_Ok:
  assumes "CreatePolicyAssignment m a s = (Ok b, s')"
  shows "\<exists>pid v e s1 s2 t. parsePolicyVersionId (pa_PolicyVersionId a) = Inr (pid, v) \<and> v \<noteq> 0 \<and>
    GetPolicyAssignment m \<lparr>gar_Id = policyAssignmentId pid (pa_PolicyGroup a)\<rparr> s = (Err e, s1) \<and>
    status_code e = NotFound \<and>
    checkAssignmentTargets m pid a s1 = (Ok (), s2) \<and>
    b = a\<lparr>pa_Created := Some t, pa_Updated := Some t,
          pa_Id := policyAssignmentId pid (pa_PolicyGroup a)\<rparr> \<and>
    trace s' = trace s2 @ [EsCreate \<lparr>cr_Index = policyAssignmentsAlias m, cr_Refresh = refresh_of m,
      cr_Message = MsgPolicyAssignment b, cr_DocumentId = policyAssignmentId pid (pa_PolicyGroup a)\<rparr>]"
proof -
  from assms obtain a1 s2 where val: "validateAssignment m a (validateCreate m) s = (Ok a1, s2)"
    unfolding CreatePolicyAssignment_def by (auto simp: attempt_Ok)
  from create_check.validate_Ok [OF this] obtain pid v s1 where
    v: "parsePolicyVersionId (pa_PolicyVersionId a) = Inr (pid, v)" "v \<noteq> 0"
      "validateCreate m pid a s = (Ok a1, s1)" "checkAssignmentTargets m pid a1 s1 = (Ok (), s2)"
    by blast
  from v(3) have "a1 = a" by (simp add: validateCreate_Ok)
  with assms val v show ?thesis
    unfolding CreatePolicyAssignment_def
    by (auto simp: attempt_Ok draw_Ok external_Ok Let_def validateCreate_Ok)
qed

text \<open>Updating an assignment can only move it to another version of the same policy
  in the same group: the stored assignment has the request's group and its policy, the
  targets exist and are not deleted, and the creation time is kept.\<close>

lemma UpdatePolicyAssignment_Ok:
  assumes "UpdatePolicyAssignment m a s = (Ok b, s')"
  shows "\<exists>pid v cur s1 s2 t req. parsePolicyVersionId (pa_PolicyVersionId a) = Inr (pid, v) \<and> v \<noteq> 0 \<and>
    GetPolicyAssignment m \<lparr>gar_Id = pa_Id a\<rparr> s = (Ok cur, s1) \<and>
    pa_PolicyGroup cur = pa_PolicyGroup a \<and>
    (case parsePolicyVersionId (pa_PolicyVersionId cur) of Inl _ \<Rightarrow> '''' | Inr (j, _) \<Rightarrow> j) = pid \<and>
    checkAssignmentTargets m pid (a\<lparr>pa_Created := pa_Created cur\<rparr>) s1 = (Ok (), s2) \<and>
    b = a\<lparr>pa_Created := pa_Created cur, pa_Updated := Some t\<rparr> \<and>
    trace s' = trace s2 @ [EsUpdate req] \<and> ur_Index req = policyAssignmentsAlias m \<and>
    ur_DocumentId req = pa_Id a \<and> ur_Message req = MsgPolicyAssignment b"
proof -
  from assms obtain a1 s2 where val: "validateAssignment m a (validateUpdate m) s = (Ok a1, s2)"
    unfolding UpdatePolicyAssignment_def by (auto simp: attempt_Ok Let_def)
  from update_check.validate_Ok [OF this] obtain pid v s1 where
    v: "parsePolicyVersionId (pa_PolicyVersionId a) = Inr (pid, v)" "v \<noteq> 0"
      "validateUpdate m pid a s = (Ok a1, s1)" "checkAssignmentTargets m pid a1 s1 = (Ok (), s2)"
    by blast
  from v(3) obtain cur where cur: "GetPolicyAssignment m \<lparr>gar_Id = pa_Id a\<rparr> s = (Ok cur, s1)"
    "pa_PolicyGroup cur = pa_PolicyGroup a"
    "(case parsePolicyVersionId (pa_PolicyVersionId cur) of Inl _ \<Rightarrow> '''' | Inr (j, _) \<Rightarrow> j) = pid"
    "a1 = a\<lparr>pa_Created := pa_Created cur\<rparr>"
    by (auto simp: validateUpdate_Ok)
  from assms val obtain t req where "b = a1\<lparr>pa_Updated := Some t\<rparr>" "trace s' = trace s2 @ [EsUpdate req]"
    "ur_Index req = policyAssignmentsAlias m" "ur_DocumentId req = pa_Id a"
    "ur_Message req = MsgPolicyAssignment b"
    unfolding UpdatePolicyAssignment_def by (auto simp: attempt_Ok draw_Ok external_Ok Let_def)
  with v cur show ?thesis
    by (intro exI [of _ pid] exI [of _ v] exI [of _ cur] exI [of _ s1] exI [of _ s2] exI [of _ t]
        exI [of _ req]) (simp only: simp_thms)
qed

lemma DeletePolicyAssignment_Ok:
  assumes "DeletePolicyAssignment m request s = (Ok u, s')"
  shows "\<exists>cur s1 req. GetPolicyAssignment m \<lparr>gar_Id = dar_Id request\<rparr> s = (Ok cur, s1) \<and>
    trace s' = trace s1 @ [EsDelete req] \<and> dr_Index req = policyAssignmentsAlias m \<and>
    s_Query (dr_Search req) = QTerm ''_id'' (dar_Id request)"
  using assms unfolding DeletePolicyAssignment_def
  by (auto simp: attempt_Ok external_Ok)

end
