(* ===== verification/Go_Regexp.thy ===== *)
theory Go_Regexp
  imports Go_Strings
begin

text \<open>
  The part of Go's \<open>regexp\<close> package the sources need: patterns that are a sequence of
  literal texts, \<open>.*\<close> and named groups \<open>(?P<x>.+)\<close>, with or without a leading \<open>^\<close> and
  never with a trailing \<open>$\<close>. A match is the one a backtracking engine finds first: the
  leftmost start, each \<open>.*\<close> and \<open>.+\<close> as long as possible; the dot matches every
  character but a newline.
\<close>

section \<open>Matching\<close>

datatype regex_item = Lit string | AnyStar | Group string

record regexp =
  rx_Anchored :: bool
  rx_Items :: "regex_item list"

definition newline :: char where
  "newline = CHR 0x0A"

definition dot_run :: "string \<Rightarrow> nat" where
  "dot_run s = length (takeWhile (\<lambda>c. c \<noteq> newline) s)"

text \<open>The first success among \<open>f n\<close>, \<open>f (n - 1)\<close>, down to \<open>f a\<close>.\<close>

definition longest_first :: "nat \<Rightarrow> nat \<Rightarrow> (nat \<Rightarrow> 'a option) \<Rightarrow> 'a option" where
  "longest_first a n f = first_some (map f (rev [a..<Suc n]))"

fun match_items :: "regex_item list \<Rightarrow> string \<Rightarrow> (string \<times> string) list option" where
  "match_items [] s = Some []"
| "match_items (Lit l # items) s =
     (if has_prefix s l then match_items items (drop (length l) s) else None)"
| "match_items (AnyStar # items) s =
     longest_first 0 (dot_run s) (\<lambda>k. match_items items (drop k s))"
| "match_items (Group n # items) s =
     longest_first 1 (dot_run s)
       (\<lambda>k. map_option ((#) (n, take k s)) (match_items items (drop k s)))"

text \<open>\<open>FindStringSubmatch\<close>, as the texts of the named groups.\<close>

definition find_submatch :: "regexp \<Rightarrow> string \<Rightarrow> (string \<times> string) list option" where
  "find_submatch rx s =
     (if rx_Anchored rx then match_items (rx_Items rx) s
      else first_some (map (\<lambda>k. match_items (rx_Items rx) (drop k s)) [0..<Suc (length s)]))"

definition match_string :: "regexp \<Rightarrow> string \<Rightarrow> bool" where
  "match_string rx s \<longleftrightarrow> find_submatch rx s \<noteq> None"

definition submatch :: "(string \<times> string) list \<Rightarrow> string \<Rightarrow> string" where
  "submatch caps n = (case map_of caps n of Some x \<Rightarrow> x | None \<Rightarrow> '''')"

section \<open>The first success of a descending search\<close>

lemma longest_first_Some:
  "longest_first a n f = Some y \<Longrightarrow>
     \<exists>k. a \<le> k \<and> k \<le> n \<and> f k = Some y \<and> (\<forall>j. k < j \<and> j \<le> n \<longrightarrow> f j = None)"
  unfolding longest_first_def
proof (induction n)
  case 0
  then show ?case by (cases a) (auto split: option.splits)
next
  case (Suc n)
  show ?case
  proof (cases "f (Suc n)")
    case (Some z)
    with Suc.prems show ?thesis by (auto split: if_splits)
  next
    case None
    with Suc.prems have "first_some (map f (rev [a..<Suc n])) = Some y"
      by (simp split: if_splits)
    from Suc.IH [OF this] None show ?thesis
      by (metis le_SucE le_SucI)
  qed
qed

lemma longest_first_at:
  assumes "a \<le> k" "k \<le> n" "f k = Some y" "\<And>j. k < j \<Longrightarrow> j \<le> n \<Longrightarrow> f j = None"
  shows "longest_first a n f = Some y"
proof -
  have "[a..<Suc n] = [a..<k] @ [k..<Suc n]"
    using assms(1,2) upt_add_eq_append [of a k "Suc n - k"] by simp
  also have "[k..<Suc n] = k # [Suc k..<Suc n]"
    using assms(2) by (intro upt_conv_Cons) simp
  finally have "map f (rev [a..<Suc n]) =
      map f (rev [Suc k..<Suc n]) @ f k # map f (rev [a..<k])" by (simp del: upt_Suc)
  moreover have "set (map f (rev [Suc k..<Suc n])) \<subseteq> {None}"
    using assms(4) by auto
  ultimately show ?thesis
    unfolding longest_first_def by (simp add: first_some_skip assms(3) del: upt_Suc)
qed

lemma longest_first_None:
  "longest_first a n f = None \<longleftrightarrow> (\<forall>k. a \<le> k \<and> k \<le> n \<longrightarrow> f k = None)"
  unfolding longest_first_def first_some_None
  by (auto simp del: upt_Suc simp: image_subset_iff less_Suc_eq_le)

section \<open>Matches of the shapes that occur\<close>

lemma dot_run_le: "dot_run s \<le> length s"
  by (simp add: dot_run_def length_takeWhile_le)

lemma dot_run_all [simp]: "newline \<notin> set s \<Longrightarrow> dot_run s = length s"
  unfolding dot_run_def by (subst takeWhile_eq_all_conv [THEN iffD2]) auto

lemma take_dot_run:
  assumes "k \<le> dot_run s"
  shows "newline \<notin> set (take k s)"
proof -
  have "takeWhile (\<lambda>c. c \<noteq> newline) s = take (dot_run s) s"
    unfolding dot_run_def by (rule takeWhile_eq_take)
  with assms have "take k s = take k (takeWhile (\<lambda>c. c \<noteq> newline) s)"
    by (simp add: min_absorb1)
  then show ?thesis
    by (auto dest!: in_set_takeD dest: set_takeWhileD)
qed

lemma match_last_group:
  "match_items [Group v] s = Some caps \<Longrightarrow>
     \<exists>x rest. s = x @ rest \<and> x \<noteq> [] \<and> newline \<notin> set x \<and> caps = [(v, x)]"
proof -
  assume "match_items [Group v] s = Some caps"
  then obtain k where k: "1 \<le> k" "k \<le> dot_run s" "caps = [(v, take k s)]"
    by (auto dest!: longest_first_Some)
  with take_dot_run [OF k(2)] dot_run_le [of s] show ?thesis
    by (intro exI [of _ "take k s"] exI [of _ "drop k s"]) auto
qed

lemma match_group_sep_group:
  assumes "match_items [Group n, Lit sep, Group v] s = Some caps"
  shows "\<exists>x y rest. s = x @ sep @ y @ rest \<and> x \<noteq> [] \<and> y \<noteq> [] \<and>
    newline \<notin> set x \<and> newline \<notin> set y \<and> caps = [(n, x), (v, y)]"
proof -
  from assms obtain k caps' where k: "1 \<le> k" "k \<le> dot_run s"
    "has_prefix (drop k s) sep"
    "match_items [Group v] (drop (length sep) (drop k s)) = Some caps'"
    "caps = (n, take k s) # caps'"
    unfolding match_items.simps(4) [of n]
    by (auto simp del: match_items.simps(4) dest!: longest_first_Some split: if_splits)
  from match_last_group [OF k(4)] obtain y rest where
    y: "drop (length sep) (drop k s) = y @ rest" "y \<noteq> []" "newline \<notin> set y" "caps' = [(v, y)]"
    by blast
  from k(3) have "drop k s = sep @ drop (length sep) (drop k s)"
    unfolding has_prefix_def by (metis append_take_drop_id)
  then have "s = take k s @ sep @ y @ rest"
    unfolding y(1) by (metis append_take_drop_id)
  with k y take_dot_run [OF k(2)] dot_run_le [of s] show ?thesis
    by (intro exI [of _ "take k s"] exI [of _ y] exI [of _ rest]) auto
qed

lemma match_last_group_all:
  assumes "s \<noteq> []" "newline \<notin> set s"
  shows "match_items [Group v] s = Some [(v, s)]"
proof -
  have "longest_first 1 (length s) (\<lambda>k. Some [(v, take k s)]) = Some [(v, s)]"
    by (rule longest_first_at [of 1 "length s"]) (use assms in \<open>auto simp: Suc_le_eq\<close>)
  with assms show ?thesis by simp
qed

text \<open>
  A one-character separator that does not occur in the second part: the first group
  takes everything before the last separator.
\<close>

lemma match_group_char_group:
  assumes "x \<noteq> []" "y \<noteq> []" "newline \<notin> set x" "newline \<notin> set y" "c \<noteq> newline" "c \<notin> set y"
  shows "match_items [Group n, Lit [c], Group v] (x @ c # y) = Some [(n, x), (v, y)]"
proof -
  let ?s = "x @ c # y"
  have run: "dot_run ?s = length ?s" using assms by simp
  have none: "match_items [Lit [c], Group v] (drop j ?s) = None" if j: "length x < j" for j
  proof -
    from j obtain d where "j = Suc (length x + d)" by (metis less_iff_Suc_add)
    then have "drop j ?s = drop d y" by simp
    moreover have "\<not> has_prefix (drop d y) [c]"
      using assms(6) set_drop_subset [of d y] by (cases "drop d y") (auto simp: has_prefix_def)
    ultimately show ?thesis by simp
  qed
  have at: "match_items [Lit [c], Group v] (drop (length x) ?s) = Some [(v, y)]"
    using match_last_group_all [OF assms(2,4), of v] by (simp add: has_prefix_def)
  have "longest_first 1 (length ?s)
      (\<lambda>k. map_option ((#) (n, take k ?s)) (match_items [Lit [c], Group v] (drop k ?s)))
    = Some [(n, x), (v, y)]"
    using assms(1) by (intro longest_first_at [of 1 "length x"]) (simp_all only: at none, auto simp: Suc_le_eq)
  with run show ?thesis by (simp only: match_items.simps(4))
qed


section \<open>What matches\<close>

text \<open>
  Whether a pattern matches, without the order in which the engine tries the possibilities: a
  text splits into parts, one for each item.
\<close>

definition dot_text :: "string \<Rightarrow> bool" where
  "dot_text x \<longleftrightarrow> x \<noteq> [] \<and> newline \<notin> set x"

lemma dot_run_iff: "k \<le> dot_run s \<longleftrightarrow> (\<exists>x r. s = x @ r \<and> length x = k \<and> newline \<notin> set x)"
proof
  assume k: "k \<le> dot_run s"
  with take_dot_run [OF k] dot_run_le [of s] show "\<exists>x r. s = x @ r \<and> length x = k \<and> newline \<notin> set x"
    by (intro exI [of _ "take k s"] exI [of _ "drop k s"]) simp
next
  assume "\<exists>x r. s = x @ r \<and> length x = k \<and> newline \<notin> set x"
  then obtain x r where x: "s = x @ r" "length x = k" "newline \<notin> set x" by blast
  then have "takeWhile (\<lambda>c. c \<noteq> newline) s = x @ takeWhile (\<lambda>c. c \<noteq> newline) r"
    by (induction x arbitrary: s k) auto
  with x(2) show "k \<le> dot_run s" by (simp add: dot_run_def)
qed

lemma split_at: "(\<exists>k. P k \<and> Q (drop k s)) \<longleftrightarrow> (\<exists>x r. s = x @ r \<and> P (length x) \<and> Q r)"
  if "\<And>k. P k \<Longrightarrow> k \<le> length s"
proof
  assume "\<exists>k. P k \<and> Q (drop k s)"
  then obtain k where "P k" "Q (drop k s)" by blast
  with that [of k] show "\<exists>x r. s = x @ r \<and> P (length x) \<and> Q r"
    by (intro exI [of _ "take k s"] exI [of _ "drop k s"]) simp
qed auto

lemma matches_Lit: "match_items (Lit l # items) s \<noteq> None \<longleftrightarrow> (\<exists>r. s = l @ r \<and> match_items items r \<noteq> None)"
proof -
  have "has_prefix s l \<Longrightarrow> s = l @ drop (length l) s"
    unfolding has_prefix_def by (metis append_take_drop_id)
  moreover have "has_prefix (l @ r) l" for r by (simp add: has_prefix_def)
  ultimately show ?thesis by auto
qed

lemma dot_split: "s = x @ r \<and> length x \<le> dot_run s \<longleftrightarrow> s = x @ r \<and> newline \<notin> set x"
proof (rule conj_cong [OF refl])
  assume s: "s = x @ r"
  have "length x \<le> dot_run s \<longleftrightarrow> (\<exists>x' r'. s = x' @ r' \<and> length x' = length x \<and> newline \<notin> set x')"
    by (rule dot_run_iff)
  also have "\<dots> \<longleftrightarrow> newline \<notin> set x" using s by (auto dest: append_eq_append_conv [THEN iffD1, rotated])
  finally show "length x \<le> dot_run s \<longleftrightarrow> newline \<notin> set x" .
qed

lemma matches_AnyStar: "match_items (AnyStar # items) s \<noteq> None \<longleftrightarrow>
    (\<exists>x r. s = x @ r \<and> newline \<notin> set x \<and> match_items items r \<noteq> None)"
proof -
  have "match_items (AnyStar # items) s \<noteq> None \<longleftrightarrow> (\<exists>k. k \<le> dot_run s \<and> match_items items (drop k s) \<noteq> None)"
    by (simp add: longest_first_None del: not_None_eq)
  also have "\<dots> \<longleftrightarrow> (\<exists>x r. s = x @ r \<and> length x \<le> dot_run s \<and> match_items items r \<noteq> None)"
    by (rule split_at) (meson dot_run_le le_trans)
  also have "\<dots> \<longleftrightarrow> (\<exists>x r. s = x @ r \<and> newline \<notin> set x \<and> match_items items r \<noteq> None)"
    using dot_split by (metis (no_types))
  finally show ?thesis .
qed

lemma matches_Group: "match_items (Group n # items) s \<noteq> None \<longleftrightarrow>
    (\<exists>x r. s = x @ r \<and> dot_text x \<and> match_items items r \<noteq> None)"
proof -
  have "match_items (Group n # items) s \<noteq> None \<longleftrightarrow>
      (\<exists>k. (1 \<le> k \<and> k \<le> dot_run s) \<and> match_items items (drop k s) \<noteq> None)"
    by (simp add: longest_first_None del: not_None_eq)
  also have "\<dots> \<longleftrightarrow> (\<exists>x r. s = x @ r \<and> (1 \<le> length x \<and> length x \<le> dot_run s) \<and> match_items items r \<noteq> None)"
    by (rule split_at) (meson dot_run_le le_trans)
  also have "\<dots> \<longleftrightarrow> (\<exists>x r. s = x @ r \<and> dot_text x \<and> match_items items r \<noteq> None)"
    using dot_split unfolding dot_text_def by (metis One_nat_def Suc_le_eq length_greater_0_conv)
  finally show ?thesis .
qed

lemma matches_Nil: "match_items [] s \<noteq> None"
  by simp

lemmas matches_items = matches_Lit matches_AnyStar matches_Group matches_Nil

lemma match_string_iff: "match_string rx s \<longleftrightarrow>
    (if rx_Anchored rx then match_items (rx_Items rx) s \<noteq> None
     else \<exists>x r. s = x @ r \<and> match_items (rx_Items rx) r \<noteq> None)"
proof -
  have "(\<exists>k. k \<le> length s \<and> match_items (rx_Items rx) (drop k s) \<noteq> None) \<longleftrightarrow>
      (\<exists>x r. s = x @ r \<and> length x \<le> length s \<and> match_items (rx_Items rx) r \<noteq> None)"
    by (rule split_at)
  also have "\<dots> \<longleftrightarrow> (\<exists>x r. s = x @ r \<and> match_items (rx_Items rx) r \<noteq> None)"
    by (metis length_append le_add1)
  finally have split: "(\<exists>k. k \<le> length s \<and> match_items (rx_Items rx) (drop k s) \<noteq> None) \<longleftrightarrow>
      (\<exists>x r. s = x @ r \<and> match_items (rx_Items rx) r \<noteq> None)" .
  have "first_some (map (\<lambda>k. match_items (rx_Items rx) (drop k s)) [0..<Suc (length s)]) \<noteq> None \<longleftrightarrow>
      (\<exists>k. k \<le> length s \<and> match_items (rx_Items rx) (drop k s) \<noteq> None)"
    unfolding first_some_None by (auto simp: image_subset_iff less_Suc_eq_le simp del: upt_Suc)
  with split show ?thesis
    unfolding match_string_def find_submatch_def by (simp del: upt_Suc not_None_eq)
qed

text \<open>The text of a group that took part in a match is not empty.\<close>

lemma match_groups:
  "match_items items s = Some caps \<Longrightarrow>
     map fst caps = List.map_filter (\<lambda>item. case item of Group n \<Rightarrow> Some n | _ \<Rightarrow> None) items \<and>
     (\<forall>x\<in>set caps. snd x \<noteq> [])"
proof (induction items s arbitrary: caps rule: match_items.induct)
  case (4 n items s)
  then obtain k caps' where k: "1 \<le> k" "k \<le> dot_run s" "match_items items (drop k s) = Some caps'"
    "caps = (n, take k s) # caps'"
    by (auto dest!: longest_first_Some)
  with 4(1) [OF k(3)] dot_run_le [of s] show ?case by (auto simp: List.map_filter_simps)
qed (auto simp: List.map_filter_simps dest!: longest_first_Some split: if_splits)

end
