(* ===== verification/Resource_Uri.thy ===== *)
theory Resource_Uri
  imports Go_Regexp Go_Effects
begin

text \<open>
  Resource URIs, \<open>pkg/resource/uri.go\<close>: nine kinds of resource, each with a pattern that
  recognises its URIs and takes the name and the version out of them. The handlers are a
  Go map, which \<open>parseResourceUri\<close> walks in no fixed order and stops at the first
  match; the order is an argument here.
\<close>

section \<open>Handlers\<close>

record uri_handler =
  uh_prefix :: string
  uh_pattern :: regexp

record uri_components =
  uc_name :: string
  uc_version :: string
  uc_resourceType :: resource_type
  uc_prefixedName :: string

definition uriHandlers :: "(resource_type \<times> uri_handler) list" where
  "uriHandlers =
    [(DOCKER, \<lparr>uh_prefix = '''', uh_pattern = \<lparr>rx_Anchored = False,
        rx_Items = [Group ''name'', Lit ''@sha256:'', Group ''version'']\<rparr>\<rparr>),
     (GIT, \<lparr>uh_prefix = ''git://'', uh_pattern = \<lparr>rx_Anchored = True,
        rx_Items = [Lit ''git://'', Group ''name'', Lit ''@'', Group ''version'']\<rparr>\<rparr>),
     (MAVEN, \<lparr>uh_prefix = ''gav://'', uh_pattern = \<lparr>rx_Anchored = True,
        rx_Items = [Lit ''gav://'', Group ''name'', Lit '':'', Group ''version'']\<rparr>\<rparr>),
     (FILE, \<lparr>uh_prefix = ''file://'', uh_pattern = \<lparr>rx_Anchored = True,
        rx_Items = [Lit ''file://sha256:'', Group ''version'', Lit '':'', Group ''name'']\<rparr>\<rparr>),
     (NPM, \<lparr>uh_prefix = ''npm://'', uh_pattern = \<lparr>rx_Anchored = True,
        rx_Items = [Lit ''npm://'', Group ''name'', Lit '':'', Group ''version'']\<rparr>\<rparr>),
     (NUGET, \<lparr>uh_prefix = ''nuget://'', uh_pattern = \<lparr>rx_Anchored = True,
        rx_Items = [Lit ''nuget://'', Group ''name'', Lit '':'', Group ''version'']\<rparr>\<rparr>),
     (PIP, \<lparr>uh_prefix = ''pip://'', uh_pattern = \<lparr>rx_Anchored = True,
        rx_Items = [Lit ''pip://'', Group ''name'', Lit '':'', Group ''version'']\<rparr>\<rparr>),
     (DEBIAN, \<lparr>uh_prefix = ''deb://'', uh_pattern = \<lparr>rx_Anchored = True,
        rx_Items = [Lit ''deb://'', AnyStar, Lit '':'', Group ''name'', Lit '':'', Group ''version'']\<rparr>\<rparr>),
     (RPM, \<lparr>uh_prefix = ''rpm://'', uh_pattern = \<lparr>rx_Anchored = True,
        rx_Items = [Lit ''rpm://'', AnyStar, Lit '':'', Group ''name'', Lit '':'', Group ''version'']\<rparr>\<rparr>)]"

definition handler_matches :: "string \<Rightarrow> resource_type \<Rightarrow> bool" where
  "handler_matches uri t = (case map_of uriHandlers t of
       Some h \<Rightarrow> match_string (uh_pattern h) uri | None \<Rightarrow> False)"

definition parseResourceUri :: "resource_type list \<Rightarrow> string \<Rightarrow> go_error + uri_components" where
  "parseResourceUri order uri =
     (case List.find (handler_matches uri) order of
       None \<Rightarrow> Inl (ErrorNew (''unable to determine resource type for uri: '' @ uri))
     | Some t \<Rightarrow> (case map_of uriHandlers t of
           None \<Rightarrow> Inl (ErrorNew (''unable to determine resource type for uri: '' @ uri))
         | Some h \<Rightarrow> (case find_submatch (uh_pattern h) uri of
             None \<Rightarrow> Inl (ErrorNew (''unable to determine resource type for uri: '' @ uri))
           | Some caps \<Rightarrow> Inr \<lparr>uc_name = submatch caps ''name'',
                                uc_version = submatch caps ''version'',
                                uc_resourceType = t,
                                uc_prefixedName = uh_prefix h @ submatch caps ''name''\<rparr>)))"

text \<open>An order in which Go may walk the map: every key once.\<close>

definition handler_order :: "resource_type list \<Rightarrow> bool" where
  "handler_order order \<longleftrightarrow> distinct order \<and> set order = set (map fst uriHandlers)"

section \<open>Which handlers match\<close>

lemma has_prefix_append_iff: "has_prefix s p \<longleftrightarrow> (\<exists>r. s = p @ r)"
  unfolding has_prefix_def by (metis append_eq_conv_conj append_take_drop_id)

text \<open>The literal every anchored pattern begins with.\<close>

definition lead_of :: "resource_type \<Rightarrow> string" where
  "lead_of t = (case map_of uriHandlers t of
      Some h \<Rightarrow> (case rx_Items (uh_pattern h) of Lit l # _ \<Rightarrow> l | _ \<Rightarrow> '''') | None \<Rightarrow> '''')"

lemma anchored_match_lead:
  "handler_matches uri t \<Longrightarrow> t \<noteq> DOCKER \<Longrightarrow> has_prefix uri (lead_of t)"
  by (cases t) (auto simp: handler_matches_def lead_of_def uriHandlers_def match_string_def
      find_submatch_def split: if_splits)

lemma lead_of_simps [simp]:
  "lead_of DOCKER = ''''" "lead_of GIT = ''git://''" "lead_of MAVEN = ''gav://''"
  "lead_of FILE = ''file://sha256:''" "lead_of NPM = ''npm://''" "lead_of NUGET = ''nuget://''"
  "lead_of PIP = ''pip://''" "lead_of DEBIAN = ''deb://''" "lead_of RPM = ''rpm://''"
  by (simp_all add: lead_of_def uriHandlers_def)

lemma not_unspecified: "\<not> handler_matches uri RESOURCE_TYPE_UNSPECIFIED"
  by (simp add: handler_matches_def uriHandlers_def)

lemma leads_exclusive:
  "has_prefix uri (lead_of t1) \<Longrightarrow> has_prefix uri (lead_of t2) \<Longrightarrow> t1 \<noteq> DOCKER \<Longrightarrow> t2 \<noteq> DOCKER \<Longrightarrow>
     t1 \<noteq> RESOURCE_TYPE_UNSPECIFIED \<Longrightarrow> t2 \<noteq> RESOURCE_TYPE_UNSPECIFIED \<Longrightarrow> t1 = t2"
  by (cases t1; cases t2) (auto simp: has_prefix_append_iff)

lemma matching_types:
  assumes "handler_matches uri t1" "handler_matches uri t2" "t1 \<noteq> t2"
  shows "t1 = DOCKER \<or> t2 = DOCKER"
  using assms leads_exclusive [of uri t1 t2] anchored_match_lead not_unspecified by metis

lemma docker_match_sublist: "handler_matches uri DOCKER \<Longrightarrow> sublist ''@sha256:'' uri"
proof -
  assume "handler_matches uri DOCKER"
  then obtain caps where "first_some (map (\<lambda>k. match_items
      [Group ''name'', Lit ''@sha256:'', Group ''version''] (drop k uri)) [0..<Suc (length uri)]) = Some caps"
    by (auto simp: handler_matches_def uriHandlers_def match_string_def find_submatch_def
        simp del: upt_Suc match_items.simps)
  from first_some_Some_mem [OF this] obtain k caps where
    "match_items [Group ''name'', Lit ''@sha256:'', Group ''version''] (drop k uri) = Some caps"
    by (auto simp del: upt_Suc match_items.simps dest!: sym [of "Some _"])
  from match_group_sep_group [OF this] obtain x y rest where
    "drop k uri = x @ ''@sha256:'' @ y @ rest" by blast
  then have "uri = (take k uri @ x) @ ''@sha256:'' @ (y @ rest)"
    by (metis append.assoc append_take_drop_id)
  then show ?thesis unfolding sublist_def by blast
qed

section \<open>Parsing\<close>

lemma find_matching:
  "List.find P xs = Some t \<Longrightarrow> P t \<and> t \<in> set xs"
  by (induction xs) (auto split: if_splits)

lemma find_unique:
  assumes "t \<in> set xs" "P t" "\<And>u. P u \<Longrightarrow> u = t"
  shows "List.find P xs = Some t"
proof -
  have "List.find P xs \<noteq> None"
    using assms(1,2) unfolding find_None_iff by blast
  then obtain u where u: "List.find P xs = Some u" by blast
  with find_matching [OF u] assms(3) show ?thesis by simp
qed

lemma handler_matches_in_table: "handler_matches uri t \<Longrightarrow> t \<in> set (map fst uriHandlers)"
  by (auto simp: handler_matches_def split: option.splits dest!: map_of_SomeD intro!: image_eqI [of _ fst "(_, _)"])

lemma parse_unique:
  assumes "handler_order order" "handler_matches uri t" "\<And>u. handler_matches uri u \<Longrightarrow> u = t"
    "map_of uriHandlers t = Some h" "find_submatch (uh_pattern h) uri = Some caps"
  shows "parseResourceUri order uri = Inr \<lparr>uc_name = submatch caps ''name'',
     uc_version = submatch caps ''version'', uc_resourceType = t,
     uc_prefixedName = uh_prefix h @ submatch caps ''name''\<rparr>"
proof -
  have "t \<in> set order"
    using assms(1) handler_matches_in_table [OF assms(2)] by (simp add: handler_order_def)
  then have "List.find (handler_matches uri) order = Some t"
    using assms(2,3) by (rule find_unique)
  with assms(4,5) show ?thesis
    by (simp add: parseResourceUri_def)
qed

text \<open>If no two handlers match a URI, no order of the walk changes what the URI parses to.\<close>

lemma parse_unambiguous:
  assumes "handler_order o1" "handler_order o2"
    "\<And>t u. handler_matches uri t \<Longrightarrow> handler_matches uri u \<Longrightarrow> t = u"
  shows "parseResourceUri o1 uri = parseResourceUri o2 uri"
proof (cases "\<exists>t. handler_matches uri t")
  case True
  then obtain t where t: "handler_matches uri t" by blast
  then have "t \<in> set o1" "t \<in> set o2"
    using assms(1,2) handler_matches_in_table [OF t] by (simp_all add: handler_order_def)
  then have "List.find (handler_matches uri) o1 = Some t" "List.find (handler_matches uri) o2 = Some t"
    using t assms(3) by (auto intro!: find_unique)
  then show ?thesis by (simp add: parseResourceUri_def)
next
  case False
  then have "List.find (handler_matches uri) o1 = None" "List.find (handler_matches uri) o2 = None"
    by (auto simp: find_None_iff)
  then show ?thesis by (simp add: parseResourceUri_def)
qed

lemma parse_Inr:
  assumes "parseResourceUri order uri = Inr c"
  shows "\<exists>h caps. uc_resourceType c \<in> set order \<and> handler_matches uri (uc_resourceType c) \<and>
    map_of uriHandlers (uc_resourceType c) = Some h \<and> find_submatch (uh_pattern h) uri = Some caps \<and>
    uc_name c = submatch caps ''name'' \<and> uc_version c = submatch caps ''version'' \<and>
    uc_prefixedName c = uh_prefix h @ uc_name c"
  using assms find_matching [of "handler_matches uri" order]
  by (auto simp: parseResourceUri_def split: option.splits)

section \<open>URIs of one lead, two parts and a separator\<close>

text \<open>
  Six of the nine kinds share one shape: a lead, a part, a one-character separator and
  another part. What is needed of such a kind is its entry in the handler table; printing
  a name and a version in that shape and parsing the result gives them back.
\<close>

locale uri_scheme =
  fixes t :: resource_type and prefix lead :: string and sep :: char and g1 g2 :: string
  assumes entry: "map_of uriHandlers t = Some \<lparr>uh_prefix = prefix, uh_pattern =
      \<lparr>rx_Anchored = True, rx_Items = [Lit lead, Group g1, Lit [sep], Group g2]\<rparr>\<rparr>"
    and sep: "sep \<noteq> newline"
    and groups: "{g1, g2} = {''name'', ''version''}"
begin

definition print :: "string \<Rightarrow> string \<Rightarrow> string" where
  "print x y = lead @ x @ sep # y"

lemma find_print:
  assumes "x \<noteq> ''''" "y \<noteq> ''''" "newline \<notin> set x" "newline \<notin> set y" "sep \<notin> set y"
  shows "find_submatch \<lparr>rx_Anchored = True, rx_Items = [Lit lead, Group g1, Lit [sep], Group g2]\<rparr>
    (print x y) = Some [(g1, x), (g2, y)]"
  using match_group_char_group [OF assms(1-4) sep assms(5), of g1 g2]
  by (simp add: find_submatch_def print_def has_prefix_def del: match_items.simps(4))

lemma parse_print:
  assumes "handler_order order" "\<not> sublist ''@sha256:'' (print x y)"
    "x \<noteq> ''''" "y \<noteq> ''''" "newline \<notin> set x" "newline \<notin> set y" "sep \<notin> set y"
  shows "parseResourceUri order (print x y) =
    Inr \<lparr>uc_name = (if g1 = ''name'' then x else y), uc_version = (if g1 = ''name'' then y else x),
         uc_resourceType = t, uc_prefixedName = prefix @ (if g1 = ''name'' then x else y)\<rparr>"
proof -
  have m: "handler_matches (print x y) t"
    using find_print [OF assms(3-7)] entry by (simp add: handler_matches_def match_string_def)
  have "u = t" if "handler_matches (print x y) u" for u
    using matching_types [OF m that] assms(2) docker_match_sublist m that by metis
  from parse_unique [OF assms(1) m this entry] find_print [OF assms(3-7)] groups
  show ?thesis by (auto simp: submatch_def doubleton_eq_iff)
qed

end

interpretation git: uri_scheme GIT "''git://''" "''git://''" "CHR ''@''" "''name''" "''version''"
  by unfold_locales (auto simp: uriHandlers_def newline_def)

interpretation maven: uri_scheme MAVEN "''gav://''" "''gav://''" "CHR '':''" "''name''" "''version''"
  by unfold_locales (auto simp: uriHandlers_def newline_def)

interpretation npm: uri_scheme NPM "''npm://''" "''npm://''" "CHR '':''" "''name''" "''version''"
  by unfold_locales (auto simp: uriHandlers_def newline_def)

interpretation nuget: uri_scheme NUGET "''nuget://''" "''nuget://''" "CHR '':''" "''name''" "''version''"
  by unfold_locales (auto simp: uriHandlers_def newline_def)

interpretation pip: uri_scheme PIP "''pip://''" "''pip://''" "CHR '':''" "''name''" "''version''"
  by unfold_locales (auto simp: uriHandlers_def newline_def)

interpretation file_uri: uri_scheme FILE "''file://''" "''file://sha256:''" "CHR '':''" "''version''" "''name''"
  by unfold_locales (auto simp: uriHandlers_def newline_def)

text \<open>A URI that two handlers match: which of them parses it depends on the walk.\<close>

definition ambiguous_uri :: string where
  "ambiguous_uri = ''git://a@sha256:b''"

lemma ambiguous_git: "find_submatch \<lparr>rx_Anchored = True,
    rx_Items = [Lit ''git://'', Group ''name'', Lit ''@'', Group ''version'']\<rparr> ambiguous_uri
  = Some [(''name'', ''a''), (''version'', ''sha256:b'')]"
  by code_simp

lemma ambiguous_docker: "find_submatch \<lparr>rx_Anchored = False,
    rx_Items = [Group ''name'', Lit ''@sha256:'', Group ''version'']\<rparr> ambiguous_uri
  = Some [(''name'', ''git://a''), (''version'', ''b'')]"
  by code_simp

lemma ambiguous_first_git:
  "parseResourceUri (GIT # order) ambiguous_uri = Inr \<lparr>uc_name = ''a'', uc_version = ''sha256:b'',
     uc_resourceType = GIT, uc_prefixedName = ''git://a''\<rparr>"
  using ambiguous_git
  by (simp add: parseResourceUri_def handler_matches_def uriHandlers_def match_string_def submatch_def)

lemma ambiguous_first_docker:
  "parseResourceUri (DOCKER # order) ambiguous_uri = Inr \<lparr>uc_name = ''git://a'', uc_version = ''b'',
     uc_resourceType = DOCKER, uc_prefixedName = ''git://a''\<rparr>"
  using ambiguous_docker
  by (simp add: parseResourceUri_def handler_matches_def uriHandlers_def match_string_def submatch_def)

section \<open>Properties\<close>

text \<open>The URI of a resource version of one of six kinds, as its pattern reads it.\<close>

fun resource_uri :: "resource_type \<Rightarrow> string \<Rightarrow> string \<Rightarrow> string" where
  "resource_uri GIT n v = ''git://'' @ n @ ''@'' @ v"
| "resource_uri MAVEN n v = ''gav://'' @ n @ '':'' @ v"
| "resource_uri NPM n v = ''npm://'' @ n @ '':'' @ v"
| "resource_uri NUGET n v = ''nuget://'' @ n @ '':'' @ v"
| "resource_uri PIP n v = ''pip://'' @ n @ '':'' @ v"
| "resource_uri FILE n v = ''file://sha256:'' @ v @ '':'' @ n"
| "resource_uri _ n v = []"

fun last_part :: "resource_type \<Rightarrow> string \<Rightarrow> string \<Rightarrow> string" where
  "last_part FILE n v = n"
| "last_part _ n v = v"

definition uri_separator :: "resource_type \<Rightarrow> char" where
  "uri_separator t = (if t = GIT then CHR ''@'' else CHR '':'')"

text \<open>C26: the URI of a Git, Maven, npm, NuGet, pip or file resource parses back to its name,
  its version and its kind, whatever order the handlers are tried in. Name and version are
  not empty and hold no newline, the part after the last separator does not hold the
  separator, and the URI does not look like a Docker image.\<close>

theorem resource_uri_round_trip:
  assumes "handler_order order" "t \<in> {GIT, MAVEN, NPM, NUGET, PIP, FILE}"
    "n \<noteq> []" "v \<noteq> []" "newline \<notin> set n" "newline \<notin> set v"
    "uri_separator t \<notin> set (last_part t n v)" "\<not> sublist ''@sha256:'' (resource_uri t n v)"
  shows "\<exists>c. parseResourceUri order (resource_uri t n v) = Inr c \<and>
    uc_name c = n \<and> uc_version c = v \<and> uc_resourceType c = t"
proof -
  note shapes = git.print_def maven.print_def npm.print_def nuget.print_def pip.print_def
    file_uri.print_def uri_separator_def
  from assms(2) consider "t = GIT" | "t = MAVEN" | "t = NPM" | "t = NUGET" | "t = PIP" | "t = FILE" by auto
  then show ?thesis
  proof cases
    case 1
    with git.parse_print [of order n v] assms show ?thesis by (simp add: shapes)
  next
    case 2
    with maven.parse_print [of order n v] assms show ?thesis by (simp add: shapes)
  next
    case 3
    with npm.parse_print [of order n v] assms show ?thesis by (simp add: shapes)
  next
    case 4
    with nuget.parse_print [of order n v] assms show ?thesis by (simp add: shapes)
  next
    case 5
    with pip.parse_print [of order n v] assms show ?thesis by (simp add: shapes)
  next
    case 6
    with file_uri.parse_print [of order v n] assms show ?thesis by (simp add: shapes)
  qed
qed

theorem resource_uri_round_trip_witness:
  "\<exists>c. parseResourceUri (map fst uriHandlers) ''npm://left-pad:1.3'' = Inr c \<and> uc_name c = ''left-pad''"
proof -
  have "\<not> sublist ''@sha256:'' ''npm://left-pad:1.3''" by code_simp
  moreover have "handler_order (map fst uriHandlers)" by code_simp
  ultimately show ?thesis
    using resource_uri_round_trip [of "map fst uriHandlers" NPM "''left-pad''" "''1.3''"]
    by (auto simp: newline_def uri_separator_def)
qed

section \<open>Which URIs depend on the walk\<close>

text \<open>
  The URIs of each kind as texts, written down apart from the patterns and from how they are
  matched. A \<open>dot_text\<close> is not empty and has no newline.
\<close>

fun uri_shape :: "resource_type \<Rightarrow> string \<Rightarrow> bool" where
  "uri_shape DOCKER uri \<longleftrightarrow> (\<exists>before n v rest. uri = before @ n @ ''@sha256:'' @ v @ rest \<and> dot_text n \<and> dot_text v)"
| "uri_shape GIT uri \<longleftrightarrow> (\<exists>n v rest. uri = ''git://'' @ n @ ''@'' @ v @ rest \<and> dot_text n \<and> dot_text v)"
| "uri_shape MAVEN uri \<longleftrightarrow> (\<exists>n v rest. uri = ''gav://'' @ n @ '':'' @ v @ rest \<and> dot_text n \<and> dot_text v)"
| "uri_shape FILE uri \<longleftrightarrow> (\<exists>v n rest. uri = ''file://sha256:'' @ v @ '':'' @ n @ rest \<and> dot_text v \<and> dot_text n)"
| "uri_shape NPM uri \<longleftrightarrow> (\<exists>n v rest. uri = ''npm://'' @ n @ '':'' @ v @ rest \<and> dot_text n \<and> dot_text v)"
| "uri_shape NUGET uri \<longleftrightarrow> (\<exists>n v rest. uri = ''nuget://'' @ n @ '':'' @ v @ rest \<and> dot_text n \<and> dot_text v)"
| "uri_shape PIP uri \<longleftrightarrow> (\<exists>n v rest. uri = ''pip://'' @ n @ '':'' @ v @ rest \<and> dot_text n \<and> dot_text v)"
| "uri_shape DEBIAN uri \<longleftrightarrow> (\<exists>a n v rest. uri = ''deb://'' @ a @ '':'' @ n @ '':'' @ v @ rest \<and>
     newline \<notin> set a \<and> dot_text n \<and> dot_text v)"
| "uri_shape RPM uri \<longleftrightarrow> (\<exists>a n v rest. uri = ''rpm://'' @ a @ '':'' @ n @ '':'' @ v @ rest \<and>
     newline \<notin> set a \<and> dot_text n \<and> dot_text v)"
| "uri_shape RESOURCE_TYPE_UNSPECIFIED uri \<longleftrightarrow> False"

lemma handler_matches_shape: "handler_matches uri t \<longleftrightarrow> uri_shape t uri"
proof -
  have two: "match_items [Lit l, Group a, Lit m, Group b] uri \<noteq> None \<longleftrightarrow>
      (\<exists>x y rest. uri = l @ x @ m @ y @ rest \<and> dot_text x \<and> dot_text y)" for l m a b
    unfolding matches_items
    by (simp only: matches_Nil simp_thms, rule iffI; elim exE conjE, hypsubst, (rule exI conjI refl | assumption)+)
  have three: "match_items [Lit l, AnyStar, Lit m, Group a, Lit m', Group b] uri \<noteq> None \<longleftrightarrow>
      (\<exists>a x y rest. uri = l @ a @ m @ x @ m' @ y @ rest \<and> newline \<notin> set a \<and> dot_text x \<and> dot_text y)" for l m m' a b
    unfolding matches_items
    by (simp only: matches_Nil simp_thms, rule iffI; elim exE conjE, hypsubst, (rule exI conjI refl | assumption)+)
  have open_ended: "(\<exists>p r. uri = p @ r \<and> match_items [Group a, Lit m, Group b] r \<noteq> None) \<longleftrightarrow>
      (\<exists>p x y rest. uri = p @ x @ m @ y @ rest \<and> dot_text x \<and> dot_text y)" for m a b
    unfolding matches_items
    by (simp only: matches_Nil simp_thms, rule iffI; elim exE conjE, hypsubst, (rule exI conjI refl | assumption)+)
  show ?thesis
    unfolding handler_matches_def
    by (cases t) (simp_all add: uriHandlers_def match_string_iff two three open_ended
        del: match_items.simps not_None_eq cong: conj_cong)
qed

lemma parse_first:
  assumes "handler_matches uri t"
  shows "\<exists>c. parseResourceUri (t # order) uri = Inr c \<and> uc_resourceType c = t"
  using assms
  by (auto simp: parseResourceUri_def handler_matches_def match_string_def split: option.splits)

lemma order_with_first:
  assumes "t \<in> set (map fst uriHandlers)"
  shows "\<exists>order. handler_order (t # order)"
proof -
  have "distinct (map fst uriHandlers)" by code_simp
  then show ?thesis using assms
    by (intro exI [of _ "remove1 t (map fst uriHandlers)"]) (auto simp: handler_order_def)
qed

text \<open>C37: Go walks the table of handlers in an unspecified order and takes the first that
  matches. The order changes what a URI parses to exactly when the URI looks like a Docker
  image, a name, \<open>@sha256:\<close> and a digest anywhere in it, and also has the form of one of the
  eight other kinds. For every other URI each walk gives the same answer.\<close>

theorem parse_order_matters:
  "(\<exists>o1 o2. handler_order o1 \<and> handler_order o2 \<and> parseResourceUri o1 uri \<noteq> parseResourceUri o2 uri) \<longleftrightarrow>
   uri_shape DOCKER uri \<and> (\<exists>t. t \<noteq> DOCKER \<and> uri_shape t uri)"
proof
  assume "\<exists>o1 o2. handler_order o1 \<and> handler_order o2 \<and> parseResourceUri o1 uri \<noteq> parseResourceUri o2 uri"
  then obtain t u where "handler_matches uri t" "handler_matches uri u" "t \<noteq> u"
    using parse_unambiguous [where uri = uri] by metis
  then have "handler_matches uri DOCKER \<and> (\<exists>t. t \<noteq> DOCKER \<and> handler_matches uri t)"
    using matching_types [of uri t u] by metis
  then show "uri_shape DOCKER uri \<and> (\<exists>t. t \<noteq> DOCKER \<and> uri_shape t uri)"
    by (simp only: handler_matches_shape)
next
  assume "uri_shape DOCKER uri \<and> (\<exists>t. t \<noteq> DOCKER \<and> uri_shape t uri)"
  then have "handler_matches uri DOCKER \<and> (\<exists>t. t \<noteq> DOCKER \<and> handler_matches uri t)"
    by (simp only: handler_matches_shape)
  then obtain t where t: "handler_matches uri DOCKER" "t \<noteq> DOCKER" "handler_matches uri t" by (elim exE conjE)
  from order_with_first [OF handler_matches_in_table [OF t(1)]] obtain o1 where o1: "handler_order (DOCKER # o1)" ..
  from order_with_first [OF handler_matches_in_table [OF t(3)]] obtain o2 where o2: "handler_order (t # o2)" ..
  from parse_first [OF t(1), of o1] parse_first [OF t(3), of o2] t(2)
  have "parseResourceUri (DOCKER # o1) uri \<noteq> parseResourceUri (t # o2) uri" by auto
  with o1 o2 show "\<exists>o1 o2. handler_order o1 \<and> handler_order o2 \<and> parseResourceUri o1 uri \<noteq> parseResourceUri o2 uri"
    by blast
qed

text \<open>A commit of a Git repository named so that the Docker handler matches too.\<close>

theorem parse_order_matters_witness:
  "\<exists>o1 o2. handler_order o1 \<and> handler_order o2 \<and>
     parseResourceUri o1 ''git://a@sha256:b'' \<noteq> parseResourceUri o2 ''git://a@sha256:b''"
proof -
  have "uri_shape GIT ''git://a@sha256:b''"
    unfolding uri_shape.simps
    by (rule exI [of _ "''a''"], rule exI [of _ "''sha256:b''"], rule exI [of _ "[]"]) (simp add: dot_text_def newline_def)
  moreover have "uri_shape DOCKER ''git://a@sha256:b''"
    unfolding uri_shape.simps
    by (rule exI [of _ "''git://''"], rule exI [of _ "''a''"], rule exI [of _ "''b''"], rule exI [of _ "[]"])
      (simp add: dot_text_def newline_def)
  ultimately show ?thesis
    unfolding parse_order_matters by blast
qed

text \<open>A commit of a Git repository can be named so that the Docker handler matches too. Then
  the walk decides: there are orders of the handlers under which one URI is a Git resource,
  and orders under which it is a Docker resource with another name.\<close>

lemma parse_depends_on_order:
  "\<exists>o1 o2 c1 c2. handler_order o1 \<and> handler_order o2 \<and>
     parseResourceUri o1 ambiguous_uri = Inr c1 \<and> uc_resourceType c1 = GIT \<and> uc_name c1 = ''a'' \<and>
     parseResourceUri o2 ambiguous_uri = Inr c2 \<and> uc_resourceType c2 = DOCKER \<and> uc_name c2 = ''git://a''"
proof (intro exI conjI)
  show "handler_order (GIT # filter (\<lambda>t. t \<noteq> GIT) (map fst uriHandlers))" by code_simp
  show "handler_order (DOCKER # filter (\<lambda>t. t \<noteq> DOCKER) (map fst uriHandlers))" by code_simp
qed (rule ambiguous_first_git ambiguous_first_docker | simp)+

end
