(* ===== verification/Resource_Manager.thy ===== *)
theory Resource_Manager
  imports Resource_Uri Manager_Base
begin

text \<open>
  The resource manager, \<open>pkg/resource/manager.go\<close>. A resource and its versions are
  documents of one index; both are created as a side effect of storing occurrences. Its
  struct has the fields of the policy manager, so it is the same record here.

  The two maps the batch operations fill have a slice of their keys beside them, in the
  order the keys were added. An association list in that order is both.
\<close>

section \<open>Constants\<close>

definition resourceDocumentJoinField :: string where
  "resourceDocumentJoinField = ''join''"

definition resourceRelationName :: string where
  "resourceRelationName = ''resource''"

definition resourceVersionRelationName :: string where
  "resourceVersionRelationName = ''version''"

definition resourcesAlias :: "'w manager \<Rightarrow> string" where
  "resourcesAlias m = alias_of m ResourcesDocumentKind"

text \<open>A call of \<open>parseResourceUri\<close>: the walk over the handlers has the order Go chose.\<close>

definition parse_uri :: "'w manager \<Rightarrow> string \<Rightarrow> ('w, uri_components) io" where
  "parse_uri m uri = attempt (draw (rt_HandlerOrder (runtime m))) id (\<lambda>order.
     lift (parseResourceUri order uri))"

section \<open>Creating resources\<close>

fun collect_resources ::
  "'w manager \<Rightarrow> occurrence list \<Rightarrow> (string \<times> resource) list \<Rightarrow> ('w, (string \<times> resource) list) io" where
  "collect_resources m [] resources = ret resources"
| "collect_resources m (occ # occurrences) resources =
     attempt (deref (o_Resource occ)) id (\<lambda>res.
     attempt (parse_uri m (gr_Uri res)) id (\<lambda>uriParts.
     let newResource = \<lparr>r_Id = '''', r_Name = uc_name uriParts, r_Type = uc_resourceType uriParts,
                        r_Created = o_CreateTime occ\<rparr>;
         resourceId = uc_prefixedName uriParts in
     if map_of resources resourceId \<noteq> None then collect_resources m occurrences resources
     else collect_resources m occurrences (resources @ [(resourceId, newResource)])))"

fun resource_items ::
  "get_response list \<Rightarrow> nat \<Rightarrow> (string \<times> resource) list \<Rightarrow> ('w, bulk_item list) io" where
  "resource_items docs i [] = ret []"
| "resource_items docs i ((resourceId, res) # resources) =
     attempt (index_at docs i) id (\<lambda>doc.
     if grs_Found doc then resource_items docs (Suc i) resources
     else
       attempt (resource_items docs (Suc i) resources) id (\<lambda>items.
       ret (\<lparr>bi_Operation = BULK_INDEX, bi_Message = MsgResource res, bi_DocumentId = resourceId,
             bi_Join = Some \<lparr>join_Field = resourceDocumentJoinField,
                             join_Name = resourceRelationName, join_Parent = ''''\<rparr>,
             bi_Routing = ''''\<rparr> # items)))"

text \<open>The errors of a bulk reply; an item without an index result is a nil dereference.\<close>

fun index_errors :: "string \<Rightarrow> bulk_response_item list \<Rightarrow> ('w, go_error list) io" where
  "index_errors what [] = ret []"
| "index_errors what (item # items) =
     attempt (deref (bri_Index item)) id (\<lambda>index.
     attempt (index_errors what items) id (\<lambda>errs.
     ret (case bs_Error index of
            None \<Rightarrow> errs
          | Some e \<Rightarrow> bulk_error_text what (bs_Status index) e # errs)))"

definition resources_bulk :: "'w manager \<Rightarrow> bulk_item list \<Rightarrow> bulk_request" where
  "resources_bulk m items =
     \<lparr>br_Index = resourcesAlias m, br_Refresh = refresh_of m, br_Items = items\<rparr>"

definition BatchCreateResources :: "'w manager \<Rightarrow> occurrence list \<Rightarrow> ('w, unit) io" where
  "BatchCreateResources m occurrences =
     attempt (collect_resources m occurrences []) id (\<lambda>resources.
     attempt (es_multi_get m \<lparr>mg_Index = resourcesAlias m, mg_DocumentIds = map fst resources,
                              mg_Items = []\<rparr>) id (\<lambda>multiGetResponse.
     attempt (resource_items (mgr_Docs multiGetResponse) 0 resources) id (\<lambda>bulkItems.
     if length bulkItems = 0 then ret ()
     else
       attempt (es_bulk m (resources_bulk m bulkItems)) id (\<lambda>bulkResponse.
       attempt (index_errors ''error creating resource'' (brs_Items bulkResponse)) id (\<lambda>bulkItemErrors.
       if length bulkItemErrors > 0 then fail (ErrorList ''failed to create all resources'' bulkItemErrors)
       else ret ())))))"

section \<open>Creating resource versions\<close>

fun put_artifacts ::
  "timestamp option \<Rightarrow> artifact list \<Rightarrow> (string \<times> resource_version) list
     \<Rightarrow> (string \<times> resource_version) list" where
  "put_artifacts created [] result = result"
| "put_artifacts created (a # artifacts) result =
     put_artifacts created artifacts (alist_put (art_Id a)
       \<lparr>rv_Version = art_Id a, rv_Names = art_Names a, rv_Created = created\<rparr> result)"

text \<open>The type assertion on the details panics for any other variant, and for none.\<close>

definition build_artifacts :: "occurrence \<Rightarrow> ('w, artifact list) io" where
  "build_artifacts occ = (case o_Details occ of
       Some (Occurrence_Build build) \<Rightarrow>
         attempt (deref build) id (\<lambda>details.
         attempt (deref (bd_Provenance details)) id (\<lambda>provenance.
         ret (bp_BuiltArtifacts provenance)))
     | _ \<Rightarrow> panic ''interface conversion'')"

definition resourceVersionsFromOccurrence ::
  "occurrence \<Rightarrow> ('w, (string \<times> resource_version) list) io" where
  "resourceVersionsFromOccurrence occ =
     attempt (deref (o_Resource occ)) id (\<lambda>res.
     let result = [(gr_Uri res, \<lparr>rv_Version = gr_Uri res, rv_Names = [], rv_Created = None\<rparr>)] in
     if o_Kind occ = BUILD then
       attempt (build_artifacts occ) id (\<lambda>artifacts.
       ret (put_artifacts (o_CreateTime occ) artifacts result))
     else ret result)"

text \<open>
  A version seen again keeps its place and takes the newer time and names, if any. The code
  tests \<open>newVersion.Names != nil\<close>; here that is a list that is not empty, because the names are
  either left out of the literal or taken from a decoded message, whose empty repeated
  fields are nil.
\<close>

definition merge_version :: "resource_version \<Rightarrow> resource_version \<Rightarrow> resource_version" where
  "merge_version existing new =
     existing\<lparr>rv_Created := (if rv_Created new \<noteq> None then rv_Created new else rv_Created existing),
              rv_Names := (if rv_Names new \<noteq> [] then rv_Names new else rv_Names existing)\<rparr>"

fun merge_versions ::
  "(string \<times> resource_version) list \<Rightarrow> string list \<Rightarrow> (string \<times> resource_version) list
     \<Rightarrow> (string \<times> resource_version) list" where
  "merge_versions newVersions [] known = known"
| "merge_versions newVersions (versionId # order) known =
     (case map_of newVersions versionId of
        None \<Rightarrow> merge_versions newVersions order known
      | Some newVersion \<Rightarrow> merge_versions newVersions order
          (case map_of known versionId of
             Some existing \<Rightarrow> alist_put versionId (merge_version existing newVersion) known
           | None \<Rightarrow> known @ [(versionId, newVersion)]))"

fun collect_versions ::
  "'w manager \<Rightarrow> occurrence list \<Rightarrow> (string \<times> resource_version) list
     \<Rightarrow> ('w, (string \<times> resource_version) list) io" where
  "collect_versions m [] known = ret known"
| "collect_versions m (occ # occurrences) known =
     attempt (resourceVersionsFromOccurrence occ) id (\<lambda>newVersions.
     attempt (draw (rt_KeyOrder (runtime m) (map fst newVersions))) id (\<lambda>order.
     collect_versions m occurrences (merge_versions newVersions order known)))"

text \<open>\<open>if version.Created == nil { version.Created = timestamppb.Now() }\<close>\<close>

definition stamp_created :: "'w manager \<Rightarrow> resource_version \<Rightarrow> ('w, resource_version) io" where
  "stamp_created m version =
     (if rv_Created version = None
      then attempt (now m) id (\<lambda>t. ret (version\<lparr>rv_Created := Some t\<rparr>))
      else ret version)"

fun version_items ::
  "'w manager \<Rightarrow> get_response list \<Rightarrow> nat \<Rightarrow> (string \<times> resource_version) list
     \<Rightarrow> ('w, bulk_item list) io" where
  "version_items m docs i [] = ret []"
| "version_items m docs i ((versionId, version) # versions) =
     attempt (parse_uri m versionId) id (\<lambda>uriParts.
     let item = (\<lambda>v. \<lparr>bi_Operation = BULK_INDEX, bi_Message = MsgResourceVersion v,
                      bi_DocumentId = versionId,
                      bi_Join = Some \<lparr>join_Field = resourceDocumentJoinField,
                                      join_Name = resourceVersionRelationName,
                                      join_Parent = uc_prefixedName uriParts\<rparr>,
                      bi_Routing = ''''\<rparr>) in
     attempt (index_at docs i) id (\<lambda>doc.
     if grs_Found doc then
       attempt (version_items m docs (Suc i) versions) id (\<lambda>items.
       ret (if length (rv_Names version) \<noteq> 0 then item version # items else items))
     else
       attempt (stamp_created m version) id (\<lambda>version1.
       attempt (version_items m docs (Suc i) versions) id (\<lambda>items.
       ret (item version1 # items)))))"

definition BatchCreateResourceVersions :: "'w manager \<Rightarrow> occurrence list \<Rightarrow> ('w, unit) io" where
  "BatchCreateResourceVersions m occurrences =
     attempt (collect_versions m occurrences []) id (\<lambda>versions.
     attempt (es_multi_get m \<lparr>mg_Index = resourcesAlias m, mg_DocumentIds = map fst versions,
                              mg_Items = []\<rparr>) id (\<lambda>multiGetResponse.
     attempt (version_items m (mgr_Docs multiGetResponse) 0 versions) id (\<lambda>bulkItems.
     attempt (if length bulkItems \<noteq> 0
              then attempt (es_bulk m (resources_bulk m bulkItems)) id (\<lambda>bulkResponse.
                   index_errors ''error indexing resource'' (brs_Items bulkResponse))
              else ret []) id (\<lambda>bulkItemErrors.
     if length bulkItemErrors > 0
     then fail (ErrorList ''failed to create/update some resource versions'' bulkItemErrors)
     else ret ()))))"

section \<open>Reading\<close>

definition decode_resource_hit :: "'w manager \<Rightarrow> search_hit \<Rightarrow> go_error + resource" where
  "decode_resource_hit m hit = (case cd_Resource (codec m) True (hit_Source hit) of
       Inl e \<Rightarrow> Inl e | Inr res \<Rightarrow> Inr (res\<lparr>r_Id := hit_ID hit\<rparr>))"

definition ListResources :: "'w manager \<Rightarrow> list_resources_request \<Rightarrow> ('w, list_resources_response) io" where
  "ListResources m request =
     attempt (lift (append_filter m [QTerm resourceDocumentJoinField resourceRelationName]
         (lrr_Filter request))) id (\<lambda>queries.
     attempt (es_search m
       \<lparr>sr_Index = resourcesAlias m,
        sr_Search = \<lparr>s_Query = QMust queries, s_SortCreatedDesc = False, s_Routing = ''''\<rparr>,
        sr_Pagination = page_options (lrr_PageSize request) (lrr_PageToken request)\<rparr>)
       id (\<lambda>searchResponse.
     attempt (lift (decode_all (decode_resource_hit m) (srs_Hits searchResponse))) id (\<lambda>resources.
     ret \<lparr>lrs_Resources = resources, lrs_NextPageToken = srs_NextPageToken searchResponse\<rparr>)))"

definition ListResourceVersions ::
  "'w manager \<Rightarrow> list_resource_versions_request \<Rightarrow> ('w, list_resource_versions_response) io" where
  "ListResourceVersions m request =
     attempt (lift (append_filter m
         [QHasParent resourceRelationName (QTerm ''_id'' (lrv_Id request))]
         (lrv_Filter request))) id (\<lambda>queries.
     attempt (es_search m
       \<lparr>sr_Index = resourcesAlias m,
        sr_Search = \<lparr>s_Query = QMust queries, s_SortCreatedDesc = True, s_Routing = ''''\<rparr>,
        sr_Pagination = page_options (lrv_PageSize request) (lrv_PageToken request)\<rparr>)
       id (\<lambda>searchResponse.
     attempt (lift (decode_all (\<lambda>hit. cd_ResourceVersion (codec m) True (hit_Source hit))
         (srs_Hits searchResponse))) id (\<lambda>resourceVersions.
     ret \<lparr>lrvs_Versions = resourceVersions,
          lrvs_NextPageToken = srs_NextPageToken searchResponse\<rparr>)))"

definition GetResource :: "'w manager \<Rightarrow> string \<Rightarrow> ('w, resource option) io" where
  "GetResource m resourceId =
     attempt (es_get m \<lparr>gt_Index = resourcesAlias m, gt_DocumentId = resourceId, gt_Routing = ''''\<rparr>)
       id (\<lambda>response.
     if \<not> grs_Found response then ret None
     else attempt (lift (cd_Resource (codec m) True (grs_Source response))) id (\<lambda>res. ret (Some res)))"

definition GetResourceVersion :: "'w manager \<Rightarrow> string \<Rightarrow> ('w, resource_version) io" where
  "GetResourceVersion m resourceUri =
     attempt (parse_uri m resourceUri)
       (\<lambda>err. GrpcInternalError ''error parsing resource uri'' (Some err)) (\<lambda>uriParts.
     attempt (es_get m \<lparr>gt_Index = resourcesAlias m, gt_DocumentId = resourceUri,
                        gt_Routing = uc_prefixedName uriParts\<rparr>)
       (\<lambda>err. GrpcInternalError ''error fetching resource version'' (Some err)) (\<lambda>response.
     if \<not> grs_Found response then
       fail (GrpcErrorWithCode (''resource version matching uri '' @ resourceUri @ '' not found'')
         None NotFound)
     else
       attempt (lift (cd_ResourceVersion (codec m) True (grs_Source response))) id (\<lambda>resourceVersion.
       ret resourceVersion)))"

section \<open>Which calls the operations make\<close>

lemma emits_parse_uri [io_emits, intro]: "emits P (parse_uri m uri)"
  unfolding parse_uri_def by (intro io_emits)

lemma emits_collect_resources [io_emits, intro]: "emits P (collect_resources m occs rs)"
  by (induction occs arbitrary: rs) (auto intro!: io_emits simp: Let_def)

lemma emits_resource_items [io_emits, intro]: "emits P (resource_items docs i rs)"
  by (induction docs i rs rule: resource_items.induct) (auto intro!: io_emits simp del: ret_run)

lemma emits_index_errors [io_emits, intro]: "emits P (index_errors what items)"
  by (induction items) (auto intro!: io_emits simp del: ret_run)

lemma emits_build_artifacts [io_emits, intro]: "emits P (build_artifacts occ)"
  unfolding build_artifacts_def
  by (auto split: option.splits occurrence_details.splits intro!: io_emits)

lemma emits_resourceVersionsFromOccurrence [io_emits, intro]:
  "emits P (resourceVersionsFromOccurrence occ)"
  unfolding resourceVersionsFromOccurrence_def by (intro io_emits)

lemma emits_collect_versions [io_emits, intro]: "emits P (collect_versions m occs vs)"
  by (induction occs arbitrary: vs) (auto intro!: io_emits)

lemma emits_stamp_created [io_emits, intro]: "emits P (stamp_created m v)"
  unfolding stamp_created_def by (intro io_emits)

lemma emits_version_items [io_emits, intro]: "emits P (version_items m docs i vs)"
  by (induction m docs i vs rule: version_items.induct) (auto intro!: io_emits simp: Let_def simp del: ret_run)

lemma reads_only_GetResource: "reads_only (GetResource m i)"
  unfolding GetResource_def by (intro io_emits) simp

lemma reads_only_GetResourceVersion: "reads_only (GetResourceVersion m i)"
  unfolding GetResourceVersion_def by (intro io_emits) simp

lemma reads_only_ListResources: "reads_only (ListResources m request)"
  unfolding ListResources_def by (intro io_emits) simp

lemma reads_only_ListResourceVersions: "reads_only (ListResourceVersions m request)"
  unfolding ListResourceVersions_def by (intro io_emits) simp

section \<open>What creating resources does\<close>

definition resource_item :: "string \<times> resource \<Rightarrow> bulk_item" where
  "resource_item = (\<lambda>(resourceId, res).
     \<lparr>bi_Operation = BULK_INDEX, bi_Message = MsgResource res, bi_DocumentId = resourceId,
      bi_Join = Some \<lparr>join_Field = resourceDocumentJoinField,
                      join_Name = resourceRelationName, join_Parent = ''''\<rparr>,
      bi_Routing = ''''\<rparr>)"

text \<open>The entries whose document was not found, in order.\<close>

definition missing :: "get_response list \<Rightarrow> (string \<times> 'a) list \<Rightarrow> (string \<times> 'a) list" where
  "missing docs entries = map snd (filter (\<lambda>(doc, _). \<not> grs_Found doc) (zip docs entries))"

text \<open>An entry of the map that was made from one of the occurrences.\<close>

definition resource_of :: "occurrence list \<Rightarrow> string \<times> resource \<Rightarrow> bool" where
  "resource_of occs = (\<lambda>(i, r). \<exists>occ\<in>set occs. \<exists>res order c. o_Resource occ = Some res \<and>
     parseResourceUri order (gr_Uri res) = Inr c \<and> i = uc_prefixedName c \<and>
     r = \<lparr>r_Id = '''', r_Name = uc_name c, r_Type = uc_resourceType c, r_Created = o_CreateTime occ\<rparr>)"

lemma resource_of_mono: "set xs \<subseteq> set ys \<Longrightarrow> resource_of xs e \<Longrightarrow> resource_of ys e"
  unfolding resource_of_def split_def by blast

lemma parse_uri_Ok:
  assumes "parse_uri m uri s = (Ok c, s')"
  shows "trace s' = trace s \<and> (\<exists>order x. rt_HandlerOrder (runtime m) (ext s) = (order, x) \<and>
    parseResourceUri order uri = Inr c)"
  using assms unfolding parse_uri_def by (auto simp: attempt_Ok draw_Ok)

lemma collect_resources_Ok:
  assumes "collect_resources m occs rs s = (Ok rs', s')" "distinct (map fst rs)"
  shows "distinct (map fst rs') \<and> trace s' = trace s \<and>
    (\<exists>new. rs' = rs @ new \<and> list_all (resource_of occs) new)"
  using assms
proof (induction occs arbitrary: rs s)
  case Nil
  then show ?case by auto
next
  case (Cons occ occs)
  from Cons.prems(1) obtain res c s1 where run: "o_Resource occ = Some res"
    "parse_uri m (gr_Uri res) s = (Ok c, s1)"
    "collect_resources m occs (if map_of rs (uc_prefixedName c) \<noteq> None then rs else
       rs @ [(uc_prefixedName c, \<lparr>r_Id = '''', r_Name = uc_name c, r_Type = uc_resourceType c,
          r_Created = o_CreateTime occ\<rparr>)]) s1 = (Ok rs', s')"
    by (auto simp: attempt_Ok Let_def split: if_splits)
  note p = parse_uri_Ok [OF run(2)]
  let ?e = "(uc_prefixedName c, \<lparr>r_Id = '''', r_Name = uc_name c, r_Type = uc_resourceType c,
          r_Created = o_CreateTime occ\<rparr>)"
  have e: "resource_of (occ # occs) ?e"
    using p run(1) by (auto simp: resource_of_def)
  have mono: "list_all (resource_of occs) new \<Longrightarrow> list_all (resource_of (occ # occs)) new" for new
    by (erule list.pred_mono_strong) (rule resource_of_mono [OF set_subset_Cons])
  have keys: "map_of rs k = None \<longleftrightarrow> k \<notin> set (map fst rs)" for k
    by (simp add: map_of_eq_None_iff)
  show ?case
  proof (cases "map_of rs (uc_prefixedName c) = None")
    case True
    with run(3) have "collect_resources m occs (rs @ [?e]) s1 = (Ok rs', s')" by simp
    moreover have "distinct (map fst (rs @ [?e]))"
      using Cons.prems(2) True keys [of "uc_prefixedName c"] by simp
    ultimately obtain new where "distinct (map fst rs')" "trace s' = trace s1"
      "rs' = (rs @ [?e]) @ new" "list_all (resource_of occs) new"
      using Cons.IH by blast
    with e p mono show ?thesis by (intro conjI exI [of _ "?e # new"]) auto
  next
    case False
    with run(3) have "collect_resources m occs rs s1 = (Ok rs', s')" by simp
    with Cons.IH [OF this Cons.prems(2)] p mono show ?thesis by auto
  qed
qed

lemma resource_items_Ok:
  "resource_items docs i rs s = (Ok items, s') \<Longrightarrow>
     s' = s \<and> (rs \<noteq> [] \<longrightarrow> i + length rs \<le> length docs) \<and>
     items = map resource_item (missing (drop i docs) rs)"
proof (induction docs i rs arbitrary: items rule: resource_items.induct)
  case (1 docs i)
  then show ?case by (simp add: missing_def)
next
  case (2 docs i resourceId res rs)
  then have i: "i < length docs" by (auto simp: attempt_Ok)
  then have d: "drop i docs = docs ! i # drop (Suc i) docs" by (rule Cons_nth_drop_Suc [symmetric])
  show ?case
  proof (cases "grs_Found (docs ! i)")
    case True
    with 2 i have "s' = s \<and> (rs \<noteq> [] \<longrightarrow> Suc i + length rs \<le> length docs) \<and>
        items = map resource_item (missing (drop (Suc i) docs) rs)"
      by (auto simp: attempt_Ok)
    with i d True show ?thesis by (cases rs) (auto simp: missing_def)
  next
    case False
    with 2(3) i obtain items' where run: "resource_items docs (Suc i) rs s = (Ok items', s')"
      "items = resource_item (resourceId, res) # items'"
      by (auto simp: attempt_Ok resource_item_def)
    from 2(2) [OF False run(1)] i d False run(2) show ?thesis
      by (cases rs) (auto simp: missing_def)
  qed
qed

lemma index_errors_Ok:
  "index_errors what items s = (Ok errs, s') \<Longrightarrow> s' = s \<and>
     (\<forall>item\<in>set items. bri_Index item \<noteq> None) \<and>
     (errs = [] \<longleftrightarrow> (\<forall>item\<in>set items. map_option bs_Error (bri_Index item) = Some None))"
proof (induction items arbitrary: errs)
  case Nil
  then show ?case by simp
next
  case (Cons item items)
  then obtain index errs' where run: "bri_Index item = Some index"
    "index_errors what items s = (Ok errs', s')"
    "errs = (case bs_Error index of None \<Rightarrow> errs'
       | Some e \<Rightarrow> bulk_error_text what (bs_Status index) e # errs')"
    by (auto simp: attempt_Ok)
  with Cons.IH [OF run(2)] show ?case by (auto split: option.splits)
qed

text \<open>Creating the resources of a batch of occurrences looks each distinct resource up
  once and creates exactly those not found, in one bulk request that is left out when
  nothing is missing.\<close>

lemma BatchCreateResources_Ok:
  assumes "BatchCreateResources m occs s = (Ok u, s')"
  shows "\<exists>rs docs. distinct (map fst rs) \<and> list_all (resource_of occs) rs \<and> length rs \<le> length docs \<and>
    trace s' = trace s @ EsMultiGet \<lparr>mg_Index = resourcesAlias m, mg_DocumentIds = map fst rs, mg_Items = []\<rparr> #
      (if missing docs rs = [] then []
       else [EsBulk (resources_bulk m (map resource_item (missing docs rs)))])"
proof -
  from assms obtain rs s1 resp s2 items s3 where
    c: "collect_resources m occs [] s = (Ok rs, s1)"
    and g: "es_multi_get m \<lparr>mg_Index = resourcesAlias m, mg_DocumentIds = map fst rs, mg_Items = []\<rparr> s1
      = (Ok resp, s2)"
    and i: "resource_items (mgr_Docs resp) 0 rs s2 = (Ok items, s3)"
    and b: "items \<noteq> [] \<longrightarrow> trace s' = trace s3 @ [EsBulk (resources_bulk m items)]"
      "items = [] \<longrightarrow> s' = s3"
    unfolding BatchCreateResources_def
    by (auto simp: attempt_Ok external_Ok dest!: index_errors_Ok split: if_splits)
  from collect_resources_Ok [OF c] have "distinct (map fst rs)" "trace s1 = trace s"
    "list_all (resource_of occs) rs" by auto
  moreover from g have "trace s2 = trace s1 @ [EsMultiGet \<lparr>mg_Index = resourcesAlias m,
      mg_DocumentIds = map fst rs, mg_Items = []\<rparr>]" by (auto simp: external_Ok)
  moreover from resource_items_Ok [OF i] have "s3 = s2" "length rs \<le> length (mgr_Docs resp)"
    "items = map resource_item (missing (mgr_Docs resp) rs)" by auto
  ultimately show ?thesis using b
    by (intro exI [of _ rs] exI [of _ "mgr_Docs resp"]) auto
qed

section \<open>What creating resource versions does\<close>

text \<open>The map's entries: keys are distinct and every version is stored under its own name.\<close>

definition versions_ok :: "(string \<times> resource_version) list \<Rightarrow> bool" where
  "versions_ok vs \<longleftrightarrow> distinct (map fst vs) \<and> (\<forall>(k, v)\<in>set vs. rv_Version v = k)"

lemma set_alist_put: "set (alist_put k v xs) \<subseteq> insert (k, v) (set xs)"
  by (induction xs) auto

lemma versions_ok_put:
  "versions_ok vs \<Longrightarrow> rv_Version v = k \<Longrightarrow> versions_ok (alist_put k v vs)"
  using set_alist_put [of k v vs] distinct_alist_put [of vs k v]
  unfolding versions_ok_def by blast

lemma put_artifacts_ok:
  "versions_ok vs \<Longrightarrow> versions_ok (put_artifacts t arts vs) \<and>
     fst ` set (put_artifacts t arts vs) = fst ` set vs \<union> art_Id ` set arts"
proof (induction arts arbitrary: vs)
  case Nil
  then show ?case by simp
next
  case (Cons a arts)
  let ?v = "\<lparr>rv_Version = art_Id a, rv_Names = art_Names a, rv_Created = t\<rparr>"
  have "versions_ok (alist_put (art_Id a) ?v vs)"
    by (rule versions_ok_put [OF Cons.prems]) simp
  from Cons.IH [OF this] show ?case by (simp add: keys_alist_put)
qed

text \<open>The ids of the versions an occurrence speaks of.\<close>

definition occurrence_version_ids :: "occurrence \<Rightarrow> string set" where
  "occurrence_version_ids occ =
     (case o_Resource occ of Some res \<Rightarrow> {gr_Uri res} | None \<Rightarrow> {}) \<union>
     (if o_Kind occ = BUILD then
        (case o_Details occ of
           Some (Occurrence_Build (Some details)) \<Rightarrow>
             (case bd_Provenance details of
                Some p \<Rightarrow> art_Id ` set (bp_BuiltArtifacts p) | None \<Rightarrow> {})
         | _ \<Rightarrow> {})
      else {})"

lemma build_artifacts_Ok:
  "build_artifacts occ s = (Ok arts, s') \<longleftrightarrow> s' = s \<and>
     (\<exists>d p. o_Details occ = Some (Occurrence_Build (Some d)) \<and> bd_Provenance d = Some p \<and>
        arts = bp_BuiltArtifacts p)"
  unfolding build_artifacts_def
  by (auto simp: attempt_Ok split: option.splits occurrence_details.splits)

lemma resourceVersionsFromOccurrence_Ok:
  assumes "resourceVersionsFromOccurrence occ s = (Ok vs, s')"
  shows "s' = s \<and> versions_ok vs \<and> fst ` set vs = occurrence_version_ids occ"
proof -
  from assms obtain res where res: "o_Resource occ = Some res" and
    vs: "if o_Kind occ = BUILD then \<exists>arts. build_artifacts occ s = (Ok arts, s') \<and>
        vs = put_artifacts (o_CreateTime occ) arts
          [(gr_Uri res, \<lparr>rv_Version = gr_Uri res, rv_Names = [], rv_Created = None\<rparr>)]
      else s' = s \<and> vs = [(gr_Uri res, \<lparr>rv_Version = gr_Uri res, rv_Names = [], rv_Created = None\<rparr>)]"
    unfolding resourceVersionsFromOccurrence_def by (auto simp: attempt_Ok Let_def split: if_splits)
  have "versions_ok [(gr_Uri res, \<lparr>rv_Version = gr_Uri res, rv_Names = [], rv_Created = None\<rparr>)]"
    by (simp add: versions_ok_def)
  note start = this put_artifacts_ok [OF this]
  show ?thesis
  proof (cases "o_Kind occ = BUILD")
    case True
    with vs obtain d p where "s' = s" "o_Details occ = Some (Occurrence_Build (Some d))"
      "bd_Provenance d = Some p" "vs = put_artifacts (o_CreateTime occ) (bp_BuiltArtifacts p)
          [(gr_Uri res, \<lparr>rv_Version = gr_Uri res, rv_Names = [], rv_Created = None\<rparr>)]"
      by (auto simp: build_artifacts_Ok)
    with start True res show ?thesis by (simp add: occurrence_version_ids_def)
  next
    case False
    with vs start res show ?thesis by (simp add: occurrence_version_ids_def)
  qed
qed

lemma merge_versions_ok:
  "versions_ok new \<Longrightarrow> versions_ok known \<Longrightarrow> versions_ok (merge_versions new order known) \<and>
     fst ` set (merge_versions new order known) = fst ` set known \<union> (set order \<inter> fst ` set new)"
proof (induction order arbitrary: known)
  case Nil
  then show ?case by simp
next
  case (Cons k order)
  show ?case
  proof (cases "map_of new k")
    case None
    then have "k \<notin> fst ` set new" by (simp add: map_of_eq_None_iff)
    with None Cons show ?thesis by auto
  next
    case (Some v)
    then have kv: "(k, v) \<in> set new" by (rule map_of_SomeD)
    with Cons.prems(1) have v: "rv_Version v = k" by (auto simp: versions_ok_def)
    let ?known = "case map_of known k of Some e \<Rightarrow> alist_put k (merge_version e v) known
        | None \<Rightarrow> known @ [(k, v)]"
    have "versions_ok ?known \<and> fst ` set ?known = insert k (fst ` set known)"
    proof (cases "map_of known k")
      case None
      then have "k \<notin> fst ` set known" by (simp add: map_of_eq_None_iff)
      with None Cons.prems(2) v show ?thesis by (auto simp: versions_ok_def)
    next
      case (Some e)
      then have "(k, e) \<in> set known" by (rule map_of_SomeD)
      with Cons.prems(2) have "rv_Version (merge_version e v) = k"
        by (auto simp: versions_ok_def merge_version_def)
      with Some versions_ok_put [OF Cons.prems(2) this] show ?thesis by (simp add: keys_alist_put)
    qed
    with Cons.IH [OF Cons.prems(1), of ?known] Some kv show ?thesis
      by (auto simp: rev_image_eqI)
  qed
qed

lemma collect_versions_Ok:
  assumes "collect_versions m occs known s = (Ok vs, s')" "versions_ok known"
    "range_orders_ok (runtime m)"
  shows "versions_ok vs \<and> trace s' = trace s \<and>
    fst ` set vs = fst ` set known \<union> (\<Union>occ\<in>set occs. occurrence_version_ids occ)"
  using assms(1,2)
proof (induction occs arbitrary: known s)
  case Nil
  then show ?case by simp
next
  case (Cons occ occs)
  from Cons.prems(1) obtain new s1 order x where run:
    "resourceVersionsFromOccurrence occ s = (Ok new, s1)"
    "rt_KeyOrder (runtime m) (map fst new) (ext s1) = (order, x)"
    "collect_versions m occs (merge_versions new order known) (s1\<lparr>ext := x\<rparr>) = (Ok vs, s')"
    by (auto simp: attempt_Ok draw_Ok)
  from resourceVersionsFromOccurrence_Ok [OF run(1)] have new: "s1 = s" "versions_ok new"
    "fst ` set new = occurrence_version_ids occ" by auto
  from new(2) have "distinct (map fst new)" by (simp add: versions_ok_def)
  with assms(3) run(2) have order: "set order = fst ` set new"
    unfolding range_orders_ok_def by (metis fst_conv image_set)
  from merge_versions_ok [OF new(2) Cons.prems(2), of order]
  have "versions_ok (merge_versions new order known)"
    "fst ` set (merge_versions new order known) = fst ` set known \<union> occurrence_version_ids occ"
    using order new(3) by auto
  with Cons.IH [OF run(3)] new(1) show ?case by auto
qed

text \<open>
  The entries that are written: the version is not stored yet, or the map has names for it.
\<close>

definition to_write :: "get_response list \<Rightarrow> (string \<times> resource_version) list
    \<Rightarrow> (get_response \<times> string \<times> resource_version) list" where
  "to_write docs vs = filter (\<lambda>(doc, _, v). \<not> grs_Found doc \<or> rv_Names v \<noteq> []) (zip docs vs)"

text \<open>What is written for an entry: the version, with a creation time if it is new.\<close>

definition writes_version :: "get_response \<times> string \<times> resource_version \<Rightarrow> bulk_item \<Rightarrow> bool" where
  "writes_version = (\<lambda>(doc, k, v) item. bi_Operation item = BULK_INDEX \<and> bi_DocumentId item = k \<and>
     (\<exists>v' order c. bi_Message item = MsgResourceVersion v' \<and> rv_Version v' = rv_Version v \<and>
        rv_Names v' = rv_Names v \<and> (rv_Created v \<noteq> None \<longrightarrow> rv_Created v' = rv_Created v) \<and>
        (\<not> grs_Found doc \<longrightarrow> rv_Created v' \<noteq> None) \<and>
        parseResourceUri order k = Inr c \<and>
        bi_Join item = Some \<lparr>join_Field = resourceDocumentJoinField,
          join_Name = resourceVersionRelationName, join_Parent = uc_prefixedName c\<rparr>))"

lemma stamp_created_Ok:
  assumes "stamp_created m v s = (Ok w, s')"
  shows "trace s' = trace s \<and> rv_Version w = rv_Version v \<and> rv_Names w = rv_Names v \<and>
    rv_Created w \<noteq> None \<and> (rv_Created v \<noteq> None \<longrightarrow> w = v)"
  using assms unfolding stamp_created_def by (auto simp: attempt_Ok draw_Ok split: if_splits)

lemma version_items_Ok:
  "version_items m docs i vs s = (Ok items, s') \<Longrightarrow>
     trace s' = trace s \<and> (vs \<noteq> [] \<longrightarrow> i + length vs \<le> length docs) \<and>
     list_all2 writes_version (to_write (drop i docs) vs) items"
proof (induction m docs i vs arbitrary: s items rule: version_items.induct)
  case (1 m docs i)
  then show ?case by (simp add: to_write_def)
next
  case (2 m docs i k v vs)
  from "2.prems" obtain c s1 where c: "parse_uri m k s = (Ok c, s1)" and i: "i < length docs"
    by (auto simp: attempt_Ok Let_def)
  from parse_uri_Ok [OF c] obtain order where p: "trace s1 = trace s" "parseResourceUri order k = Inr c"
    by blast
  from i have d: "drop i docs = docs ! i # drop (Suc i) docs" by (rule Cons_nth_drop_Suc [symmetric])
  let ?item = "\<lambda>w. \<lparr>bi_Operation = BULK_INDEX, bi_Message = MsgResourceVersion w, bi_DocumentId = k,
      bi_Join = Some \<lparr>join_Field = resourceDocumentJoinField, join_Name = resourceVersionRelationName,
                      join_Parent = uc_prefixedName c\<rparr>, bi_Routing = ''''\<rparr>"
  show ?case
  proof (cases "grs_Found (docs ! i)")
    case True
    with "2.prems" c i obtain items' where run: "version_items m docs (Suc i) vs s1 = (Ok items', s')"
      "items = (if rv_Names v \<noteq> [] then ?item v # items' else items')"
      by (auto simp: attempt_Ok Let_def split: if_splits)
    have "list_all2 writes_version (to_write (drop (Suc i) docs) vs) items'"
      "trace s' = trace s1" "vs \<noteq> [] \<longrightarrow> Suc i + length vs \<le> length docs"
      using "2.IH"(1) [OF refl True run(1)] by auto
    with run(2) True d p i show ?thesis
      by (cases vs) (auto simp: to_write_def writes_version_def)
  next
    case False
    with "2.prems" c i obtain w s2 items' where st: "stamp_created m v s1 = (Ok w, s2)" and run:
      "version_items m docs (Suc i) vs s2 = (Ok items', s')" "items = ?item w # items'"
      by (auto simp: attempt_Ok Let_def)
    note w = stamp_created_Ok [OF st]
    have "list_all2 writes_version (to_write (drop (Suc i) docs) vs) items'"
      "trace s' = trace s2" "vs \<noteq> [] \<longrightarrow> Suc i + length vs \<le> length docs"
      using "2.IH"(2) [OF refl False run(1)] by auto
    moreover have "writes_version (docs ! i, k, v) (?item w)"
      unfolding writes_version_def using w p(2) by auto
    ultimately show ?thesis using w run(2) False d p i
      by (cases vs) (auto simp: to_write_def)
  qed
qed

text \<open>A resource version is read from the document with its URI as id, routed by the
  resource the URI names, and only when the URI parses.\<close>

lemma GetResourceVersion_Ok:
  assumes "GetResourceVersion m uri s = (Ok v, s')"
  shows "\<exists>c order (resp :: get_response). parseResourceUri order uri = Inr c \<and>
    trace s' = trace s @ [EsGet \<lparr>gt_Index = resourcesAlias m, gt_DocumentId = uri,
                                gt_Routing = uc_prefixedName c\<rparr>] \<and>
    grs_Found resp \<and> cd_ResourceVersion (codec m) True (grs_Source resp) = Inr v"
proof -
  from assms obtain c s1 resp where run: "parse_uri m uri s = (Ok c, s1)"
    "es_get m \<lparr>gt_Index = resourcesAlias m, gt_DocumentId = uri, gt_Routing = uc_prefixedName c\<rparr> s1
      = (Ok resp, s')"
    "grs_Found resp" "cd_ResourceVersion (codec m) True (grs_Source resp) = Inr v"
    unfolding GetResourceVersion_def by (auto simp: attempt_Ok split: if_splits)
  from parse_uri_Ok [OF run(1)] obtain order where "trace s1 = trace s" "parseResourceUri order uri = Inr c"
    by blast
  moreover from run(2) have "trace s' = trace s1 @ [EsGet \<lparr>gt_Index = resourcesAlias m,
      gt_DocumentId = uri, gt_Routing = uc_prefixedName c\<rparr>]" by (auto simp: external_Ok)
  ultimately show ?thesis using run(3,4)
    by (intro exI [of _ c] exI [of _ order] exI [of _ resp]) simp
qed

text \<open>An occurrence the code cannot take apart is a panic, which no caller here recovers from.\<close>

lemma build_artifacts_panics:
  "(\<exists>p s'. build_artifacts occ s = (Panic p, s')) \<longleftrightarrow>
     (\<forall>d. o_Details occ = Some (Occurrence_Build (Some d)) \<longrightarrow> bd_Provenance d = None)"
proof (cases "\<exists>b. o_Details occ = Some (Occurrence_Build b)")
  case True
  then obtain b where b: "o_Details occ = Some (Occurrence_Build b)" by blast
  show ?thesis
  proof (cases b)
    case None
    with b show ?thesis by (simp add: build_artifacts_def)
  next
    case (Some d)
    with b show ?thesis by (cases "bd_Provenance d") (simp_all add: build_artifacts_def)
  qed
next
  case False
  then have "build_artifacts occ s = panic ''interface conversion'' s"
    by (auto simp: build_artifacts_def split: option.splits occurrence_details.splits)
  with False show ?thesis by auto
qed

text \<open>C38: collecting versions panics exactly for an occurrence without a resource and for a
  build occurrence without build provenance, whatever else the occurrence holds.\<close>

theorem resourceVersionsFromOccurrence_panics:
  "(\<exists>p s'. resourceVersionsFromOccurrence occ s = (Panic p, s')) \<longleftrightarrow>
   (o_Resource occ = None \<or> o_Kind occ = BUILD \<and>
     (\<forall>d. o_Details occ = Some (Occurrence_Build (Some d)) \<longrightarrow> bd_Provenance d = None))"
proof (cases "o_Resource occ")
  case None
  then show ?thesis by (simp add: resourceVersionsFromOccurrence_def)
next
  case (Some res)
  then have "(\<exists>p s'. resourceVersionsFromOccurrence occ s = (Panic p, s')) \<longleftrightarrow>
      o_Kind occ = BUILD \<and> (\<exists>p s'. build_artifacts occ s = (Panic p, s'))"
    by (simp add: resourceVersionsFromOccurrence_def attempt_Panic Let_def)
  with Some build_artifacts_panics [of occ s] show ?thesis by simp
qed

end
