(* ===== verification/Opa_Client.thy ===== *)
theory Opa_Client
  imports Go_Effects
begin

text \<open>
  The client of Open Policy Agent, \<open>opa/opa.go\<close> and \<open>opa/error.go\<close>: a policy is put
  under an id once, and evaluated by a query of the package its Rego source declares.
  HTTP and JSON are parameters: three operations on the open state and the two
  conversions; an URL that \<open>http.NewRequest\<close> refuses is the error
  \<open>hc_NewRequest\<close> gives for it.
\<close>

section \<open>opa/error.go\<close>

definition NewClientError :: "string \<Rightarrow> client_error_type \<Rightarrow> go_error option \<Rightarrow> go_error" where
  "NewClientError message errorType causedBy = ClientErr errorType message causedBy"

text \<open>\<open>codes.Code.String\<close> and the \<open>Error\<close> method of the errors the sources make.\<close>

fun code_name :: "grpc_code \<Rightarrow> string" where
  "code_name OK = ''OK''"
| "code_name Canceled = ''Canceled''"
| "code_name Unknown = ''Unknown''"
| "code_name InvalidArgument = ''InvalidArgument''"
| "code_name DeadlineExceeded = ''DeadlineExceeded''"
| "code_name NotFound = ''NotFound''"
| "code_name AlreadyExists = ''AlreadyExists''"
| "code_name PermissionDenied = ''PermissionDenied''"
| "code_name ResourceExhausted = ''ResourceExhausted''"
| "code_name FailedPrecondition = ''FailedPrecondition''"
| "code_name Aborted = ''Aborted''"
| "code_name OutOfRange = ''OutOfRange''"
| "code_name Unimplemented = ''Unimplemented''"
| "code_name Internal = ''Internal''"
| "code_name Unavailable = ''Unavailable''"
| "code_name DataLoss = ''DataLoss''"
| "code_name Unauthenticated = ''Unauthenticated''"

fun error_text :: "go_error \<Rightarrow> string" where
  "error_text (ErrorNew msg) = msg"
| "error_text (ClientErr t msg None) = msg"
| "error_text (ClientErr t msg (Some e)) = msg @ '': '' @ error_text e"
| "error_text (Errorf msg e) = msg @ '': '' @ error_text e"
| "error_text (ErrorList msg es) = msg @ '': ['' @ join_with '' '' (map error_text es) @ '']''"
| "error_text (NumError s ErrSyntax) =
     ''strconv.Atoi: parsing '' @ [CHR 0x22] @ s @ [CHR 0x22] @ '': invalid syntax''"
| "error_text (NumError s ErrRange) =
     ''strconv.Atoi: parsing '' @ [CHR 0x22] @ s @ [CHR 0x22] @ '': value out of range''"
| "error_text (StatusError c msg None ds) = ''rpc error: code = '' @ code_name c @ '' desc = '' @ msg"
| "error_text (StatusError c msg (Some e) ds) =
     ''rpc error: code = '' @ code_name c @ '' desc = '' @ msg @ '': '' @ error_text e"

section \<open>The client\<close>

record opa_result =
  or_Pass :: bool
  or_Violations :: "violation list"

record opa_response =
  or_Result :: "opa_result option"
  or_Explanation :: "string list option"

text \<open>
  Decoding is into a pointer to a pointer: the JSON text \<open>null\<close> makes the response nil.
\<close>

record 'w http_client =
  hc_Get :: "string \<Rightarrow> 'w \<Rightarrow> (go_error + http_response) \<times> 'w"
  hc_Put :: "string \<Rightarrow> string \<Rightarrow> 'w \<Rightarrow> (go_error + http_response) \<times> 'w"
  hc_Post :: "string \<Rightarrow> string \<Rightarrow> 'w \<Rightarrow> (go_error + http_response) \<times> 'w"
  hc_NewRequest :: "string \<Rightarrow> go_error option"
  hc_MarshalRequest :: "string \<Rightarrow> go_error + string"
  hc_DecodeResponse :: "string \<Rightarrow> go_error + opa_response option"

record 'w opa_client =
  Host :: string
  ExplainQuery :: bool
  httpClient :: "'w http_client"

definition NewOpaClient :: "string \<Rightarrow> bool \<Rightarrow> 'w http_client \<Rightarrow> 'w opa_client" where
  "NewOpaClient host explainQuery http =
     \<lparr>Host = host, ExplainQuery = explainQuery, httpClient = http\<rparr>"

definition getURL :: "'w opa_client \<Rightarrow> string \<Rightarrow> string" where
  "getURL opa path = Host opa @ ''/'' @ path"

definition getDataQueryURL :: "'w opa_client \<Rightarrow> string \<Rightarrow> string" where
  "getDataQueryURL opa path =
     getURL opa (''v1/data/'' @ path @ ''?'' @ (if ExplainQuery opa then ''explain=full&pretty'' else ''''))"

abbreviation policy_url :: "'w opa_client \<Rightarrow> string \<Rightarrow> string" where
  "policy_url opa i \<equiv> getURL opa (''v1/policies/'' @ i)"

abbreviation http_get :: "'w opa_client \<Rightarrow> string \<Rightarrow> ('w, http_response) io" where
  "http_get opa url \<equiv> external (HttpGet url) (hc_Get (httpClient opa) url)"

abbreviation http_put :: "'w opa_client \<Rightarrow> string \<Rightarrow> string \<Rightarrow> ('w, http_response) io" where
  "http_put opa url body \<equiv> external (HttpPut url body) (hc_Put (httpClient opa) url body)"

abbreviation http_post :: "'w opa_client \<Rightarrow> string \<Rightarrow> string \<Rightarrow> ('w, http_response) io" where
  "http_post opa url body \<equiv> external (HttpPost url body) (hc_Post (httpClient opa) url body)"

text \<open>
  The lines the pattern \<open>(?m)^[[:blank:]]*(package.*$)\<close> finds, without their leading
  blanks, and the package path: the second blank-separated word of the first of them.
\<close>

definition blank :: "char \<Rightarrow> bool" where
  "blank c \<longleftrightarrow> c = CHR '' '' \<or> c = CHR 0x09"

definition package_lines :: "string \<Rightarrow> string list" where
  "package_lines regoContent =
     filter (\<lambda>line. has_prefix line ''package'')
       (map (dropWhile blank) (split_on (CHR 0x0A) regoContent))"

definition getOpaPackagePath :: "string \<Rightarrow> ('w, string) io" where
  "getOpaPackagePath regoContent =
     attempt (index_at (package_lines regoContent) 0) id (\<lambda>packageLine.
     attempt (index_at (split_on (CHR '' '') packageLine) 1) id (\<lambda>packageName.
     ret (replace_char (CHR ''.'') (CHR ''/'') packageName)))"

definition policyExists :: "'w opa_client \<Rightarrow> string \<Rightarrow> ('w, bool) io" where
  "policyExists opa policy =
     attempt (http_get opa (policy_url opa policy))
       (\<lambda>err. NewClientError ''error sending get policy request to OPA'' OpaClientErrorTypeHTTP (Some err))
       (\<lambda>response.
     if http_StatusCode response = 200 then ret True
     else if http_StatusCode response = 404 then ret False
     else fail (NewClientError (''unhandled get policy response from OPA: '' @ http_Status response)
       OpaClientErrorTypeBadResponse None))"

definition loadPolicy :: "'w opa_client \<Rightarrow> string \<Rightarrow> string \<Rightarrow> ('w, unit) io" where
  "loadPolicy opa policy policyData =
     (if hc_NewRequest (httpClient opa) (policy_url opa policy) \<noteq> None then
        fail (ErrorNew ''failed to generate policy request'')
      else
        attempt (http_put opa (policy_url opa policy) policyData)
          (\<lambda>err. ErrorNew ''failed to load the policy in opa'') (\<lambda>response.
        if http_StatusCode response = 200 then ret ()
        else fail (ErrorNew (''failed to load the policy in opa, got '' @ format_int (http_StatusCode response)))))"

definition InitializePolicy :: "'w opa_client \<Rightarrow> string \<Rightarrow> string \<Rightarrow> ('w, unit) io" where
  "InitializePolicy opa policy policyData =
     attempt (policyExists opa policy)
       (\<lambda>err. NewClientError ''error checking if policy exists'' OpaClientErrorTypeGetPolicy (Some err))
       (\<lambda>exists.
     if \<not> exists then
       attempt (loadPolicy opa policy policyData)
         (\<lambda>err. NewClientError (error_text err) OpaClientErrorTypeLoadPolicy (Some err)) (\<lambda>_. ret ())
     else ret ())"

definition OpaEvaluatePolicy :: "'w opa_client \<Rightarrow> string \<Rightarrow> string \<Rightarrow> ('w, opa_response option) io" where
  "OpaEvaluatePolicy opa policy input =
     attempt (lift (hc_MarshalRequest (httpClient opa) input))
       (\<lambda>err. Errorf ''failed to encode OPA input'' err) (\<lambda>request.
     attempt (getOpaPackagePath policy) id (\<lambda>path.
     attempt (http_post opa (getDataQueryURL opa path) request)
       (\<lambda>err. Errorf ''http request to OPA failed'' err) (\<lambda>httpResponse.
     if http_StatusCode httpResponse \<noteq> 200 then fail (ErrorNew ''http response status not OK'')
     else
       attempt (lift (hc_DecodeResponse (httpClient opa) (http_Body httpResponse)))
         (\<lambda>err. Errorf ''failed to decode OPA result'' err) (\<lambda>response.
       ret response))))"

text \<open>
  \<open>publishPolicy\<close>, which the server does not call: the request is sent even when it
  could not be made, which is a nil pointer then.
\<close>

definition violation_text :: "string \<Rightarrow> string" where
  "violation_text conditions =
     ''violation[] {'' @ [CHR 0x0A] @ conditions @ [CHR 0x0A] @ ''}'' @ [CHR 0x0A, CHR 0x0A]"

definition publish_body :: "string \<Rightarrow> string list \<Rightarrow> string" where
  "publish_body policy violations =
     ''package '' @ policy @ [CHR 0x0A, CHR 0x0A]
     @ ''pass = true { count(violation) == 0 }'' @ [CHR 0x0A, CHR 0x0A]
     @ concat (map violation_text violations)"

definition publishPolicy :: "'w opa_client \<Rightarrow> string \<Rightarrow> string list \<Rightarrow> ('w, unit) io" where
  "publishPolicy opa policy violations =
     (if hc_NewRequest (httpClient opa) (policy_url opa policy) \<noteq> None then
        panic ''invalid memory address or nil pointer dereference''
      else
        attempt (http_put opa (policy_url opa policy) (publish_body policy violations))
          (\<lambda>err. NewClientError ''error sending create policy request'' OpaClientErrorTypeHTTP (Some err))
          (\<lambda>response.
        if http_StatusCode response \<noteq> 200
        then fail (NewClientError ''unhandled create policy resposne status'' OpaClientErrorTypeBadResponse None)
        else ret ()))"

section \<open>Properties of the client\<close>

lemma emits_getOpaPackagePath [io_emits, intro]: "emits P (getOpaPackagePath rego)"
  unfolding getOpaPackagePath_def by (intro io_emits)

lemma stores_nothing_InitializePolicy: "stores_nothing (InitializePolicy opa policy rego)"
  unfolding InitializePolicy_def policyExists_def loadPolicy_def by (intro io_emits) simp_all

lemma reads_only_OpaEvaluatePolicy: "reads_only (OpaEvaluatePolicy opa policy input)"
  unfolding OpaEvaluatePolicy_def by (intro io_emits) simp

lemma policyExists_Ok:
  "policyExists opa i s = (Ok b, s') \<longleftrightarrow> (\<exists>r x.
     hc_Get (httpClient opa) (policy_url opa i) (ext s) = (Inr r, x) \<and>
     s' = s\<lparr>ext := x, trace := trace s @ [HttpGet (policy_url opa i)]\<rparr> \<and>
     (http_StatusCode r = 200 \<and> b \<or> http_StatusCode r = 404 \<and> \<not> b))"
  unfolding policyExists_def by (auto simp: attempt_Ok external_Ok split: if_splits)

lemma loadPolicy_Ok:
  assumes "loadPolicy opa i rego s = (Ok u, s')"
  shows "trace s' = trace s @ [HttpPut (policy_url opa i) rego]"
  using assms unfolding loadPolicy_def by (auto simp: attempt_Ok external_Ok split: if_splits)

text \<open>C33: loading a policy into Open Policy Agent never replaces one. The agent is asked for the
  policy of that id first, and what it answers decides: with 200 nothing more is sent and
  the call succeeds; with 404 the source is put under the id, in one request, and the call
  succeeds exactly when the agent answers 200 to it, or fails before sending if the request
  cannot be made; with any other answer, or none, the
  call fails and nothing is sent. The type of the error says which of the two failed.\<close>

theorem InitializePolicy_exact:
  assumes "hc_Get (httpClient opa) (Host opa @ ''/v1/policies/'' @ i) (ext s) = (answer, x)"
    "hc_Put (httpClient opa) (Host opa @ ''/v1/policies/'' @ i) source x = (reply, y)"
    "asked = s\<lparr>ext := x, trace := trace s @ [HttpGet (Host opa @ ''/v1/policies/'' @ i)]\<rparr>"
    "InitializePolicy opa i source s = (out, s')"
  shows "case answer of
      Inl e \<Rightarrow> s' = asked \<and> (\<exists>msg cause. out = Err (ClientErr OpaClientErrorTypeGetPolicy msg cause))
    | Inr r \<Rightarrow>
        if http_StatusCode r = 200 then s' = asked \<and> out = Ok ()
        else if http_StatusCode r \<noteq> 404 then
          s' = asked \<and> (\<exists>msg cause. out = Err (ClientErr OpaClientErrorTypeGetPolicy msg cause))
        else if hc_NewRequest (httpClient opa) (Host opa @ ''/v1/policies/'' @ i) \<noteq> None then
          s' = asked \<and> (\<exists>msg cause. out = Err (ClientErr OpaClientErrorTypeLoadPolicy msg cause))
        else s' = asked\<lparr>ext := y, trace := trace asked @ [HttpPut (Host opa @ ''/v1/policies/'' @ i) source]\<rparr> \<and>
          (if \<exists>r'. reply = Inr r' \<and> http_StatusCode r' = 200 then out = Ok ()
           else \<exists>msg cause. out = Err (ClientErr OpaClientErrorTypeLoadPolicy msg cause))"
proof -
  define u where "u = Host opa @ ''/v1/policies/'' @ i"
  have url: "policy_url opa i = u" by (simp add: u_def getURL_def)
  show ?thesis
    using assms
    unfolding InitializePolicy_def policyExists_def loadPolicy_def url NewClientError_def u_def [symmetric]
    by (cases answer; cases reply) (auto simp: attempt_def external_def)
qed

lemma getOpaPackagePath_Ok:
  "getOpaPackagePath rego s = (Ok path, s') \<longleftrightarrow> s' = s \<and>
     (\<exists>line rest word words. package_lines rego = line # rest \<and> split_on (CHR '' '') line = word # words \<and>
        words \<noteq> [] \<and> path = replace_char (CHR ''.'') (CHR ''/'') (hd words))"
  unfolding getOpaPackagePath_def
  by (cases "package_lines rego"; cases "split_on (CHR '' '') (hd (package_lines rego))")
     (auto simp: attempt_Ok hd_conv_nth)

text \<open>Rego source without a package line, or with nothing after the keyword, is a panic.\<close>

lemma getOpaPackagePath_Panic:
  "(\<exists>p s'. getOpaPackagePath rego s = (Panic p, s')) \<longleftrightarrow>
     package_lines rego = [] \<or> CHR '' '' \<notin> set (hd (package_lines rego))"
proof (cases "package_lines rego")
  case Nil
  then show ?thesis by (auto simp: getOpaPackagePath_def attempt_Panic)
next
  case (Cons line rest)
  have "CHR '' '' \<notin> set line \<longleftrightarrow> length (split_on (CHR '' '') line) \<le> 1"
    by (simp add: length_split_on count_list_0_iff)
  with Cons show ?thesis by (auto simp: getOpaPackagePath_def attempt_Panic)
qed

lemma replace_char_removes: "old \<noteq> new \<Longrightarrow> old \<notin> set (replace_char old new s)"
  by (auto simp: replace_char_def)

section \<open>Properties\<close>

text \<open>The path of a policy's package is taken from its source without any external call
  and without an error value. It is the word after the keyword of the first line that
  starts with the keyword, with slashes for dots, so no dot is left in it; a source without
  such a line, or whose line has no space, is a panic and not an error.\<close>

lemma getOpaPackagePath_exact:
  "(\<exists>path. getOpaPackagePath rego_source s = (Ok path, s) \<and> CHR ''.'' \<notin> set path \<and>
      (\<exists>line rest word words. package_lines rego_source = line # rest \<and>
         split_on (CHR '' '') line = word # words \<and> words \<noteq> [] \<and>
         path = replace_char (CHR ''.'') (CHR ''/'') (hd words)))
   \<or> (\<exists>p. getOpaPackagePath rego_source s = (Panic p, s)) \<and>
      (package_lines rego_source = [] \<or> CHR '' '' \<notin> set (hd (package_lines rego_source)))"
proof (cases "package_lines rego_source")
  case Nil
  then show ?thesis by (simp add: getOpaPackagePath_def index_at_def)
next
  case (Cons line rest)
  have len: "CHR '' '' \<notin> set line \<longleftrightarrow> length (split_on (CHR '' '') line) \<le> 1"
    by (simp add: length_split_on count_list_0_iff)
  show ?thesis
  proof (cases "split_on (CHR '' '') line")
    case Nil
    then show ?thesis by simp
  next
    case (Cons word words)
    with \<open>package_lines rego_source = line # rest\<close> len show ?thesis
      by (cases words) (auto simp: getOpaPackagePath_def index_at_def replace_char_removes)
  qed
qed

end
