(* ===== verification/Grafeas_Extensions.thy ===== *)
theory Grafeas_Extensions
  imports Manager_Base
begin

text \<open>
  The Grafeas clients the server is built with, as operations on the open state, and
  \<open>pkg/grafeas/extensions.go\<close>: the occurrences of a resource version are those of the
  version itself and of every version tied to it by a build.
\<close>

section \<open>The clients\<close>

record 'w grafeas_client =
  gc_BatchCreateOccurrences :: "g_batch_create_occurrences_request \<Rightarrow> 'w
     \<Rightarrow> (go_error + g_batch_create_occurrences_response) \<times> 'w"
  gc_ListOccurrences :: "g_list_occurrences_request \<Rightarrow> 'w \<Rightarrow> (go_error + g_list_occurrences_response) \<times> 'w"
  gc_UpdateOccurrence :: "g_update_occurrence_request \<Rightarrow> 'w \<Rightarrow> (go_error + occurrence) \<times> 'w"
  gc_ListNotes :: "g_list_notes_request \<Rightarrow> 'w \<Rightarrow> (go_error + g_list_notes_response) \<times> 'w"
  gc_BatchCreateNotes :: "g_batch_create_notes_request \<Rightarrow> 'w \<Rightarrow> (go_error + g_batch_create_notes_response) \<times> 'w"
  gc_CreateNote :: "g_create_note_request \<Rightarrow> 'w \<Rightarrow> (go_error + grafeas_note) \<times> 'w"

record 'w projects_client =
  pc_GetProject :: "string \<Rightarrow> 'w \<Rightarrow> (go_error + project) \<times> 'w"
  pc_CreateProject :: "project \<Rightarrow> 'w \<Rightarrow> (go_error + project) \<times> 'w"

abbreviation gr_list_occurrences ::
  "'w grafeas_client \<Rightarrow> g_list_occurrences_request \<Rightarrow> ('w, g_list_occurrences_response) io" where
  "gr_list_occurrences g req \<equiv> external (GrListOccurrences req) (gc_ListOccurrences g req)"

section \<open>ListVersionedResourceOccurrences\<close>

record 'w extensions =
  ex_grafeasCommon :: "'w grafeas_client"
  ex_runtime :: "'w runtime"

definition NewExtensions :: "'w grafeas_client \<Rightarrow> 'w runtime \<Rightarrow> 'w extensions" where
  "NewExtensions g rt = \<lparr>ex_grafeasCommon = g, ex_runtime = rt\<rparr>"

definition quoted :: "string \<Rightarrow> string" where
  "quoted s = [CHR 0x22] @ s @ [CHR 0x22]"

definition build_filter :: "string \<Rightarrow> string" where
  "build_filter uri = ''kind == '' @ quoted ''BUILD'' @ '' && (resource.uri == '' @ quoted uri
     @ '' || build.provenance.builtArtifacts.nestedFilter(id == '' @ quoted uri @ ''))''"

definition uri_filter :: "string \<Rightarrow> string" where
  "uri_filter uri = ''resource.uri == '' @ quoted uri"

text \<open>
  The map of URIs has each URI as its own value, so it is the list of its keys.
  \<open>occurrence.GetBuild().GetProvenance().BuiltArtifacts\<close>: the getters accept nil, the
  field of a nil provenance does not.
\<close>

definition add_uri :: "string \<Rightarrow> string list \<Rightarrow> string list" where
  "add_uri uri uris = (if uri \<in> set uris then uris else uris @ [uri])"

definition get_provenance :: "occurrence \<Rightarrow> build_provenance option" where
  "get_provenance occ = (case o_Details occ of
       Some (Occurrence_Build (Some details)) \<Rightarrow> bd_Provenance details
     | _ \<Rightarrow> None)"

fun collect_uris :: "occurrence list \<Rightarrow> string list \<Rightarrow> ('w, string list) io" where
  "collect_uris [] uris = ret uris"
| "collect_uris (occ # occurrences) uris =
     attempt (deref (o_Resource occ)) id (\<lambda>res.
     attempt (deref (get_provenance occ)) id (\<lambda>provenance.
     collect_uris occurrences
       (fold add_uri (map art_Id (bp_BuiltArtifacts provenance)) (add_uri (gr_Uri res) uris))))"

definition ExtListVersionedResourceOccurrences ::
  "'w extensions \<Rightarrow> string \<Rightarrow> string \<Rightarrow> int32 \<Rightarrow> ('w, occurrence list \<times> string) io" where
  "ExtListVersionedResourceOccurrences e resourceUri pageToken pageSize =
     attempt (gr_list_occurrences (ex_grafeasCommon e)
       \<lparr>glo_Parent = RodeProjectSlug, glo_Filter = build_filter resourceUri,
        glo_PageSize = of_nat MaxPageSize, glo_PageToken = ''''\<rparr>)
       (\<lambda>err. Errorf ''error fetching build occurrences'' err) (\<lambda>buildOccurrences.
     attempt (collect_uris (glos_Occurrences buildOccurrences) [resourceUri]) id (\<lambda>resourceUris.
     attempt (draw (rt_KeyOrder (ex_runtime e) resourceUris)) id (\<lambda>order.
     attempt (gr_list_occurrences (ex_grafeasCommon e)
       \<lparr>glo_Parent = RodeProjectSlug, glo_Filter = join_with '' || '' (map uri_filter order),
        glo_PageSize = pageSize, glo_PageToken = pageToken\<rparr>)
       (\<lambda>err. Errorf ''error listing all occurrences'' err) (\<lambda>allOccurrences.
     ret (glos_Occurrences allOccurrences, glos_NextPageToken allOccurrences)))))"

section \<open>Its properties\<close>

lemma emits_collect_uris [io_emits, intro]: "emits P (collect_uris occs uris)"
  by (induction occs arbitrary: uris) (auto intro!: io_emits)

lemma reads_only_ExtList: "reads_only (ExtListVersionedResourceOccurrences e uri token n)"
  unfolding ExtListVersionedResourceOccurrences_def by (intro io_emits) simp_all

text \<open>The versions a build occurrence ties together: the one it is about and the ones it built.\<close>

definition build_uris :: "occurrence \<Rightarrow> string set" where
  "build_uris occ =
     (case o_Resource occ of Some res \<Rightarrow> {gr_Uri res} | None \<Rightarrow> {}) \<union>
     (case get_provenance occ of Some p \<Rightarrow> art_Id ` set (bp_BuiltArtifacts p) | None \<Rightarrow> {})"

lemma add_uri_props: "distinct uris \<Longrightarrow> distinct (add_uri u uris)"
    "set (add_uri u uris) = insert u (set uris)"
  by (auto simp: add_uri_def)

lemma fold_add_uri: "distinct uris \<Longrightarrow>
    distinct (fold add_uri us uris) \<and> set (fold add_uri us uris) = set us \<union> set uris"
  by (induction us arbitrary: uris) (auto simp: add_uri_props)

lemma collect_uris_Ok:
  "collect_uris occs uris s = (Ok r, s') \<Longrightarrow> distinct uris \<Longrightarrow>
     s' = s \<and> distinct r \<and> set r = set uris \<union> (\<Union>occ\<in>set occs. build_uris occ) \<and>
     (\<forall>occ\<in>set occs. o_Resource occ \<noteq> None \<and> get_provenance occ \<noteq> None)"
proof (induction occs arbitrary: uris)
  case Nil
  then show ?case by simp
next
  case (Cons occ occs)
  then obtain res p where rp: "o_Resource occ = Some res" "get_provenance occ = Some p" and
    run: "collect_uris occs (fold add_uri (map art_Id (bp_BuiltArtifacts p)) (add_uri (gr_Uri res) uris)) s
      = (Ok r, s')"
    by (auto simp: attempt_Ok)
  have d: "distinct (add_uri (gr_Uri res) uris)" by (rule add_uri_props(1) [OF Cons.prems(2)])
  note f = fold_add_uri [OF d, of "map art_Id (bp_BuiltArtifacts p)"]
  from Cons.IH [OF run] f rp show ?case
    by (auto simp: build_uris_def add_uri_props)
qed

text \<open>C34: the occurrences of a resource version are found in two steps. Grafeas is asked for the
  build occurrences that are about the URI or that built it; every occurrence it answers
  must have a resource and a provenance. Then it is asked for the occurrences of any of
  these URIs: the one of the request, those the builds are about, and every artifact the
  builds produced, each once, in the order Go walks them; the page size and the page token
  of the request go with this second query. What it answers is what is returned, with its
  page token. Nothing else is asked.\<close>

theorem ExtList_Ok:
  assumes "ExtListVersionedResourceOccurrences e uri token n s = (Ok (occs, next_token), s')"
    "range_orders_ok (ex_runtime e)"
    "first = \<lparr>glo_Parent = ''projects/rode'', glo_Filter = ''kind == \"BUILD\" && (resource.uri == \"'' @ uri @
        ''\" || build.provenance.builtArtifacts.nestedFilter(id == \"'' @ uri @ ''\"))'',
        glo_PageSize = 1000, glo_PageToken = ''''\<rparr>"
  shows "\<exists>builds x uris order y all second.
    gc_ListOccurrences (ex_grafeasCommon e) first (ext s) = (Inr builds, x) \<and>
    (\<forall>occ\<in>set (glos_Occurrences builds). o_Resource occ \<noteq> None \<and> get_provenance occ \<noteq> None) \<and>
    distinct uris \<and> set uris = insert uri (\<Union>occ\<in>set (glos_Occurrences builds). build_uris occ) \<and>
    rt_KeyOrder (ex_runtime e) uris x = (order, y) \<and> distinct order \<and> set order = set uris \<and>
    second = \<lparr>glo_Parent = ''projects/rode'',
      glo_Filter = join_with '' || '' (map (\<lambda>u. ''resource.uri == \"'' @ u @ ''\"'') order),
      glo_PageSize = n, glo_PageToken = token\<rparr> \<and>
    gc_ListOccurrences (ex_grafeasCommon e) second y = (Inr all, ext s') \<and>
    occs = glos_Occurrences all \<and> next_token = glos_NextPageToken all \<and>
    trace s' = trace s @ [GrListOccurrences first, GrListOccurrences second]"
proof -
  have first: "\<lparr>glo_Parent = RodeProjectSlug, glo_Filter = build_filter uri,
        glo_PageSize = of_nat MaxPageSize, glo_PageToken = ''''\<rparr> = first"
    by (simp add: assms(3) RodeProjectSlug_def build_filter_def quoted_def MaxPageSize_def)
  have filters: "uri_filter = (\<lambda>u. ''resource.uri == \"'' @ u @ ''\"'')"
    by (simp add: uri_filter_def quoted_def fun_eq_iff)
  from assms(1) obtain builds s1 uris s2 order y all where run:
    "gr_list_occurrences (ex_grafeasCommon e) first s = (Ok builds, s1)"
    "collect_uris (glos_Occurrences builds) [uri] s1 = (Ok uris, s2)"
    "rt_KeyOrder (ex_runtime e) uris (ext s2) = (order, y)"
    "gr_list_occurrences (ex_grafeasCommon e) \<lparr>glo_Parent = RodeProjectSlug,
        glo_Filter = join_with '' || '' (map uri_filter order), glo_PageSize = n, glo_PageToken = token\<rparr> (s2\<lparr>ext := y\<rparr>)
      = (Ok all, s')"
    "occs = glos_Occurrences all" "next_token = glos_NextPageToken all"
    unfolding ExtListVersionedResourceOccurrences_def first
    by (auto simp: attempt_Ok draw_Ok)
  from collect_uris_Ok [OF run(2)] have uris: "s2 = s1" "distinct uris"
    "set uris = insert uri (\<Union>occ\<in>set (glos_Occurrences builds). build_uris occ)"
    "\<forall>occ\<in>set (glos_Occurrences builds). o_Resource occ \<noteq> None \<and> get_provenance occ \<noteq> None" by auto
  from this(2) assms(2) run(3) have "distinct order" "set order = set uris"
    unfolding range_orders_ok_def by (metis fst_conv)+
  moreover from run(1) obtain x where one: "gc_ListOccurrences (ex_grafeasCommon e) first (ext s) = (Inr builds, x)"
    "s1 = s\<lparr>ext := x, trace := trace s @ [GrListOccurrences first]\<rparr>"
    by (auto simp: external_Ok)
  moreover define second where "second = \<lparr>glo_Parent = ''projects/rode'',
      glo_Filter = join_with '' || '' (map (\<lambda>u. ''resource.uri == \"'' @ u @ ''\"'') order),
      glo_PageSize = n, glo_PageToken = token\<rparr>"
  moreover from run(4) have "gc_ListOccurrences (ex_grafeasCommon e) second y = (Inr all, ext s')"
    "trace s' = trace s2 @ [GrListOccurrences second]"
    by (auto simp: external_Ok second_def filters RodeProjectSlug_def)
  moreover from run(3) uris(1) one(2) have "rt_KeyOrder (ex_runtime e) uris x = (order, y)" by simp
  moreover from uris(1) one(2) have "trace s2 = trace s @ [GrListOccurrences first]" by simp
  ultimately show ?thesis
    using run(5,6) uris(2-4)
    by (intro exI [of _ builds] exI [of _ x] exI [of _ uris] exI [of _ order] exI [of _ y] exI [of _ all]
        exI [of _ second] conjI) (simp_all only: append_assoc append_Cons append_Nil)
qed

lemma ExtList_panics:
  assumes "gc_ListOccurrences (ex_grafeasCommon e) \<lparr>glo_Parent = RodeProjectSlug,
      glo_Filter = build_filter uri, glo_PageSize = of_nat MaxPageSize, glo_PageToken = ''''\<rparr> (ext s)
      = (Inr resp, x)"
    "glos_Occurrences resp = occ # occs" "get_provenance occ = None"
  shows "\<exists>s'. ExtListVersionedResourceOccurrences e uri token n s =
    (Panic ''invalid memory address or nil pointer dereference'', s')"
  using assms unfolding ExtListVersionedResourceOccurrences_def
  by (cases "o_Resource occ") (auto simp: attempt_Panic external_Ok)

end
