(* ===== verification/Evaluation_Manager.thy ===== *)
theory Evaluation_Manager
  imports Assignment_Manager Resource_Manager Opa_Client Grafeas_Extensions
begin

text \<open>
  The evaluation manager, \<open>pkg/evaluation/manager.go\<close>. It holds the other managers
  behind Go interfaces; here it holds the methods of them that it calls. The function
  that builds it from the other components is the wiring of \<open>main.go\<close>.

  The resource evaluation is stored through a pointer taken before the policies are
  evaluated, so what is stored is its value after the loop.
\<close>

section \<open>The manager\<close>

definition evaluationDocumentJoinField :: string where
  "evaluationDocumentJoinField = ''join''"

definition resourceEvaluationRelationName :: string where
  "resourceEvaluationRelationName = ''resource''"

definition policyEvaluationRelationName :: string where
  "policyEvaluationRelationName = ''policy''"

record 'w evaluation_manager =
  ev_base :: "'w manager"
  ev_GetPolicy :: "get_policy_request \<Rightarrow> ('w, policy) io"
  ev_GetPolicyVersion :: "string \<Rightarrow> ('w, policy_entity option) io"
  ev_GetPolicyGroup :: "get_policy_group_request \<Rightarrow> ('w, policy_group) io"
  ev_ListPolicyAssignments ::
    "list_policy_assignments_request \<Rightarrow> ('w, list_policy_assignments_response) io"
  ev_ListVersionedResourceOccurrences ::
    "string \<Rightarrow> string \<Rightarrow> int32 \<Rightarrow> ('w, occurrence list \<times> string) io"
  ev_InitializePolicy :: "string \<Rightarrow> string \<Rightarrow> ('w, unit) io"
  ev_OpaEvaluatePolicy :: "string \<Rightarrow> string \<Rightarrow> ('w, opa_response option) io"
  ev_GetResourceVersion :: "string \<Rightarrow> ('w, resource_version) io"

definition NewEvaluationManager ::
  "'w manager \<Rightarrow> 'w extensions \<Rightarrow> 'w opa_client \<Rightarrow> 'w evaluation_manager" where
  "NewEvaluationManager m e opa =
     \<lparr>ev_base = m,
      ev_GetPolicy = GetPolicy m,
      ev_GetPolicyVersion = GetPolicyVersion m,
      ev_GetPolicyGroup = GetPolicyGroup m,
      ev_ListPolicyAssignments = ListPolicyAssignments m,
      ev_ListVersionedResourceOccurrences = ExtListVersionedResourceOccurrences e,
      ev_InitializePolicy = InitializePolicy opa,
      ev_OpaEvaluatePolicy = OpaEvaluatePolicy opa,
      ev_GetResourceVersion = GetResourceVersion m\<rparr>"

abbreviation evaluationsAlias :: "'w evaluation_manager \<Rightarrow> string" where
  "evaluationsAlias em \<equiv> alias_of (ev_base em) EvaluationsDocumentKind"

section \<open>Evaluating one policy\<close>

definition evaluatePolicy ::
  "'w evaluation_manager \<Rightarrow> string \<Rightarrow> string \<Rightarrow> occurrence list \<Rightarrow> ('w, opa_response option) io" where
  "evaluatePolicy em policyId rego_content occurrences =
     attempt (ev_InitializePolicy em policyId rego_content)
       (\<lambda>err. Errorf ''error initializing policy in OPA'' err) (\<lambda>_.
     let input = cd_MarshalInput (codec (ev_base em)) \<lparr>epi_Occurrences = occurrences\<rparr> in
     attempt (ev_OpaEvaluatePolicy em rego_content input)
       (\<lambda>err. Errorf ''error evaluating policy in OPA'' err) (\<lambda>response.
     ret response))"

definition EvaluatePolicy ::
  "'w evaluation_manager \<Rightarrow> evaluate_policy_request \<Rightarrow> ('w, evaluate_policy_response) io" where
  "EvaluatePolicy em request =
     (if epr_ResourceUri request = '''' then
        fail (GrpcErrorWithCode ''resource uri is required'' None InvalidArgument)
      else
        attempt (ev_GetPolicy em \<lparr>gpr_Id = epr_Policy request\<rparr>)
          (\<lambda>err. GrpcInternalError ''error fetching policy'' (Some err)) (\<lambda>pol.
        attempt (ev_ListVersionedResourceOccurrences em (epr_ResourceUri request) '''' (of_nat MaxPageSize))
          (\<lambda>err. GrpcInternalError ''error listing occurrences'' (Some err)) (\<lambda>(occurrences, _).
        attempt (deref (p_Policy pol)) id (\<lambda>ent.
        attempt (evaluatePolicy em (p_Id pol) (pe_RegoContent ent) occurrences)
          (\<lambda>err. GrpcInternalError ''error evaluating policy'' (Some err)) (\<lambda>opaResponse.
        attempt (now (ev_base em)) id (\<lambda>created.
        attempt (deref opaResponse) id (\<lambda>response.
        let pass = (case or_Result response of Some r \<Rightarrow> or_Pass r | None \<Rightarrow> False);
            violations = (case or_Result response of Some r \<Rightarrow> or_Violations r | None \<Rightarrow> []) in
        ret \<lparr>ersp_Pass = pass, ersp_Changed = False,
             ersp_Result = [\<lparr>eres_Pass = pass, eres_Created = Some created,
                             eres_Violations = violations\<rparr>],
             ersp_Explanation = (case or_Explanation response of Some x \<Rightarrow> x | None \<Rightarrow> [])\<rparr>)))))))"

section \<open>Evaluating a resource\<close>

text \<open>One turn of the loop over the assignments of the group.\<close>

definition evaluate_assignment ::
  "'w evaluation_manager \<Rightarrow> string \<Rightarrow> occurrence list \<Rightarrow> policy_assignment
     \<Rightarrow> bool \<times> policy_evaluation list \<Rightarrow> ('w, bool \<times> policy_evaluation list) io" where
  "evaluate_assignment em evaluationId occurrences assignment acc =
     attempt (ev_GetPolicyVersion em (pa_PolicyVersionId assignment))
       (\<lambda>err. GrpcInternalError ''error fetching policy version'' (Some err)) (\<lambda>policyEntity.
     case policyEntity of
       None \<Rightarrow> fail (GrpcInternalError ''policy version does not exist'' None)
     | Some ent \<Rightarrow>
         attempt (evaluatePolicy em (pa_PolicyVersionId assignment) (pe_RegoContent ent) occurrences)
           (\<lambda>err. GrpcInternalError (''error evaluating policy version '' @ pa_PolicyVersionId assignment)
              (Some err)) (\<lambda>opaResponse.
         attempt (deref opaResponse) id (\<lambda>response.
         attempt (deref (or_Result response)) id (\<lambda>result.
         attempt (new_uuid (ev_base em)) id (\<lambda>policyEvaluationId.
         ret (if \<not> or_Pass result then False else fst acc,
              snd acc @ [\<lparr>pev_Id = policyEvaluationId, pev_ResourceEvaluationId = evaluationId,
                          pev_Pass = or_Pass result,
                          pev_PolicyVersionId = pa_PolicyVersionId assignment,
                          pev_Violations = or_Violations result\<rparr>]))))))"

definition resource_evaluation_item :: "resource_evaluation \<Rightarrow> bulk_item" where
  "resource_evaluation_item e =
     \<lparr>bi_Operation = BULK_CREATE, bi_Message = MsgResourceEvaluation e, bi_DocumentId = re_Id e,
      bi_Join = Some \<lparr>join_Field = evaluationDocumentJoinField,
                      join_Name = resourceEvaluationRelationName, join_Parent = ''''\<rparr>,
      bi_Routing = ''''\<rparr>"

definition policy_evaluation_item :: "string \<Rightarrow> policy_evaluation \<Rightarrow> bulk_item" where
  "policy_evaluation_item evaluationId e =
     \<lparr>bi_Operation = BULK_CREATE, bi_Message = MsgPolicyEvaluation e, bi_DocumentId = pev_Id e,
      bi_Join = Some \<lparr>join_Field = evaluationDocumentJoinField,
                      join_Name = policyEvaluationRelationName, join_Parent = evaluationId\<rparr>,
      bi_Routing = ''''\<rparr>"

text \<open>
  \<open>EvaluateResource\<close> from where the assignments of the group are known: the occurrences,
  the loop, the one bulk request.
\<close>

definition evaluate_group ::
  "'w evaluation_manager \<Rightarrow> resource_evaluation_request \<Rightarrow> resource_version \<Rightarrow> string
     \<Rightarrow> policy_assignment list \<Rightarrow> ('w, resource_evaluation_result) io" where
  "evaluate_group em request resourceVersion policyGroupName assignments =
     attempt (ev_ListVersionedResourceOccurrences em (rer_ResourceUri request) '''' (of_nat MaxPageSize))
       (\<lambda>err. GrpcInternalError ''error listing occurrences'' (Some err)) (\<lambda>(occurrences, nextPage).
     attempt (new_uuid (ev_base em)) id (\<lambda>evaluationId.
     attempt (now (ev_base em)) id (\<lambda>created.
     attempt (for_each assignments (True, []) (evaluate_assignment em evaluationId occurrences)) id
       (\<lambda>(pass, policyEvaluations).
     let resourceEvaluation =
           \<lparr>re_Id = evaluationId, re_Pass = pass, re_Source = rer_Source request,
            re_Created = Some created, re_ResourceVersion = Some resourceVersion,
            re_PolicyGroup = policyGroupName\<rparr> in
     attempt (es_bulk (ev_base em)
       \<lparr>br_Index = evaluationsAlias em, br_Refresh = refresh_of (ev_base em),
        br_Items = resource_evaluation_item resourceEvaluation #
                   map (policy_evaluation_item evaluationId) policyEvaluations\<rparr>)
       (\<lambda>err. GrpcInternalError ''error storing resource evaluation results'' (Some err)) (\<lambda>response.
     attempt (check_bulk response
         (\<lambda>err. GrpcInternalError ''error storing resource evaluation results'' (Some err))) id (\<lambda>_.
     ret \<lparr>rres_ResourceEvaluation = Some resourceEvaluation,
          rres_PolicyEvaluations = policyEvaluations\<rparr>))))))"

definition EvaluateResource ::
  "'w evaluation_manager \<Rightarrow> resource_evaluation_request \<Rightarrow> ('w, resource_evaluation_result) io" where
  "EvaluateResource em request =
     (if rer_ResourceUri request = '''' then
        fail (GrpcErrorWithCode ''resource uri is required'' None InvalidArgument)
      else if rer_PolicyGroup request = '''' then
        fail (GrpcErrorWithCode ''policy group is required'' None InvalidArgument)
      else
        attempt (ev_GetResourceVersion em (rer_ResourceUri request)) id (\<lambda>resourceVersion.
        attempt (ev_GetPolicyGroup em \<lparr>ggr_Name = rer_PolicyGroup request\<rparr>) id (\<lambda>policyGroup.
        attempt (ev_ListPolicyAssignments em
          \<lparr>lar_Filter = '''', lar_PageSize = 0, lar_PageToken = '''', lar_PolicyId = '''',
           lar_PolicyGroup = pg_Name policyGroup\<rparr>) id (\<lambda>assignments.
        if length (las_PolicyAssignments assignments) = 0 then
          fail (GrpcErrorWithCode (''policy group '' @ pg_Name policyGroup @ '' has no policy assignments'')
            None FailedPrecondition)
        else evaluate_group em request resourceVersion (pg_Name policyGroup)
               (las_PolicyAssignments assignments)))))"

section \<open>Reading evaluations\<close>

definition policy_evaluations_search :: "string \<Rightarrow> es_search" where
  "policy_evaluations_search evaluationId =
     \<lparr>s_Query = QHasParent resourceEvaluationRelationName (QTerm ''_id'' evaluationId),
      s_SortCreatedDesc = False, s_Routing = evaluationId\<rparr>"

definition decode_policy_evaluations ::
  "'w evaluation_manager \<Rightarrow> search_hit list \<Rightarrow> ('w, policy_evaluation list) io" where
  "decode_policy_evaluations em hits =
     attempt (lift (decode_all (\<lambda>hit. cd_PolicyEvaluation (codec (ev_base em)) True (hit_Source hit)) hits))
       (\<lambda>err. GrpcInternalError ''error unmarshalling policy evaluation into json'' (Some err)) ret"

definition GetResourceEvaluation ::
  "'w evaluation_manager \<Rightarrow> get_resource_evaluation_request \<Rightarrow> ('w, resource_evaluation_result) io" where
  "GetResourceEvaluation em request =
     attempt (es_multi_search (ev_base em)
       \<lparr>ms_Index = evaluationsAlias em,
        ms_Searches = [\<lparr>s_Query = QTerm ''_id'' (gre_Id request), s_SortCreatedDesc = False,
                        s_Routing = ''''\<rparr>,
                       policy_evaluations_search (gre_Id request)]\<rparr>)
       (\<lambda>err. GrpcInternalError ''error searching for resource evaluation'' (Some err)) (\<lambda>searchResponse.
     attempt (index_at (msr_Responses searchResponse) 0) id (\<lambda>evaluationResponse.
     if srs_Total evaluationResponse = 0 then
       fail (GrpcErrorWithCode ''resource evaluation not found'' None NotFound)
     else
       attempt (index_at (srs_Hits evaluationResponse) 0) id (\<lambda>hit.
       attempt (lift (cd_ResourceEvaluation (codec (ev_base em)) True (hit_Source hit)))
         (\<lambda>err. GrpcInternalError ''error unmarshalling resource evaluation into json'' (Some err))
         (\<lambda>resourceEvaluation.
       attempt (index_at (msr_Responses searchResponse) 1) id (\<lambda>policyResponse.
       attempt (decode_policy_evaluations em (srs_Hits policyResponse)) id (\<lambda>policyEvaluations.
       ret \<lparr>rres_ResourceEvaluation = Some resourceEvaluation,
            rres_PolicyEvaluations = policyEvaluations\<rparr>))))))"

text \<open>The last loop of \<open>ListResourceEvaluations\<close>: the \<open>i\<close>-th response to the \<open>i\<close>-th result.\<close>

fun attach_evaluations ::
  "'w evaluation_manager \<Rightarrow> resource_evaluation_result list \<Rightarrow> nat \<Rightarrow> search_response list
     \<Rightarrow> ('w, resource_evaluation_result list) io" where
  "attach_evaluations em results i [] = ret results"
| "attach_evaluations em results i (response # responses) =
     attempt (decode_policy_evaluations em (srs_Hits response)) id (\<lambda>policyEvaluations.
     attempt (index_at results i) id (\<lambda>result.
     attach_evaluations em
       (results[i := result\<lparr>rres_PolicyEvaluations := policyEvaluations\<rparr>]) (Suc i) responses))"

definition ListResourceEvaluations ::
  "'w evaluation_manager \<Rightarrow> list_resource_evaluations_request
     \<Rightarrow> ('w, list_resource_evaluations_response) io" where
  "ListResourceEvaluations em request =
     (if lre_ResourceUri request = '''' then
        fail (GrpcErrorWithCode ''resourceUri is required'' None InvalidArgument)
      else
        attempt (ev_GetResourceVersion em (lre_ResourceUri request)) id (\<lambda>_.
        attempt (lift (append_filter (ev_base em)
            [QTerm ''resourceVersion.version'' (lre_ResourceUri request)] (lre_Filter request)))
          (\<lambda>err. GrpcInternalError ''error parsing filter expression'' (Some err)) (\<lambda>queries.
        attempt (es_search (ev_base em)
          \<lparr>sr_Index = evaluationsAlias em,
           sr_Search = \<lparr>s_Query = QMust queries, s_SortCreatedDesc = True, s_Routing = ''''\<rparr>,
           sr_Pagination = page_options (lre_PageSize request) (lre_PageToken request)\<rparr>)
          (\<lambda>err. GrpcInternalError ''error searching for resource evaluations'' (Some err)) (\<lambda>searchResponse.
        if srs_Total searchResponse = 0 then
          ret \<lparr>lres_ResourceEvaluations = [], lres_NextPageToken = ''''\<rparr>
        else
          attempt (lift (decode_all (\<lambda>hit. cd_ResourceEvaluation (codec (ev_base em)) True (hit_Source hit))
              (srs_Hits searchResponse)))
            (\<lambda>err. GrpcInternalError ''error unmarshalling resource evaluation into json'' (Some err))
            (\<lambda>evaluations.
          attempt (es_multi_search (ev_base em)
            \<lparr>ms_Index = evaluationsAlias em,
             ms_Searches = map (\<lambda>e. policy_evaluations_search (re_Id e)) evaluations\<rparr>)
            (\<lambda>err. GrpcInternalError ''error searching for policy evaluations'' (Some err))
            (\<lambda>multiSearchResponse.
          attempt (attach_evaluations em
              (map (\<lambda>e. \<lparr>rres_ResourceEvaluation = Some e, rres_PolicyEvaluations = []\<rparr>) evaluations)
              0 (msr_Responses multiSearchResponse)) id (\<lambda>results.
          ret \<lparr>lres_ResourceEvaluations = results,
               lres_NextPageToken = srs_NextPageToken searchResponse\<rparr>)))))))"

section \<open>The verdict\<close>

lemma evaluate_assignment_Ok:
  assumes "evaluate_assignment em i occs a (p0, es0) s = (Ok (p, es), s')"
  shows "\<exists>e. es = es0 @ [e] \<and> p = (p0 \<and> pev_Pass e) \<and> pev_PolicyVersionId e = pa_PolicyVersionId a \<and>
    pev_ResourceEvaluationId e = i"
  using assms unfolding evaluate_assignment_def
  by (auto simp: attempt_Ok draw_Ok split: option.splits)

lemma evaluate_assignments_Ok:
  assumes "for_each as (p0, es0) (evaluate_assignment em i occs) s = (Ok (p, es), s')"
  shows "\<exists>new. es = es0 @ new \<and> p = (p0 \<and> (\<forall>e\<in>set new. pev_Pass e)) \<and>
    map pev_PolicyVersionId new = map pa_PolicyVersionId as \<and>
    (\<forall>e\<in>set new. pev_ResourceEvaluationId e = i)"
  using assms
proof (induction as arbitrary: p0 es0 s)
  case Nil
  then show ?case by simp
next
  case (Cons a as)
  from Cons.prems obtain p1 es1 s1 where
    one: "evaluate_assignment em i occs a (p0, es0) s = (Ok (p1, es1), s1)"
    and rest: "for_each as (p1, es1) (evaluate_assignment em i occs) s1 = (Ok (p, es), s')"
    by (auto simp: attempt_Ok)
  from evaluate_assignment_Ok [OF one] obtain e where e: "es1 = es0 @ [e]" "p1 = (p0 \<and> pev_Pass e)"
    "pev_PolicyVersionId e = pa_PolicyVersionId a" "pev_ResourceEvaluationId e = i" by blast
  from Cons.IH [OF rest] obtain new where n: "es = es1 @ new" "p = (p1 \<and> (\<forall>e\<in>set new. pev_Pass e))"
    "map pev_PolicyVersionId new = map pa_PolicyVersionId as"
    "\<forall>e\<in>set new. pev_ResourceEvaluationId e = i" by blast
  show ?case by (intro exI [of _ "e # new"]) (use e n in auto)
qed

text \<open>
  What a successful evaluation leaves behind: one policy evaluation for each assignment, in
  their order, a verdict that is their conjunction, and one bulk request with all of it
  after calls that stored nothing.
\<close>

definition evaluation_recorded ::
  "'w evaluation_manager \<Rightarrow> resource_evaluation_request \<Rightarrow> resource_version \<Rightarrow> string
     \<Rightarrow> policy_assignment list \<Rightarrow> resource_evaluation_result \<Rightarrow> event list \<Rightarrow> bool" where
  "evaluation_recorded em request version grp las result events \<longleftrightarrow> (\<exists>i t evals e reads.
     map pev_PolicyVersionId evals = map pa_PolicyVersionId las \<and>
     (\<forall>x\<in>set evals. pev_ResourceEvaluationId x = i) \<and>
     e = \<lparr>re_Id = i, re_Pass = (\<forall>x\<in>set evals. pev_Pass x), re_Source = rer_Source request,
          re_Created = Some t, re_ResourceVersion = Some version, re_PolicyGroup = grp\<rparr> \<and>
     result = \<lparr>rres_ResourceEvaluation = Some e, rres_PolicyEvaluations = evals\<rparr> \<and>
     list_all (\<lambda>ev. \<not> es_write ev) reads \<and>
     events = reads @ [EsBulk \<lparr>br_Index = evaluationsAlias em, br_Refresh = refresh_of (ev_base em),
       br_Items = resource_evaluation_item e # map (policy_evaluation_item i) evals\<rparr>])"

lemma evaluation_recorded_prepend:
  assumes "evaluation_recorded em request version grp las result events"
    "list_all (\<lambda>ev. \<not> es_write ev) earlier"
  shows "evaluation_recorded em request version grp las result (earlier @ events)"
proof -
  from assms(1) obtain i t evals e reads where
    "map pev_PolicyVersionId evals = map pa_PolicyVersionId las"
    "\<forall>x\<in>set evals. pev_ResourceEvaluationId x = i"
    "e = \<lparr>re_Id = i, re_Pass = (\<forall>x\<in>set evals. pev_Pass x), re_Source = rer_Source request,
          re_Created = Some t, re_ResourceVersion = Some version, re_PolicyGroup = grp\<rparr>"
    "result = \<lparr>rres_ResourceEvaluation = Some e, rres_PolicyEvaluations = evals\<rparr>"
    "list_all (\<lambda>ev. \<not> es_write ev) reads"
    "events = reads @ [EsBulk \<lparr>br_Index = evaluationsAlias em, br_Refresh = refresh_of (ev_base em),
       br_Items = resource_evaluation_item e # map (policy_evaluation_item i) evals\<rparr>]"
    unfolding evaluation_recorded_def by blast
  with assms(2) show ?thesis
    unfolding evaluation_recorded_def
    by (intro exI [of _ i] exI [of _ t] exI [of _ evals] exI [of _ e] exI [of _ "earlier @ reads"]) simp
qed

section \<open>What the services promise\<close>

text \<open>
  The evaluation manager relies on its services to leave what Elasticsearch stores alone:
  the only write of an evaluation is its own.
\<close>

locale evaluation_services =
  fixes em :: "'w evaluation_manager"
  assumes policy_reads: "stores_nothing (ev_GetPolicy em r1)"
    and version_reads: "stores_nothing (ev_GetPolicyVersion em i)"
    and group_reads: "stores_nothing (ev_GetPolicyGroup em r2)"
    and assignments_read: "stores_nothing (ev_ListPolicyAssignments em r3)"
    and occurrences_read: "stores_nothing (ev_ListVersionedResourceOccurrences em uri token n)"
    and opa_init_reads: "stores_nothing (ev_InitializePolicy em j rego_source)"
    and opa_eval_reads: "stores_nothing (ev_OpaEvaluatePolicy em rego_source input)"
    and resource_reads: "stores_nothing (ev_GetResourceVersion em k)"
begin

lemma evaluatePolicy_reads: "stores_nothing (evaluatePolicy em i src occs)"
  unfolding evaluatePolicy_def by (intro io_emits opa_init_reads opa_eval_reads)

lemma EvaluatePolicy_reads: "stores_nothing (EvaluatePolicy em request)"
  unfolding EvaluatePolicy_def
  by (intro io_emits policy_reads occurrences_read evaluatePolicy_reads)

lemma evaluate_assignment_reads: "stores_nothing (evaluate_assignment em i occs a acc)"
  unfolding evaluate_assignment_def by (intro io_emits version_reads evaluatePolicy_reads)

lemma evaluate_assignments_read:
  "stores_nothing (for_each as acc (evaluate_assignment em i occs))"
  by (intro io_emits evaluate_assignment_reads)

lemma EvaluateResource_writes:
  "emits (\<lambda>ev. es_write ev \<longrightarrow> (\<exists>r. ev = EsBulk r \<and> br_Index r = evaluationsAlias em))
     (EvaluateResource em request)"
proof -
  let ?P = "\<lambda>ev. es_write ev \<longrightarrow> (\<exists>r. ev = EsBulk r \<and> br_Index r = evaluationsAlias em)"
  have weak: "stores_nothing f \<Longrightarrow> emits ?P f" for f :: "('w, 'x) io"
    by (erule emits_weaken) simp
  note reads = resource_reads [THEN weak] group_reads [THEN weak] assignments_read [THEN weak]
    occurrences_read [THEN weak] evaluate_assignments_read [THEN weak]
  show ?thesis
    unfolding EvaluateResource_def evaluate_group_def by (intro io_emits reads) simp
qed

lemma evaluate_group_recorded:
  assumes "evaluate_group em request version grp las s = (Ok result, s')"
  shows "\<exists>events. trace s' = trace s @ events \<and>
    evaluation_recorded em request version grp las result events"
proof -
  from assms obtain occs tok s4 i s5 t s6 pass evals s7 e where
    d: "ev_ListVersionedResourceOccurrences em (rer_ResourceUri request) [] (of_nat MaxPageSize) s
       = (Ok (occs, tok), s4)"
    and u: "new_uuid (ev_base em) s4 = (Ok i, s5)" "now (ev_base em) s5 = (Ok t, s6)"
    and f: "for_each las (True, []) (evaluate_assignment em i occs) s6 = (Ok (pass, evals), s7)"
    and e: "e = \<lparr>re_Id = i, re_Pass = pass, re_Source = rer_Source request,
       re_Created = Some t, re_ResourceVersion = Some version, re_PolicyGroup = grp\<rparr>"
    and g: "trace s' = trace s7 @ [EsBulk \<lparr>br_Index = evaluationsAlias em,
       br_Refresh = refresh_of (ev_base em),
       br_Items = resource_evaluation_item e # map (policy_evaluation_item i) evals\<rparr>]"
    and r: "result = \<lparr>rres_ResourceEvaluation = Some e, rres_PolicyEvaluations = evals\<rparr>"
    unfolding evaluate_group_def
    by (auto simp: attempt_Ok Let_def external_Ok)
  from emitsD [OF occurrences_read d] obtain r4 where r4: "trace s4 = trace s @ r4"
    "list_all (\<lambda>ev. \<not> es_write ev) r4" .
  from emitsD [OF evaluate_assignments_read f] obtain r5 where r5: "trace s7 = trace s6 @ r5"
    "list_all (\<lambda>ev. \<not> es_write ev) r5" .
  from u have "trace s6 = trace s4" by (auto simp: draw_Ok)
  with r4 r5 g have "trace s' = trace s @ (r4 @ r5) @ [EsBulk \<lparr>br_Index = evaluationsAlias em,
       br_Refresh = refresh_of (ev_base em),
       br_Items = resource_evaluation_item e # map (policy_evaluation_item i) evals\<rparr>]" by simp
  moreover from evaluate_assignments_Ok [OF f] have
    v: "pass = (\<forall>x\<in>set evals. pev_Pass x)" "map pev_PolicyVersionId evals = map pa_PolicyVersionId las"
      "\<forall>x\<in>set evals. pev_ResourceEvaluationId x = i" by auto
  have "evaluation_recorded em request version grp las result ((r4 @ r5) @ [EsBulk
      \<lparr>br_Index = evaluationsAlias em, br_Refresh = refresh_of (ev_base em),
       br_Items = resource_evaluation_item e # map (policy_evaluation_item i) evals\<rparr>])"
    unfolding evaluation_recorded_def using v r e r4 r5
    by (intro exI [of _ i] exI [of _ t] exI [of _ evals] exI [of _ e] exI [of _ "r4 @ r5"]) simp
  ultimately show ?thesis by blast
qed

lemma EvaluateResource_recorded:
  assumes "EvaluateResource em request s = (Ok result, s')"
  shows "\<exists>version s1 grp s2 las tok s3 events.
    rer_ResourceUri request \<noteq> [] \<and> rer_PolicyGroup request \<noteq> [] \<and>
    ev_GetResourceVersion em (rer_ResourceUri request) s = (Ok version, s1) \<and>
    ev_GetPolicyGroup em \<lparr>ggr_Name = rer_PolicyGroup request\<rparr> s1 = (Ok grp, s2) \<and>
    ev_ListPolicyAssignments em \<lparr>lar_Filter = [], lar_PageSize = 0, lar_PageToken = [],
       lar_PolicyId = [], lar_PolicyGroup = pg_Name grp\<rparr> s2
       = (Ok \<lparr>las_PolicyAssignments = las, las_NextPageToken = tok\<rparr>, s3) \<and>
    las \<noteq> [] \<and> trace s' = trace s @ events \<and>
    evaluation_recorded em request version (pg_Name grp) las result events"
proof -
  from assms obtain version s1 grp s2 resp s3 where
    ne: "rer_ResourceUri request \<noteq> []" "rer_PolicyGroup request \<noteq> []"
      "las_PolicyAssignments resp \<noteq> []"
    and a: "ev_GetResourceVersion em (rer_ResourceUri request) s = (Ok version, s1)"
    and b: "ev_GetPolicyGroup em \<lparr>ggr_Name = rer_PolicyGroup request\<rparr> s1 = (Ok grp, s2)"
    and c: "ev_ListPolicyAssignments em \<lparr>lar_Filter = [], lar_PageSize = 0, lar_PageToken = [],
       lar_PolicyId = [], lar_PolicyGroup = pg_Name grp\<rparr> s2 = (Ok resp, s3)"
    and g: "evaluate_group em request version (pg_Name grp) (las_PolicyAssignments resp) s3 = (Ok result, s')"
    unfolding EvaluateResource_def by (auto simp: attempt_Ok split: if_splits)
  from emitsD [OF resource_reads a] obtain r1 where r1: "trace s1 = trace s @ r1"
    "list_all (\<lambda>ev. \<not> es_write ev) r1" .
  from emitsD [OF group_reads b] obtain r2 where r2: "trace s2 = trace s1 @ r2"
    "list_all (\<lambda>ev. \<not> es_write ev) r2" .
  from emitsD [OF assignments_read c] obtain r3 where r3: "trace s3 = trace s2 @ r3"
    "list_all (\<lambda>ev. \<not> es_write ev) r3" .
  from evaluate_group_recorded [OF g] obtain events where ev: "trace s' = trace s3 @ events"
    "evaluation_recorded em request version (pg_Name grp) (las_PolicyAssignments resp) result events"
    by blast
  have "evaluation_recorded em request version (pg_Name grp) (las_PolicyAssignments resp) result
      ((r1 @ r2 @ r3) @ events)"
    by (rule evaluation_recorded_prepend [OF ev(2)]) (use r1 r2 r3 in simp)
  moreover have "trace s' = trace s @ ((r1 @ r2 @ r3) @ events)" using r1 r2 r3 ev(1) by simp
  moreover have "resp = \<lparr>las_PolicyAssignments = las_PolicyAssignments resp,
      las_NextPageToken = las_NextPageToken resp\<rparr>" by simp
  ultimately show ?thesis using ne a b c by metis
qed

end

interpretation services: evaluation_services "NewEvaluationManager m e opa" for m e opa
  by unfold_locales (simp_all add: NewEvaluationManager_def reads_only_GetPolicy
      reads_only_GetPolicyVersion reads_only_GetPolicyGroup reads_only_ListPolicyAssignments
      reads_only_ExtList stores_nothing_InitializePolicy reads_only_OpaEvaluatePolicy
      reads_only_GetResourceVersion reads_only_stores_nothing)

text \<open>A policy that OPA has no result for is a nil dereference in the loop.\<close>

text \<open>An assigned policy for which Open Policy Agent answers without a result stops the
  evaluation of the resource with a nil dereference, where evaluating the policy alone
  counts that answer as a failure.\<close>

lemma evaluate_assignment_no_result:
  assumes "ev_GetPolicyVersion em (pa_PolicyVersionId a) s = (Ok (Some ent), s1)"
    "evaluatePolicy em (pa_PolicyVersionId a) (pe_RegoContent ent) occs s1 = (Ok (Some resp), s2)"
    "or_Result resp = None"
  shows "evaluate_assignment em i occs a acc s =
    (Panic ''invalid memory address or nil pointer dereference'', s2)"
  using assms by (simp add: evaluate_assignment_def attempt_def)

text \<open>Evaluating one policy fetches the requested version of it and the occurrences of the
  resource, and answers with the verdict Open Policy Agent gives on exactly these, counting
  an answer without a result as a failure without violations. The verdict is not recorded.\<close>

lemma EvaluatePolicy_Ok:
  assumes "EvaluatePolicy em request s = (Ok response, s')"
  shows "\<exists>pol ent s1 occs s2 s3 opa. ev_GetPolicy em \<lparr>gpr_Id = epr_Policy request\<rparr> s = (Ok pol, s1) \<and>
    p_Policy pol = Some ent \<and>
    ev_ListVersionedResourceOccurrences em (epr_ResourceUri request) '''' (of_nat MaxPageSize) s1
      = (Ok occs, s2) \<and>
    evaluatePolicy em (p_Id pol) (pe_RegoContent ent) (fst occs) s2 = (Ok (Some opa), s3) \<and>
    trace s' = trace s3 \<and>
    ersp_Pass response = (case or_Result opa of Some r \<Rightarrow> or_Pass r | None \<Rightarrow> False) \<and>
    map eres_Pass (ersp_Result response) = [ersp_Pass response] \<and>
    map eres_Violations (ersp_Result response) =
      [case or_Result opa of Some r \<Rightarrow> or_Violations r | None \<Rightarrow> []]"
  using assms unfolding EvaluatePolicy_def
  by (auto simp: attempt_Ok draw_Ok Let_def split_def split: if_splits)

section \<open>Reading evaluations back\<close>

lemma emits_decode_policy_evaluations [io_emits, intro]: "emits P (decode_policy_evaluations em hits)"
  unfolding decode_policy_evaluations_def by (intro io_emits)

lemma emits_attach_evaluations [io_emits, intro]: "emits P (attach_evaluations em rs i resps)"
  by (induction resps arbitrary: rs i) (auto intro!: io_emits)

lemma reads_only_GetResourceEvaluation: "reads_only (GetResourceEvaluation em request)"
  unfolding GetResourceEvaluation_def by (intro io_emits) simp

lemma reads_only_ListResourceEvaluations:
  "(\<And>k. reads_only (ev_GetResourceVersion em k)) \<Longrightarrow> reads_only (ListResourceEvaluations em request)"
  unfolding ListResourceEvaluations_def by (intro io_emits) simp_all

lemma decode_policy_evaluations_Ok:
  "decode_policy_evaluations em hits s = (Ok es, s') \<longleftrightarrow> s' = s \<and>
     list_all2 (\<lambda>hit e. cd_PolicyEvaluation (codec (ev_base em)) True (hit_Source hit) = Inr e) hits es"
  unfolding decode_policy_evaluations_def by (auto simp: attempt_Ok decode_all_Inr)

lemma attach_evaluations_Ok:
  "attach_evaluations em results i responses s = (Ok rs, s') \<Longrightarrow>
     s' = s \<and> length rs = length results \<and> (responses = [] \<or> i + length responses \<le> length results) \<and>
     map rres_ResourceEvaluation rs = map rres_ResourceEvaluation results \<and>
     (\<forall>j < length responses. list_all2
        (\<lambda>hit e. cd_PolicyEvaluation (codec (ev_base em)) True (hit_Source hit) = Inr e)
        (srs_Hits (responses ! j)) (rres_PolicyEvaluations (rs ! (i + j)))) \<and>
     (\<forall>j < i. j < length results \<longrightarrow> rs ! j = results ! j)"
proof (induction responses arbitrary: results i)
  case Nil
  then show ?case by simp
next
  case (Cons response responses)
  then obtain es where es: "decode_policy_evaluations em (srs_Hits response) s = (Ok es, s)"
    and i: "i < length results"
    and run: "attach_evaluations em (results[i := (results ! i)\<lparr>rres_PolicyEvaluations := es\<rparr>]) (Suc i)
      responses s = (Ok rs, s')"
    by (auto simp: attempt_Ok decode_policy_evaluations_Ok)
  note IH = Cons.IH [OF run, unfolded length_list_update]
  from IH i have at_i: "rs ! i = (results ! i)\<lparr>rres_PolicyEvaluations := es\<rparr>" by auto
  have same: "map rres_ResourceEvaluation (results[i := (results ! i)\<lparr>rres_PolicyEvaluations := es\<rparr>])
      = map rres_ResourceEvaluation results"
    using i by (auto intro!: nth_equalityI simp: nth_list_update)
  show ?case
  proof (intro conjI allI impI)
    fix j assume j: "j < length (response # responses)"
    show "list_all2 (\<lambda>hit e. cd_PolicyEvaluation (codec (ev_base em)) True (hit_Source hit) = Inr e)
        (srs_Hits ((response # responses) ! j)) (rres_PolicyEvaluations (rs ! (i + j)))"
    proof (cases j)
      case 0
      with at_i es show ?thesis by (simp add: decode_policy_evaluations_Ok)
    next
      case (Suc k)
      with IH j show ?thesis by simp
    qed
  qed (use IH i same in auto)
qed

section \<open>Properties\<close>

text \<open>C6: a resource evaluation that succeeds was of a resource version and a group that
  exist, and of a group with assignments. Its result has one policy evaluation for each
  assignment, in their order; it passes exactly when each of them does; and everything is
  stored by one bulk request, the only write to Elasticsearch, made after all the
  policies have been evaluated.\<close>

theorem EvaluateResource_records:
  assumes "EvaluateResource (NewEvaluationManager m e opa) request s = (Ok result, s')"
  shows "\<exists>version s1 grp s2 las tok s3 events.
    rer_ResourceUri request \<noteq> [] \<and> rer_PolicyGroup request \<noteq> [] \<and>
    GetResourceVersion m (rer_ResourceUri request) s = (Ok version, s1) \<and>
    GetPolicyGroup m \<lparr>ggr_Name = rer_PolicyGroup request\<rparr> s1 = (Ok grp, s2) \<and>
    ListPolicyAssignments m \<lparr>lar_Filter = [], lar_PageSize = 0, lar_PageToken = [],
       lar_PolicyId = [], lar_PolicyGroup = pg_Name grp\<rparr> s2
       = (Ok \<lparr>las_PolicyAssignments = las, las_NextPageToken = tok\<rparr>, s3) \<and>
    las \<noteq> [] \<and> trace s' = trace s @ events \<and>
    evaluation_recorded (NewEvaluationManager m e opa) request version (pg_Name grp) las result events"
  using services.EvaluateResource_recorded [OF assms]
  by (simp add: NewEvaluationManager_def)

text \<open>Listing the evaluations of a resource gives each evaluation found with the policy
  evaluations of its own: as many searches are sent as evaluations were found, the \<open>j\<close>-th
  asks for the children of the \<open>j\<close>-th evaluation and is routed by its id, and the \<open>j\<close>-th
  answer is what the \<open>j\<close>-th result holds.\<close>

lemma ListResourceEvaluations_pairs:
  assumes "ListResourceEvaluations (NewEvaluationManager m e opa) request s = (Ok response, s')"
    "lres_ResourceEvaluations response \<noteq> []"
  shows "\<exists>evaluations (answers :: search_response list) before.
    trace s' = trace s @ before @ [EsMultiSearch \<lparr>ms_Index = alias_of m EvaluationsDocumentKind,
      ms_Searches = map (\<lambda>e. policy_evaluations_search (re_Id e)) evaluations\<rparr>] \<and>
    list_all (\<lambda>ev. \<not> mutating ev) before \<and>
    map rres_ResourceEvaluation (lres_ResourceEvaluations response) = map Some evaluations \<and>
    length answers \<le> length evaluations \<and>
    (\<forall>j < length answers. list_all2
       (\<lambda>hit e. cd_PolicyEvaluation (codec m) True (hit_Source hit) = Inr e)
       (srs_Hits (answers ! j)) (rres_PolicyEvaluations (lres_ResourceEvaluations response ! j)))"
proof -
  let ?em = "NewEvaluationManager m e opa"
  have base: "ev_base ?em = m" "ev_GetResourceVersion ?em = GetResourceVersion m"
    by (simp_all add: NewEvaluationManager_def)
  let ?search = "\<lambda>queries. \<lparr>sr_Index = evaluationsAlias ?em,
           sr_Search = \<lparr>s_Query = QMust queries, s_SortCreatedDesc = True, s_Routing = ''''\<rparr>,
           sr_Pagination = page_options (lre_PageSize request) (lre_PageToken request)\<rparr>"
  from assms obtain version s1 queries page s2 evaluations answers s3 where
    a: "ev_GetResourceVersion ?em (lre_ResourceUri request) s = (Ok version, s1)"
    and b: "es_search (ev_base ?em) (?search queries) s1 = (Ok page, s2)"
    and c: "es_multi_search (ev_base ?em) \<lparr>ms_Index = evaluationsAlias ?em,
             ms_Searches = map (\<lambda>e. policy_evaluations_search (re_Id e)) evaluations\<rparr> s2 = (Ok answers, s3)"
    and d: "attach_evaluations ?em
          (map (\<lambda>e. \<lparr>rres_ResourceEvaluation = Some e, rres_PolicyEvaluations = []\<rparr>) evaluations)
          0 (msr_Responses answers) s3 = (Ok (lres_ResourceEvaluations response), s')"
    unfolding ListResourceEvaluations_def by (auto simp: attempt_Ok split: if_splits)
  from emitsD [OF reads_only_GetResourceVersion a [unfolded base]] obtain r1 where
    r1: "trace s1 = trace s @ r1" "list_all (\<lambda>ev. \<not> mutating ev) r1" .
  note att = attach_evaluations_Ok [OF d]
  from b c att r1 have tr: "trace s' = trace s @ (r1 @ [EsSearch (?search queries)]) @
      [EsMultiSearch \<lparr>ms_Index = evaluationsAlias ?em,
             ms_Searches = map (\<lambda>e. policy_evaluations_search (re_Id e)) evaluations\<rparr>]"
    by (auto simp: external_Ok)
  show ?thesis
    by (intro exI [of _ evaluations] exI [of _ "msr_Responses answers"]
        exI [of _ "r1 @ [EsSearch (?search queries)]"] conjI)
      (use att tr r1 in \<open>auto simp: base comp_def\<close>)
qed

end
