(* ===== verification/Rode_Server.thy ===== *)
theory Rode_Server
  imports Evaluation_Manager
begin

text \<open>
  The gRPC service, \<open>server/server.go\<close>: what it does itself (occurrences, collectors,
  notes, start-up) and the calls it passes on. Its helpers \<open>createError\<close> and
  \<open>createErrorWithCode\<close> are those of the policy package, word for word. \<open>server/healthz.go\<close>
  is at the end.
\<close>

section \<open>The server\<close>

record 'w rode_server =
  sv_grafeasCommon :: "'w grafeas_client"
  sv_grafeasProjects :: "'w projects_client"
  sv_grafeasExtensions :: "'w extensions"
  sv_manager :: "'w manager"
  sv_evaluation :: "'w evaluation_manager"

section \<open>Start-up\<close>

definition index_settings :: "'w manager \<Rightarrow> (string \<times> string \<times> string) list" where
  "index_settings m = map (\<lambda>kind. (im_IndexName (indexManager m) kind '''', alias_of m kind, kind))
     [PoliciesDocumentKind, ResourcesDocumentKind, PolicyGroupsDocumentKind,
      PolicyAssignmentsDocumentKind, EvaluationsDocumentKind]"

definition ensure_project :: "'w rode_server \<Rightarrow> ('w, unit) io" where
  "ensure_project r =
     inspect (external (GrGetProject RodeProjectSlug) (pc_GetProject (sv_grafeasProjects r) RodeProjectSlug))
       (\<lambda>existing. case existing of
          Inr _ \<Rightarrow> ret ()
        | Inl err \<Rightarrow>
            if status_code err = NotFound then
              attempt (external (GrCreateProject \<lparr>prj_Name = RodeProjectSlug\<rparr>)
                (pc_CreateProject (sv_grafeasProjects r) \<lparr>prj_Name = RodeProjectSlug\<rparr>)) id (\<lambda>_. ret ())
            else fail err)"

definition create_index :: "'w rode_server \<Rightarrow> string \<times> string \<times> string \<Rightarrow> ('w, unit) io" where
  "create_index r settings = (case settings of (indexName, aliasName, documentKind) \<Rightarrow>
     attempt (external (IxCreateIndex indexName aliasName documentKind)
         (im_CreateIndex (indexManager (sv_manager r)) indexName aliasName documentKind))
       (\<lambda>err. Errorf ''error creating index'' err) (\<lambda>_. ret ()))"

definition initialize :: "'w rode_server \<Rightarrow> ('w, unit) io" where
  "initialize r =
     attempt (external IxInitialize (im_Initialize (indexManager (sv_manager r))))
       (\<lambda>err. Errorf ''error initializing index manager'' err) (\<lambda>_.
     attempt (ensure_project r) id (\<lambda>_.
     for_each (index_settings (sv_manager r)) () (\<lambda>settings _. create_index r settings)))"

definition NewRodeServer :: "'w rode_server \<Rightarrow> ('w, 'w rode_server) io" where
  "NewRodeServer r = attempt (initialize r)
     (\<lambda>err. Errorf ''failed to initialize rode server'' err) (\<lambda>_. ret r)"

section \<open>Occurrences\<close>

definition BatchCreateOccurrences ::
  "'w rode_server \<Rightarrow> batch_create_occurrences_request \<Rightarrow> ('w, batch_create_occurrences_response) io" where
  "BatchCreateOccurrences r request =
     (let req = \<lparr>gbo_Parent = RodeProjectSlug, gbo_Occurrences = bco_Occurrences request\<rparr> in
      attempt (external (GrBatchCreateOccurrences req) (gc_BatchCreateOccurrences (sv_grafeasCommon r) req))
        (\<lambda>err. createError ''error creating occurrences'' (Some err)) (\<lambda>response.
      attempt (BatchCreateResources (sv_manager r) (gbos_Occurrences response))
        (\<lambda>err. createError ''error creating resources'' (Some err)) (\<lambda>_.
      attempt (BatchCreateResourceVersions (sv_manager r) (gbos_Occurrences response))
        (\<lambda>err. createError ''error creating resource versions'' (Some err)) (\<lambda>_.
      ret \<lparr>bcos_Occurrences = gbos_Occurrences response\<rparr>))))"

definition ServerListResourceVersions ::
  "'w rode_server \<Rightarrow> list_resource_versions_request \<Rightarrow> ('w, list_resource_versions_response) io" where
  "ServerListResourceVersions r request =
     (if lrv_Id request = '''' then
        fail (StatusError InvalidArgument ''resource id is required'' None [])
      else
        attempt (GetResource (sv_manager r) (lrv_Id request)) id (\<lambda>res.
        case res of
          None \<Rightarrow> fail (StatusError NotFound (''resource with id '' @ lrv_Id request @ '' not found'') None [])
        | Some _ \<Rightarrow> ListResourceVersions (sv_manager r) request))"

text \<open>The map from note names to filters, walked in the order Go chose, and the map of notes.\<close>

definition note_filter :: "string \<Rightarrow> string" where
  "note_filter name = quoted ''name'' @ '' == '' @ quoted name"

definition fetchRelatedNotes ::
  "'w rode_server \<Rightarrow> occurrence list \<Rightarrow> ('w, (string \<times> grafeas_note) list) io" where
  "fetchRelatedNotes r occurrences =
     (if length occurrences = 0 then ret []
      else
        attempt (draw (rt_KeyOrder (runtime (sv_manager r))
          (fold add_uri (map o_NoteName occurrences) []))) id (\<lambda>order.
        let req = \<lparr>gln_Parent = RodeProjectSlug, gln_Filter = join_with '' || '' (map note_filter order),
                   gln_PageSize = of_nat MaxPageSize, gln_PageToken = ''''\<rparr> in
        attempt (external (GrListNotes req) (gc_ListNotes (sv_grafeasCommon r) req)) id (\<lambda>response.
        ret (fold (\<lambda>note result. alist_put (n_Name note) note result) (glns_Notes response) []))))"

definition ListVersionedResourceOccurrences ::
  "'w rode_server \<Rightarrow> list_versioned_resource_occurrences_request
     \<Rightarrow> ('w, list_versioned_resource_occurrences_response) io" where
  "ListVersionedResourceOccurrences r request =
     (if lvo_ResourceUri request = '''' then
        fail (createErrorWithCode ''invalid request'' (Some (ErrorNew ''must set resource_uri'')) InvalidArgument)
      else
        attempt (ExtListVersionedResourceOccurrences (sv_grafeasExtensions r) (lvo_ResourceUri request)
            (lvo_PageToken request) (lvo_PageSize request))
          (\<lambda>err. createError ''error listing versioned resource occurrences'' (Some err))
          (\<lambda>(occurrences, nextPageToken).
        if lvo_FetchRelatedNotes request then
          attempt (fetchRelatedNotes r occurrences)
            (\<lambda>err. createError ''error fetching related notes'' (Some err)) (\<lambda>relatedNotes.
          ret \<lparr>lvos_Occurrences = occurrences, lvos_NextPageToken = nextPageToken,
               lvos_RelatedNotes = relatedNotes\<rparr>)
        else ret \<lparr>lvos_Occurrences = occurrences, lvos_NextPageToken = nextPageToken,
                  lvos_RelatedNotes = []\<rparr>))"

definition ListOccurrences ::
  "'w rode_server \<Rightarrow> list_occurrences_request \<Rightarrow> ('w, list_occurrences_response) io" where
  "ListOccurrences r request =
     (let req = \<lparr>glo_Parent = RodeProjectSlug, glo_Filter = lor_Filter request,
                 glo_PageSize = lor_PageSize request, glo_PageToken = lor_PageToken request\<rparr> in
      attempt (gr_list_occurrences (sv_grafeasCommon r) req)
        (\<lambda>err. createError ''error listing occurrences'' (Some err)) (\<lambda>response.
      ret \<lparr>los_Occurrences = glos_Occurrences response, los_NextPageToken = glos_NextPageToken response\<rparr>))"

definition UpdateOccurrence :: "'w rode_server \<Rightarrow> update_occurrence_request \<Rightarrow> ('w, occurrence) io" where
  "UpdateOccurrence r request =
     (let name = ''projects/rode/occurrences/'' @ uor_Id request in
      attempt (deref (uor_Occurrence request)) id (\<lambda>occ.
      if o_Name occ \<noteq> name then
        fail (StatusError InvalidArgument ''occurrence name does not contain the occurrence id'' None [])
      else
        let req = \<lparr>guo_Name = name, guo_Occurrence = uor_Occurrence request,
                   guo_UpdateMask = uor_UpdateMask request\<rparr> in
        attempt (external (GrUpdateOccurrence req) (gc_UpdateOccurrence (sv_grafeasCommon r) req))
          (\<lambda>err. createError ''error updating occurrence'' (Some err)) (\<lambda>updated. ret updated)))"

section \<open>Collectors and notes\<close>

fun kind_suffix :: "note_kind \<Rightarrow> string" where
  "kind_suffix VULNERABILITY = ''vulnerability''"
| "kind_suffix BUILD = ''build''"
| "kind_suffix IMAGE = ''image''"
| "kind_suffix PACKAGE = ''package''"
| "kind_suffix DEPLOYMENT = ''deployment''"
| "kind_suffix DISCOVERY = ''discovery''"
| "kind_suffix ATTESTATION = ''attestation''"
| "kind_suffix INTOTO = ''intoto''"
| "kind_suffix NOTE_KIND_UNSPECIFIED = ''unspecified''"

definition buildNoteIdFromCollectorId :: "string \<Rightarrow> grafeas_note \<Rightarrow> string" where
  "buildNoteIdFromCollectorId collectorId note = collectorId @ ''-'' @ kind_suffix (n_Kind note)"

definition getNoteIdFromNoteName :: "string \<Rightarrow> string" where
  "getNoteIdFromNoteName noteName = trim_prefix noteName (RodeProjectSlug @ ''/notes/'')"

text \<open>
  The two maps of \<open>RegisterCollector\<close> start equal and share their notes; the first loop
  over the notes of Grafeas names a note in both and drops it from the second, so what is
  left in the second has not been renamed.
\<close>

fun collector_notes ::
  "string \<Rightarrow> grafeas_note list \<Rightarrow> (string \<times> grafeas_note) list
     \<Rightarrow> ('w, (string \<times> grafeas_note) list) io" where
  "collector_notes collectorId [] notesWithIds = ret notesWithIds"
| "collector_notes collectorId (note # notes) notesWithIds =
     (let noteId = buildNoteIdFromCollectorId collectorId note in
      if map_of notesWithIds noteId \<noteq> None then
        fail (createErrorWithCode ''cannot use more than one note type when registering a collector''
          None InvalidArgument)
      else collector_notes collectorId notes (notesWithIds @ [(noteId, note)]))"

definition name_note ::
  "grafeas_note \<Rightarrow> (string \<times> grafeas_note) list \<Rightarrow> (string \<times> grafeas_note) list" where
  "name_note note notesWithIds =
     (let noteId = getNoteIdFromNoteName (n_Name note) in
      case map_of notesWithIds noteId of
        None \<Rightarrow> notesWithIds
      | Some known \<Rightarrow> alist_put noteId (known\<lparr>n_Name := n_Name note\<rparr>) notesWithIds)"

definition missing_notes ::
  "grafeas_note list \<Rightarrow> (string \<times> grafeas_note) list \<Rightarrow> (string \<times> grafeas_note) list" where
  "missing_notes listed notesWithIds =
     filter (\<lambda>(noteId, _). noteId \<notin> set (map (\<lambda>n. getNoteIdFromNoteName (n_Name n)) listed)) notesWithIds"

definition collector_filter :: "string \<Rightarrow> string" where
  "collector_filter collectorId =
     ''name.startsWith('' @ quoted (RodeProjectSlug @ ''/notes/'' @ collectorId @ ''-'') @ '')''"

text \<open>The end of \<open>RegisterCollector\<close>, once it is known which notes Grafeas has.\<close>

definition create_missing_notes ::
  "'w rode_server \<Rightarrow> (string \<times> grafeas_note) list \<Rightarrow> grafeas_note list
     \<Rightarrow> ('w, register_collector_response) io" where
  "create_missing_notes r notesWithIds listed =
     (let named = fold name_note listed notesWithIds;
          notesToCreate = missing_notes listed notesWithIds in
      if length notesToCreate \<noteq> 0 then
        let req = \<lparr>gbn_Parent = RodeProjectSlug, gbn_Notes = notesToCreate\<rparr> in
        attempt (external (GrBatchCreateNotes req) (gc_BatchCreateNotes (sv_grafeasCommon r) req))
          (\<lambda>err. createError ''error creating notes'' (Some err)) (\<lambda>created.
        ret \<lparr>rcs_Notes = fold name_note (gbns_Notes created) named\<rparr>)
      else ret \<lparr>rcs_Notes = named\<rparr>)"

definition RegisterCollector ::
  "'w rode_server \<Rightarrow> register_collector_request \<Rightarrow> ('w, register_collector_response) io" where
  "RegisterCollector r request =
     (if rcr_Id request = '''' then
        fail (createErrorWithCode ''collector ID is required'' None InvalidArgument)
      else if length (rcr_Notes request) = 0 then ret \<lparr>rcs_Notes = []\<rparr>
      else
        attempt (collector_notes (rcr_Id request) (rcr_Notes request) []) id (\<lambda>notesWithIds.
        let req = \<lparr>gln_Parent = RodeProjectSlug, gln_Filter = collector_filter (rcr_Id request),
                   gln_PageSize = 0, gln_PageToken = ''''\<rparr> in
        attempt (external (GrListNotes req) (gc_ListNotes (sv_grafeasCommon r) req))
          (\<lambda>err. createError ''error listing notes'' (Some err)) (\<lambda>listed.
        create_missing_notes r notesWithIds (glns_Notes listed))))"

definition CreateNote :: "'w rode_server \<Rightarrow> create_note_request \<Rightarrow> ('w, grafeas_note) io" where
  "CreateNote r request =
     (let req = \<lparr>gcn_Parent = RodeProjectSlug, gcn_NoteId = cnr_NoteId request, gcn_Note = cnr_Note request\<rparr> in
      external (GrCreateNote req) (gc_CreateNote (sv_grafeasCommon r) req))"

section \<open>Health\<close>

datatype serving_status = SERVING | NOT_SERVING

record healthz_server =
  hz_ready :: bool

definition NewHealthzServer :: healthz_server where
  "NewHealthzServer = \<lparr>hz_ready = False\<rparr>"

definition Check :: "healthz_server \<Rightarrow> serving_status" where
  "Check h = (if hz_ready h then SERVING else NOT_SERVING)"

definition Watch :: go_error where
  "Watch = StatusError Unimplemented ''health watching is not supported yet'' None []"

definition Ready :: "healthz_server \<Rightarrow> healthz_server" where
  "Ready h = h\<lparr>hz_ready := True\<rparr>"

definition NotReady :: "healthz_server \<Rightarrow> healthz_server" where
  "NotReady h = h\<lparr>hz_ready := False\<rparr>"

section \<open>Which calls the operations make\<close>

lemma reads_only_ServerListResourceVersions: "reads_only (ServerListResourceVersions r request)"
  unfolding ServerListResourceVersions_def
  by (intro io_emits reads_only_GetResource reads_only_ListResourceVersions)

lemma reads_only_fetchRelatedNotes: "reads_only (fetchRelatedNotes r occs)"
  unfolding fetchRelatedNotes_def by (intro io_emits) simp

lemma reads_only_ListVersionedResourceOccurrences:
  "reads_only (ListVersionedResourceOccurrences r request)"
  unfolding ListVersionedResourceOccurrences_def
  by (intro io_emits reads_only_ExtList reads_only_fetchRelatedNotes)

lemma reads_only_ListOccurrences: "reads_only (ListOccurrences r request)"
  unfolding ListOccurrences_def by (intro io_emits) simp

section \<open>What the operations do\<close>

text \<open>Occurrences that are accepted have been stored in Grafeas first; then, from what
  Grafeas answered, the resources and the resource versions were created, in this order.\<close>

lemma BatchCreateOccurrences_Ok:
  assumes "BatchCreateOccurrences r request s = (Ok response, s')"
  shows "\<exists>stored s1 s2. trace s1 = trace s @ [GrBatchCreateOccurrences
      \<lparr>gbo_Parent = RodeProjectSlug, gbo_Occurrences = bco_Occurrences request\<rparr>] \<and>
    response = \<lparr>bcos_Occurrences = stored\<rparr> \<and>
    BatchCreateResources (sv_manager r) stored s1 = (Ok (), s2) \<and>
    BatchCreateResourceVersions (sv_manager r) stored s2 = (Ok (), s')"
proof -
  from assms obtain resp s1 u s2 v where run:
    "external (GrBatchCreateOccurrences \<lparr>gbo_Parent = RodeProjectSlug,
       gbo_Occurrences = bco_Occurrences request\<rparr>) (gc_BatchCreateOccurrences (sv_grafeasCommon r)
       \<lparr>gbo_Parent = RodeProjectSlug, gbo_Occurrences = bco_Occurrences request\<rparr>) s = (Ok resp, s1)"
    "BatchCreateResources (sv_manager r) (gbos_Occurrences resp) s1 = (Ok u, s2)"
    "BatchCreateResourceVersions (sv_manager r) (gbos_Occurrences resp) s2 = (Ok v, s')"
    "response = \<lparr>bcos_Occurrences = gbos_Occurrences resp\<rparr>"
    unfolding BatchCreateOccurrences_def Let_def by (auto simp: attempt_Ok)
  have "u = ()" "v = ()" by simp_all
  with run show ?thesis
    by (intro exI [of _ "gbos_Occurrences resp"] exI [of _ s1] exI [of _ s2]) (auto simp: external_Ok)
qed

text \<open>
  The occurrences are stored first: when creating the resources fails, they stay stored,
  and the caller is told about an internal error.
\<close>

text \<open>A failure to create resources is an internal error that does not take back the
  occurrences: they stay stored in Grafeas.\<close>

lemma BatchCreateOccurrences_partial:
  assumes "gc_BatchCreateOccurrences (sv_grafeasCommon r) \<lparr>gbo_Parent = RodeProjectSlug,
      gbo_Occurrences = bco_Occurrences request\<rparr> (ext s) = (Inr resp, x)"
    "BatchCreateResources (sv_manager r) (gbos_Occurrences resp)
      (s\<lparr>ext := x, trace := trace s @ [GrBatchCreateOccurrences \<lparr>gbo_Parent = RodeProjectSlug,
         gbo_Occurrences = bco_Occurrences request\<rparr>]\<rparr>) = (Err e, s1)"
  shows "BatchCreateOccurrences r request s = (Err (createError ''error creating resources'' (Some e)), s1) \<and>
    (\<exists>later. trace s1 = trace s @ GrBatchCreateOccurrences \<lparr>gbo_Parent = RodeProjectSlug,
         gbo_Occurrences = bco_Occurrences request\<rparr> # later \<and>
       list_all (\<lambda>ev. case ev of EsMultiGet _ \<Rightarrow> True | EsBulk _ \<Rightarrow> True | _ \<Rightarrow> False) later)"
proof -
  have "emits (\<lambda>ev. case ev of EsMultiGet _ \<Rightarrow> True | EsBulk _ \<Rightarrow> True | _ \<Rightarrow> False)
      (BatchCreateResources (sv_manager r) (gbos_Occurrences resp))"
    unfolding BatchCreateResources_def by (intro io_emits) simp_all
  from emitsD [OF this assms(2)] assms show ?thesis
    by (fastforce simp: BatchCreateOccurrences_def Let_def attempt_def external_def)
qed

lemma kind_suffix_inject: "kind_suffix k = kind_suffix k' \<longleftrightarrow> k = k'"
  by (cases k; cases k') simp_all

lemma note_id_inject:
  "buildNoteIdFromCollectorId c n = buildNoteIdFromCollectorId c n' \<longleftrightarrow> n_Kind n = n_Kind n'"
  by (simp add: buildNoteIdFromCollectorId_def kind_suffix_inject)

lemma collector_notes_Ok:
  "collector_notes c ns known s = (Ok r, s') \<Longrightarrow> distinct (map fst known) \<Longrightarrow>
     s' = s \<and> r = known @ map (\<lambda>n. (buildNoteIdFromCollectorId c n, n)) ns \<and> distinct (map fst r)"
proof (induction ns arbitrary: known)
  case Nil
  then show ?case by simp
next
  case (Cons n ns)
  let ?id = "buildNoteIdFromCollectorId c n"
  from Cons.prems(1) have new: "map_of known ?id = None"
    and run: "collector_notes c ns (known @ [(?id, n)]) s = (Ok r, s')"
    by (auto simp: Let_def split: if_splits)
  from new Cons.prems(2) have "distinct (map fst (known @ [(?id, n)]))"
    by (simp add: map_of_eq_None_iff)
  note IH = Cons.IH [OF run this]
  from IH [THEN conjunct2, THEN conjunct1]
  have "r = known @ map (\<lambda>n. (buildNoteIdFromCollectorId c n, n)) (n # ns)"
    by (simp only: append_assoc list.map append_Cons append_Nil)
  with IH show ?case by blast
qed

lemma map_fst_alist_put: "map_of xs k \<noteq> None \<Longrightarrow> map fst (alist_put k v xs) = map fst xs"
  by (induction xs) (auto split: if_splits)

lemma name_note_keys: "map fst (name_note n xs) = map fst xs"
  by (simp add: name_note_def Let_def map_fst_alist_put split: option.splits)

lemma fold_name_note_keys: "map fst (fold name_note ns xs) = map fst xs"
  by (induction ns arbitrary: xs) (simp_all add: name_note_keys)

text \<open>Naming touches nothing of a note but its name.\<close>

lemma fold_name_note_notes:
  "map_of xs i = Some n \<Longrightarrow> \<exists>nm. map_of (fold name_note ns xs) i = Some (n\<lparr>n_Name := nm\<rparr>)"
proof (induction ns arbitrary: xs n)
  case Nil
  have "n = n\<lparr>n_Name := n_Name n\<rparr>" by simp
  with Nil show ?case by (metis fold_simps(1))
next
  case (Cons a ns)
  have "\<exists>nm. map_of (name_note a xs) i = Some (n\<lparr>n_Name := nm\<rparr>)"
  proof (cases "map_of xs (getNoteIdFromNoteName (n_Name a))")
    case None
    moreover have "n = n\<lparr>n_Name := n_Name n\<rparr>" by simp
    ultimately show ?thesis using Cons.prems by (metis name_note_def option.simps(4))
  next
    case (Some known)
    have self: "n = n\<lparr>n_Name := n_Name n\<rparr>" by simp
    show ?thesis
    proof (cases "i = getNoteIdFromNoteName (n_Name a)")
      case True
      with Some Cons.prems show ?thesis by (auto simp: name_note_def Let_def)
    next
      case False
      with Some Cons.prems have "map_of (name_note a xs) i = Some n" by (simp add: name_note_def Let_def)
      with self show ?thesis by metis
    qed
  qed
  then obtain nm where "map_of (name_note a xs) i = Some (n\<lparr>n_Name := nm\<rparr>)" by blast
  from Cons.IH [OF this] show ?case by simp
qed

text \<open>Registering a collector returns one note per note of the request under an id made
  of the collector and the note's kind, refuses two notes of one kind, and creates exactly
  the notes that were not listed before.\<close>

lemma RegisterCollector_Ok:
  assumes "RegisterCollector r request s = (Ok response, s')" "rcr_Notes request \<noteq> []"
  shows "\<exists>listed.
    (let ids = map (buildNoteIdFromCollectorId (rcr_Id request)) (rcr_Notes request);
         create = missing_notes listed (zip ids (rcr_Notes request)) in
     distinct ids \<and> map fst (rcs_Notes response) = ids \<and>
     (\<forall>i < length ids. \<exists>nm. map_of (rcs_Notes response) (ids ! i) =
        Some ((rcr_Notes request ! i)\<lparr>n_Name := nm\<rparr>)) \<and>
     trace s' = trace s @ GrListNotes \<lparr>gln_Parent = RodeProjectSlug,
         gln_Filter = collector_filter (rcr_Id request), gln_PageSize = 0, gln_PageToken = ''''\<rparr> #
       (if create = [] then []
        else [GrBatchCreateNotes \<lparr>gbn_Parent = RodeProjectSlug, gbn_Notes = create\<rparr>]))"
proof -
  from assms obtain with_ids s1 listed s2 where
    a: "collector_notes (rcr_Id request) (rcr_Notes request) [] s = (Ok with_ids, s1)"
    and b: "external (GrListNotes \<lparr>gln_Parent = RodeProjectSlug,
         gln_Filter = collector_filter (rcr_Id request), gln_PageSize = 0, gln_PageToken = ''''\<rparr>)
         (gc_ListNotes (sv_grafeasCommon r) \<lparr>gln_Parent = RodeProjectSlug,
         gln_Filter = collector_filter (rcr_Id request), gln_PageSize = 0, gln_PageToken = ''''\<rparr>) s1
         = (Ok listed, s2)"
    and k: "create_missing_notes r with_ids (glns_Notes listed) s2 = (Ok response, s')"
    unfolding RegisterCollector_def Let_def by (auto simp: attempt_Ok split: if_splits)
  let ?create = "missing_notes (glns_Notes listed) with_ids"
  have c: "trace s' = trace s2 @ (if ?create = [] then []
         else [GrBatchCreateNotes \<lparr>gbn_Parent = RodeProjectSlug, gbn_Notes = ?create\<rparr>]) \<and>
       (\<exists>more. rcs_Notes response = fold name_note more with_ids)"
  proof (cases "?create = []")
    case True
    with k show ?thesis by (auto simp: create_missing_notes_def Let_def)
  next
    case False
    with k obtain created :: g_batch_create_notes_response where "trace s' = trace s2 @ [GrBatchCreateNotes
        \<lparr>gbn_Parent = RodeProjectSlug, gbn_Notes = ?create\<rparr>]"
      "rcs_Notes response = fold name_note (gbns_Notes created) (fold name_note (glns_Notes listed) with_ids)"
      by (auto simp: create_missing_notes_def Let_def attempt_Ok external_Ok)
    then have "rcs_Notes response = fold name_note (glns_Notes listed @ gbns_Notes created) with_ids"
      "trace s' = trace s2 @ [GrBatchCreateNotes \<lparr>gbn_Parent = RodeProjectSlug, gbn_Notes = ?create\<rparr>]"
      by simp_all
    with False show ?thesis by (simp only: if_False) blast
  qed
  let ?ids = "map (buildNoteIdFromCollectorId (rcr_Id request)) (rcr_Notes request)"
  from collector_notes_Ok [OF a] have w: "s1 = s" "with_ids = zip ?ids (rcr_Notes request)"
    "distinct ?ids"
    by (auto simp: zip_map1 zip_same_conv_map comp_def)
  from c obtain more where more: "rcs_Notes response = fold name_note more with_ids"
    by blast
  have "\<exists>nm. map_of (rcs_Notes response) (?ids ! i) = Some ((rcr_Notes request ! i)\<lparr>n_Name := nm\<rparr>)"
    if "i < length ?ids" for i
  proof -
    have "(?ids ! i, rcr_Notes request ! i) \<in> set with_ids"
      unfolding w(2) set_zip using that by (intro CollectI exI [of _ i]) simp
    moreover have "distinct (map fst with_ids)" using w(2,3) by simp
    ultimately have "map_of with_ids (?ids ! i) = Some (rcr_Notes request ! i)" by simp
    then show ?thesis unfolding more by (rule fold_name_note_notes)
  qed
  moreover have "map fst (rcs_Notes response) = ?ids"
    unfolding more fold_name_note_keys w(2) by simp
  moreover from b w(1) have "trace s2 = trace s @ [GrListNotes \<lparr>gln_Parent = RodeProjectSlug,
         gln_Filter = collector_filter (rcr_Id request), gln_PageSize = 0, gln_PageToken = ''''\<rparr>]"
    by (auto simp: external_Ok)
  ultimately show ?thesis using c w(2,3)
    by (intro exI [of _ "glns_Notes listed"]) (simp add: Let_def)
qed

text \<open>A start that succeeded made the same calls in the same order, whatever was there before.\<close>

lemma ensure_project_Ok:
  assumes "ensure_project r s = (Ok u, s')"
  shows "trace s' = trace s @ [GrGetProject RodeProjectSlug] \<or>
    trace s' = trace s @ [GrGetProject RodeProjectSlug, GrCreateProject \<lparr>prj_Name = RodeProjectSlug\<rparr>]"
  using assms unfolding ensure_project_def
  by (auto simp: inspect_Ok attempt_Ok external_Ok external_Err split: if_splits)

definition create_index_event :: "string \<times> string \<times> string \<Rightarrow> event" where
  "create_index_event = (\<lambda>(indexName, aliasName, documentKind). IxCreateIndex indexName aliasName documentKind)"

lemma create_index_Ok:
  "create_index r x s = (Ok u, s') \<Longrightarrow> trace s' = trace s @ [create_index_event x]"
  by (auto simp: create_index_def create_index_event_def attempt_Ok external_Ok split: prod.splits)

lemma create_indices_Ok:
  "for_each settings () (\<lambda>x _. create_index r x) s = (Ok u, s') \<Longrightarrow>
     trace s' = trace s @ map create_index_event settings"
proof (induction settings arbitrary: s)
  case Nil
  then show ?case by simp
next
  case (Cons x settings)
  then obtain v s1 where "create_index r x s = (Ok v, s1)"
    "for_each settings () (\<lambda>x _. create_index r x) s1 = (Ok u, s')"
    by (auto simp: attempt_Ok)
  with Cons.IH create_index_Ok show ?case by fastforce
qed

text \<open>Starting up prepares the index manager, makes sure that the project exists and
  creates each index of the managers, in this order.\<close>

lemma initialize_Ok:
  assumes "initialize r s = (Ok u, s')"
  shows "\<exists>project. (project = [] \<or> project = [GrCreateProject \<lparr>prj_Name = RodeProjectSlug\<rparr>]) \<and>
    trace s' = trace s @ [IxInitialize, GrGetProject RodeProjectSlug] @ project @
      map create_index_event (index_settings (sv_manager r))"
proof -
  from assms obtain w s1 v s2 where
    i: "external IxInitialize (im_Initialize (indexManager (sv_manager r))) s = (Ok w, s1)"
    and run: "ensure_project r s1 = (Ok v, s2)"
    "for_each (index_settings (sv_manager r)) () (\<lambda>x _. create_index r x) s2 = (Ok u, s')"
    unfolding initialize_def by (auto simp: attempt_Ok)
  from i have "trace s1 = trace s @ [IxInitialize]" by (auto simp: external_Ok)
  with create_indices_Ok [OF run(2)] ensure_project_Ok [OF run(1)] show ?thesis by auto
qed

end
