(* ===== verification/Server_Config.thy ===== *)
theory Server_Config
  imports Manager_Base
begin

text \<open>
  The server's configuration, \<open>config/config.go\<close>. Reading flags and environment
  variables (the \<open>ff\<close> library) and talking to an OIDC provider are parameters; what is
  modelled is what \<open>Build\<close> does with the values: which combinations it refuses and what
  it derives from the rest.
\<close>

section \<open>The configuration\<close>

record oidc_config =
  oidc_ClientID :: string
  oidc_SkipClientIDCheck :: bool

text \<open>
  A verifier of \<open>coreos/go-oidc\<close>: the provider it asks for keys, as its discovery document
  described it, and the configuration it was made with. What it answers to a token is an
  operation on the outside, a parameter of the authenticator.
\<close>

record oidc_verifier =
  vf_Provider :: string
  vf_Config :: oidc_config

record basic_auth_config =
  bac_Username :: string
  bac_Password :: string

record oidc_auth_config =
  oac_Issuer :: string
  oac_RequiredAudience :: string
  oac_RoleClaimPath :: string
  oac_TlsInsecureSkipVerify :: bool
  oac_Verifier :: "oidc_verifier option"

record auth_config =
  ac_Enabled :: bool
  ac_Basic :: basic_auth_config
  ac_OIDC :: oidc_auth_config

record config =
  cf_Auth :: auth_config
  cf_Elasticsearch :: elasticsearch_config
  cf_GrafeasHost :: string
  cf_OpaHost :: string
  cf_Port :: int
  cf_Debug :: bool

definition RefreshTrue :: string where
  "RefreshTrue = ''true''"

definition RefreshWaitFor :: string where
  "RefreshWaitFor = ''wait_for''"

definition RefreshFalse :: string where
  "RefreshFalse = ''false''"

definition ConfigIsValid :: "elasticsearch_config \<Rightarrow> go_error option" where
  "ConfigIsValid c =
     (if esc_Refresh c \<in> {RefreshTrue, RefreshWaitFor, RefreshFalse} then None
      else Some (ErrorNew (''invalid refresh option '' @ esc_Refresh c @ ''. valid options are ''
        @ [CHR 0x22] @ ''true'' @ [CHR 0x22] @ '', '' @ [CHR 0x22] @ ''false'' @ [CHR 0x22]
        @ '', '' @ [CHR 0x22] @ ''wait_for'' @ [CHR 0x22])))"

text \<open>
  \<open>Build\<close> after the flags are declared: \<open>parsed\<close> is what the flags were set to (the
  fields of the configuration and the refresh option), or the error of parsing them;
  \<open>newProvider\<close> asks the issuer for its discovery document.
\<close>

definition one_without_other :: "string \<Rightarrow> string \<Rightarrow> bool" where
  "one_without_other a b \<longleftrightarrow> a \<noteq> '''' \<and> b = '''' \<or> a = '''' \<and> b \<noteq> ''''"

definition verifier_config :: "string \<Rightarrow> oidc_config" where
  "verifier_config audience =
     (if audience \<noteq> '''' then \<lparr>oidc_ClientID = audience, oidc_SkipClientIDCheck = False\<rparr>
      else \<lparr>oidc_ClientID = '''', oidc_SkipClientIDCheck = True\<rparr>)"

definition check_flags :: "config \<Rightarrow> go_error option" where
  "check_flags conf =
     (case ConfigIsValid (cf_Elasticsearch conf) of
        Some err \<Rightarrow> Some err
      | None \<Rightarrow>
          if one_without_other (bac_Username (ac_Basic (cf_Auth conf))) (bac_Password (ac_Basic (cf_Auth conf))) then
            Some (ErrorNew (''when using basic auth, both --basic-auth-username and ''
              @ ''--basic-auth-password must be set''))
          else if one_without_other (esc_Username (cf_Elasticsearch conf)) (esc_Password (cf_Elasticsearch conf)) then
            Some (ErrorNew (''if Elasticsearch auth is configured, both --elasticsearch-username ''
              @ ''and --elasticsearch-password must be set''))
          else None)"

definition set_enabled :: "config \<Rightarrow> oidc_verifier option \<Rightarrow> config" where
  "set_enabled conf v =
     (let auth = cf_Auth conf in
      conf\<lparr>cf_Auth := auth\<lparr>ac_OIDC := (ac_OIDC auth)\<lparr>oac_Verifier := v\<rparr>,
        ac_Enabled := bac_Username (ac_Basic auth) \<noteq> '''' \<and> bac_Password (ac_Basic auth) \<noteq> ''''
          \<or> oac_Issuer (ac_OIDC auth) \<noteq> ''''\<rparr>\<rparr>)"

definition Build ::
  "(string \<Rightarrow> bool \<Rightarrow> go_error + (oidc_config \<Rightarrow> oidc_verifier)) \<Rightarrow> go_error + config
     \<Rightarrow> go_error + config" where
  "Build newProvider parsed = (case parsed of
       Inl err \<Rightarrow> Inl err
     | Inr conf \<Rightarrow> (case check_flags conf of
         Some err \<Rightarrow> Inl err
       | None \<Rightarrow>
           let oidc = ac_OIDC (cf_Auth conf) in
           if oac_Issuer oidc \<noteq> '''' then
             (case newProvider (oac_Issuer oidc) (oac_TlsInsecureSkipVerify oidc) of
                Inl err \<Rightarrow> Inl (Errorf ''error initializing oidc provider'' err)
              | Inr mkVerifier \<Rightarrow>
                  Inr (set_enabled conf (Some (mkVerifier (verifier_config (oac_RequiredAudience oidc))))))
           else if oac_RequiredAudience oidc \<noteq> '''' then
             Inl (ErrorNew (''the --oidc-required-audience flag cannot be specified without ''
               @ ''--oidc-issuer''))
           else Inr (set_enabled conf (oac_Verifier oidc))))"

section \<open>What a configuration that was built looks like\<close>

definition config_ok :: "config \<Rightarrow> bool" where
  "config_ok c \<longleftrightarrow>
     esc_Refresh (cf_Elasticsearch c) \<in> {''true'', ''wait_for'', ''false''} \<and>
     (bac_Username (ac_Basic (cf_Auth c)) = '''' \<longleftrightarrow> bac_Password (ac_Basic (cf_Auth c)) = '''') \<and>
     (esc_Username (cf_Elasticsearch c) = '''' \<longleftrightarrow> esc_Password (cf_Elasticsearch c) = '''') \<and>
     (oac_Issuer (ac_OIDC (cf_Auth c)) \<noteq> '''' \<longrightarrow> oac_Verifier (ac_OIDC (cf_Auth c)) \<noteq> None) \<and>
     (oac_Issuer (ac_OIDC (cf_Auth c)) = '''' \<longrightarrow> oac_RequiredAudience (ac_OIDC (cf_Auth c)) = '''') \<and>
     (ac_Enabled (cf_Auth c) \<longleftrightarrow>
        bac_Username (ac_Basic (cf_Auth c)) \<noteq> '''' \<and> bac_Password (ac_Basic (cf_Auth c)) \<noteq> '''' \<or>
        oac_Issuer (ac_OIDC (cf_Auth c)) \<noteq> '''')"

lemma ConfigIsValid_None:
  "ConfigIsValid c = None \<longleftrightarrow> esc_Refresh c \<in> {''true'', ''wait_for'', ''false''}"
  by (simp add: ConfigIsValid_def RefreshTrue_def RefreshWaitFor_def RefreshFalse_def)

lemma one_without_other_iff: "\<not> one_without_other a b \<longleftrightarrow> (a = '''' \<longleftrightarrow> b = '''')"
  by (auto simp: one_without_other_def)

lemma check_flags_None:
  "check_flags conf = None \<longleftrightarrow>
     esc_Refresh (cf_Elasticsearch conf) \<in> {''true'', ''wait_for'', ''false''} \<and>
     (bac_Username (ac_Basic (cf_Auth conf)) = '''' \<longleftrightarrow> bac_Password (ac_Basic (cf_Auth conf)) = '''') \<and>
     (esc_Username (cf_Elasticsearch conf) = '''' \<longleftrightarrow> esc_Password (cf_Elasticsearch conf) = '''')"
  unfolding check_flags_def ConfigIsValid_None [symmetric] one_without_other_iff [symmetric]
  by (simp split: option.splits)

text \<open>A configuration that is built from the command line is consistent: the refresh mode
  is one of three, user names and passwords come in pairs, an issuer comes with a verifier
  and an audience only with an issuer, and authorization is on exactly when one of the two
  kinds of authentication is configured.\<close>

lemma Build_config_ok: "Build newProvider parsed = Inr c \<Longrightarrow> config_ok c"
proof -
  assume "Build newProvider parsed = Inr c"
  then obtain conf v where c: "check_flags conf = None" "c = set_enabled conf v"
    "oac_Issuer (ac_OIDC (cf_Auth conf)) \<noteq> '''' \<longrightarrow> v \<noteq> None"
    "oac_Issuer (ac_OIDC (cf_Auth conf)) = '''' \<longrightarrow> oac_RequiredAudience (ac_OIDC (cf_Auth conf)) = ''''"
    unfolding Build_def Let_def by (auto split: sum.splits option.splits if_splits)
  from c(1) [unfolded check_flags_None] c(3,4) show ?thesis
    unfolding c(2) by (simp add: config_ok_def set_enabled_def Let_def)
qed

text \<open>A valid choice of flags is never refused, unless the issuer cannot be reached.\<close>

text \<open>Flags that pass the checks are never refused for another reason, once the issuer
  answers.\<close>

lemma Build_accepts:
  assumes "check_flags conf = None"
    "oac_Issuer (ac_OIDC (cf_Auth conf)) = '''' \<longrightarrow> oac_RequiredAudience (ac_OIDC (cf_Auth conf)) = ''''"
    "\<And>i b. \<exists>mk. newProvider i b = Inr mk"
  shows "\<exists>c. Build newProvider (Inr conf) = Inr c"
proof -
  obtain mk where "newProvider (oac_Issuer (ac_OIDC (cf_Auth conf)))
      (oac_TlsInsecureSkipVerify (ac_OIDC (cf_Auth conf))) = Inr mk"
    using assms(3) by blast
  with assms(1,2) show ?thesis by (simp add: Build_def Let_def)
qed

end
