(* ===== verification/Go_Base64.thy ===== *)
theory Go_Base64
  imports Go_Strings
begin

text \<open>
  \<open>base64.StdEncoding\<close>: encoding with padding, and Go's decoder, which skips line ends,
  wants the padding and does not look at the unused bits of the last character. The
  position in the error of a refused text is not modelled, only that it is refused.
\<close>

section \<open>The alphabet\<close>

definition b64_char :: "nat \<Rightarrow> char" where
  "b64_char v = (if v < 26 then char_of (65 + v)
     else if v < 52 then char_of (71 + v)
     else if v < 62 then char_of (v - 4)
     else if v = 62 then CHR ''+'' else CHR ''/'')"

definition b64_value :: "char \<Rightarrow> nat option" where
  "b64_value c = (let n = of_char c :: nat in
     if 65 \<le> n \<and> n \<le> 90 then Some (n - 65)
     else if 97 \<le> n \<and> n \<le> 122 then Some (n - 71)
     else if 48 \<le> n \<and> n \<le> 57 then Some (n + 4)
     else if n = 43 then Some 62 else if n = 47 then Some 63 else None)"

definition pad :: char where
  "pad = CHR ''=''"

section \<open>Encoding and decoding\<close>

text \<open>Three bytes are one number of 24 bits, which is four digits of 6 bits.\<close>

definition group_value :: "char \<Rightarrow> char \<Rightarrow> char \<Rightarrow> nat" where
  "group_value a b c = of_char a * 65536 + of_char b * 256 + of_char c"

definition digit_at :: "nat \<Rightarrow> nat \<Rightarrow> char" where
  "digit_at n i = b64_char (n div 64 ^ i mod 64)"

fun EncodeToString :: "string \<Rightarrow> string" where
  "EncodeToString [] = []"
| "EncodeToString [a] = (let n = group_value a (CHR 0x00) (CHR 0x00) in
     [digit_at n 3, digit_at n 2, pad, pad])"
| "EncodeToString [a, b] = (let n = group_value a b (CHR 0x00) in
     [digit_at n 3, digit_at n 2, digit_at n 1, pad])"
| "EncodeToString (a # b # c # rest) = (let n = group_value a b c in
     [digit_at n 3, digit_at n 2, digit_at n 1, digit_at n 0] @ EncodeToString rest)"

definition byte_at :: "nat \<Rightarrow> nat \<Rightarrow> char" where
  "byte_at n i = char_of (n div 256 ^ i mod 256)"

definition quad_value :: "char \<Rightarrow> char \<Rightarrow> char \<Rightarrow> char \<Rightarrow> nat option" where
  "quad_value a b c d = (case (b64_value a, b64_value b, b64_value c, b64_value d) of
     (Some w, Some x, Some y, Some z) \<Rightarrow> Some (w * 64 ^ 3 + x * 64 ^ 2 + y * 64 + z)
   | _ \<Rightarrow> None)"

fun decode_quads :: "string \<Rightarrow> string option" where
  "decode_quads [] = Some []"
| "decode_quads (a # b # c # d # rest) =
     (if d = pad then
        (if rest \<noteq> [] then None
         else if c = pad then
           map_option (\<lambda>n. [byte_at n 2]) (quad_value a b (CHR ''A'') (CHR ''A''))
         else map_option (\<lambda>n. [byte_at n 2, byte_at n 1]) (quad_value a b c (CHR ''A'')))
      else (case quad_value a b c d of
          None \<Rightarrow> None
        | Some n \<Rightarrow> map_option (\<lambda>t. [byte_at n 2, byte_at n 1, byte_at n 0] @ t) (decode_quads rest)))"
| "decode_quads _ = None"

definition DecodeString :: "string \<Rightarrow> string option" where
  "DecodeString s = decode_quads (filter (\<lambda>c. c \<noteq> CHR 0x0A \<and> c \<noteq> CHR 0x0D) s)"

section \<open>Decoding what was encoded\<close>

lemma b64_value_char: "v < 64 \<Longrightarrow> b64_value (b64_char v) = Some v"
  by (auto simp: b64_value_def b64_char_def Let_def)

lemma b64_char_not_special: "v < 64 \<Longrightarrow>
    b64_char v \<noteq> pad \<and> b64_char v \<noteq> CHR 0x0A \<and> b64_char v \<noteq> CHR 0x0D \<and> b64_char v \<noteq> CHR '' ''"
proof -
  assume v: "v < 64"
  have "b64_value pad = None" "b64_value (CHR 0x0A) = None" "b64_value (CHR 0x0D) = None"
    "b64_value (CHR '' '') = None"
    by (simp_all add: b64_value_def pad_def Let_def)
  with b64_value_char [OF v] show ?thesis by (metis option.distinct(1))
qed

lemma digit_at_not_special:
  "digit_at n i \<noteq> pad \<and> digit_at n i \<noteq> CHR 0x0A \<and> digit_at n i \<noteq> CHR 0x0D \<and> digit_at n i \<noteq> CHR '' ''"
  unfolding digit_at_def by (rule b64_char_not_special) simp

lemma b64_value_digit_at: "b64_value (digit_at n i) = Some (n div 64 ^ i mod 64)"
  unfolding digit_at_def by (rule b64_value_char) simp

lemma four_digits:
  fixes n :: nat
  assumes "n < 64 ^ 4"
  shows "n div 64 ^ 3 mod 64 * 64 ^ 3 + n div 64 ^ 2 mod 64 * 64 ^ 2 + n div 64 mod 64 * 64 + n mod 64 = n"
proof -
  define q1 q2 q3 where "q1 = n div 64" and "q2 = q1 div 64" and "q3 = q2 div 64"
  have q: "n = 64 * q1 + n mod 64" "q1 = 64 * q2 + q1 mod 64" "q2 = 64 * q3 + q2 mod 64"
    unfolding q1_def q2_def q3_def by (rule mult_div_mod_eq [symmetric])+
  have e: "n div 64 ^ 2 = q2" "n div 64 ^ 3 = q3"
    unfolding q3_def q2_def q1_def by (simp_all add: div_mult2_eq [symmetric] power2_eq_square power3_eq_cube)
  have "q3 < 64"
    using assms unfolding e(2) [symmetric] by (intro less_mult_imp_div_less) simp
  then have "q3 mod 64 * 64 ^ 3 + q2 mod 64 * 64 ^ 2 + q1 mod 64 * 64 + n mod 64
      = 64 * (64 * (64 * q3 + q2 mod 64) + q1 mod 64) + n mod 64" by simp
  also have "\<dots> = n" using q by metis
  finally show ?thesis unfolding e q1_def .
qed

lemma b64_value_A: "b64_value (CHR ''A'') = Some 0"
  by (simp add: b64_value_def Let_def)

lemma quad_value_digits:
  "n < 64 ^ 4 \<Longrightarrow> quad_value (digit_at n 3) (digit_at n 2) (digit_at n 1) (digit_at n 0) = Some n"
  using four_digits [of n] by (simp add: quad_value_def b64_value_digit_at)

lemma of_char_less: "(of_char c :: nat) < 256"
  using nat_of_char_less_256 [of c] by simp

lemma group_value_less: "group_value a b c < 64 ^ 4"
proof -
  have "x < 256 \<Longrightarrow> y < 256 \<Longrightarrow> z < 256 \<Longrightarrow> x * 65536 + y * 256 + z < (16777216 :: nat)" for x y z
    by linarith
  from this [OF of_char_less of_char_less of_char_less] show ?thesis
    unfolding group_value_def by simp
qed

lemma bytes_of_sum:
  fixes x y z :: nat
  assumes "x < 256" "y < 256" "z < 256"
  shows "(x * 65536 + y * 256 + z) div 65536 mod 256 = x" "(x * 65536 + y * 256 + z) div 256 mod 256 = y"
    "(x * 65536 + y * 256 + z) mod 256 = z"
proof -
  have s: "x * 65536 + y * 256 + z = (x * 256 + y) * 256 + z" by simp
  have d1: "(x * 65536 + y * 256 + z) div 256 = x * 256 + y"
    unfolding s using assms(3) by simp
  have "(x * 65536 + y * 256 + z) div 65536 = (x * 65536 + y * 256 + z) div 256 div 256"
    by (simp add: div_mult2_eq [symmetric])
  also have "\<dots> = x" unfolding d1 using assms(2) by simp
  finally show "(x * 65536 + y * 256 + z) div 65536 mod 256 = x" using assms(1) by simp
  show "(x * 65536 + y * 256 + z) div 256 mod 256 = y" unfolding d1 using assms(2) by simp
  show "(x * 65536 + y * 256 + z) mod 256 = z"
    unfolding s using assms(3) by (simp only: mod_mult_self3 mod_less)
qed

lemma group_bytes:
  "byte_at (group_value a b c) 2 = a" "byte_at (group_value a b c) 1 = b"
  "byte_at (group_value a b c) 0 = c"
  using bytes_of_sum [OF of_char_less of_char_less of_char_less, of a b c]
  by (simp_all add: byte_at_def group_value_def power2_eq_square)

lemma char_of_65: "char_of (65 :: nat) = CHR ''A''"
  by code_simp

lemma decode_quads_EncodeToString: "decode_quads (EncodeToString s) = Some s"
proof (induction s rule: EncodeToString.induct)
  case 1
  then show ?case by simp
next
  case (2 a)
  let ?n = "group_value a (CHR 0x00) (CHR 0x00)"
  have "digit_at ?n 1 = CHR ''A''" "digit_at ?n 0 = CHR ''A''"
    by (simp_all add: digit_at_def group_value_def b64_char_def char_of_65)
  with quad_value_digits [OF group_value_less [of a "CHR 0x00" "CHR 0x00"]]
  have "quad_value (digit_at ?n 3) (digit_at ?n 2) (CHR ''A'') (CHR ''A'') = Some ?n" by simp
  then show ?case by (simp add: Let_def group_bytes)
next
  case (3 a b)
  let ?n = "group_value a b (CHR 0x00)"
  have "digit_at ?n 0 = CHR ''A''"
    by (simp add: digit_at_def group_value_def b64_char_def char_of_65)
  with quad_value_digits [OF group_value_less [of a b "CHR 0x00"]]
  have "quad_value (digit_at ?n 3) (digit_at ?n 2) (digit_at ?n 1) (CHR ''A'') = Some ?n" by simp
  then show ?case using digit_at_not_special [of ?n 1] by (simp add: Let_def group_bytes [unfolded One_nat_def])
next
  case (4 a b c rest)
  then show ?case
    using digit_at_not_special [of "group_value a b c" 0]
      quad_value_digits [OF group_value_less [of a b c]]
    by (simp add: Let_def group_bytes [unfolded One_nat_def])
qed

lemma encode_no_blank:
  "c \<in> set (EncodeToString s) \<Longrightarrow> c \<noteq> CHR 0x0A \<and> c \<noteq> CHR 0x0D \<and> c \<noteq> CHR '' ''"
  by (induction s rule: EncodeToString.induct)
     (auto simp: Let_def digit_at_not_special pad_def)

lemma DecodeString_EncodeToString: "DecodeString (EncodeToString s) = Some s"
proof -
  have "filter (\<lambda>c. c \<noteq> CHR 0x0A \<and> c \<noteq> CHR 0x0D) (EncodeToString s) = EncodeToString s"
    using encode_no_blank [of _ s] by (intro filter_True) auto
  then show ?thesis by (simp add: DecodeString_def decode_quads_EncodeToString)
qed

lemma EncodeToString_Nil_iff [simp]: "EncodeToString s = [] \<longleftrightarrow> s = []"
  by (cases s rule: EncodeToString.cases) (simp_all add: Let_def)

end
