(* ===== verification/Authentication.thy ===== *)
theory Authentication
  imports Server_Config Go_Base64
begin

text \<open>
  Who is calling: \<open>auth/role_registry.go\<close> and \<open>auth/auth.go\<close>. The part of the gRPC
  context the sources use is a record: the authorization header, the method and the roles
  stored under \<open>rolesCtxKey\<close>. \<open>grpc_auth.AuthFromMD\<close>, the OIDC verifier and the lookup
  of a claim by its path are parameters. The verifier is part of the outside: it may fetch
  the keys of the provider and it reads the clock, so the same token may be accepted now and
  refused later, and checking it may change the state of the outside.
\<close>

section \<open>Roles and permissions\<close>

type_synonym role = string
type_synonym permission = string

definition RoleAnonymous :: role where "RoleAnonymous = ''Anonymous''"

definition RoleEnforcer :: role where "RoleEnforcer = ''Enforcer''"

definition RoleCollector :: role where "RoleCollector = ''Collector''"

definition RoleApplicationDeveloper :: role where "RoleApplicationDeveloper = ''ApplicationDeveloper''"

definition RolePolicyDeveloper :: role where "RolePolicyDeveloper = ''PolicyDeveloper''"

definition RolePolicyAdministrator :: role where "RolePolicyAdministrator = ''PolicyAdministrator''"

definition RoleAdministrator :: role where "RoleAdministrator = ''Administrator''"

text \<open>The map of \<open>NewRoleRegistry\<close>, with the permissions written out.\<close>

definition registry :: "(role \<times> permission list) list" where
  "registry =
    [(RoleAnonymous,
      [''rode.evaluationResult.read'', ''rode.occurrence.read'', ''rode.policyAssignment.read'',
       ''rode.policyGroup.read'', ''rode.policy.read'', ''rode.resource.read'']),
     (RoleEnforcer,
      [''rode.evaluationResult.read'', ''rode.policyGroup.read'', ''rode.policy.read'',
       ''rode.resource.evaluate'', ''rode.resource.read'']),
     (RoleCollector,
      [''rode.collector.register'', ''rode.note.write'', ''rode.occurrence.read'',
       ''rode.occurrence.write'']),
     (RoleApplicationDeveloper,
      [''rode.occurrence.read'', ''rode.policyAssignment.read'', ''rode.policy.evaluate'',
       ''rode.policyGroup.read'', ''rode.policy.read'', ''rode.policy.validate'',
       ''rode.resource.read'']),
     (RolePolicyDeveloper,
      [''rode.evaluationResult.read'', ''rode.occurrence.read'', ''rode.policyAssignment.read'',
       ''rode.policy.evaluate'', ''rode.policyGroup.read'', ''rode.policy.read'',
       ''rode.policy.validate'', ''rode.policy.write'', ''rode.resource.evaluate'',
       ''rode.resource.read'']),
     (RolePolicyAdministrator,
      [''rode.evaluationResult.read'', ''rode.occurrence.read'', ''rode.policyAssignment.delete'',
       ''rode.policyAssignment.read'', ''rode.policyAssignment.write'', ''rode.policy.delete'',
       ''rode.policy.evaluate'', ''rode.policyGroup.delete'', ''rode.policyGroup.read'',
       ''rode.policyGroup.write'', ''rode.policy.read'', ''rode.policy.validate'',
       ''rode.policy.write'', ''rode.resource.evaluate'', ''rode.resource.read'']),
     (RoleAdministrator,
      [''rode.collector.register'', ''rode.evaluationResult.read'', ''rode.note.write'',
       ''rode.occurrence.read'', ''rode.occurrence.write'', ''rode.policyAssignment.delete'',
       ''rode.policyAssignment.read'', ''rode.policyAssignment.write'', ''rode.policy.delete'',
       ''rode.policy.evaluate'', ''rode.policyGroup.delete'', ''rode.policyGroup.read'',
       ''rode.policyGroup.write'', ''rode.policy.read'', ''rode.policy.validate'',
       ''rode.policy.write'', ''rode.resource.evaluate'', ''rode.resource.read''])]"

definition GetRoleByName :: "string \<Rightarrow> role" where
  "GetRoleByName roleName = (case map_of registry roleName of None \<Rightarrow> '''' | Some _ \<Rightarrow> roleName)"

definition GetRolePermissions :: "role \<Rightarrow> permission list" where
  "GetRolePermissions r = (case map_of registry r of None \<Rightarrow> [] | Some ps \<Rightarrow> ps)"

section \<open>The registry as an interface\<close>

text \<open>
  What the authenticator and the interceptor rely on of a \<open>RoleRegistry\<close>: looking a role
  up by name gives that role or the empty one, and only known roles have permissions.
\<close>

locale role_registry =
  fixes by_name :: "string \<Rightarrow> role" and perms :: "role \<Rightarrow> permission list"
  assumes by_name_cases: "by_name n = n \<or> by_name n = ''''"
    and unknown_powerless: "by_name n = '''' \<Longrightarrow> perms n = []"
begin

lemma known: "by_name n \<noteq> '''' \<Longrightarrow> by_name n = n"
  using by_name_cases by blast

lemma powerful_known: "p \<in> set (perms n) \<Longrightarrow> by_name n = n"
  using by_name_cases unknown_powerless by fastforce

lemma by_name_idem: "by_name (by_name n) = by_name n"
  using by_name_cases [of n] by_name_cases [of "''''"] by metis

end

lemma registry_no_empty: "map_of registry '''' = None"
  by (simp add: registry_def RoleAnonymous_def RoleEnforcer_def RoleCollector_def
      RoleApplicationDeveloper_def RolePolicyDeveloper_def RolePolicyAdministrator_def
      RoleAdministrator_def)

interpretation roles: role_registry GetRoleByName GetRolePermissions
  by unfold_locales
    (auto simp: GetRoleByName_def GetRolePermissions_def registry_no_empty split: option.splits)

section \<open>Authentication\<close>

record request_context =
  cx_Authorization :: string
  cx_Method :: "string option"
  cx_Roles :: "role list option"

datatype claim_value = ClaimString string | ClaimOther

text \<open>
  \<open>IDTokenVerifier.Verify\<close>, which gives the token it accepted, and \<open>IDToken.Claims\<close>, which
  decodes the claims the token carries (as JSON text) and is pure.
\<close>

record 'w oidc_lib =
  ol_Verify :: "oidc_verifier \<Rightarrow> string \<Rightarrow> 'w \<Rightarrow> (go_error + string) \<times> 'w"
  ol_Claims :: "string \<Rightarrow> go_error + string"

record 'w authenticator =
  at_authConfig :: auth_config
  at_GetRoleByName :: "string \<Rightarrow> role"
  at_AuthFromMD :: "string \<Rightarrow> string \<Rightarrow> go_error + string"
  at_Oidc :: "'w oidc_lib"
  at_ClaimPath :: "string \<Rightarrow> string \<Rightarrow> claim_value list option"

definition with_roles :: "role list \<Rightarrow> request_context \<Rightarrow> request_context" where
  "with_roles rs ctx = ctx\<lparr>cx_Roles := Some rs\<rparr>"

definition check_credentials :: "'w authenticator \<Rightarrow> request_context \<Rightarrow> string \<Rightarrow> ('w, request_context) io" where
  "check_credentials a ctx data =
     (case split_on (CHR '':'') data of
        [username, password] \<Rightarrow>
          if bac_Username (ac_Basic (at_authConfig a)) = username
             \<and> bac_Password (ac_Basic (at_authConfig a)) = password
          then ret (with_roles [RoleAdministrator] ctx)
          else fail (GrpcErrorWithCode ''invalid username or password'' None Unauthenticated)
      | _ \<Rightarrow> fail (GrpcErrorWithCode
          ''expected auth token to follow format ${username}:${password}'' None Unauthenticated))"

definition basic :: "'w authenticator \<Rightarrow> request_context \<Rightarrow> ('w, request_context) io" where
  "basic a ctx =
     attempt (lift (at_AuthFromMD a (cx_Authorization ctx) ''basic'')) id (\<lambda>token.
     case DecodeString token of
       None \<Rightarrow> fail (GrpcErrorWithCode ''error decoding auth token'' (Some (ErrorNew ''illegal base64 data''))
                 Unauthenticated)
     | Some data \<Rightarrow> check_credentials a ctx data)"

text \<open>The loop over the role names of a token; a claim that is not a string is a panic.\<close>

fun token_roles :: "'w authenticator \<Rightarrow> claim_value list \<Rightarrow> ('w, role list) io" where
  "token_roles a [] = ret []"
| "token_roles a (ClaimOther # rest) = panic ''interface conversion''"
| "token_roles a (ClaimString name # rest) =
     attempt (token_roles a rest) id (\<lambda>rs.
     ret (if at_GetRoleByName a name \<noteq> '''' then at_GetRoleByName a name # rs else rs))"

definition oidc :: "'w authenticator \<Rightarrow> request_context \<Rightarrow> ('w, request_context) io" where
  "oidc a ctx =
     attempt (lift (at_AuthFromMD a (cx_Authorization ctx) ''bearer'')) id (\<lambda>rawToken.
     attempt (deref (oac_Verifier (ac_OIDC (at_authConfig a)))) id (\<lambda>verifier.
     attempt (consult (ol_Verify (at_Oidc a) verifier rawToken))
       (\<lambda>err. GrpcErrorWithCode ''error validating jwt'' (Some err) Unauthenticated) (\<lambda>token.
     attempt (lift (ol_Claims (at_Oidc a) token))
       (\<lambda>err. GrpcErrorWithCode ''error unmarshalling claims'' (Some err) Unauthenticated) (\<lambda>claims.
     case at_ClaimPath a claims (oac_RoleClaimPath (ac_OIDC (at_authConfig a))) of
       None \<Rightarrow> fail (GrpcErrorWithCode ''missing roles claim'' None Unauthenticated)
     | Some allRoles \<Rightarrow>
         attempt (token_roles a allRoles) id (\<lambda>rs.
         ret (with_roles (if length rs = 0 then [RoleAnonymous] else rs) ctx))))))"

definition Authenticate :: "'w authenticator \<Rightarrow> request_context \<Rightarrow> ('w, request_context) io" where
  "Authenticate a ctx =
     (if cx_Authorization ctx = '''' then ret (with_roles [RoleAnonymous] ctx)
      else if bac_Username (ac_Basic (at_authConfig a)) \<noteq> ''''
           \<and> bac_Password (ac_Basic (at_authConfig a)) \<noteq> '''' then basic a ctx
      else if oac_Issuer (ac_OIDC (at_authConfig a)) \<noteq> '''' then oidc a ctx
      else ret ctx)"

section \<open>Which roles a caller gets\<close>

lemma emits_check_credentials [io_emits, intro]: "emits P (check_credentials a ctx data)"
  unfolding check_credentials_def by (intro io_emits)

lemma emits_basic [io_emits, intro]: "emits P (basic a ctx)"
  unfolding basic_def by (intro io_emits)

lemma emits_token_roles [io_emits, intro]: "emits P (token_roles a cs)"
  by (induction cs rule: token_roles.induct) (auto intro!: io_emits simp del: ret_run panic_run)

lemma emits_oidc [io_emits, intro]: "emits P (oidc a ctx)"
  unfolding oidc_def by (intro io_emits)

lemma emits_Authenticate [io_emits, intro]: "emits P (Authenticate a ctx)"
  unfolding Authenticate_def by (intro io_emits)

lemma check_credentials_Ok:
  "check_credentials a ctx data s = (Ok ctx', s') \<longleftrightarrow> s' = s \<and> ctx' = with_roles [RoleAdministrator] ctx \<and>
     split_on (CHR '':'') data =
       [bac_Username (ac_Basic (at_authConfig a)), bac_Password (ac_Basic (at_authConfig a))]"
  unfolding check_credentials_def by (auto split: list.splits)

lemma basic_Ok:
  "basic a ctx s = (Ok ctx', s') \<longleftrightarrow> s' = s \<and> ctx' = with_roles [RoleAdministrator] ctx \<and>
     (\<exists>token. at_AuthFromMD a (cx_Authorization ctx) ''basic'' = Inr token \<and>
        (\<exists>data. DecodeString token = Some data \<and>
           split_on (CHR '':'') data =
             [bac_Username (ac_Basic (at_authConfig a)), bac_Password (ac_Basic (at_authConfig a))]))"
  unfolding basic_def by (auto simp: attempt_Ok check_credentials_Ok split: option.splits)

text \<open>The decoded text is the user name, a colon and the password, neither with a colon in it.\<close>

lemma basic_token:
  "split_on (CHR '':'') data = [u, p] \<longleftrightarrow> data = u @ CHR '':'' # p \<and> CHR '':'' \<notin> set u \<and> CHR '':'' \<notin> set p"
  by (rule split_on_two_iff)

lemma token_roles_Ok:
  "token_roles a cs s = (Ok rs, s') \<Longrightarrow> s' = s \<and> (\<exists>names. cs = map ClaimString names \<and>
     rs = filter (\<lambda>r. r \<noteq> '''') (map (at_GetRoleByName a) names))"
proof (induction a cs arbitrary: rs rule: token_roles.induct)
  case (3 a name rest)
  then obtain rs' names where "s' = s" "rest = map ClaimString names"
    "rs' = filter (\<lambda>r. r \<noteq> '''') (map (at_GetRoleByName a) names)"
    "rs = (if at_GetRoleByName a name \<noteq> '''' then at_GetRoleByName a name # rs' else rs')"
    by (auto simp: attempt_Ok)
  then show ?case by (intro conjI exI [of _ "name # names"]) auto
qed auto

text \<open>The roles a token names, less the unknown ones; anonymous if none is left.\<close>

definition granted_roles :: "'w authenticator \<Rightarrow> string list \<Rightarrow> role list" where
  "granted_roles a names =
     (let rs = filter (\<lambda>r. r \<noteq> '''') (map (at_GetRoleByName a) names) in
      if rs = [] then [RoleAnonymous] else rs)"

text \<open>
  When a bearer token goes to the verifier: the caller sent a header, basic authentication is
  not configured and an issuer is. The world after that is the one the verifier left.
\<close>

definition basic_configured :: "'w authenticator \<Rightarrow> bool" where
  "basic_configured a \<longleftrightarrow> bac_Username (ac_Basic (at_authConfig a)) \<noteq> '''' \<and>
     bac_Password (ac_Basic (at_authConfig a)) \<noteq> ''''"

definition asks_verifier :: "'w authenticator \<Rightarrow> request_context \<Rightarrow> (oidc_verifier \<times> string) option" where
  "asks_verifier a ctx =
     (if cx_Authorization ctx = '''' \<or> basic_configured a \<or> oac_Issuer (ac_OIDC (at_authConfig a)) = '''' then None
      else (case at_AuthFromMD a (cx_Authorization ctx) ''bearer'' of
          Inl err \<Rightarrow> None
        | Inr rawToken \<Rightarrow> map_option (\<lambda>vf. (vf, rawToken)) (oac_Verifier (ac_OIDC (at_authConfig a)))))"

definition after_verifying :: "'w authenticator \<Rightarrow> request_context \<Rightarrow> 'w world \<Rightarrow> 'w world" where
  "after_verifying a ctx s = (case asks_verifier a ctx of
       None \<Rightarrow> s
     | Some (vf, rawToken) \<Rightarrow> s\<lparr>ext := snd (ol_Verify (at_Oidc a) vf rawToken (ext s))\<rparr>)"

lemma trace_after_verifying [simp]: "trace (after_verifying a ctx s) = trace s"
  by (simp add: after_verifying_def split: option.split)

lemma oidc_Ok:
  assumes "oidc a ctx s = (Ok ctx', s')"
  shows "\<exists>rawToken vf token claims names.
    at_AuthFromMD a (cx_Authorization ctx) ''bearer'' = Inr rawToken \<and>
    oac_Verifier (ac_OIDC (at_authConfig a)) = Some vf \<and>
    ol_Verify (at_Oidc a) vf rawToken (ext s) = (Inr token, ext s') \<and> trace s' = trace s \<and>
    ol_Claims (at_Oidc a) token = Inr claims \<and>
    at_ClaimPath a claims (oac_RoleClaimPath (ac_OIDC (at_authConfig a))) = Some (map ClaimString names) \<and>
    ctx' = with_roles (granted_roles a names) ctx"
proof -
  from assms obtain rawToken vf token x claims cs rs where run:
    "at_AuthFromMD a (cx_Authorization ctx) ''bearer'' = Inr rawToken"
    "oac_Verifier (ac_OIDC (at_authConfig a)) = Some vf"
    "ol_Verify (at_Oidc a) vf rawToken (ext s) = (Inr token, x)"
    "ol_Claims (at_Oidc a) token = Inr claims"
    "at_ClaimPath a claims (oac_RoleClaimPath (ac_OIDC (at_authConfig a))) = Some cs"
    "token_roles a cs (s\<lparr>ext := x\<rparr>) = (Ok rs, s')"
    "ctx' = with_roles (if length rs = 0 then [RoleAnonymous] else rs) ctx"
    unfolding oidc_def by (auto simp: attempt_Ok consult_Ok split: option.splits)
  from token_roles_Ok [OF run(6)] obtain names where "s' = s\<lparr>ext := x\<rparr>" "cs = map ClaimString names"
    "rs = filter (\<lambda>r. r \<noteq> '''') (map (at_GetRoleByName a) names)" by blast
  with run(7) have "ctx' = with_roles (granted_roles a names) ctx" "s' = s\<lparr>ext := x\<rparr>" "cs = map ClaimString names"
    by (simp_all only: granted_roles_def Let_def length_0_conv)
  with run(1-5) show ?thesis by fastforce
qed

lemma granted_roles_known:
  assumes "r \<in> set (granted_roles a names)" "at_GetRoleByName a = GetRoleByName"
  shows "GetRoleByName r = r \<and> (r = RoleAnonymous \<or> r \<in> set names)"
proof (cases "r = RoleAnonymous")
  case True
  then show ?thesis by (simp add: GetRoleByName_def registry_def)
next
  case False
  with assms obtain n where n: "n \<in> set names" "r = GetRoleByName n" "r \<noteq> ''''"
    by (auto simp: granted_roles_def Let_def split: if_splits)
  then have "r = n" using roles.known by simp
  with n show ?thesis by simp
qed

lemma Authenticate_Ok:
  assumes "Authenticate a ctx s = (Ok ctx', s')"
  obtains "cx_Authorization ctx = ''''" "ctx' = with_roles [RoleAnonymous] ctx" "s' = s"
  | "cx_Authorization ctx \<noteq> ''''" "basic_configured a" "basic a ctx s = (Ok ctx', s')"
  | "cx_Authorization ctx \<noteq> ''''" "\<not> basic_configured a" "oac_Issuer (ac_OIDC (at_authConfig a)) \<noteq> ''''"
    "oidc a ctx s = (Ok ctx', s')"
  | "cx_Authorization ctx \<noteq> ''''" "ctx' = ctx" "s' = s" "\<not> basic_configured a"
    "oac_Issuer (ac_OIDC (at_authConfig a)) = ''''"
  using assms unfolding Authenticate_def basic_configured_def
  by (auto split: if_splits)

text \<open>What authentication leaves of the world: nothing but the verifier has changed it.\<close>

lemma token_roles_world: "snd (token_roles a cs s) = s"
  by (induction a cs rule: token_roles.induct) (auto simp: attempt_def split: prod.splits outcome.splits)

lemma check_credentials_world: "snd (check_credentials a ctx data s) = s"
  by (simp add: check_credentials_def split: list.splits)

lemma attempt_world:
  assumes "snd (f s) = s1" "\<And>x. snd (k x s1) = s1"
  shows "snd (attempt f w k s) = s1"
proof -
  obtain r where r: "f s = (r, s1)" using assms(1) by (metis prod.collapse)
  then show ?thesis using assms(2) by (cases r) (simp_all add: attempt_def)
qed

lemma lift_world: "snd (lift r s) = s"
  by (simp add: lift_def split: sum.splits)

lemma basic_world: "snd (basic a ctx s) = s"
  unfolding basic_def
  by (rule attempt_world [OF lift_world]) (simp add: check_credentials_world split: option.splits)

lemma oidc_world:
  assumes "cx_Authorization ctx \<noteq> ''''" "\<not> basic_configured a" "oac_Issuer (ac_OIDC (at_authConfig a)) \<noteq> ''''"
  shows "snd (oidc a ctx s) = after_verifying a ctx s"
proof (cases "asks_verifier a ctx")
  case None
  with assms show ?thesis
    by (auto simp: oidc_def asks_verifier_def after_verifying_def split: sum.splits)
next
  case (Some pair)
  then obtain vf rawToken where pair: "asks_verifier a ctx = Some (vf, rawToken)" by (cases pair) auto
  then have ask: "at_AuthFromMD a (cx_Authorization ctx) ''bearer'' = Inr rawToken"
    "oac_Verifier (ac_OIDC (at_authConfig a)) = Some vf"
    by (auto simp: asks_verifier_def split: sum.splits if_splits)
  have roles: "snd (attempt (token_roles a cs) id (\<lambda>rs.
      ret (with_roles (if length rs = 0 then [RoleAnonymous] else rs) ctx)) s) = s" for cs and s :: "'a world"
    by (rule attempt_world [OF token_roles_world]) simp
  have "snd (attempt (consult (ol_Verify (at_Oidc a) vf rawToken))
       (\<lambda>err. GrpcErrorWithCode ''error validating jwt'' (Some err) Unauthenticated) (\<lambda>token.
     attempt (lift (ol_Claims (at_Oidc a) token))
       (\<lambda>err. GrpcErrorWithCode ''error unmarshalling claims'' (Some err) Unauthenticated) (\<lambda>claims.
     case at_ClaimPath a claims (oac_RoleClaimPath (ac_OIDC (at_authConfig a))) of
       None \<Rightarrow> fail (GrpcErrorWithCode ''missing roles claim'' None Unauthenticated)
     | Some allRoles \<Rightarrow>
         attempt (token_roles a allRoles) id (\<lambda>rs.
         ret (with_roles (if length rs = 0 then [RoleAnonymous] else rs) ctx)))) s)
      = s\<lparr>ext := snd (ol_Verify (at_Oidc a) vf rawToken (ext s))\<rparr>"
    by (rule attempt_world [OF consult_world] attempt_world [OF lift_world])+
      (simp add: roles [simplified] split: option.splits)
  with ask pair show ?thesis
    by (simp add: oidc_def after_verifying_def)
qed

lemma Authenticate_world: "snd (Authenticate a ctx s) = after_verifying a ctx s"
proof -
  have quiet: "after_verifying a ctx s = s" if "cx_Authorization ctx = '''' \<or> basic_configured a \<or>
      oac_Issuer (ac_OIDC (at_authConfig a)) = ''''"
    using that by (simp add: after_verifying_def asks_verifier_def)
  show ?thesis
    using oidc_world [of ctx a s] quiet
    by (auto simp: Authenticate_def basic_world basic_configured_def)
qed

lemma Authenticate_method:
  assumes "Authenticate a ctx s = (Ok ctx', s')"
  shows "cx_Method ctx' = cx_Method ctx"
  by (rule Authenticate_Ok [OF assms]) (auto simp: basic_Ok with_roles_def dest: oidc_Ok)

section \<open>Properties\<close>

text \<open>The roles of the registry among the names a token carries; anonymous if there is none.\<close>

definition registered_roles :: "string list \<Rightarrow> role list" where
  "registered_roles names =
     (let rs = filter (\<lambda>r. map_of registry r \<noteq> None) names in if rs = [] then [RoleAnonymous] else rs)"

lemma granted_registered:
  assumes "at_GetRoleByName a = GetRoleByName"
  shows "granted_roles a names = registered_roles names"
proof -
  have "filter (\<lambda>r. r \<noteq> '''') (map GetRoleByName names) = filter (\<lambda>r. map_of registry r \<noteq> None) names"
    by (induction names) (auto simp: GetRoleByName_def registry_no_empty split: option.splits)
  with assms show ?thesis by (simp add: granted_roles_def registered_roles_def Let_def)
qed


end
