(* ===== verification/Authorization.thy ===== *)
theory Authorization
  imports Authentication
begin

text \<open>
  What a caller may do: \<open>auth/authz.go\<close>, with the permissions \<open>proto/v1alpha1/rode.proto\<close>
  attaches to each method. String sets are \<open>scylladb/go-set\<close>: the subset test is a
  parameter on the elements the sets were made from.
\<close>

section \<open>The interceptor\<close>

record authorization_interceptor =
  ai_authConfig :: auth_config
  ai_GetRolePermissions :: "role \<Rightarrow> permission list"
  ai_methodPermissions :: "(string \<times> permission list) list"
  ai_IsSubset :: "string list \<Rightarrow> string list \<Rightarrow> bool"

text \<open>
  \<open>LoadServicePermissions\<close>: for each registered service its descriptor (or an error), as
  the list of its methods with the permissions of their \<open>authorization\<close> option, if any.
\<close>

fun load_methods ::
  "string \<Rightarrow> (string \<times> permission list option) list \<Rightarrow> (string \<times> permission list) list
     \<Rightarrow> (string \<times> permission list) list" where
  "load_methods serviceName [] table = table"
| "load_methods serviceName ((name, authz) # methods) table =
     load_methods serviceName methods
       (case authz of None \<Rightarrow> table
                    | Some ps \<Rightarrow> alist_put (''/'' @ serviceName @ ''/'' @ name) ps table)"

fun LoadServicePermissions ::
  "(string \<Rightarrow> go_error + (string \<times> permission list option) list) \<Rightarrow> string list
     \<Rightarrow> authorization_interceptor \<Rightarrow> go_error + authorization_interceptor" where
  "LoadServicePermissions descriptor [] a = Inr a"
| "LoadServicePermissions descriptor (serviceName # services) a =
     (case descriptor serviceName of
        Inl err \<Rightarrow> Inl err
      | Inr methods \<Rightarrow> LoadServicePermissions descriptor services
          (a\<lparr>ai_methodPermissions := load_methods serviceName methods (ai_methodPermissions a)\<rparr>))"

definition Authorize :: "authorization_interceptor \<Rightarrow> request_context \<Rightarrow> ('w, request_context) io" where
  "Authorize a ctx =
     (if \<not> ac_Enabled (ai_authConfig a) then ret ctx
      else (case cx_Method ctx of
        None \<Rightarrow> fail (GrpcInternalError ''unable to determine server method'' None)
      | Some methodName \<Rightarrow>
          (case map_of (ai_methodPermissions a) methodName of
             None \<Rightarrow> ret ctx
           | Some requiredPermissions \<Rightarrow>
               (case cx_Roles ctx of
                  None \<Rightarrow> fail (GrpcErrorWithCode ''no assigned roles'' None PermissionDenied)
                | Some rs \<Rightarrow>
                    if \<not> ai_IsSubset a (concat (map (ai_GetRolePermissions a) rs)) requiredPermissions
                    then fail (GrpcErrorWithCode ''missing required permissions for call'' None PermissionDenied)
                    else ret ctx))))"

text \<open>\<open>s.IsSubset(t)\<close> tells whether every element of \<open>t\<close> is one of \<open>s\<close>, as its documentation says.\<close>

definition strset_ok :: "authorization_interceptor \<Rightarrow> bool" where
  "strset_ok a \<longleftrightarrow> (\<forall>s t. ai_IsSubset a s t \<longleftrightarrow> set t \<subseteq> set s)"

definition caller_permissions :: "role list \<Rightarrow> permission set" where
  "caller_permissions rs = (\<Union>r\<in>set rs. set (GetRolePermissions r))"

lemma emits_Authorize [io_emits, intro]: "emits P (Authorize a ctx)"
  unfolding Authorize_def by (intro io_emits)

lemma Authorize_Ok:
  assumes "strset_ok a" "ai_GetRolePermissions a = GetRolePermissions"
  shows "Authorize a ctx s = (Ok ctx', s') \<longleftrightarrow> s' = s \<and> ctx' = ctx \<and>
    (ac_Enabled (ai_authConfig a) \<longrightarrow> (\<exists>m. cx_Method ctx = Some m \<and>
       (\<forall>required. map_of (ai_methodPermissions a) m = Some required \<longrightarrow>
          (\<exists>rs. cx_Roles ctx = Some rs \<and> set required \<subseteq> caller_permissions rs))))"
  using assms unfolding Authorize_def strset_ok_def caller_permissions_def
  by (auto split: option.splits)

lemma Authorize_never_panics: "Authorize a ctx s \<noteq> (Panic p, s')"
  unfolding Authorize_def by (auto split: option.splits)

section \<open>Loading the permissions\<close>

lemma load_methods_other:
  "(\<forall>(n, p)\<in>set methods. key \<noteq> ''/'' @ service @ ''/'' @ n) \<Longrightarrow>
     map_of (load_methods service methods table) key = map_of table key"
  by (induction service methods table rule: load_methods.induct) (auto split: option.splits)

text \<open>With distinct method names each method has exactly the permissions of its option.\<close>

lemma load_methods_lookup:
  "distinct (map fst methods) \<Longrightarrow> (name, authz) \<in> set methods \<Longrightarrow>
     map_of (load_methods service methods table) (''/'' @ service @ ''/'' @ name) =
       (case authz of Some ps \<Rightarrow> Some ps
                    | None \<Rightarrow> map_of table (''/'' @ service @ ''/'' @ name))"
proof (induction service methods table rule: load_methods.induct)
  case (1 service table)
  then show ?case by simp
next
  case (2 service n a methods table)
  show ?case
  proof (cases "(name, authz) = (n, a)")
    case True
    with 2(2) have "\<forall>(n', p)\<in>set methods. ''/'' @ service @ ''/'' @ name \<noteq> ''/'' @ service @ ''/'' @ n'"
      using True by (auto simp: image_iff)
    from load_methods_other [OF this] True show ?thesis
      by (simp split: option.splits)
  next
    case False
    with 2(2,3) have "(name, authz) \<in> set methods" "name \<noteq> n"
      using image_eqI [of name fst "(name, authz)" "set methods"] by auto
    with 2 show ?thesis by (auto split: option.splits)
  qed
qed

section \<open>The methods of the service\<close>

definition rodeService :: string where
  "rodeService = ''rode.v1alpha1.Rode''"

definition rode_methods :: "(string \<times> permission list option) list" where
  "rode_methods =
    [(''BatchCreateOccurrences'', Some [''rode.occurrence.write'']),
     (''EvaluatePolicy'', Some [''rode.policy.evaluate'']),
     (''ListResources'', Some [''rode.resource.read'']),
     (''ListResourceVersions'', Some [''rode.resource.read'']),
     (''ListVersionedResourceOccurrences'', Some [''rode.occurrence.read'']),
     (''ListOccurrences'', Some [''rode.occurrence.read'']),
     (''UpdateOccurrence'', Some [''rode.occurrence.write'']),
     (''CreatePolicy'', Some [''rode.policy.write'']),
     (''GetPolicy'', Some [''rode.policy.read'']),
     (''DeletePolicy'', Some [''rode.policy.delete'']),
     (''ListPolicies'', Some [''rode.policy.read'']),
     (''ListPolicyVersions'', Some [''rode.policy.read'']),
     (''ValidatePolicy'', Some [''rode.policy.validate'']),
     (''UpdatePolicy'', Some [''rode.policy.write'']),
     (''RegisterCollector'', Some [''rode.collector.register'']),
     (''CreateNote'', Some [''rode.note.write'']),
     (''CreatePolicyGroup'', Some [''rode.policyGroup.write'']),
     (''ListPolicyGroups'', Some [''rode.policyGroup.read'']),
     (''GetPolicyGroup'', Some [''rode.policyGroup.read'']),
     (''UpdatePolicyGroup'', Some [''rode.policyGroup.write'']),
     (''DeletePolicyGroup'', Some [''rode.policyGroup.delete'']),
     (''CreatePolicyAssignment'', Some [''rode.policyAssignment.write'']),
     (''GetPolicyAssignment'', Some [''rode.policyAssignment.read'']),
     (''UpdatePolicyAssignment'', Some [''rode.policyAssignment.write'']),
     (''DeletePolicyAssignment'', Some [''rode.policyAssignment.delete'']),
     (''ListPolicyAssignments'', Some [''rode.policyAssignment.read'']),
     (''EvaluateResource'', Some [''rode.resource.evaluate'']),
     (''GetResourceEvaluation'', Some [''rode.resource.read'']),
     (''ListResourceEvaluations'', Some [''rode.resource.read''])]"

definition full_method :: "string \<Rightarrow> string" where
  "full_method name = ''/'' @ rodeService @ ''/'' @ name"

lemma rode_methods_distinct: "distinct (map fst rode_methods)"
  by code_simp

lemma rode_methods_protected: "list_all (\<lambda>(n, authz). authz \<noteq> None) rode_methods"
  by code_simp

end
