(* ===== verification/Rode_Rpc.thy ===== *)
theory Rode_Rpc
  imports Rode_Server Authorization
begin

text \<open>
  The service as a caller sees it: the methods \<open>proto/v1alpha1/rode_grpc.pb.go\<close> registers,
  the handler of \<open>rodeServer\<close> each of them reaches (its own, or one of the managers it
  embeds), and the chain of interceptors \<open>main.go\<close> puts in front: recovery, authentication,
  authorization.
\<close>

section \<open>Requests and replies\<close>

datatype rpc =
    RpcBatchCreateOccurrences batch_create_occurrences_request
  | RpcEvaluatePolicy evaluate_policy_request
  | RpcListResources list_resources_request
  | RpcListResourceVersions list_resource_versions_request
  | RpcListVersionedResourceOccurrences list_versioned_resource_occurrences_request
  | RpcListOccurrences list_occurrences_request
  | RpcUpdateOccurrence update_occurrence_request
  | RpcCreatePolicy policy
  | RpcGetPolicy get_policy_request
  | RpcDeletePolicy delete_policy_request
  | RpcListPolicies list_policies_request
  | RpcListPolicyVersions list_policy_versions_request
  | RpcValidatePolicy validate_policy_request
  | RpcUpdatePolicy update_policy_request
  | RpcRegisterCollector register_collector_request
  | RpcCreateNote create_note_request
  | RpcCreatePolicyGroup policy_group
  | RpcListPolicyGroups list_policy_groups_request
  | RpcGetPolicyGroup get_policy_group_request
  | RpcUpdatePolicyGroup policy_group
  | RpcDeletePolicyGroup delete_policy_group_request
  | RpcCreatePolicyAssignment policy_assignment
  | RpcGetPolicyAssignment get_policy_assignment_request
  | RpcUpdatePolicyAssignment policy_assignment
  | RpcDeletePolicyAssignment delete_policy_assignment_request
  | RpcListPolicyAssignments list_policy_assignments_request
  | RpcEvaluateResource resource_evaluation_request
  | RpcGetResourceEvaluation get_resource_evaluation_request
  | RpcListResourceEvaluations list_resource_evaluations_request

datatype reply =
    ReplyBatchCreateOccurrences batch_create_occurrences_response
  | ReplyEvaluatePolicy evaluate_policy_response
  | ReplyListResources list_resources_response
  | ReplyListResourceVersions list_resource_versions_response
  | ReplyListVersionedResourceOccurrences list_versioned_resource_occurrences_response
  | ReplyListOccurrences list_occurrences_response
  | ReplyOccurrence occurrence
  | ReplyPolicy policy
  | ReplyEmpty
  | ReplyListPolicies list_policies_response
  | ReplyListPolicyVersions list_policy_versions_response
  | ReplyValidatePolicy "validate_policy_response option"
  | ReplyRegisterCollector register_collector_response
  | ReplyNote grafeas_note
  | ReplyPolicyGroup policy_group
  | ReplyListPolicyGroups list_policy_groups_response
  | ReplyPolicyAssignment policy_assignment
  | ReplyListPolicyAssignments list_policy_assignments_response
  | ReplyResourceEvaluationResult resource_evaluation_result
  | ReplyListResourceEvaluations list_resource_evaluations_response

fun method_name :: "rpc \<Rightarrow> string" where
  "method_name (RpcBatchCreateOccurrences _) = ''BatchCreateOccurrences''"
| "method_name (RpcEvaluatePolicy _) = ''EvaluatePolicy''"
| "method_name (RpcListResources _) = ''ListResources''"
| "method_name (RpcListResourceVersions _) = ''ListResourceVersions''"
| "method_name (RpcListVersionedResourceOccurrences _) = ''ListVersionedResourceOccurrences''"
| "method_name (RpcListOccurrences _) = ''ListOccurrences''"
| "method_name (RpcUpdateOccurrence _) = ''UpdateOccurrence''"
| "method_name (RpcCreatePolicy _) = ''CreatePolicy''"
| "method_name (RpcGetPolicy _) = ''GetPolicy''"
| "method_name (RpcDeletePolicy _) = ''DeletePolicy''"
| "method_name (RpcListPolicies _) = ''ListPolicies''"
| "method_name (RpcListPolicyVersions _) = ''ListPolicyVersions''"
| "method_name (RpcValidatePolicy _) = ''ValidatePolicy''"
| "method_name (RpcUpdatePolicy _) = ''UpdatePolicy''"
| "method_name (RpcRegisterCollector _) = ''RegisterCollector''"
| "method_name (RpcCreateNote _) = ''CreateNote''"
| "method_name (RpcCreatePolicyGroup _) = ''CreatePolicyGroup''"
| "method_name (RpcListPolicyGroups _) = ''ListPolicyGroups''"
| "method_name (RpcGetPolicyGroup _) = ''GetPolicyGroup''"
| "method_name (RpcUpdatePolicyGroup _) = ''UpdatePolicyGroup''"
| "method_name (RpcDeletePolicyGroup _) = ''DeletePolicyGroup''"
| "method_name (RpcCreatePolicyAssignment _) = ''CreatePolicyAssignment''"
| "method_name (RpcGetPolicyAssignment _) = ''GetPolicyAssignment''"
| "method_name (RpcUpdatePolicyAssignment _) = ''UpdatePolicyAssignment''"
| "method_name (RpcDeletePolicyAssignment _) = ''DeletePolicyAssignment''"
| "method_name (RpcListPolicyAssignments _) = ''ListPolicyAssignments''"
| "method_name (RpcEvaluateResource _) = ''EvaluateResource''"
| "method_name (RpcGetResourceEvaluation _) = ''GetResourceEvaluation''"
| "method_name (RpcListResourceEvaluations _) = ''ListResourceEvaluations''"

section \<open>Dispatch\<close>

abbreviation replying :: "('w, 'a) io \<Rightarrow> ('a \<Rightarrow> reply) \<Rightarrow> ('w, reply) io" where
  "replying f c \<equiv> attempt f id (\<lambda>x. ret (c x))"

text \<open>
  \<open>ValidatePolicy\<close> returns a response and an error together; gRPC sends the error.
\<close>

definition validate_rpc :: "'w manager \<Rightarrow> validate_policy_request \<Rightarrow> ('w, reply) io" where
  "validate_rpc m request = (case ValidatePolicy (rego m) request of
       Ok (response, None) \<Rightarrow> ret (ReplyValidatePolicy response)
     | Ok (response, Some err) \<Rightarrow> fail err
     | Err err \<Rightarrow> fail err
     | Panic p \<Rightarrow> panic p)"

fun handle :: "'w rode_server \<Rightarrow> rpc \<Rightarrow> ('w, reply) io" where
  "handle r (RpcBatchCreateOccurrences q) = replying (BatchCreateOccurrences r q) ReplyBatchCreateOccurrences"
| "handle r (RpcEvaluatePolicy q) = replying (EvaluatePolicy (sv_evaluation r) q) ReplyEvaluatePolicy"
| "handle r (RpcListResources q) = replying (ListResources (sv_manager r) q) ReplyListResources"
| "handle r (RpcListResourceVersions q) =
     replying (ServerListResourceVersions r q) ReplyListResourceVersions"
| "handle r (RpcListVersionedResourceOccurrences q) =
     replying (ListVersionedResourceOccurrences r q) ReplyListVersionedResourceOccurrences"
| "handle r (RpcListOccurrences q) = replying (ListOccurrences r q) ReplyListOccurrences"
| "handle r (RpcUpdateOccurrence q) = replying (UpdateOccurrence r q) ReplyOccurrence"
| "handle r (RpcCreatePolicy q) = replying (CreatePolicy (sv_manager r) q) ReplyPolicy"
| "handle r (RpcGetPolicy q) = replying (GetPolicy (sv_manager r) q) ReplyPolicy"
| "handle r (RpcDeletePolicy q) = replying (DeletePolicy (sv_manager r) q) (\<lambda>_. ReplyEmpty)"
| "handle r (RpcListPolicies q) = replying (ListPolicies (sv_manager r) q) ReplyListPolicies"
| "handle r (RpcListPolicyVersions q) = replying (ListPolicyVersions (sv_manager r) q) ReplyListPolicyVersions"
| "handle r (RpcValidatePolicy q) = validate_rpc (sv_manager r) q"
| "handle r (RpcUpdatePolicy q) = replying (UpdatePolicy (sv_manager r) q) ReplyPolicy"
| "handle r (RpcRegisterCollector q) = replying (RegisterCollector r q) ReplyRegisterCollector"
| "handle r (RpcCreateNote q) = replying (CreateNote r q) ReplyNote"
| "handle r (RpcCreatePolicyGroup q) = replying (CreatePolicyGroup (sv_manager r) q) ReplyPolicyGroup"
| "handle r (RpcListPolicyGroups q) = replying (ListPolicyGroups (sv_manager r) q) ReplyListPolicyGroups"
| "handle r (RpcGetPolicyGroup q) = replying (GetPolicyGroup (sv_manager r) q) ReplyPolicyGroup"
| "handle r (RpcUpdatePolicyGroup q) = replying (UpdatePolicyGroup (sv_manager r) q) ReplyPolicyGroup"
| "handle r (RpcDeletePolicyGroup q) = replying (DeletePolicyGroup (sv_manager r) q) (\<lambda>_. ReplyEmpty)"
| "handle r (RpcCreatePolicyAssignment q) =
     replying (CreatePolicyAssignment (sv_manager r) q) ReplyPolicyAssignment"
| "handle r (RpcGetPolicyAssignment q) = replying (GetPolicyAssignment (sv_manager r) q) ReplyPolicyAssignment"
| "handle r (RpcUpdatePolicyAssignment q) =
     replying (UpdatePolicyAssignment (sv_manager r) q) ReplyPolicyAssignment"
| "handle r (RpcDeletePolicyAssignment q) =
     replying (DeletePolicyAssignment (sv_manager r) q) (\<lambda>_. ReplyEmpty)"
| "handle r (RpcListPolicyAssignments q) =
     replying (ListPolicyAssignments (sv_manager r) q) ReplyListPolicyAssignments"
| "handle r (RpcEvaluateResource q) =
     replying (EvaluateResource (sv_evaluation r) q) ReplyResourceEvaluationResult"
| "handle r (RpcGetResourceEvaluation q) =
     replying (GetResourceEvaluation (sv_evaluation r) q) ReplyResourceEvaluationResult"
| "handle r (RpcListResourceEvaluations q) =
     replying (ListResourceEvaluations (sv_evaluation r) q) ReplyListResourceEvaluations"

section \<open>The chain of interceptors\<close>

text \<open>The recovery interceptor is the outermost: a panic of anything inside is an error.\<close>

definition recovered :: "('w, 'a) io \<Rightarrow> ('w, 'a) io" where
  "recovered f = (\<lambda>s. case f s of
       (Panic p, s') \<Rightarrow> (Err (StatusError Internal ''Unexpected error'' None []), s')
     | run \<Rightarrow> run)"

definition serve ::
  "'w authenticator \<Rightarrow> authorization_interceptor \<Rightarrow> 'w rode_server \<Rightarrow> string \<Rightarrow> rpc \<Rightarrow> ('w, reply) io" where
  "serve authn authz r header request =
     recovered (attempt (Authenticate authn \<lparr>cx_Authorization = header,
                   cx_Method = Some (full_method (method_name request)), cx_Roles = None\<rparr>) id (\<lambda>ctx.
                attempt (Authorize authz ctx) id (\<lambda>_.
                handle r request)))"

text \<open>
  The wiring of \<open>main.go\<close>: one role registry for both interceptors, one configuration, and
  the permissions of the registered services loaded into the interceptor.
\<close>

definition wired ::
  "auth_config \<Rightarrow> (string \<Rightarrow> string \<Rightarrow> go_error + string) \<Rightarrow> 'w oidc_lib
     \<Rightarrow> (string \<Rightarrow> string \<Rightarrow> claim_value list option)
     \<Rightarrow> (string list \<Rightarrow> string list \<Rightarrow> bool) \<Rightarrow> 'w authenticator \<times> authorization_interceptor" where
  "wired cfg fromMD oidcLib claimPath isSubset =
     (\<lparr>at_authConfig = cfg, at_GetRoleByName = GetRoleByName, at_AuthFromMD = fromMD,
       at_Oidc = oidcLib, at_ClaimPath = claimPath\<rparr>,
      \<lparr>ai_authConfig = cfg, ai_GetRolePermissions = GetRolePermissions,
       ai_methodPermissions = load_methods rodeService rode_methods [], ai_IsSubset = isSubset\<rparr>)"

definition wired_server ::
  "'w grafeas_client \<Rightarrow> 'w projects_client \<Rightarrow> 'w manager \<Rightarrow> 'w opa_client \<Rightarrow> 'w rode_server" where
  "wired_server g p m opa =
     \<lparr>sv_grafeasCommon = g, sv_grafeasProjects = p,
      sv_grafeasExtensions = NewExtensions g (runtime m), sv_manager = m,
      sv_evaluation = NewEvaluationManager m (NewExtensions g (runtime m)) opa\<rparr>"

section \<open>Every registered method has a handler and a permission\<close>

definition required_permissions :: "rpc \<Rightarrow> permission list" where
  "required_permissions request = (case map_of rode_methods (method_name request) of
       Some (Some ps) \<Rightarrow> ps | _ \<Rightarrow> [])"

text \<open>The permissions of each method, computed once.\<close>

lemma required_permissions_simps [simp]:
  "required_permissions (RpcBatchCreateOccurrences q0) = [''rode.occurrence.write'']"
  "required_permissions (RpcEvaluatePolicy q1) = [''rode.policy.evaluate'']"
  "required_permissions (RpcListResources q2) = [''rode.resource.read'']"
  "required_permissions (RpcListResourceVersions q3) = [''rode.resource.read'']"
  "required_permissions (RpcListVersionedResourceOccurrences q4) = [''rode.occurrence.read'']"
  "required_permissions (RpcListOccurrences q5) = [''rode.occurrence.read'']"
  "required_permissions (RpcUpdateOccurrence q6) = [''rode.occurrence.write'']"
  "required_permissions (RpcCreatePolicy q7) = [''rode.policy.write'']"
  "required_permissions (RpcGetPolicy q8) = [''rode.policy.read'']"
  "required_permissions (RpcDeletePolicy q9) = [''rode.policy.delete'']"
  "required_permissions (RpcListPolicies q10) = [''rode.policy.read'']"
  "required_permissions (RpcListPolicyVersions q11) = [''rode.policy.read'']"
  "required_permissions (RpcValidatePolicy q12) = [''rode.policy.validate'']"
  "required_permissions (RpcUpdatePolicy q13) = [''rode.policy.write'']"
  "required_permissions (RpcRegisterCollector q14) = [''rode.collector.register'']"
  "required_permissions (RpcCreateNote q15) = [''rode.note.write'']"
  "required_permissions (RpcCreatePolicyGroup q16) = [''rode.policyGroup.write'']"
  "required_permissions (RpcListPolicyGroups q17) = [''rode.policyGroup.read'']"
  "required_permissions (RpcGetPolicyGroup q18) = [''rode.policyGroup.read'']"
  "required_permissions (RpcUpdatePolicyGroup q16) = [''rode.policyGroup.write'']"
  "required_permissions (RpcDeletePolicyGroup q19) = [''rode.policyGroup.delete'']"
  "required_permissions (RpcCreatePolicyAssignment q20) = [''rode.policyAssignment.write'']"
  "required_permissions (RpcGetPolicyAssignment q21) = [''rode.policyAssignment.read'']"
  "required_permissions (RpcUpdatePolicyAssignment q20) = [''rode.policyAssignment.write'']"
  "required_permissions (RpcDeletePolicyAssignment q22) = [''rode.policyAssignment.delete'']"
  "required_permissions (RpcListPolicyAssignments q23) = [''rode.policyAssignment.read'']"
  "required_permissions (RpcEvaluateResource q24) = [''rode.resource.evaluate'']"
  "required_permissions (RpcGetResourceEvaluation q25) = [''rode.resource.read'']"
  "required_permissions (RpcListResourceEvaluations q26) = [''rode.resource.read'']"
  unfolding required_permissions_def method_name.simps by code_simp+

lemma required_permissions_not_Nil: "required_permissions request \<noteq> []"
  by (cases request) simp_all

lemma method_registered:
  "\<exists>ps. map_of rode_methods (method_name request) = Some (Some ps) \<and> ps \<noteq> []"
  using required_permissions_not_Nil [of request]
  by (auto simp: required_permissions_def split: option.splits)

lemma loaded_permissions:
  "map_of (load_methods rodeService rode_methods []) (full_method (method_name request))
     = Some (required_permissions request)"
proof -
  from method_registered [of request] obtain ps where
    ps: "map_of rode_methods (method_name request) = Some (Some ps)" by blast
  from load_methods_lookup [OF rode_methods_distinct map_of_SomeD [OF ps], of rodeService "[]"] ps
  show ?thesis by (simp add: full_method_def required_permissions_def)
qed

lemma recovered_no_panic: "recovered f s \<noteq> (Panic p, s')"
  by (auto simp: recovered_def split: prod.splits outcome.splits)

lemma recovered_Ok: "recovered f s = (Ok x, s') \<longleftrightarrow> f s = (Ok x, s')"
  by (auto simp: recovered_def split: prod.splits outcome.splits)

lemma emits_recovered [io_emits, intro]: "emits P f \<Longrightarrow> emits P (recovered f)"
  unfolding emits_def recovered_def
  by (auto split: prod.splits outcome.splits) (metis snd_conv)+

end
