(* ===== verification/Rode_History.thy ===== *)
theory Rode_History
  imports Rode_Rpc
begin

text \<open>
  What a life of the service leaves in Elasticsearch. Every request the handlers make is
  checked against one predicate on the kind of document and the operation; the predicate
  then holds of the whole trace of any sequence of calls, also when others change the
  outside between them.
\<close>

section \<open>The requests the service makes\<close>

text \<open>
  Policy versions, version counters, resource evaluations and policy evaluations are only
  ever created; policies, resources and resource versions may also be written over.
\<close>

fun item_ok :: "bulk_operation \<Rightarrow> es_message \<Rightarrow> bool" where
  "item_ok op (MsgPolicy _) \<longleftrightarrow> True"
| "item_ok op (MsgPolicyEntity _) \<longleftrightarrow> op = BULK_CREATE"
| "item_ok op MsgEmpty \<longleftrightarrow> op = BULK_CREATE"
| "item_ok op (MsgResource _) \<longleftrightarrow> True"
| "item_ok op (MsgResourceVersion _) \<longleftrightarrow> True"
| "item_ok op (MsgResourceEvaluation _) \<longleftrightarrow> op = BULK_CREATE"
| "item_ok op (MsgPolicyEvaluation _) \<longleftrightarrow> op = BULK_CREATE"
| "item_ok op (MsgPolicyGroup _) \<longleftrightarrow> False"
| "item_ok op (MsgPolicyAssignment _) \<longleftrightarrow> False"

fun update_ok :: "es_message \<Rightarrow> bool" where
  "update_ok (MsgPolicy _) \<longleftrightarrow> True"
| "update_ok MsgEmpty \<longleftrightarrow> True"
| "update_ok (MsgPolicyGroup _) \<longleftrightarrow> True"
| "update_ok (MsgPolicyAssignment _) \<longleftrightarrow> True"
| "update_ok _ \<longleftrightarrow> False"

fun create_ok :: "es_message \<Rightarrow> bool" where
  "create_ok (MsgPolicyGroup _) \<longleftrightarrow> True"
| "create_ok (MsgPolicyAssignment _) \<longleftrightarrow> True"
| "create_ok _ \<longleftrightarrow> False"

fun write_ok :: "'w manager \<Rightarrow> event \<Rightarrow> bool" where
  "write_ok m (EsCreate q) \<longleftrightarrow> create_ok (cr_Message q)"
| "write_ok m (EsBulk q) \<longleftrightarrow> list_all (\<lambda>i. item_ok (bi_Operation i) (bi_Message i)) (br_Items q)"
| "write_ok m (EsUpdate q) \<longleftrightarrow> update_ok (ur_Message q)"
| "write_ok m (EsDelete q) \<longleftrightarrow> dr_Index q = policyAssignmentsAlias m"
| "write_ok m IxInitialize \<longleftrightarrow> False"
| "write_ok m (IxCreateIndex _ _ _) \<longleftrightarrow> False"
| "write_ok m (GrCreateProject _) \<longleftrightarrow> False"
| "write_ok m _ \<longleftrightarrow> True"

named_theorems kept

lemma reads_only_kept: "reads_only f \<Longrightarrow> emits (write_ok m) f"
  by (erule emits_weaken) (rename_tac ev, case_tac ev; simp)

lemmas kept_reads [kept] =
  reads_only_kept [OF reads_only_GetPolicy] reads_only_kept [OF reads_only_getPolicy]
  reads_only_kept [OF reads_only_GetPolicyVersion] reads_only_kept [OF reads_only_ListPolicies]
  reads_only_kept [OF reads_only_ListPolicyVersions] reads_only_kept [OF reads_only_GetPolicyGroup]
  reads_only_kept [OF reads_only_ListPolicyGroups] reads_only_kept [OF reads_only_GetPolicyAssignment]
  reads_only_kept [OF reads_only_ListPolicyAssignments] reads_only_kept [OF reads_only_ListResources]
  reads_only_kept [OF reads_only_GetResourceVersion] reads_only_kept [OF reads_only_ListResourceVersions]
  reads_only_kept [OF reads_only_ServerListResourceVersions] reads_only_kept [OF reads_only_ListOccurrences]
  reads_only_kept [OF reads_only_ListVersionedResourceOccurrences] reads_only_kept [OF reads_only_ExtList]
  reads_only_kept [OF reads_only_OpaEvaluatePolicy] reads_only_kept [OF reads_only_GetResourceEvaluation]
  reads_only_kept [OF create_check.validate_reads] reads_only_kept [OF update_check.validate_reads]

lemma kept_CreatePolicy [kept]: "emits (write_ok m) (CreatePolicy m pol)"
  unfolding CreatePolicy_def by (intro io_emits) simp_all

lemma kept_DeletePolicy [kept]: "emits (write_ok m) (DeletePolicy m request)"
  unfolding DeletePolicy_def by (intro io_emits kept) simp_all

lemma createNewVersion_items:
  assumes "createNewVersion m pid t cur upd s = (Ok (p2, pv, items), s')"
  shows "list_all (\<lambda>i. item_ok (bi_Operation i) (bi_Message i)) items"
  using assms unfolding createNewVersion_def by (auto simp: attempt_Ok Let_def)

lemma kept_createNewVersion [kept]: "emits (write_ok m) (createNewVersion m pid t cur upd)"
  unfolding createNewVersion_def incrementPolicyVersion_def by (intro io_emits) simp_all

lemma kept_storePolicy:
  "list_all (\<lambda>i. item_ok (bi_Operation i) (bi_Message i)) items \<Longrightarrow>
     emits (write_ok m) (storePolicy m pid p pv items)"
  unfolding storePolicy_def by (intro io_emits) simp_all

lemma kept_applyUpdate [kept]: "emits (write_ok m) (applyUpdate m upd cur)"
  unfolding applyUpdate_def hasPolicyContentChanges_def Let_def
proof (rule emits_attempt, rule emits_draw, rule emits_attempt, intro io_emits)
  fix t changed
  let ?cur = "cur\<lparr>p_Name := p_Name upd, p_Description := p_Description upd, p_Updated := Some t\<rparr>"
  let ?new = "if changed then createNewVersion m (p_Id upd) t ?cur upd else ret (?cur, p_Policy ?cur, [])"
  show "emits (write_ok m) (attempt ?new id
      (\<lambda>(policy2, policyVersion, versionItems).
         storePolicy m (p_Id upd) policy2 policyVersion versionItems))"
  proof (rule emits_attempt_known, intro io_emits kept)
    fix s x s' assume "?new s = (Ok x, s')"
    then show "emits (write_ok m) (case x of (policy2, policyVersion, versionItems) \<Rightarrow>
         storePolicy m (p_Id upd) policy2 policyVersion versionItems)"
      by (cases x) (auto dest: createNewVersion_items intro!: kept_storePolicy split: if_splits)
  qed
qed

lemma kept_UpdatePolicy [kept]: "emits (write_ok m) (UpdatePolicy m request)"
  unfolding UpdatePolicy_def by (intro io_emits kept)

lemma kept_groups [kept]:
  "emits (write_ok m) (CreatePolicyGroup m g)" "emits (write_ok m) (UpdatePolicyGroup m g)"
  "emits (write_ok m) (DeletePolicyGroup m dr)"
  unfolding CreatePolicyGroup_def UpdatePolicyGroup_def DeletePolicyGroup_def
  by (intro io_emits kept; simp)+

lemma kept_assignments [kept]:
  "emits (write_ok m) (CreatePolicyAssignment m a)" "emits (write_ok m) (UpdatePolicyAssignment m a)"
  "emits (write_ok m) (DeletePolicyAssignment m dr)"
  unfolding CreatePolicyAssignment_def UpdatePolicyAssignment_def DeletePolicyAssignment_def
  by (intro io_emits kept; simp)+

text \<open>The bulk requests whose items are computed from documents that were read first.\<close>

lemma kept_resources [kept]: "emits (write_ok m) (BatchCreateResources m occs)"
  unfolding BatchCreateResources_def
proof (rule emits_attempt, intro io_emits, rule emits_attempt, rule emits_external, simp)
  fix rs resp
  show "emits (write_ok m) (attempt (resource_items (mgr_Docs resp) 0 rs) id (\<lambda>bulkItems.
     if length bulkItems = 0 then ret ()
     else attempt (es_bulk m (resources_bulk m bulkItems)) id (\<lambda>bulkResponse.
       attempt (index_errors ''error creating resource'' (brs_Items bulkResponse)) id (\<lambda>bulkItemErrors.
       if length bulkItemErrors > 0 then fail (ErrorList ''failed to create all resources'' bulkItemErrors)
       else ret ()))))"
  proof (rule emits_attempt_known, intro io_emits)
    fix s items s' assume "resource_items (mgr_Docs resp) 0 rs s = (Ok items, s')"
    from resource_items_Ok [OF this] have "write_ok m (EsBulk (resources_bulk m items))"
      by (auto simp: resources_bulk_def list_all_iff resource_item_def)
    then show "emits (write_ok m) (if length items = 0 then ret ()
     else attempt (es_bulk m (resources_bulk m items)) id (\<lambda>bulkResponse.
       attempt (index_errors ''error creating resource'' (brs_Items bulkResponse)) id (\<lambda>bulkItemErrors.
       if length bulkItemErrors > 0 then fail (ErrorList ''failed to create all resources'' bulkItemErrors)
       else ret ())))"
      by (intro io_emits)
  qed
qed

lemma version_items_kept:
  assumes "version_items m docs i vs s = (Ok items, s')"
  shows "write_ok m (EsBulk (resources_bulk m items))"
proof -
  from version_items_Ok [OF assms] have "list_all2 writes_version (to_write (drop i docs) vs) items"
    by simp
  then have "\<exists>v. bi_Message item = MsgResourceVersion v" if "item \<in> set items" for item
    using that by (auto simp: list_all2_conv_all_nth in_set_conv_nth writes_version_def split_def)
  then show ?thesis by (fastforce simp: resources_bulk_def list_all_iff)
qed

lemma kept_versions [kept]: "emits (write_ok m) (BatchCreateResourceVersions m occs)"
  unfolding BatchCreateResourceVersions_def
proof (rule emits_attempt, intro io_emits, rule emits_attempt, rule emits_external, simp)
  fix vs resp
  let ?store = "\<lambda>items. attempt (if length items \<noteq> 0
              then attempt (es_bulk m (resources_bulk m items)) id (\<lambda>bulkResponse.
                   index_errors ''error indexing resource'' (brs_Items bulkResponse))
              else ret []) id (\<lambda>bulkItemErrors.
     if length bulkItemErrors > 0
     then fail (ErrorList ''failed to create/update some resource versions'' bulkItemErrors)
     else ret ())"
  show "emits (write_ok m) (attempt (version_items m (mgr_Docs resp) 0 vs) id ?store)"
  proof (rule emits_attempt_known, intro io_emits)
    fix s items s' assume "version_items m (mgr_Docs resp) 0 vs s = (Ok items, s')"
    from version_items_kept [OF this] show "emits (write_ok m) (?store items)" by (intro io_emits)
  qed
qed

section \<open>The requests of a call\<close>

lemma emits_collector_notes [io_emits]: "emits P (collector_notes c ns known)"
  by (induction c ns known rule: collector_notes.induct)
    (auto simp: Let_def simp del: ret_run fail_run intro!: emits_ret emits_fail emits_if)

lemma kept_server [kept]:
  "emits (write_ok (sv_manager r)) (BatchCreateOccurrences r bco)"
  "emits (write_ok (sv_manager r)) (UpdateOccurrence r uo)"
  "emits (write_ok (sv_manager r)) (RegisterCollector r rc)"
  "emits (write_ok (sv_manager r)) (CreateNote r cn)"
  unfolding BatchCreateOccurrences_def UpdateOccurrence_def RegisterCollector_def
    create_missing_notes_def CreateNote_def Let_def
  by (intro io_emits kept; simp)+

lemma kept_evaluatePolicy [kept]:
  "emits (write_ok m) (evaluatePolicy (NewEvaluationManager m e opa) i src occs)"
  unfolding evaluatePolicy_def NewEvaluationManager_def InitializePolicy_def policyExists_def
    loadPolicy_def evaluation_manager.simps
  by (intro io_emits kept) simp_all

lemma kept_evaluations [kept]:
  "emits (write_ok m) (EvaluatePolicy (NewEvaluationManager m e opa) ep)"
  "emits (write_ok m) (evaluate_assignment (NewEvaluationManager m e opa) i occs a acc)"
  "emits (write_ok m) (ListResourceEvaluations (NewEvaluationManager m e opa) lr)"
  unfolding EvaluatePolicy_def evaluate_assignment_def ListResourceEvaluations_def
  by (intro io_emits kept; simp add: NewEvaluationManager_def kept)+

lemma kept_EvaluateResource [kept]:
  "emits (write_ok m) (EvaluateResource (NewEvaluationManager m e opa) er)"
  unfolding EvaluateResource_def evaluate_group_def
  by (intro io_emits kept; simp add: NewEvaluationManager_def kept list_all_iff
      resource_evaluation_item_def policy_evaluation_item_def)

section \<open>Calls and lives of the service\<close>

lemma kept_handle: "emits (write_ok m) (handle (wired_server g p m opa) request)"
proof -
  let ?r = "wired_server g p m opa"
  have parts: "sv_manager ?r = m" "sv_evaluation ?r = NewEvaluationManager m (NewExtensions g (runtime m)) opa"
    by (simp_all add: wired_server_def)
  note server = kept_server [of ?r, unfolded parts(1)]
  have validate: "emits (write_ok m) (validate_rpc m q)" for q
    by (auto simp: validate_rpc_def intro!: io_emits split: outcome.splits prod.splits option.splits)
  show ?thesis
    by (cases request) (simp_all only: handle.simps parts, (intro io_emits server validate kept)+)
qed

lemma kept_serve: "emits (write_ok m) (serve authn authz (wired_server g p m opa) header request)"
  unfolding serve_def by (intro io_emits kept_handle)

text \<open>
  \<open>lives authn authz r w w'\<close>: from \<open>w\<close> the world \<open>w'\<close> is reached by calls of any
  callers, one after the other, while others may change what is outside between the calls.
\<close>

inductive lives ::
  "'w authenticator \<Rightarrow> authorization_interceptor \<Rightarrow> 'w rode_server \<Rightarrow> 'w world \<Rightarrow> 'w world \<Rightarrow> bool"
  for authn :: "'w authenticator" and authz :: authorization_interceptor and r :: "'w rode_server" where
  start: "lives authn authz r w w"
| call: "lives authn authz r w w' \<Longrightarrow> lives authn authz r w (snd (serve authn authz r header request w'))"
| outside: "lives authn authz r w w' \<Longrightarrow> lives authn authz r w (w'\<lparr>ext := x\<rparr>)"

lemma lives_emits:
  assumes "lives authn authz r w w'"
    "\<And>header request. emits P (serve authn authz r header request)"
  shows "\<exists>events. trace w' = trace w @ events \<and> list_all P events"
  using assms(1)
proof induction
  case start
  then show ?case by simp
next
  case (call w w' header request)
  then obtain es where "trace w' = trace w @ es" "list_all P es" by blast
  moreover obtain es' where "trace (snd (serve authn authz r header request w')) = trace w' @ es'"
    "list_all P es'" using assms(2) [of header request] unfolding emits_def by blast
  ultimately show ?case by auto
next
  case (outside w w' x)
  then show ?case by simp
qed


text \<open>C1: in every life of the service, whoever calls it and whatever changes outside in
  between, all requests to Elasticsearch keep to one discipline: in bulk requests, messages
  with policy versions, version counters, resource evaluations and policy evaluations are
  only ever creations, which never write over a document; groups and assignments are
  created one at a time; the only index documents are deleted from is that of the
  assignments; no index and no project is created by a call.\<close>

theorem history_kept:
  assumes "lives authn authz (wired_server g p m opa) w w'"
  shows "\<exists>events. trace w' = trace w @ events \<and> list_all (write_ok m) events"
  by (rule lives_emits [OF assms kept_serve])

section \<open>Who is let through\<close>

definition call_context :: "string \<Rightarrow> rpc \<Rightarrow> request_context" where
  "call_context header request = \<lparr>cx_Authorization = header,
     cx_Method = Some (full_method (method_name request)), cx_Roles = None\<rparr>"

definition granted :: "rpc \<Rightarrow> request_context \<Rightarrow> bool" where
  "granted request ctx \<longleftrightarrow>
     (\<exists>rs. cx_Roles ctx = Some rs \<and> set (required_permissions request) \<subseteq> caller_permissions rs)"

lemma wired_authz:
  assumes "wired cfg fromMD oidcLib claimPath isSubset = (authn, authz)"
  shows "ai_GetRolePermissions authz = GetRolePermissions" "ai_authConfig authz = cfg"
    "ai_methodPermissions authz = load_methods rodeService rode_methods []" "ai_IsSubset authz = isSubset"
    "at_GetRoleByName authn = GetRoleByName" "at_authConfig authn = cfg"
  using assms by (auto simp: wired_def)

lemma Authorize_call:
  assumes "wired cfg fromMD oidcLib claimPath isSubset = (authn, authz)" "\<And>s t. isSubset s t \<longleftrightarrow> set t \<subseteq> set s"
    "ac_Enabled cfg" "cx_Method ctx = Some (full_method (method_name request))"
  shows "if granted request ctx then Authorize authz ctx s = (Ok ctx, s)
    else \<exists>e. Authorize authz ctx s = (Err e, s) \<and> status_code e = PermissionDenied"
  using assms(2-4) loaded_permissions [of request]
  by (auto simp: Authorize_def granted_def caller_permissions_def wired_authz [OF assms(1)] split: option.splits)

lemma serve_run:
  assumes "wired cfg fromMD oidcLib claimPath isSubset = (authn, authz)" "\<And>s t. isSubset s t \<longleftrightarrow> set t \<subseteq> set s"
    "ac_Enabled cfg" "Authenticate authn (call_context header request) s = (out, s1)"
  shows "case out of
      Ok ctx \<Rightarrow> if granted request ctx then serve authn authz r header request s = recovered (handle r request) s1
               else (\<exists>e. serve authn authz r header request s = (Err e, s1) \<and> status_code e = PermissionDenied)
    | Err e \<Rightarrow> serve authn authz r header request s = (Err e, s1)
    | Panic _ \<Rightarrow> (\<exists>e. serve authn authz r header request s = (Err e, s1) \<and> status_code e = Internal)"
proof (cases out)
  case (Ok ctx)
  have "cx_Method ctx = Some (full_method (method_name request))"
    using Authenticate_method [OF assms(4) [unfolded Ok]] by (simp add: call_context_def)
  from Authorize_call [OF assms(1-3) this, of s1] assms(4) Ok show ?thesis
    by (auto simp: serve_def recovered_def attempt_def call_context_def [symmetric] split: if_splits)
qed (use assms(4) in \<open>auto simp: serve_def recovered_def attempt_def call_context_def [symmetric]\<close>)

text \<open>C3: with authorization on, the roles of the caller decide. A caller who fails to
  authenticate gets that error; one who authenticates but lacks a permission the method
  needs gets PermissionDenied. For everyone else the call does what the handler does, a
  panic turned into an internal error. Until then nothing has been asked of Elasticsearch,
  Grafeas or Open Policy Agent, and the world is as it was, unless a bearer token went to
  the OIDC verifier: then it is as the verifier left it.\<close>

theorem serve_access:
  assumes "wired cfg fromMD oidcLib claimPath isSubset = (authn, authz)" "\<And>s t. isSubset s t \<longleftrightarrow> set t \<subseteq> set s"
    "ac_Enabled cfg" "Authenticate authn (call_context header request) s = (out, s1)"
  shows "trace s1 = trace s \<and> (asks_verifier authn (call_context header request) = None \<longrightarrow> s1 = s) \<and>
    (case out of
      Ok ctx \<Rightarrow> if granted request ctx then serve authn authz r header request s = recovered (handle r request) s1
               else (\<exists>e. serve authn authz r header request s = (Err e, s1) \<and> status_code e = PermissionDenied)
    | Err e \<Rightarrow> serve authn authz r header request s = (Err e, s1)
    | Panic _ \<Rightarrow> (\<exists>e. serve authn authz r header request s = (Err e, s1) \<and> status_code e = Internal))"
proof -
  have "s1 = after_verifying authn (call_context header request) s"
    using Authenticate_world [of authn "call_context header request" s] assms(4) by simp
  moreover from this have "asks_verifier authn (call_context header request) = None \<longrightarrow> s1 = s"
    by (simp add: after_verifying_def)
  ultimately show ?thesis using serve_run [OF assms, of r] by simp
qed

section \<open>What a caller with few permissions can do\<close>

lemma read_handlers:
  assumes "set (required_permissions request) \<subseteq> set (GetRolePermissions RoleAnonymous)"
  shows "reads_only (handle (wired_server g p m opa) request)"
proof -
  let ?r = "wired_server g p m opa"
  have parts: "sv_manager ?r = m" "sv_evaluation ?r = NewEvaluationManager m (NewExtensions g (runtime m)) opa"
    by (simp_all add: wired_server_def)
  have anonymous: "GetRolePermissions RoleAnonymous =
      [''rode.evaluationResult.read'', ''rode.occurrence.read'', ''rode.policyAssignment.read'',
       ''rode.policyGroup.read'', ''rode.policy.read'', ''rode.resource.read'']"
    by code_simp
  have evaluations: "reads_only (ListResourceEvaluations (NewEvaluationManager m e opa) q)" for e q
    by (rule reads_only_ListResourceEvaluations)
      (simp add: NewEvaluationManager_def reads_only_GetResourceVersion)
  note reads = reads_only_GetPolicy reads_only_ListPolicies reads_only_ListPolicyVersions
    reads_only_GetPolicyGroup reads_only_ListPolicyGroups reads_only_GetPolicyAssignment
    reads_only_ListPolicyAssignments reads_only_ListResources reads_only_ServerListResourceVersions
    reads_only_ListOccurrences reads_only_ListVersionedResourceOccurrences
    reads_only_GetResourceEvaluation evaluations
  show ?thesis
    using assms unfolding anonymous
    by (cases request)
      (simp_all add: parts del: ret_run, (intro io_emits reads)+)
qed

lemma serve_silent_or:
  assumes "wired cfg fromMD oidcLib claimPath isSubset = (authn, authz)" "\<And>s t. isSubset s t \<longleftrightarrow> set t \<subseteq> set s"
    "ac_Enabled cfg"
  shows "trace (snd (serve authn authz r header request s)) = trace s \<or>
    (\<exists>ctx s1. Authenticate authn (call_context header request) s = (Ok ctx, s1) \<and> trace s1 = trace s \<and>
       granted request ctx \<and>
       trace (snd (serve authn authz r header request s)) = trace (snd (handle r request s1)))"
proof -
  obtain out s1 where run: "Authenticate authn (call_context header request) s = (out, s1)"
    by (cases "Authenticate authn (call_context header request) s")
  then have same: "trace s1 = trace s"
    using Authenticate_world [of authn "call_context header request" s] by simp
  have "trace (snd (recovered f s)) = trace (snd (f s))" for f :: "('b, 'c) io" and s
    by (simp add: recovered_def split: prod.splits outcome.splits)
  with serve_run [OF assms run, of r] run same show ?thesis
    by (cases out) (auto split: if_splits)
qed

text \<open>C16: a caller without credentials can read but never change anything: with authorization
  on, no call without an authorization header makes an external call that changes what any
  of the services outside stores, whatever the request.\<close>

theorem anonymous_reads_only:
  assumes "wired cfg fromMD oidcLib claimPath isSubset = (authn, authz)" "\<And>s t. isSubset s t \<longleftrightarrow> set t \<subseteq> set s"
    "ac_Enabled cfg"
  shows "reads_only (serve authn authz (wired_server g p m opa) [] request)"
  unfolding emits_def
proof
  fix s
  let ?r = "wired_server g p m opa"
  show "\<exists>es. trace (snd (serve authn authz ?r [] request s)) = trace s @ es \<and> list_all (\<lambda>ev. \<not> mutating ev) es"
  proof (cases "trace (snd (serve authn authz ?r [] request s)) = trace s")
    case False
    with serve_silent_or [OF assms, where header = "[]" and request = request and s = s and r = ?r]
    obtain ctx s1 where
      ctx: "Authenticate authn (call_context [] request) s = (Ok ctx, s1)" "granted request ctx" "trace s1 = trace s"
      "trace (snd (serve authn authz ?r [] request s)) = trace (snd (handle ?r request s1))" by blast
    from ctx(1) have "cx_Roles ctx = Some [RoleAnonymous]"
      by (auto simp: Authenticate_def call_context_def with_roles_def)
    with ctx(2) have "set (required_permissions request) \<subseteq> set (GetRolePermissions RoleAnonymous)"
      by (simp add: granted_def caller_permissions_def)
    from read_handlers [OF this, of g p m opa] ctx(3,4) show ?thesis by (simp add: emits_def) metis
  qed simp
qed


text \<open>The roles whose permissions only reach methods that store nothing in Elasticsearch.\<close>

definition storing_roles :: "role set" where
  "storing_roles = {RoleEnforcer, RoleCollector, RolePolicyDeveloper, RolePolicyAdministrator, RoleAdministrator}"

definition quiet_permissions :: "permission list" where
  "quiet_permissions = GetRolePermissions RoleAnonymous @ GetRolePermissions RoleApplicationDeveloper"

lemma quiet_roles:
  assumes "r \<notin> storing_roles"
  shows "set (GetRolePermissions r) \<subseteq> set quiet_permissions"
proof (cases "r = RoleAnonymous \<or> r = RoleApplicationDeveloper")
  case True
  then show ?thesis by (auto simp: quiet_permissions_def)
next
  case False
  with assms have "map_of registry r = None"
    by (auto simp: storing_roles_def registry_def)
  then show ?thesis by (simp add: GetRolePermissions_def)
qed

lemma quiet_handlers:
  assumes "set (required_permissions request) \<subseteq> set quiet_permissions"
  shows "stores_nothing (handle (wired_server g p m opa) request)"
proof (cases "set (required_permissions request) \<subseteq> set (GetRolePermissions RoleAnonymous)")
  case True
  then show ?thesis by (rule reads_only_stores_nothing [OF read_handlers])
next
  case False
  let ?r = "wired_server g p m opa"
  have parts: "sv_manager ?r = m" "sv_evaluation ?r = NewEvaluationManager m (NewExtensions g (runtime m)) opa"
    by (simp_all add: wired_server_def)
  have quiet: "quiet_permissions =
      [''rode.evaluationResult.read'', ''rode.occurrence.read'', ''rode.policyAssignment.read'',
       ''rode.policyGroup.read'', ''rode.policy.read'', ''rode.resource.read'',
       ''rode.occurrence.read'', ''rode.policyAssignment.read'', ''rode.policy.evaluate'',
       ''rode.policyGroup.read'', ''rode.policy.read'', ''rode.policy.validate'', ''rode.resource.read'']"
    and anonymous: "GetRolePermissions RoleAnonymous =
      [''rode.evaluationResult.read'', ''rode.occurrence.read'', ''rode.policyAssignment.read'',
       ''rode.policyGroup.read'', ''rode.policy.read'', ''rode.resource.read'']"
    by code_simp+
  have validate: "stores_nothing (validate_rpc m q)" for q
    by (auto simp: validate_rpc_def intro!: io_emits split: outcome.splits prod.splits option.splits)
  show ?thesis
    using assms False unfolding quiet anonymous
    by (cases request)
      (simp_all add: parts del: ret_run,
       (intro io_emits services.EvaluatePolicy_reads validate)+)
qed

text \<open>C17: with authorization on, only five of the seven roles can make the service store
  anything in Elasticsearch: when a call does, its caller authenticated as an Enforcer, a
  Collector, a policy developer or administrator, or an administrator.\<close>

theorem only_storing_roles_store:
  assumes "wired cfg fromMD oidcLib claimPath isSubset = (authn, authz)" "\<And>s t. isSubset s t \<longleftrightarrow> set t \<subseteq> set s"
    "ac_Enabled cfg" "serve authn authz (wired_server g p m opa) header request s = (reply, s')"
    "trace s' = trace s @ events" "\<exists>ev\<in>set events. es_write ev"
  shows "\<exists>ctx rs. fst (Authenticate authn (call_context header request) s) = Ok ctx \<and>
    cx_Roles ctx = Some rs \<and> set rs \<inter> storing_roles \<noteq> {}"
proof -
  let ?r = "wired_server g p m opa"
  from assms(4-6) have "trace (snd (serve authn authz ?r header request s)) \<noteq> trace s" by auto
  with serve_silent_or [OF assms(1-3), where header = header and request = request and s = s and r = ?r]
  obtain ctx rs s1 where ctx: "Authenticate authn (call_context header request) s = (Ok ctx, s1)"
    "cx_Roles ctx = Some rs" "set (required_permissions request) \<subseteq> caller_permissions rs"
    "trace (snd (serve authn authz ?r header request s)) = trace (snd (handle ?r request s1))" "trace s1 = trace s"
    by (auto simp: granted_def)
  have "set rs \<inter> storing_roles \<noteq> {}"
  proof
    assume "set rs \<inter> storing_roles = {}"
    then have "caller_permissions rs \<subseteq> set quiet_permissions"
      using quiet_roles by (fastforce simp: caller_permissions_def)
    with ctx(3) have "stores_nothing (handle ?r request)" by (intro quiet_handlers) blast
    then obtain es where "trace (snd (handle ?r request s1)) = trace s1 @ es" "list_all (\<lambda>ev. \<not> es_write ev) es"
      unfolding emits_def by blast
    with ctx(4,5) assms(4-6) show False by (auto simp: list_all_iff)
  qed
  with ctx show ?thesis by auto
qed

end
