(* ===== verification/Rode_Calls.thy ===== *)
theory Rode_Calls
  imports Rode_History
begin

text \<open>
  How many requests a call makes. \<open>costs n f\<close>: whatever the outside answers, \<open>f\<close> makes at
  most \<open>n\<close> external calls before it returns. The rules follow the combinators, so that
  \<open>rule calls\<close> computes a bound from the body of a handler. No handler retries or polls;
  the only one whose number of requests depends on an answer is \<open>EvaluateResource\<close>, which
  turns to OPA for every assignment of the group.
\<close>

section \<open>Counting requests\<close>

definition costs :: "nat \<Rightarrow> ('w, 'a) io \<Rightarrow> bool" where
  "costs n f \<longleftrightarrow> (\<forall>s. \<exists>es. trace (snd (f s)) = trace s @ es \<and> length es \<le> n)"

named_theorems calls

lemma costsD:
  assumes "costs n f" "f s = (r, s')"
  obtains es where "trace s' = trace s @ es" "length es \<le> n"
  using assms unfolding costs_def by (metis snd_conv)

lemma costs_le: "costs n f \<Longrightarrow> n \<le> k \<Longrightarrow> costs k f"
  unfolding costs_def by (meson le_trans)

lemma costs_max: "costs a f \<Longrightarrow> costs (max a b) f" "costs b f \<Longrightarrow> costs (max a b) f"
  by (auto elim: costs_le)

lemma silent_costs: "silent f \<Longrightarrow> costs 0 f"
  unfolding emits_def costs_def by (auto simp: list_all_iff)

lemma costs_external [calls]: "costs 1 (external ev f)"
  by (auto simp: costs_def external_def split: prod.splits)

lemma costs_attempt_known:
  assumes f: "costs a f" and k: "\<And>s x s'. f s = (Ok x, s') \<Longrightarrow> costs b (k x)"
  shows "costs (a + b) (attempt f w k)"
  unfolding costs_def
proof
  fix s
  obtain r s1 where run: "f s = (r, s1)" by (cases "f s")
  from f run obtain es where es: "trace s1 = trace s @ es" "length es \<le> a" by (rule costsD)
  show "\<exists>es. trace (snd (attempt f w k s)) = trace s @ es \<and> length es \<le> a + b"
  proof (cases r)
    case (Ok x)
    with k run have "costs b (k x)" by blast
    then obtain es' where "trace (snd (k x s1)) = trace s1 @ es'" "length es' \<le> b"
      unfolding costs_def by blast
    with es run Ok show ?thesis by (auto simp: attempt_def)
  qed (use es run in \<open>auto simp: attempt_def\<close>)
qed

lemma costs_attempt [calls]: "costs a f \<Longrightarrow> (\<And>x. costs b (k x)) \<Longrightarrow> costs (a + b) (attempt f w k)"
  by (rule costs_attempt_known)

lemma costs_inspect [calls]:
  assumes "costs a f" "\<And>r. costs b (k r)"
  shows "costs (a + b) (inspect f k)"
  unfolding costs_def
proof
  fix s
  obtain r s1 where run: "f s = (r, s1)" by (cases "f s")
  from assms(1) run obtain es where es: "trace s1 = trace s @ es" "length es \<le> a" by (rule costsD)
  have "\<exists>es'. trace (snd (k q s1)) = trace s1 @ es' \<and> length es' \<le> b" for q
    using assms(2) unfolding costs_def by blast
  from this [of "case r of Ok x \<Rightarrow> Inr x | Err e \<Rightarrow> Inl e"] es run
  show "\<exists>es. trace (snd (inspect f k s)) = trace s @ es \<and> length es \<le> a + b"
    by (cases r) (auto simp: inspect_def)
qed

lemma costs_if [calls]: "costs a f \<Longrightarrow> costs b g \<Longrightarrow> costs (max a b) (if c then f else g)"
  by (auto elim: costs_le)

lemma costs_case_option [calls]:
  "costs a f \<Longrightarrow> (\<And>x. costs b (g x)) \<Longrightarrow> costs (max a b) (case opt of None \<Rightarrow> f | Some x \<Rightarrow> g x)"
  by (cases opt) (auto intro: costs_max)

lemma costs_case_sum [calls]:
  "(\<And>e. costs a (f e)) \<Longrightarrow> (\<And>x. costs b (g x)) \<Longrightarrow>
     costs (max a b) (case r of Inl e \<Rightarrow> f e | Inr x \<Rightarrow> g x)"
  by (cases r) (auto intro: costs_max)

lemma costs_case_prod [calls]: "(\<And>x y. costs n (f x y)) \<Longrightarrow> costs n (case p of (x, y) \<Rightarrow> f x y)"
  by (cases p) simp

lemma costs_Let [calls]: "(\<And>x. costs n (f x)) \<Longrightarrow> costs n (let x = v in f x)"
  by (simp add: Let_def)

lemma costs_for_each:
  "(\<And>x acc. costs n (body x acc)) \<Longrightarrow> costs (length xs * n) (for_each xs acc body)"
  by (induction xs arbitrary: acc) (auto intro!: silent_costs intro: costs_attempt)

lemma costs_recovered: "costs n f \<Longrightarrow> costs n (recovered f)"
  unfolding costs_def recovered_def by (auto split: prod.splits outcome.splits) (metis snd_conv)+

lemmas costs_silent [calls] =
  silent_costs [OF emits_ret] silent_costs [OF emits_fail] silent_costs [OF emits_panic]
  silent_costs [OF emits_lift] silent_costs [OF emits_deref] silent_costs [OF emits_index_at]
  silent_costs [OF emits_draw] silent_costs [OF emits_check_bulk] silent_costs [OF emits_parse_uri]
  silent_costs [OF emits_collect_resources] silent_costs [OF emits_resource_items]
  silent_costs [OF emits_index_errors] silent_costs [OF emits_collect_versions]
  silent_costs [OF emits_version_items] silent_costs [OF emits_collect_uris]
  silent_costs [OF emits_collector_notes] silent_costs [OF emits_getOpaPackagePath]

section \<open>The managers\<close>

text \<open>The bound \<open>rule calls\<close> finds is a sum of maxima; \<open>costs_le\<close> compares it with the number.\<close>

lemma costs_policy_reads [calls]:
  "costs 1 (GetPolicyVersion m i)" "costs 1 (getPolicy m i)"
  unfolding GetPolicyVersion_def getPolicy_def by (rule costs_le, (rule calls)+, simp)+

lemma costs_GetPolicy [calls]: "costs 2 (GetPolicy m q)"
  unfolding GetPolicy_def by (rule costs_le, (rule calls)+, simp)

lemma costs_attach_versions [calls]: "costs 0 (attach_versions m ps i ds)"
proof (rule silent_costs)
  show "silent (attach_versions m ps i ds)"
    by (induction ds arbitrary: ps i) (auto intro!: io_emits)
qed

lemma costs_validatePolicy [calls]: "costs 0 (validatePolicy m v)"
  by (rule silent_costs) (simp add: emits_validatePolicy)


lemma costs_policies [calls]:
  "costs 1 (CreatePolicy m pol)" "costs 2 (DeletePolicy m dq)" "costs 2 (ListPolicies m lq)"
  "costs 1 (ListPolicyVersions m vq)" "costs 4 (UpdatePolicy m uq)"
  unfolding CreatePolicy_def DeletePolicy_def ListPolicies_def ListPolicyVersions_def UpdatePolicy_def
    applyUpdate_def hasPolicyContentChanges_def createNewVersion_def incrementPolicyVersion_def storePolicy_def
  by (rule costs_le, (rule calls)+, simp)+

lemma costs_group_reads [calls]: "costs 1 (GetPolicyGroup m q)" "costs 1 (ListPolicyGroups m lq)"
  unfolding GetPolicyGroup_def ListPolicyGroups_def by (rule costs_le, (rule calls)+, simp)+

lemma costs_groups [calls]:
  "costs 2 (CreatePolicyGroup m g)" "costs 2 (UpdatePolicyGroup m g)" "costs 2 (DeletePolicyGroup m dq)"
  unfolding CreatePolicyGroup_def UpdatePolicyGroup_def DeletePolicyGroup_def
  by (rule costs_le, (rule calls)+, simp)+

lemma costs_assignment_reads [calls]:
  "costs 1 (GetPolicyAssignment m q)" "costs 1 (ListPolicyAssignments m lq)"
  unfolding GetPolicyAssignment_def ListPolicyAssignments_def by (rule costs_le, (rule calls)+, simp)+

lemma costs_check_found [calls]: "costs 0 (check_found ds i ms)"
  by (rule silent_costs [OF emits_check_found])

lemma costs_assignments [calls]:
  "costs 3 (CreatePolicyAssignment m a)" "costs 3 (UpdatePolicyAssignment m a)"
  "costs 2 (DeletePolicyAssignment m dq)"
  unfolding CreatePolicyAssignment_def UpdatePolicyAssignment_def DeletePolicyAssignment_def
    validateAssignment_def validateCreate_def validateUpdate_def checkAssignmentTargets_def
  by (rule costs_le, (rule calls)+, simp)+

lemma costs_resources [calls]:
  "costs 2 (BatchCreateResources m occs)" "costs 2 (BatchCreateResourceVersions m occs)"
  "costs 1 (ListResources m lq)" "costs 1 (ListResourceVersions m vq)" "costs 1 (GetResource m i)"
  "costs 1 (GetResourceVersion m i)"
  unfolding BatchCreateResources_def BatchCreateResourceVersions_def ListResources_def
    ListResourceVersions_def GetResource_def GetResourceVersion_def
  by (rule costs_le, (rule calls)+, simp)+

lemma costs_ExtList [calls]: "costs 2 (ExtListVersionedResourceOccurrences e uri token n)"
  unfolding ExtListVersionedResourceOccurrences_def by (rule costs_le, (rule calls)+, simp)

lemma costs_opa [calls]: "costs 2 (InitializePolicy opa i src)" "costs 1 (OpaEvaluatePolicy opa src input)"
  unfolding InitializePolicy_def policyExists_def loadPolicy_def OpaEvaluatePolicy_def
  by (rule costs_le, (rule calls)+, simp)+

section \<open>Evaluating\<close>

lemma NewEvaluationManager_parts [simp]:
  "ev_base (NewEvaluationManager m e opa) = m"
  "ev_GetPolicy (NewEvaluationManager m e opa) = GetPolicy m"
  "ev_GetPolicyVersion (NewEvaluationManager m e opa) = GetPolicyVersion m"
  "ev_GetPolicyGroup (NewEvaluationManager m e opa) = GetPolicyGroup m"
  "ev_ListPolicyAssignments (NewEvaluationManager m e opa) = ListPolicyAssignments m"
  "ev_ListVersionedResourceOccurrences (NewEvaluationManager m e opa) =
     ExtListVersionedResourceOccurrences e"
  "ev_InitializePolicy (NewEvaluationManager m e opa) = InitializePolicy opa"
  "ev_OpaEvaluatePolicy (NewEvaluationManager m e opa) = OpaEvaluatePolicy opa"
  "ev_GetResourceVersion (NewEvaluationManager m e opa) = GetResourceVersion m"
  by (simp_all add: NewEvaluationManager_def)

lemma costs_decode_evaluations [calls]: "costs 0 (decode_policy_evaluations em hits)"
  unfolding decode_policy_evaluations_def by (rule costs_le, (rule calls)+, simp)

lemma costs_attach_evaluations [calls]: "costs 0 (attach_evaluations em rs i resps)"
proof (induction resps arbitrary: rs i)
  case (Cons resp resps)
  then show ?case unfolding attach_evaluations.simps by - (rule costs_le, (rule calls | assumption)+, simp)
qed (simp add: silent_costs emits_ret)

lemma costs_evaluatePolicy [calls]: "costs 3 (evaluatePolicy (NewEvaluationManager m e opa) i src occs)"
  unfolding evaluatePolicy_def NewEvaluationManager_parts by (rule costs_le, (rule calls)+, simp)

lemma costs_evaluations [calls]:
  "costs 7 (EvaluatePolicy (NewEvaluationManager m e opa) eq)"
  "costs 4 (evaluate_assignment (NewEvaluationManager m e opa) i occs a acc)"
  "costs 1 (GetResourceEvaluation (NewEvaluationManager m e opa) gq)"
  "costs 3 (ListResourceEvaluations (NewEvaluationManager m e opa) lq)"
  unfolding EvaluatePolicy_def evaluate_assignment_def GetResourceEvaluation_def ListResourceEvaluations_def
    NewEvaluationManager_parts
  by (rule costs_le, (rule calls)+, simp)+

lemma costs_evaluate_group:
  assumes "length as \<le> k"
  shows "costs (3 + 4 * k) (evaluate_group (NewEvaluationManager m e opa) q v grp as)"
proof -
  have loop: "costs (4 * k) (for_each as acc (evaluate_assignment (NewEvaluationManager m e opa) i occs))"
    for acc i occs
    by (rule costs_le [OF costs_for_each [OF costs_evaluations(2)]]) (use assms in simp)
  show ?thesis unfolding evaluate_group_def NewEvaluationManager_parts
    by (rule costs_le, (rule calls loop)+, simp)
qed

text \<open>A search answers with at most \<open>k\<close> hits, so a group has at most \<open>k\<close> assignments.\<close>

definition hits_within :: "'w manager \<Rightarrow> nat \<Rightarrow> bool" where
  "hits_within m k \<longleftrightarrow>
     (\<forall>q x r x'. esc_Search (esClient m) q x = (Inr r, x') \<longrightarrow> length (srs_Hits r) \<le> k)"

lemma hits_withinD: "hits_within m k \<Longrightarrow> esc_Search (esClient m) q x = (Inr r, x') \<Longrightarrow> length (srs_Hits r) \<le> k"
  by (auto simp: hits_within_def)

lemma listed_assignments:
  assumes "ListPolicyAssignments m q s = (Ok r, s')" "hits_within m k"
  shows "length (las_PolicyAssignments r) \<le> k"
  using assms unfolding ListPolicyAssignments_def
  by (auto simp: attempt_Ok external_Ok dest!: decode_all_length dest: hits_withinD)

lemma costs_EvaluateResource:
  assumes "hits_within m k"
  shows "costs (6 + 4 * k) (EvaluateResource (NewEvaluationManager m e opa) q)"
proof -
  have rest: "costs (1 + (3 + 4 * k)) (attempt (ListPolicyAssignments m lq) id (\<lambda>assignments.
      if length (las_PolicyAssignments assignments) = 0 then fail (err assignments)
      else evaluate_group (NewEvaluationManager m e opa) q v grp (las_PolicyAssignments assignments)))"
    for lq err v grp
  proof (rule costs_attempt_known)
    fix s r s' assume "ListPolicyAssignments m lq s = (Ok r, s')"
    from listed_assignments [OF this assms]
    show "costs (3 + 4 * k) (if length (las_PolicyAssignments r) = 0 then fail (err r)
        else evaluate_group (NewEvaluationManager m e opa) q v grp (las_PolicyAssignments r))"
      by (auto intro: costs_evaluate_group costs_le [OF silent_costs [OF emits_fail]])
  qed (rule calls)
  show ?thesis unfolding EvaluateResource_def NewEvaluationManager_parts
    by (rule costs_le, (rule rest calls)+, simp)
qed

section \<open>The server\<close>

lemma costs_server [calls]:
  "costs 5 (BatchCreateOccurrences r bq)" "costs 2 (ServerListResourceVersions r vq)"
  "costs 1 (fetchRelatedNotes r occs)"
  "costs 1 (ListOccurrences r lq)" "costs 1 (UpdateOccurrence r uq)" "costs 2 (RegisterCollector r cq)"
  "costs 1 (CreateNote r nq)"
  unfolding BatchCreateOccurrences_def ServerListResourceVersions_def fetchRelatedNotes_def
    ListOccurrences_def UpdateOccurrence_def RegisterCollector_def create_missing_notes_def CreateNote_def
  by (rule costs_le, (rule calls)+, simp)+

lemma costs_ListVersionedResourceOccurrences [calls]: "costs 3 (ListVersionedResourceOccurrences r q)"
  unfolding ListVersionedResourceOccurrences_def by (rule costs_le, (rule calls)+, simp)

lemma costs_validate_rpc [calls]: "costs 0 (validate_rpc m q)"
  by (rule silent_costs)
    (auto simp: validate_rpc_def intro!: io_emits split: outcome.splits prod.splits option.splits)

text \<open>The requests a call makes at most, where a search answers with at most \<open>k\<close> hits.\<close>

fun request_bound :: "nat \<Rightarrow> rpc \<Rightarrow> nat" where
  "request_bound k (RpcValidatePolicy _) = 0"
| "request_bound k (RpcListResources _) = 1"
| "request_bound k (RpcListOccurrences _) = 1"
| "request_bound k (RpcUpdateOccurrence _) = 1"
| "request_bound k (RpcCreatePolicy _) = 1"
| "request_bound k (RpcListPolicyVersions _) = 1"
| "request_bound k (RpcCreateNote _) = 1"
| "request_bound k (RpcListPolicyGroups _) = 1"
| "request_bound k (RpcGetPolicyGroup _) = 1"
| "request_bound k (RpcGetPolicyAssignment _) = 1"
| "request_bound k (RpcListPolicyAssignments _) = 1"
| "request_bound k (RpcGetResourceEvaluation _) = 1"
| "request_bound k (RpcListVersionedResourceOccurrences _) = 3"
| "request_bound k (RpcCreatePolicyAssignment _) = 3"
| "request_bound k (RpcUpdatePolicyAssignment _) = 3"
| "request_bound k (RpcListResourceEvaluations _) = 3"
| "request_bound k (RpcUpdatePolicy _) = 4"
| "request_bound k (RpcBatchCreateOccurrences _) = 5"
| "request_bound k (RpcEvaluatePolicy _) = 7"
| "request_bound k (RpcEvaluateResource _) = 6 + 4 * k"
| "request_bound k _ = 2"

lemma costs_handle:
  assumes "hits_within m k"
  shows "costs (request_bound k request) (handle (wired_server g p m opa) request)"
proof -
  let ?r = "wired_server g p m opa"
  have parts: "sv_manager ?r = m" "sv_evaluation ?r = NewEvaluationManager m (NewExtensions g (runtime m)) opa"
    by (simp_all add: wired_server_def)
  show ?thesis
    by (cases request) (simp_all only: handle.simps request_bound.simps parts,
      (rule costs_le, (rule calls costs_EvaluateResource [OF assms])+, simp)+)
qed

text \<open>C14: every call ends after a bounded number of requests, with an answer and never with a
  panic, whatever Elasticsearch, Grafeas and OPA answer and whichever of them fails. The bound
  is a constant of the method: none for the validation of a policy, four for an update of
  one, seven for its evaluation. Only for the evaluation of a resource does it depend on what
  is stored: four requests for each assignment of the group, of which there are no more than
  a search answers with.\<close>

theorem calls_end:
  assumes "hits_within m k"
  shows "\<exists>answer events s'. serve authn authz (wired_server g p m opa) header request s = (answer, s') \<and>
    (\<forall>message. answer \<noteq> Panic message) \<and> trace s' = trace s @ events \<and>
    length events \<le> request_bound k request"
proof -
  have "costs (request_bound k request) (serve authn authz (wired_server g p m opa) header request)"
    unfolding serve_def
    by (rule costs_recovered, rule costs_le, rule costs_attempt [OF silent_costs [OF emits_Authenticate]],
        rule costs_attempt [OF silent_costs [OF emits_Authorize]], rule costs_handle [OF assms], simp)
  moreover obtain answer s' where run:
    "serve authn authz (wired_server g p m opa) header request s = (answer, s')" by (rule prod.exhaust)
  ultimately obtain events where "trace s' = trace s @ events" "length events \<le> request_bound k request"
    by (rule costsD)
  moreover have "answer \<noteq> Panic message" for message
    using run recovered_no_panic by (auto simp: serve_def)
  ultimately show ?thesis using run by blast
qed

end
