(* ===== verification/Http_Gateway.thy ===== *)
theory Http_Gateway
  imports Rode_Rpc
begin

text \<open>
  The HTTP side of the service, \<open>proto/v1alpha1/rode.pb.gw.go\<close>: the patterns of the routes,
  one function per route that makes a gRPC request of an HTTP request (its body, the
  parameters of its path and its query), and the handlers \<open>RegisterRodeHandlerClient\<close>
  registers, each of which sends that request on and answers with the reply. What the
  functions use of the gateway's runtime library and of \<open>protojson\<close> are parameters, the
  record \<open>gateway_lib\<close>. The \<open>local_\<close> variants are in \<open>Http_Gateway_Server\<close>.
\<close>

section \<open>HTTP requests and the library\<close>

text \<open>Reading the body and parsing the form can fail; both happen at most once.\<close>

record http_request =
  hr_Body :: "go_error + string"
  hr_Form :: "go_error + (string \<times> string list) list"

type_synonym path_params = "(string \<times> string) list"

text \<open>\<open>runtime.NewPattern\<close>: pairs of an operation and its operand, the pool of names, the verb.\<close>

record pattern =
  pt_Ops :: "(nat \<times> nat) list"
  pt_Pool :: "string list"
  pt_Verb :: string

text \<open>\<open>Decode\<close> returns a message, \<open>io.EOF\<close> for an empty body, or another error.\<close>

datatype 'a decoded = Decoded 'a | NoBody | BadBody go_error

fun decoded_pointer :: "('b \<Rightarrow> 'a decoded) \<Rightarrow> 'b \<Rightarrow> 'a option decoded" where
  "decoded_pointer dec x = (case dec x of
       Decoded y \<Rightarrow> Decoded (Some y) | NoBody \<Rightarrow> NoBody | BadBody e \<Rightarrow> BadBody e)"

type_synonym 'a body_decoder = "string \<Rightarrow> 'a decoded"

text \<open>\<open>runtime.PopulateQueryParameters\<close>, with the names its filter excludes.\<close>

type_synonym 'a populate = "string list \<Rightarrow> (string \<times> string list) list \<Rightarrow> 'a \<Rightarrow> go_error + 'a"

record gateway_lib =
  gd_BatchCreateOccurrences :: "batch_create_occurrences_request body_decoder"
  gd_EvaluatePolicy :: "evaluate_policy_request body_decoder"
  gd_Occurrence :: "occurrence body_decoder"
  gd_Policy :: "policy body_decoder"
  gd_ValidatePolicy :: "validate_policy_request body_decoder"
  gd_RegisterCollector :: "register_collector_request body_decoder"
  gd_Note :: "grafeas_note body_decoder"
  gd_PolicyGroup :: "policy_group body_decoder"
  gd_PolicyAssignment :: "policy_assignment body_decoder"
  gd_EvaluateResource :: "resource_evaluation_request body_decoder"
  gq_ListResources :: "list_resources_request populate"
  gq_ListResourceVersions :: "list_resource_versions_request populate"
  gq_ListVersionedResourceOccurrences :: "list_versioned_resource_occurrences_request populate"
  gq_ListOccurrences :: "list_occurrences_request populate"
  gq_UpdateOccurrence :: "update_occurrence_request populate"
  gq_ListPolicies :: "list_policies_request populate"
  gq_ListPolicyVersions :: "list_policy_versions_request populate"
  gq_CreateNote :: "create_note_request populate"
  gq_ListPolicyGroups :: "list_policy_groups_request populate"
  gq_ListPolicyAssignments :: "list_policy_assignments_request populate"
  gq_ListResourceEvaluations :: "list_resource_evaluations_request populate"
  gl_String :: "string \<Rightarrow> go_error + string"
  gl_PolicyIdFromPath :: "string \<Rightarrow> update_policy_request \<Rightarrow> go_error + update_policy_request"
  gl_FieldMask :: "string \<Rightarrow> occurrence option \<Rightarrow> go_error + string list"
  gl_Annotate :: "http_request \<Rightarrow> string \<Rightarrow> string \<Rightarrow> go_error + string"
  gl_AnnotateIncoming :: "http_request \<Rightarrow> string \<Rightarrow> string \<Rightarrow> go_error + string"
  gl_Match :: "(string \<times> pattern) list \<Rightarrow> http_request \<Rightarrow> go_error + nat \<times> path_params"

section \<open>The steps the request functions are made of\<close>

definition and_then :: "go_error + 'a \<Rightarrow> ('a \<Rightarrow> go_error + 'b) \<Rightarrow> go_error + 'b" where
  "and_then r k = (case r of Inl e \<Rightarrow> Inl e | Inr x \<Rightarrow> k x)"

text \<open>\<open>status.Errorf(codes.InvalidArgument, "%v", err)\<close> and its two variants.\<close>

definition invalid_argument :: "go_error + 'a \<Rightarrow> go_error + 'a" where
  "invalid_argument r = (case r of
       Inl err \<Rightarrow> Inl (StatusError InvalidArgument '''' (Some err) []) | Inr x \<Rightarrow> Inr x)"

definition missing_parameter :: "string \<Rightarrow> go_error" where
  "missing_parameter name = StatusError InvalidArgument (''missing parameter '' @ name) None []"

definition type_mismatch :: "string \<Rightarrow> go_error \<Rightarrow> go_error" where
  "type_mismatch name err =
     StatusError InvalidArgument (''type mismatch, parameter: '' @ name @ '', error'') (Some err) []"

definition decode_body :: "http_request \<Rightarrow> (string \<Rightarrow> 'a decoded) \<Rightarrow> 'a \<Rightarrow> go_error + 'a" where
  "decode_body http dec zero =
     and_then (invalid_argument (hr_Body http)) (\<lambda>body. case dec body of
         Decoded x \<Rightarrow> Inr x
       | NoBody \<Rightarrow> Inr zero
       | BadBody err \<Rightarrow> invalid_argument (Inl err))"

definition path_param :: "gateway_lib \<Rightarrow> path_params \<Rightarrow> string \<Rightarrow> go_error + string" where
  "path_param lib params name = (case map_of params name of
       None \<Rightarrow> Inl (missing_parameter name)
     | Some val \<Rightarrow> (case gl_String lib val of
           Inl err \<Rightarrow> Inl (type_mismatch name err) | Inr v \<Rightarrow> Inr v))"

definition policy_id_param ::
  "gateway_lib \<Rightarrow> path_params \<Rightarrow> update_policy_request \<Rightarrow> go_error + update_policy_request" where
  "policy_id_param lib params q = (case map_of params ''policy.id'' of
       None \<Rightarrow> Inl (missing_parameter ''policy.id'')
     | Some val \<Rightarrow> (case gl_PolicyIdFromPath lib val q of
           Inl err \<Rightarrow> Inl (type_mismatch ''policy.id'' err) | Inr q' \<Rightarrow> Inr q'))"

definition query_params ::
  "http_request \<Rightarrow> ((string \<times> string list) list \<Rightarrow> 'a \<Rightarrow> go_error + 'a) \<Rightarrow> 'a \<Rightarrow> go_error + 'a" where
  "query_params http populate q =
     and_then (invalid_argument (hr_Form http)) (\<lambda>form. invalid_argument (populate form q))"

section \<open>Messages with all fields zero\<close>

definition zero_policy :: policy where
  "zero_policy = \<lparr>p_Id = '''', p_Name = '''', p_Description = '''', p_CurrentVersion = 0, p_Policy = None, p_Created = None, p_Updated = None, p_Deleted = False\<rparr>"

definition zero_policy_group :: policy_group where
  "zero_policy_group = \<lparr>pg_Name = '''', pg_Description = '''', pg_Created = None, pg_Updated = None, pg_Deleted = False\<rparr>"

definition zero_policy_assignment :: policy_assignment where
  "zero_policy_assignment = \<lparr>pa_Id = '''', pa_PolicyVersionId = '''', pa_PolicyGroup = '''', pa_Created = None, pa_Updated = None\<rparr>"

definition zero_list_assignments :: list_policy_assignments_request where
  "zero_list_assignments = \<lparr>lar_Filter = '''', lar_PageSize = 0, lar_PageToken = '''', lar_PolicyId = '''', lar_PolicyGroup = ''''\<rparr>"

section \<open>One function per route\<close>

type_synonym request_fn = "gateway_lib \<Rightarrow> http_request \<Rightarrow> path_params \<Rightarrow> go_error + rpc"

definition request_Rode_BatchCreateOccurrences_0 :: request_fn where
  "request_Rode_BatchCreateOccurrences_0 lib http params =
     and_then (decode_body http (gd_BatchCreateOccurrences lib) \<lparr>bco_Occurrences = []\<rparr>) (\<lambda>q. Inr (RpcBatchCreateOccurrences q))"

definition request_Rode_EvaluatePolicy_0 :: request_fn where
  "request_Rode_EvaluatePolicy_0 lib http params =
     and_then (decode_body http (gd_EvaluatePolicy lib) \<lparr>epr_Policy = '''', epr_ResourceUri = ''''\<rparr>) (\<lambda>q.
     and_then (path_param lib params ''policy'') (\<lambda>v.
     Inr (RpcEvaluatePolicy (q\<lparr>epr_Policy := v\<rparr>))))"

definition request_Rode_ListResources_0 :: request_fn where
  "request_Rode_ListResources_0 lib http params =
     and_then (query_params http (gq_ListResources lib []) \<lparr>lrr_Filter = '''', lrr_PageSize = 0, lrr_PageToken = ''''\<rparr>) (\<lambda>q. Inr (RpcListResources q))"

definition request_Rode_ListResourceVersions_0 :: request_fn where
  "request_Rode_ListResourceVersions_0 lib http params =
     and_then (query_params http (gq_ListResourceVersions lib []) \<lparr>lrv_Id = '''', lrv_Filter = '''', lrv_PageSize = 0,
       lrv_PageToken = ''''\<rparr>) (\<lambda>q. Inr (RpcListResourceVersions q))"

definition request_Rode_ListVersionedResourceOccurrences_0 :: request_fn where
  "request_Rode_ListVersionedResourceOccurrences_0 lib http params =
     and_then (query_params http (gq_ListVersionedResourceOccurrences lib []) \<lparr>lvo_ResourceUri = '''',
       lvo_PageSize = 0, lvo_PageToken = '''', lvo_FetchRelatedNotes = False\<rparr>) (\<lambda>q. Inr (RpcListVersionedResourceOccurrences q))"

definition request_Rode_ListOccurrences_0 :: request_fn where
  "request_Rode_ListOccurrences_0 lib http params =
     and_then (query_params http (gq_ListOccurrences lib []) \<lparr>lor_Filter = '''', lor_PageSize = 0, lor_PageToken = ''''\<rparr>) (\<lambda>q. Inr (RpcListOccurrences q))"

definition request_Rode_UpdateOccurrence_0 :: request_fn where
  "request_Rode_UpdateOccurrence_0 lib http params =
     and_then (decode_body http (decoded_pointer (gd_Occurrence lib)) None) (\<lambda>occ.
     let q = \<lparr>uor_Id = '''', uor_Occurrence = occ, uor_UpdateMask = None\<rparr> in
     and_then (if uor_UpdateMask q = None \<or> uor_UpdateMask q = Some []
               then and_then (invalid_argument (and_then (hr_Body http)
                      (\<lambda>body. gl_FieldMask lib body (uor_Occurrence q))))
                      (\<lambda>fieldMask. Inr (q\<lparr>uor_UpdateMask := Some fieldMask\<rparr>))
               else Inr q) (\<lambda>q.
     and_then (path_param lib params ''id'') (\<lambda>v.
     and_then (query_params http (gq_UpdateOccurrence lib [''occurrence'', ''id'']) (q\<lparr>uor_Id := v\<rparr>)) (\<lambda>q.
     Inr (RpcUpdateOccurrence q)))))"

definition request_Rode_CreatePolicy_0 :: request_fn where
  "request_Rode_CreatePolicy_0 lib http params =
     and_then (decode_body http (gd_Policy lib) zero_policy) (\<lambda>q. Inr (RpcCreatePolicy q))"

definition request_Rode_GetPolicy_0 :: request_fn where
  "request_Rode_GetPolicy_0 lib http params =
     and_then (path_param lib params ''id'') (\<lambda>v. Inr (RpcGetPolicy \<lparr>gpr_Id = v\<rparr>))"

definition request_Rode_DeletePolicy_0 :: request_fn where
  "request_Rode_DeletePolicy_0 lib http params =
     and_then (path_param lib params ''id'') (\<lambda>v. Inr (RpcDeletePolicy \<lparr>dpr_Id = v\<rparr>))"

definition request_Rode_ListPolicies_0 :: request_fn where
  "request_Rode_ListPolicies_0 lib http params =
     and_then (query_params http (gq_ListPolicies lib []) \<lparr>lpr_Filter = '''', lpr_PageSize = 0, lpr_PageToken = ''''\<rparr>) (\<lambda>q. Inr (RpcListPolicies q))"

definition request_Rode_ListPolicyVersions_0 :: request_fn where
  "request_Rode_ListPolicyVersions_0 lib http params =
     and_then (path_param lib params ''id'') (\<lambda>v.
     and_then (query_params http (gq_ListPolicyVersions lib [''id''])
       \<lparr>lvr_Id = v, lvr_Filter = '''', lvr_PageSize = 0, lvr_PageToken = ''''\<rparr>) (\<lambda>q.
     Inr (RpcListPolicyVersions q)))"

definition request_Rode_ValidatePolicy_0 :: request_fn where
  "request_Rode_ValidatePolicy_0 lib http params =
     and_then (decode_body http (gd_ValidatePolicy lib) \<lparr>vpr_Policy = ''''\<rparr>) (\<lambda>q. Inr (RpcValidatePolicy q))"

definition request_Rode_UpdatePolicy_0 :: request_fn where
  "request_Rode_UpdatePolicy_0 lib http params =
     and_then (decode_body http (decoded_pointer (gd_Policy lib)) None) (\<lambda>pol.
     and_then (policy_id_param lib params \<lparr>upr_Policy = pol\<rparr>) (\<lambda>q.
     Inr (RpcUpdatePolicy q)))"

definition request_Rode_RegisterCollector_0 :: request_fn where
  "request_Rode_RegisterCollector_0 lib http params =
     and_then (decode_body http (gd_RegisterCollector lib) \<lparr>rcr_Id = '''', rcr_Notes = []\<rparr>) (\<lambda>q.
     and_then (path_param lib params ''id'') (\<lambda>v.
     Inr (RpcRegisterCollector (q\<lparr>rcr_Id := v\<rparr>))))"

definition request_Rode_CreateNote_0 :: request_fn where
  "request_Rode_CreateNote_0 lib http params =
     and_then (decode_body http (decoded_pointer (gd_Note lib)) None) (\<lambda>noteBody.
     and_then (query_params http (gq_CreateNote lib [''note''])
       \<lparr>cnr_NoteId = '''', cnr_Note = noteBody\<rparr>) (\<lambda>q.
     Inr (RpcCreateNote q)))"

definition request_Rode_CreatePolicyGroup_0 :: request_fn where
  "request_Rode_CreatePolicyGroup_0 lib http params =
     and_then (decode_body http (gd_PolicyGroup lib) zero_policy_group) (\<lambda>q. Inr (RpcCreatePolicyGroup q))"

definition request_Rode_ListPolicyGroups_0 :: request_fn where
  "request_Rode_ListPolicyGroups_0 lib http params =
     and_then (query_params http (gq_ListPolicyGroups lib []) \<lparr>lgr_Filter = '''', lgr_PageSize = 0, lgr_PageToken = ''''\<rparr>) (\<lambda>q. Inr (RpcListPolicyGroups q))"

definition request_Rode_GetPolicyGroup_0 :: request_fn where
  "request_Rode_GetPolicyGroup_0 lib http params =
     and_then (path_param lib params ''name'') (\<lambda>v. Inr (RpcGetPolicyGroup \<lparr>ggr_Name = v\<rparr>))"

definition request_Rode_UpdatePolicyGroup_0 :: request_fn where
  "request_Rode_UpdatePolicyGroup_0 lib http params =
     and_then (decode_body http (gd_PolicyGroup lib) zero_policy_group) (\<lambda>q.
     and_then (path_param lib params ''name'') (\<lambda>v.
     Inr (RpcUpdatePolicyGroup (q\<lparr>pg_Name := v\<rparr>))))"

definition request_Rode_DeletePolicyGroup_0 :: request_fn where
  "request_Rode_DeletePolicyGroup_0 lib http params =
     and_then (path_param lib params ''name'') (\<lambda>v. Inr (RpcDeletePolicyGroup \<lparr>dgr_Name = v\<rparr>))"

definition request_Rode_CreatePolicyAssignment_0 :: request_fn where
  "request_Rode_CreatePolicyAssignment_0 lib http params =
     and_then (decode_body http (gd_PolicyAssignment lib) zero_policy_assignment) (\<lambda>q.
     and_then (path_param lib params ''policy_version_id'') (\<lambda>v.
     and_then (path_param lib params ''policy_group'') (\<lambda>g.
     Inr (RpcCreatePolicyAssignment (q\<lparr>pa_PolicyVersionId := v, pa_PolicyGroup := g\<rparr>)))))"

definition request_Rode_GetPolicyAssignment_0 :: request_fn where
  "request_Rode_GetPolicyAssignment_0 lib http params =
     and_then (path_param lib params ''id'') (\<lambda>v. Inr (RpcGetPolicyAssignment \<lparr>gar_Id = v\<rparr>))"

definition request_Rode_UpdatePolicyAssignment_0 :: request_fn where
  "request_Rode_UpdatePolicyAssignment_0 lib http params =
     and_then (decode_body http (gd_PolicyAssignment lib) zero_policy_assignment) (\<lambda>q.
     and_then (path_param lib params ''id'') (\<lambda>v.
     Inr (RpcUpdatePolicyAssignment (q\<lparr>pa_Id := v\<rparr>))))"

definition request_Rode_DeletePolicyAssignment_0 :: request_fn where
  "request_Rode_DeletePolicyAssignment_0 lib http params =
     and_then (path_param lib params ''id'') (\<lambda>v. Inr (RpcDeletePolicyAssignment \<lparr>dar_Id = v\<rparr>))"

definition request_Rode_ListPolicyAssignments_0 :: request_fn where
  "request_Rode_ListPolicyAssignments_0 lib http params =
     and_then (path_param lib params ''policy_id'') (\<lambda>v.
     and_then (query_params http (gq_ListPolicyAssignments lib [''policy_id''])
       (zero_list_assignments\<lparr>lar_PolicyId := v\<rparr>)) (\<lambda>q.
     Inr (RpcListPolicyAssignments q)))"

definition request_Rode_ListPolicyAssignments_1 :: request_fn where
  "request_Rode_ListPolicyAssignments_1 lib http params =
     and_then (path_param lib params ''policy_group'') (\<lambda>v.
     and_then (query_params http (gq_ListPolicyAssignments lib [''policy_group''])
       (zero_list_assignments\<lparr>lar_PolicyGroup := v\<rparr>)) (\<lambda>q.
     Inr (RpcListPolicyAssignments q)))"

definition request_Rode_EvaluateResource_0 :: request_fn where
  "request_Rode_EvaluateResource_0 lib http params =
     and_then (decode_body http (gd_EvaluateResource lib) \<lparr>rer_ResourceUri = '''', rer_PolicyGroup = '''', rer_Source = None\<rparr>) (\<lambda>q. Inr (RpcEvaluateResource q))"

definition request_Rode_GetResourceEvaluation_0 :: request_fn where
  "request_Rode_GetResourceEvaluation_0 lib http params =
     and_then (path_param lib params ''id'') (\<lambda>v. Inr (RpcGetResourceEvaluation \<lparr>gre_Id = v\<rparr>))"

definition request_Rode_ListResourceEvaluations_0 :: request_fn where
  "request_Rode_ListResourceEvaluations_0 lib http params =
     and_then (query_params http (gq_ListResourceEvaluations lib []) \<lparr>lre_ResourceUri = '''', lre_Filter = '''',
       lre_PageSize = 0, lre_PageToken = ''''\<rparr>) (\<lambda>q. Inr (RpcListResourceEvaluations q))"

section \<open>The routes\<close>

definition rode_patterns :: "(string \<times> pattern) list" where
  "rode_patterns =
    [(''pattern_Rode_BatchCreateOccurrences_0'',
      \<lparr>pt_Ops = [(2, 0), (2, 1)],
       pt_Pool = [''v1alpha1'', ''occurrences''], pt_Verb = ''batchCreate''\<rparr>),
     (''pattern_Rode_EvaluatePolicy_0'',
      \<lparr>pt_Ops = [(2, 0), (2, 1), (1, 0), (4, 1), (5, 2)],
       pt_Pool = [''v1alpha1'', ''policies'', ''policy''], pt_Verb = ''attest''\<rparr>),
     (''pattern_Rode_ListResources_0'',
      \<lparr>pt_Ops = [(2, 0), (2, 1)],
       pt_Pool = [''v1alpha1'', ''resources''], pt_Verb = ''''\<rparr>),
     (''pattern_Rode_ListResourceVersions_0'',
      \<lparr>pt_Ops = [(2, 0), (2, 1)],
       pt_Pool = [''v1alpha1'', ''resource-versions''], pt_Verb = ''''\<rparr>),
     (''pattern_Rode_ListVersionedResourceOccurrences_0'',
      \<lparr>pt_Ops = [(2, 0), (2, 1)],
       pt_Pool = [''v1alpha1'', ''versioned-resource-occurrences''], pt_Verb = ''''\<rparr>),
     (''pattern_Rode_ListOccurrences_0'',
      \<lparr>pt_Ops = [(2, 0), (2, 1)],
       pt_Pool = [''v1alpha1'', ''occurrences''], pt_Verb = ''''\<rparr>),
     (''pattern_Rode_UpdateOccurrence_0'',
      \<lparr>pt_Ops = [(2, 0), (2, 1), (1, 0), (4, 1), (5, 2)],
       pt_Pool = [''v1alpha1'', ''occurrences'', ''id''], pt_Verb = ''''\<rparr>),
     (''pattern_Rode_CreatePolicy_0'',
      \<lparr>pt_Ops = [(2, 0), (2, 1)],
       pt_Pool = [''v1alpha1'', ''policies''], pt_Verb = ''''\<rparr>),
     (''pattern_Rode_GetPolicy_0'',
      \<lparr>pt_Ops = [(2, 0), (2, 1), (1, 0), (4, 1), (5, 2)],
       pt_Pool = [''v1alpha1'', ''policies'', ''id''], pt_Verb = ''''\<rparr>),
     (''pattern_Rode_DeletePolicy_0'',
      \<lparr>pt_Ops = [(2, 0), (2, 1), (1, 0), (4, 1), (5, 2)],
       pt_Pool = [''v1alpha1'', ''policies'', ''id''], pt_Verb = ''''\<rparr>),
     (''pattern_Rode_ListPolicies_0'',
      \<lparr>pt_Ops = [(2, 0), (2, 1)],
       pt_Pool = [''v1alpha1'', ''policies''], pt_Verb = ''''\<rparr>),
     (''pattern_Rode_ListPolicyVersions_0'',
      \<lparr>pt_Ops = [(2, 0), (2, 1), (1, 0), (4, 1), (5, 2), (2, 3)],
       pt_Pool = [''v1alpha1'', ''policies'', ''id'', ''versions''], pt_Verb = ''''\<rparr>),
     (''pattern_Rode_ValidatePolicy_0'',
      \<lparr>pt_Ops = [(2, 0), (2, 1)],
       pt_Pool = [''v1alpha1'', ''policies''], pt_Verb = ''validate''\<rparr>),
     (''pattern_Rode_UpdatePolicy_0'',
      \<lparr>pt_Ops = [(2, 0), (2, 1), (1, 0), (4, 1), (5, 2)],
       pt_Pool = [''v1alpha1'', ''policies'', ''policy.id''], pt_Verb = ''''\<rparr>),
     (''pattern_Rode_RegisterCollector_0'',
      \<lparr>pt_Ops = [(2, 0), (2, 1), (1, 0), (4, 1), (5, 2)],
       pt_Pool = [''v1alpha1'', ''collectors'', ''id''], pt_Verb = ''register''\<rparr>),
     (''pattern_Rode_CreateNote_0'',
      \<lparr>pt_Ops = [(2, 0), (2, 1)],
       pt_Pool = [''v1alpha1'', ''notes''], pt_Verb = ''''\<rparr>),
     (''pattern_Rode_CreatePolicyGroup_0'',
      \<lparr>pt_Ops = [(2, 0), (2, 1)],
       pt_Pool = [''v1alpha1'', ''policy-groups''], pt_Verb = ''''\<rparr>),
     (''pattern_Rode_ListPolicyGroups_0'',
      \<lparr>pt_Ops = [(2, 0), (2, 1)],
       pt_Pool = [''v1alpha1'', ''policy-groups''], pt_Verb = ''''\<rparr>),
     (''pattern_Rode_GetPolicyGroup_0'',
      \<lparr>pt_Ops = [(2, 0), (2, 1), (1, 0), (4, 1), (5, 2)],
       pt_Pool = [''v1alpha1'', ''policy-groups'', ''name''], pt_Verb = ''''\<rparr>),
     (''pattern_Rode_UpdatePolicyGroup_0'',
      \<lparr>pt_Ops = [(2, 0), (2, 1), (1, 0), (4, 1), (5, 2)],
       pt_Pool = [''v1alpha1'', ''policy-groups'', ''name''], pt_Verb = ''''\<rparr>),
     (''pattern_Rode_DeletePolicyGroup_0'',
      \<lparr>pt_Ops = [(2, 0), (2, 1), (1, 0), (4, 1), (5, 2)],
       pt_Pool = [''v1alpha1'', ''policy-groups'', ''name''], pt_Verb = ''''\<rparr>),
     (''pattern_Rode_CreatePolicyAssignment_0'',
      \<lparr>pt_Ops = [(2, 0), (2, 1), (1, 0), (4, 1), (5, 2), (2, 3), (1, 0), (4, 1), (5, 4)],
       pt_Pool = [''v1alpha1'', ''policies'', ''policy_version_id'', ''assignments'', ''policy_group''], pt_Verb = ''''\<rparr>),
     (''pattern_Rode_GetPolicyAssignment_0'',
      \<lparr>pt_Ops = [(2, 0), (2, 1), (1, 0), (2, 2), (1, 0), (4, 4), (5, 3)],
       pt_Pool = [''v1alpha1'', ''policies'', ''assignments'', ''id''], pt_Verb = ''''\<rparr>),
     (''pattern_Rode_UpdatePolicyAssignment_0'',
      \<lparr>pt_Ops = [(2, 0), (2, 1), (1, 0), (2, 2), (1, 0), (4, 4), (5, 3)],
       pt_Pool = [''v1alpha1'', ''policies'', ''assignments'', ''id''], pt_Verb = ''''\<rparr>),
     (''pattern_Rode_DeletePolicyAssignment_0'',
      \<lparr>pt_Ops = [(2, 0), (2, 1), (1, 0), (2, 2), (1, 0), (4, 4), (5, 3)],
       pt_Pool = [''v1alpha1'', ''policies'', ''assignments'', ''id''], pt_Verb = ''''\<rparr>),
     (''pattern_Rode_ListPolicyAssignments_0'',
      \<lparr>pt_Ops = [(2, 0), (2, 1), (1, 0), (4, 1), (5, 2), (2, 3)],
       pt_Pool = [''v1alpha1'', ''policies'', ''policy_id'', ''assignments''], pt_Verb = ''''\<rparr>),
     (''pattern_Rode_ListPolicyAssignments_1'',
      \<lparr>pt_Ops = [(2, 0), (2, 1), (1, 0), (4, 1), (5, 2), (2, 3)],
       pt_Pool = [''v1alpha1'', ''policy-groups'', ''policy_group'', ''assignments''], pt_Verb = ''''\<rparr>),
     (''pattern_Rode_EvaluateResource_0'',
      \<lparr>pt_Ops = [(2, 0), (2, 1)],
       pt_Pool = [''v1alpha1'', ''resource-evaluations''], pt_Verb = ''''\<rparr>),
     (''pattern_Rode_GetResourceEvaluation_0'',
      \<lparr>pt_Ops = [(2, 0), (2, 1), (1, 0), (4, 1), (5, 2)],
       pt_Pool = [''v1alpha1'', ''resource-evaluations'', ''id''], pt_Verb = ''''\<rparr>),
     (''pattern_Rode_ListResourceEvaluations_0'',
      \<lparr>pt_Ops = [(2, 0), (2, 1)],
       pt_Pool = [''v1alpha1'', ''resource-evaluations''], pt_Verb = ''''\<rparr>)]"

text \<open>
  The calls of \<open>mux.Handle\<close> in \<open>RegisterRodeHandlerClient\<close>, in their order: the HTTP method,
  the pattern, the full gRPC method and the path template the context is annotated with,
  and the request function.
\<close>

type_synonym route = "string \<times> string \<times> string \<times> string \<times> request_fn"

definition occurrence_routes :: "route list" where
  "occurrence_routes =
    [(''POST'', ''pattern_Rode_BatchCreateOccurrences_0'', ''/rode.v1alpha1.Rode/BatchCreateOccurrences'',
       ''/v1alpha1/occurrences:batchCreate'', request_Rode_BatchCreateOccurrences_0),
     (''POST'', ''pattern_Rode_EvaluatePolicy_0'', ''/rode.v1alpha1.Rode/EvaluatePolicy'',
       ''/v1alpha1/policies/{policy}:attest'', request_Rode_EvaluatePolicy_0),
     (''GET'', ''pattern_Rode_ListResources_0'', ''/rode.v1alpha1.Rode/ListResources'',
       ''/v1alpha1/resources'', request_Rode_ListResources_0),
     (''GET'', ''pattern_Rode_ListResourceVersions_0'', ''/rode.v1alpha1.Rode/ListResourceVersions'',
       ''/v1alpha1/resource-versions'', request_Rode_ListResourceVersions_0),
     (''GET'', ''pattern_Rode_ListVersionedResourceOccurrences_0'', ''/rode.v1alpha1.Rode/ListVersionedResourceOccurrences'',
       ''/v1alpha1/versioned-resource-occurrences'', request_Rode_ListVersionedResourceOccurrences_0),
     (''GET'', ''pattern_Rode_ListOccurrences_0'', ''/rode.v1alpha1.Rode/ListOccurrences'',
       ''/v1alpha1/occurrences'', request_Rode_ListOccurrences_0),
     (''PATCH'', ''pattern_Rode_UpdateOccurrence_0'', ''/rode.v1alpha1.Rode/UpdateOccurrence'',
       ''/v1alpha1/occurrences/{id}'', request_Rode_UpdateOccurrence_0)]"

definition policy_routes :: "route list" where
  "policy_routes =
    [(''POST'', ''pattern_Rode_CreatePolicy_0'', ''/rode.v1alpha1.Rode/CreatePolicy'',
       ''/v1alpha1/policies'', request_Rode_CreatePolicy_0),
     (''GET'', ''pattern_Rode_GetPolicy_0'', ''/rode.v1alpha1.Rode/GetPolicy'',
       ''/v1alpha1/policies/{id}'', request_Rode_GetPolicy_0),
     (''DELETE'', ''pattern_Rode_DeletePolicy_0'', ''/rode.v1alpha1.Rode/DeletePolicy'',
       ''/v1alpha1/policies/{id}'', request_Rode_DeletePolicy_0),
     (''GET'', ''pattern_Rode_ListPolicies_0'', ''/rode.v1alpha1.Rode/ListPolicies'',
       ''/v1alpha1/policies'', request_Rode_ListPolicies_0),
     (''GET'', ''pattern_Rode_ListPolicyVersions_0'', ''/rode.v1alpha1.Rode/ListPolicyVersions'',
       ''/v1alpha1/policies/{id}/versions'', request_Rode_ListPolicyVersions_0),
     (''POST'', ''pattern_Rode_ValidatePolicy_0'', ''/rode.v1alpha1.Rode/ValidatePolicy'',
       ''/v1alpha1/policies:validate'', request_Rode_ValidatePolicy_0),
     (''PATCH'', ''pattern_Rode_UpdatePolicy_0'', ''/rode.v1alpha1.Rode/UpdatePolicy'',
       ''/v1alpha1/policies/{policy.id}'', request_Rode_UpdatePolicy_0)]"

definition group_routes :: "route list" where
  "group_routes =
    [(''POST'', ''pattern_Rode_RegisterCollector_0'', ''/rode.v1alpha1.Rode/RegisterCollector'',
       ''/v1alpha1/collectors/{id}:register'', request_Rode_RegisterCollector_0),
     (''POST'', ''pattern_Rode_CreateNote_0'', ''/rode.v1alpha1.Rode/CreateNote'',
       ''/v1alpha1/notes'', request_Rode_CreateNote_0),
     (''POST'', ''pattern_Rode_CreatePolicyGroup_0'', ''/rode.v1alpha1.Rode/CreatePolicyGroup'',
       ''/v1alpha1/policy-groups'', request_Rode_CreatePolicyGroup_0),
     (''GET'', ''pattern_Rode_ListPolicyGroups_0'', ''/rode.v1alpha1.Rode/ListPolicyGroups'',
       ''/v1alpha1/policy-groups'', request_Rode_ListPolicyGroups_0),
     (''GET'', ''pattern_Rode_GetPolicyGroup_0'', ''/rode.v1alpha1.Rode/GetPolicyGroup'',
       ''/v1alpha1/policy-groups/{name}'', request_Rode_GetPolicyGroup_0),
     (''PATCH'', ''pattern_Rode_UpdatePolicyGroup_0'', ''/rode.v1alpha1.Rode/UpdatePolicyGroup'',
       ''/v1alpha1/policy-groups/{name}'', request_Rode_UpdatePolicyGroup_0),
     (''DELETE'', ''pattern_Rode_DeletePolicyGroup_0'', ''/rode.v1alpha1.Rode/DeletePolicyGroup'',
       ''/v1alpha1/policy-groups/{name}'', request_Rode_DeletePolicyGroup_0)]"

definition assignment_routes :: "route list" where
  "assignment_routes =
    [(''POST'', ''pattern_Rode_CreatePolicyAssignment_0'', ''/rode.v1alpha1.Rode/CreatePolicyAssignment'',
       ''/v1alpha1/policies/{policy_version_id}/assignments/{policy_group}'', request_Rode_CreatePolicyAssignment_0),
     (''GET'', ''pattern_Rode_GetPolicyAssignment_0'', ''/rode.v1alpha1.Rode/GetPolicyAssignment'',
       ''/v1alpha1/{id=policies/*/assignments/*}'', request_Rode_GetPolicyAssignment_0),
     (''PATCH'', ''pattern_Rode_UpdatePolicyAssignment_0'', ''/rode.v1alpha1.Rode/UpdatePolicyAssignment'',
       ''/v1alpha1/{id=policies/*/assignments/*}'', request_Rode_UpdatePolicyAssignment_0),
     (''DELETE'', ''pattern_Rode_DeletePolicyAssignment_0'', ''/rode.v1alpha1.Rode/DeletePolicyAssignment'',
       ''/v1alpha1/{id=policies/*/assignments/*}'', request_Rode_DeletePolicyAssignment_0),
     (''GET'', ''pattern_Rode_ListPolicyAssignments_0'', ''/rode.v1alpha1.Rode/ListPolicyAssignments'',
       ''/v1alpha1/policies/{policy_id}/assignments'', request_Rode_ListPolicyAssignments_0),
     (''GET'', ''pattern_Rode_ListPolicyAssignments_1'', ''/rode.v1alpha1.Rode/ListPolicyAssignments'',
       ''/v1alpha1/policy-groups/{policy_group}/assignments'', request_Rode_ListPolicyAssignments_1)]"

definition evaluation_routes :: "route list" where
  "evaluation_routes =
    [(''POST'', ''pattern_Rode_EvaluateResource_0'', ''/rode.v1alpha1.Rode/EvaluateResource'',
       ''/v1alpha1/resource-evaluations'', request_Rode_EvaluateResource_0),
     (''GET'', ''pattern_Rode_GetResourceEvaluation_0'', ''/rode.v1alpha1.Rode/GetResourceEvaluation'',
       ''/v1alpha1/resource-evaluations/{id}'', request_Rode_GetResourceEvaluation_0),
     (''GET'', ''pattern_Rode_ListResourceEvaluations_0'', ''/rode.v1alpha1.Rode/ListResourceEvaluations'',
       ''/v1alpha1/resource-evaluations'', request_Rode_ListResourceEvaluations_0)]"

definition rode_routes :: "route list" where
  "rode_routes = occurrence_routes @ policy_routes @ group_routes @ assignment_routes @ evaluation_routes"

lemmas rode_routes_all = rode_routes_def occurrence_routes_def policy_routes_def group_routes_def assignment_routes_def evaluation_routes_def

definition route_method :: "route \<Rightarrow> string" where
  "route_method rt = (case rt of (meth, _, _, _, _) \<Rightarrow> meth)"

definition route_pattern :: "route \<Rightarrow> pattern option" where
  "route_pattern rt = (case rt of (_, pat, _, _, _) \<Rightarrow> map_of rode_patterns pat)"

definition route_rpc :: "route \<Rightarrow> string" where
  "route_rpc rt = (case rt of (_, _, full, _, _) \<Rightarrow> full)"

definition route_request :: "route \<Rightarrow> request_fn" where
  "route_request rt = (case rt of (_, _, _, _, f) \<Rightarrow> f)"

text \<open>The handler each \<open>mux.Handle\<close> registers; \<open>call\<close> is the gRPC client.\<close>

definition route_handler ::
  "gateway_lib \<Rightarrow> (string \<Rightarrow> rpc \<Rightarrow> ('w, reply) io) \<Rightarrow> route \<Rightarrow> http_request \<Rightarrow> path_params \<Rightarrow> ('w, reply) io"
where
  "route_handler lib call rt http params = (case rt of (_, _, full, template, request) \<Rightarrow>
     attempt (lift (gl_Annotate lib http full template)) id (\<lambda>header.
     attempt (lift (request lib http params)) id (\<lambda>q.
     call header q)))"

text \<open>
  An HTTP request to the service: the multiplexer picks a registered route, and the client
  calls the gRPC server of the same process, interceptors included.
\<close>

definition serve_http ::
  "gateway_lib \<Rightarrow> 'w authenticator \<Rightarrow> authorization_interceptor \<Rightarrow> 'w rode_server \<Rightarrow> http_request
     \<Rightarrow> ('w, reply) io" where
  "serve_http lib authn authz r http =
     attempt (lift (gl_Match lib
       (map (\<lambda>rt. (route_method rt, the (route_pattern rt))) rode_routes) http)) id (\<lambda>(i, params).
     attempt (index_at rode_routes i) id (\<lambda>rt.
     route_handler lib (serve authn authz r) rt http params))"

section \<open>What the request functions do\<close>

lemmas request_defs =
  request_Rode_BatchCreateOccurrences_0_def request_Rode_EvaluatePolicy_0_def
  request_Rode_ListResources_0_def request_Rode_ListResourceVersions_0_def
  request_Rode_ListVersionedResourceOccurrences_0_def request_Rode_ListOccurrences_0_def
  request_Rode_UpdateOccurrence_0_def request_Rode_CreatePolicy_0_def
  request_Rode_GetPolicy_0_def request_Rode_DeletePolicy_0_def
  request_Rode_ListPolicies_0_def request_Rode_ListPolicyVersions_0_def
  request_Rode_ValidatePolicy_0_def request_Rode_UpdatePolicy_0_def
  request_Rode_RegisterCollector_0_def request_Rode_CreateNote_0_def
  request_Rode_CreatePolicyGroup_0_def request_Rode_ListPolicyGroups_0_def
  request_Rode_GetPolicyGroup_0_def request_Rode_UpdatePolicyGroup_0_def
  request_Rode_DeletePolicyGroup_0_def request_Rode_CreatePolicyAssignment_0_def
  request_Rode_GetPolicyAssignment_0_def request_Rode_UpdatePolicyAssignment_0_def
  request_Rode_DeletePolicyAssignment_0_def request_Rode_ListPolicyAssignments_0_def
  request_Rode_ListPolicyAssignments_1_def request_Rode_EvaluateResource_0_def
  request_Rode_GetResourceEvaluation_0_def request_Rode_ListResourceEvaluations_0_def

lemma and_then_Inr: "and_then r k = Inr y \<longleftrightarrow> (\<exists>x. r = Inr x \<and> k x = Inr y)"
  by (cases r) (simp_all add: and_then_def)

lemma and_then_Inl: "and_then r k = Inl e \<longleftrightarrow> r = Inl e \<or> (\<exists>x. r = Inr x \<and> k x = Inl e)"
  by (cases r) (simp_all add: and_then_def)

lemma invalid_argument_Inr [simp]: "invalid_argument r = Inr x \<longleftrightarrow> r = Inr x"
  by (simp add: invalid_argument_def split: sum.splits)

lemma invalid_argument_code: "invalid_argument r = Inl e \<Longrightarrow> status_code e = InvalidArgument"
  by (auto simp: invalid_argument_def split: sum.splits)

lemma path_param_Inr:
  "path_param lib params name = Inr v \<longleftrightarrow> (\<exists>w. map_of params name = Some w \<and> gl_String lib w = Inr v)"
  by (auto simp: path_param_def split: option.splits sum.splits)

lemma policy_id_param_Inr:
  "policy_id_param lib params q = Inr q' \<longleftrightarrow>
     (\<exists>w. map_of params ''policy.id'' = Some w \<and> gl_PolicyIdFromPath lib w q = Inr q')"
  by (auto simp: policy_id_param_def split: option.splits sum.splits)

lemma query_params_Inr:
  "query_params http populate q = Inr q' \<longleftrightarrow> (\<exists>form. hr_Form http = Inr form \<and> populate form q = Inr q')"
  by (simp add: query_params_def and_then_Inr)

text \<open>Every error a step makes is the caller's.\<close>

lemma decode_body_code:
  assumes "decode_body http dec zero = Inl e"
  shows "status_code e = InvalidArgument"
proof (cases "hr_Body http")
  case (Inr body)
  with assms show ?thesis
    by (cases "dec body") (auto simp: decode_body_def and_then_Inl dest: invalid_argument_code)
qed (use assms in \<open>auto simp: decode_body_def and_then_Inl dest: invalid_argument_code\<close>)

lemma step_codes:
  "decode_body http dec zero = Inl e \<Longrightarrow> status_code e = InvalidArgument"
  "path_param lib params name = Inl e \<Longrightarrow> status_code e = InvalidArgument"
  "query_params http populate q = Inl e \<Longrightarrow> status_code e = InvalidArgument"
  "policy_id_param lib params u = Inl e \<Longrightarrow> status_code e = InvalidArgument"
  by (auto simp: decode_body_code path_param_def policy_id_param_def query_params_def and_then_Inl
      missing_parameter_def
      type_mismatch_def split: option.split_asm sum.split_asm dest: invalid_argument_code)

text \<open>The names a pattern captures, and the fields of a request they are for.\<close>

definition captures :: "route \<Rightarrow> string list" where
  "captures rt = (case route_pattern rt of None \<Rightarrow> []
     | Some p \<Rightarrow> map (\<lambda>(_, k). pt_Pool p ! k) (filter (\<lambda>(op_code, _). op_code = 5) (pt_Ops p)))"

fun path_fields :: "rpc \<Rightarrow> (string \<times> string) list" where
  "path_fields (RpcEvaluatePolicy q) = [(''policy'', epr_Policy q)]"
| "path_fields (RpcUpdateOccurrence q) = [(''id'', uor_Id q)]"
| "path_fields (RpcGetPolicy q) = [(''id'', gpr_Id q)]"
| "path_fields (RpcDeletePolicy q) = [(''id'', dpr_Id q)]"
| "path_fields (RpcListPolicyVersions q) = [(''id'', lvr_Id q)]"
| "path_fields (RpcUpdatePolicy q) =
     (case upr_Policy q of None \<Rightarrow> [] | Some p \<Rightarrow> [(''policy.id'', p_Id p)])"
| "path_fields (RpcRegisterCollector q) = [(''id'', rcr_Id q)]"
| "path_fields (RpcGetPolicyGroup q) = [(''name'', ggr_Name q)]"
| "path_fields (RpcUpdatePolicyGroup q) = [(''name'', pg_Name q)]"
| "path_fields (RpcDeletePolicyGroup q) = [(''name'', dgr_Name q)]"
| "path_fields (RpcCreatePolicyAssignment q) =
     [(''policy_version_id'', pa_PolicyVersionId q), (''policy_group'', pa_PolicyGroup q)]"
| "path_fields (RpcGetPolicyAssignment q) = [(''id'', gar_Id q)]"
| "path_fields (RpcUpdatePolicyAssignment q) = [(''id'', pa_Id q)]"
| "path_fields (RpcDeletePolicyAssignment q) = [(''id'', dar_Id q)]"
| "path_fields (RpcListPolicyAssignments q) =
     [(''policy_id'', lar_PolicyId q), (''policy_group'', lar_PolicyGroup q)]"
| "path_fields (RpcGetResourceEvaluation q) = [(''id'', gre_Id q)]"
| "path_fields _ = []"

text \<open>
  What the runtime library documents: \<open>runtime.String\<close> returns its argument,
  \<open>PopulateFieldFromPath\<close> sets the field, and \<open>PopulateQueryParameters\<close> leaves the
  fields its filter names alone; the multiplexer picks one of the routes it was given.
\<close>

definition library_ok :: "gateway_lib \<Rightarrow> bool" where
  "library_ok lib \<longleftrightarrow>
     (\<forall>v. gl_String lib v = Inr v) \<and>
     (\<forall>v q q'. gl_PolicyIdFromPath lib v q = Inr q' \<longrightarrow> map_option p_Id (upr_Policy q') = Some v) \<and>
     (\<forall>names form q q'. gq_UpdateOccurrence lib names form q = Inr q' \<longrightarrow>
        ''id'' \<in> set names \<longrightarrow> uor_Id q' = uor_Id q) \<and>
     (\<forall>names form q q'. gq_ListPolicyVersions lib names form q = Inr q' \<longrightarrow>
        ''id'' \<in> set names \<longrightarrow> lvr_Id q' = lvr_Id q) \<and>
     (\<forall>names form q q'. gq_ListPolicyAssignments lib names form q = Inr q' \<longrightarrow>
        (''policy_id'' \<in> set names \<longrightarrow> lar_PolicyId q' = lar_PolicyId q) \<and>
        (''policy_group'' \<in> set names \<longrightarrow> lar_PolicyGroup q' = lar_PolicyGroup q)) \<and>
     (\<forall>routes http i params. gl_Match lib routes http = Inr (i, params) \<longrightarrow> i < length routes)"

lemma route_captures:
  "map captures rode_routes =
    [[], [''policy''], [], [], [], [], [''id''], [], [''id''], [''id''], [], [''id''], [], [''policy.id''],
     [''id''], [], [], [], [''name''], [''name''], [''name''], [''policy_version_id'', ''policy_group''],
     [''id''], [''id''], [''id''], [''policy_id''], [''policy_group''], [], [''id''], []]"
  by code_simp

lemma route_cases:
  assumes "rt \<in> set rode_routes"
  obtains i where "i < 30" "rt = rode_routes ! i" "captures rt = map captures rode_routes ! i"
proof -
  from assms obtain i where i: "i < length rode_routes" "rt = rode_routes ! i" by (auto simp: in_set_conv_nth)
  moreover have "length rode_routes = 30" by (simp add: rode_routes_all)
  ultimately show ?thesis by (intro that [of i]) simp_all
qed

text \<open>C28: what a path says is what the service is asked: in every route, each name its pattern
  captures is a parameter the request function needs, and the value it has in the path is the
  value of that field in the gRPC request, whatever body and query say.\<close>

theorem path_parameters_win:
  assumes "library_ok lib" "rt \<in> set rode_routes" "route_request rt lib http params = Inr q"
    "name \<in> set (captures rt)"
  shows "\<exists>v. map_of params name = Some v \<and> map_of (path_fields q) name = Some v"
proof -
  from assms(2) obtain i where i: "i < 30" "rt = rode_routes ! i" "captures rt = map captures rode_routes ! i"
    by (rule route_cases)
  from i(1) have "i \<in> set [0..<30]" by simp
  then show ?thesis
    using assms(1,3,4) unfolding i(3) unfolding i(2) route_captures
    by (simp add: upt_rec rode_routes_all)
      (elim disjE; fastforce simp: route_request_def request_defs and_then_Inr path_param_Inr
        query_params_Inr policy_id_param_Inr library_ok_def)
qed


text \<open>What a pattern matches, up to the names it captures: literals, wildcards and the verb.\<close>

definition route_shape :: "route \<Rightarrow> string \<times> (nat \<times> string) list \<times> string" where
  "route_shape rt = (case route_pattern rt of None \<Rightarrow> ('''', [], '''')
     | Some p \<Rightarrow> (route_method rt,
         map (\<lambda>(op_code, k). (op_code, if op_code = 2 then pt_Pool p ! k else ''''))
           (filter (\<lambda>(op_code, _). op_code = 1 \<or> op_code = 2) (pt_Ops p)), pt_Verb p))"

lemma route_shapes_distinct: "distinct (map route_shape rode_routes)"
  by code_simp

lemma route_rpcs: "set (map route_rpc rode_routes) = full_method ` set (map fst rode_methods)"
  by code_simp

lemma route_forwards:
  assumes "rt \<in> set rode_routes" "route_request rt lib http params = Inr q"
  shows "route_rpc rt = full_method (method_name q)"
  using assms unfolding rode_routes_all
  by simp (elim disjE; auto simp: route_request_def route_rpc_def request_defs and_then_Inr full_method_def
      rodeService_def)

lemma route_errors:
  assumes "rt \<in> set rode_routes" "route_request rt lib http params = Inl e"
  shows "status_code e = InvalidArgument"
  using assms unfolding rode_routes_all
  by simp (elim disjE; auto simp: route_request_def request_defs and_then_Inl Let_def dest: step_codes
      invalid_argument_code split: if_split_asm)

text \<open>C30: the gateway reaches every method of the service and only those: the methods the routes
  are annotated with are the ones the service declares, a route forwards only requests for
  the method it is annotated with, what it refuses is the caller's error, and no two routes
  accept the same paths under the same HTTP method.\<close>

theorem routes_cover_methods:
  "set (map route_rpc rode_routes) = full_method ` set (map fst rode_methods) \<and>
   distinct (map route_shape rode_routes) \<and>
   (\<forall>rt\<in>set rode_routes. \<forall>lib http params. case route_request rt lib http params of
      Inl e \<Rightarrow> status_code e = InvalidArgument
    | Inr q \<Rightarrow> route_rpc rt = full_method (method_name q))"
  using route_rpcs route_shapes_distinct route_forwards route_errors by (auto split: sum.split)

lemma library_match:
  "library_ok lib \<Longrightarrow> gl_Match lib routes http = Inr (i, params) \<Longrightarrow> i < length routes"
  unfolding library_ok_def by blast

text \<open>C19: an HTTP request is worth exactly a gRPC request: either it is answered with an error
  before anything happened, or the run is the run of one gRPC call, with the credentials of
  its headers, through the interceptors, to the method its route names.\<close>

theorem serve_http_is_serve:
  assumes "library_ok lib" "serve_http lib authn authz r http s = (reply, s')"
  shows "(\<exists>e. reply = Err e \<and> s' = s) \<or>
    (\<exists>rt template header q. rt \<in> set rode_routes \<and> gl_Annotate lib http (route_rpc rt) template = Inr header \<and>
       route_rpc rt = full_method (method_name q) \<and> serve authn authz r header q s = (reply, s'))"
proof (cases "gl_Match lib (map (\<lambda>rt. (route_method rt, the (route_pattern rt))) rode_routes) http")
  case (Inl e)
  with assms(2) show ?thesis by (intro disjI1) (auto simp: serve_http_def)
next
  case (Inr ip)
  obtain i params where ip: "ip = (i, params)" by (cases ip)
  from library_match [OF assms(1) Inr [unfolded ip]] have i: "i < length rode_routes" by simp
  then have rt: "rode_routes ! i \<in> set rode_routes" by simp
  obtain meth pat full template f where parts: "rode_routes ! i = (meth, pat, full, template, f)"
    by (cases "rode_routes ! i")
  from assms(2) Inr ip i have run: "route_handler lib (serve authn authz r) (rode_routes ! i) http params s
      = (reply, s')"
    by (simp add: serve_http_def index_at_def)
  show ?thesis
  proof (cases "gl_Annotate lib http full template")
    case (Inl e)
    with run parts show ?thesis by (intro disjI1) (auto simp: route_handler_def)
  next
    case header: (Inr header)
    show ?thesis
    proof (cases "f lib http params")
      case (Inl e)
      with run parts header show ?thesis by (intro disjI1) (auto simp: route_handler_def)
    next
      case (Inr q)
      with parts have "route_request (rode_routes ! i) lib http params = Inr q" by (simp add: route_request_def)
      from route_forwards [OF rt this] header run Inr parts rt show ?thesis
        by (intro disjI2 exI [of _ "rode_routes ! i"] exI [of _ template] exI [of _ header] exI [of _ q])
          (simp add: route_handler_def route_rpc_def)
    qed
  qed
qed

end
