(* ===== verification/Rode_Main.thy ===== *)
theory Rode_Main
  imports Http_Gateway Rode_History
begin

text \<open>
  The process, \<open>main.go\<close>: the steps of \<open>main\<close> up to the listening server, each of which
  ends the process with \<open>logger.Fatal\<close> when it fails, and the life of the process after
  it, in which calls arrive over gRPC and HTTP, the health service says whether it is
  ready, and a signal ends it. What the libraries do (flags, sockets, dialling, loggers,
  the Elasticsearch client) is the record \<open>main_env\<close>.
\<close>

section \<open>The environment\<close>

record 'w main_env =
  me_Flags :: "go_error + config"
  me_NewProvider :: "string \<Rightarrow> bool \<Rightarrow> go_error + (oidc_config \<Rightarrow> oidc_verifier)"
  me_NewDevelopment :: "go_error + unit"
  me_NewProduction :: "go_error + unit"
  me_Listen :: "string \<Rightarrow> 'w \<Rightarrow> (go_error + string) \<times> 'w"
  me_DialGrafeas :: "string \<Rightarrow> 'w \<Rightarrow> (go_error + ('w grafeas_client \<times> 'w projects_client)) \<times> 'w"
  me_HttpClient :: "'w http_client"
  me_NewESClient :: "string \<Rightarrow> string \<Rightarrow> string \<Rightarrow> go_error + 'w es_client"
  me_ESInfo :: "'w \<Rightarrow> (go_error + string) \<times> 'w"
  me_DecodeInfo :: "string \<Rightarrow> go_error + string option"
  me_IndexManager :: "string \<Rightarrow> string \<Rightarrow> 'w index_manager"
  me_Filterer :: "string \<Rightarrow> go_error + es_query"
  me_Runtime :: "'w runtime"
  me_Codec :: codec
  me_Rego :: rego_lib
  me_AuthFromMD :: "string \<Rightarrow> string \<Rightarrow> go_error + string"
  me_Oidc :: "'w oidc_lib"
  me_ClaimPath :: "string \<Rightarrow> string \<Rightarrow> claim_value list option"
  me_IsSubset :: "string list \<Rightarrow> string list \<Rightarrow> bool"
  me_Descriptor :: "string \<Rightarrow> go_error + (string \<times> permission list option) list"
  me_ServiceOrder :: "string list \<Rightarrow> string list"
  me_DialServer :: "string \<Rightarrow> go_error + unit"
  me_Gateway :: gateway_lib



section \<open>Starting\<close>

definition NewAuthenticator ::
  "auth_config \<Rightarrow> (string \<Rightarrow> string \<Rightarrow> go_error + string) \<Rightarrow> 'w oidc_lib
     \<Rightarrow> (string \<Rightarrow> string \<Rightarrow> claim_value list option) \<Rightarrow> 'w authenticator" where
  "NewAuthenticator cfg fromMD oidcLib claimPath =
     \<lparr>at_authConfig = cfg, at_GetRoleByName = GetRoleByName, at_AuthFromMD = fromMD,
      at_Oidc = oidcLib, at_ClaimPath = claimPath\<rparr>"

definition NewAuthorizationInterceptor ::
  "auth_config \<Rightarrow> (string list \<Rightarrow> string list \<Rightarrow> bool) \<Rightarrow> authorization_interceptor" where
  "NewAuthorizationInterceptor cfg isSubset =
     \<lparr>ai_authConfig = cfg, ai_GetRolePermissions = GetRolePermissions, ai_methodPermissions = [],
      ai_IsSubset = isSubset\<rparr>"

definition createLogger :: "'w main_env \<Rightarrow> bool \<Rightarrow> go_error + unit" where
  "createLogger env debug = (if debug then me_NewDevelopment env else me_NewProduction env)"

definition createGrafeasClients ::
  "'w main_env \<Rightarrow> string \<Rightarrow> ('w, 'w grafeas_client \<times> 'w projects_client) io" where
  "createGrafeasClients env grafeasEndpoint = consult (me_DialGrafeas env grafeasEndpoint)"

text \<open>Asserting the type of the version in the answer panics when it is not there.\<close>

definition createESClient :: "'w main_env \<Rightarrow> string \<Rightarrow> string \<Rightarrow> string \<Rightarrow> ('w, 'w es_client) io" where
  "createESClient env elasticsearchEndpoint username password =
     attempt (lift (me_NewESClient env elasticsearchEndpoint username password)) id (\<lambda>c.
     attempt (consult (me_ESInfo env)) id (\<lambda>body.
     attempt (lift (me_DecodeInfo env body)) id (\<lambda>version.
     case version of
       None \<Rightarrow> panic ''interface conversion: interface {} is nil''
     | Some _ \<Rightarrow> ret c)))"

definition createGrpcGateway :: "'w main_env \<Rightarrow> string \<Rightarrow> ('w, route list) io" where
  "createGrpcGateway env grpcAddress =
     attempt (lift (me_DialServer env grpcAddress)) (\<lambda>err. Errorf ''Failed to dial server:'' err) (\<lambda>_.
     ret rode_routes)"

text \<open>The services registered with the gRPC server; reflection only when debugging.\<close>

definition registered_services :: "bool \<Rightarrow> string list" where
  "registered_services debug =
     (if debug then [''grpc.reflection.v1alpha.ServerReflection''] else [])
       @ [rodeService, ''grpc.health.v1.Health'']"

datatype phase = Listening | Serving | ShuttingDown | Stopped

record 'w process =
  pr_authn :: "'w authenticator"
  pr_authz :: authorization_interceptor
  pr_server :: "'w rode_server"
  pr_healthz :: healthz_server
  pr_gateway :: "route list"
  pr_phase :: phase

text \<open>\<open>main\<close> from the managers on, when the clients are there.\<close>

definition start_server ::
  "'w main_env \<Rightarrow> config \<Rightarrow> string \<Rightarrow> 'w grafeas_client \<Rightarrow> 'w projects_client \<Rightarrow> 'w opa_client
     \<Rightarrow> 'w es_client \<Rightarrow> ('w, 'w process) io" where
  "start_server env c lis grafeasClientCommon grafeasClientProjects opaClient esutilClient =
     (let authn = NewAuthenticator (cf_Auth c) (me_AuthFromMD env) (me_Oidc env) (me_ClaimPath env);
          authzInterceptor = NewAuthorizationInterceptor (cf_Auth c) (me_IsSubset env);
          m = NewManager esutilClient (cf_Elasticsearch c) (me_IndexManager env ''rode'' ''mappings'')
                (me_Filterer env) (me_Runtime env) (me_Codec env) (me_Rego env);
          grafeasExtensions = NewExtensions grafeasClientCommon (me_Runtime env) in
      attempt (NewRodeServer
        \<lparr>sv_grafeasCommon = grafeasClientCommon, sv_grafeasProjects = grafeasClientProjects,
         sv_grafeasExtensions = grafeasExtensions, sv_manager = m,
         sv_evaluation = NewEvaluationManager m grafeasExtensions opaClient\<rparr>)
        (\<lambda>err. Errorf ''failed to create Rode server'' err) (\<lambda>rodeServer.
      attempt (lift (LoadServicePermissions (me_Descriptor env)
          (me_ServiceOrder env (registered_services (cf_Debug c))) authzInterceptor))
        (\<lambda>err. Errorf ''failed to configure service permissions'' err) (\<lambda>authzInterceptor.
      attempt (createGrpcGateway env lis) (\<lambda>err. Errorf ''failed to start gateway'' err) (\<lambda>grpcGateway.
      ret \<lparr>pr_authn = authn, pr_authz = authzInterceptor, pr_server = rodeServer,
           pr_healthz = NewHealthzServer, pr_gateway = grpcGateway, pr_phase = Listening\<rparr>))))"

definition start :: "'w main_env \<Rightarrow> ('w, 'w process) io" where
  "start env =
     attempt (lift (Build (me_NewProvider env) (me_Flags env)))
       (\<lambda>err. Errorf ''failed to build config'' err) (\<lambda>c.
     attempt (lift (createLogger env (cf_Debug c))) (\<lambda>err. Errorf ''failed to create logger'' err) (\<lambda>_.
     attempt (consult (me_Listen env ('':'' @ format_int (cf_Port c))))
       (\<lambda>err. Errorf ''failed to listen'' err) (\<lambda>lis.
     attempt (createGrafeasClients env (cf_GrafeasHost c))
       (\<lambda>err. Errorf ''failed to connect to grafeas'' err) (\<lambda>(grafeasClientCommon, grafeasClientProjects).
     let opaClient = NewOpaClient (cf_OpaHost c) (cf_Debug c) (me_HttpClient env) in
     attempt (createESClient env (esc_Host (cf_Elasticsearch c)) (esc_Username (cf_Elasticsearch c))
         (esc_Password (cf_Elasticsearch c)))
       (\<lambda>err. Errorf ''failed to create Elasticsearch client'' err) (\<lambda>esClient.
     start_server env c lis grafeasClientCommon grafeasClientProjects opaClient esClient)))))"

section \<open>Running\<close>

text \<open>
  After \<open>start\<close> the listeners accept calls; then the health server is told it is ready. The
  first signal makes it not ready again, and the servers are stopped; calls can arrive
  until they are.
\<close>

definition announce :: "'w process \<Rightarrow> 'w process" where
  "announce pr = pr\<lparr>pr_healthz := Ready (pr_healthz pr), pr_phase := Serving\<rparr>"

definition shut_down :: "'w process \<Rightarrow> 'w process" where
  "shut_down pr = pr\<lparr>pr_healthz := NotReady (pr_healthz pr), pr_phase := ShuttingDown\<rparr>"

definition stop :: "'w process \<Rightarrow> 'w process" where
  "stop pr = pr\<lparr>pr_phase := Stopped\<rparr>"

definition process_call :: "'w process \<Rightarrow> string \<Rightarrow> rpc \<Rightarrow> ('w, reply) io" where
  "process_call pr = serve (pr_authn pr) (pr_authz pr) (pr_server pr)"

definition process_http :: "'w main_env \<Rightarrow> 'w process \<Rightarrow> http_request \<Rightarrow> ('w, reply) io" where
  "process_http env pr = serve_http (me_Gateway env) (pr_authn pr) (pr_authz pr) (pr_server pr)"

inductive process_life :: "'w main_env \<Rightarrow> 'w world \<Rightarrow> 'w process \<Rightarrow> 'w world \<Rightarrow> bool"
  for env :: "'w main_env" and s :: "'w world" where
  started: "start env s = (Ok pr, w) \<Longrightarrow> process_life env s pr w"
| announced: "process_life env s pr w \<Longrightarrow> pr_phase pr = Listening \<Longrightarrow> process_life env s (announce pr) w"
| called: "process_life env s pr w \<Longrightarrow> pr_phase pr \<noteq> Stopped \<Longrightarrow>
    process_life env s pr (snd (process_call pr header request w))"
| called_http: "process_life env s pr w \<Longrightarrow> pr_phase pr \<noteq> Stopped \<Longrightarrow>
    process_life env s pr (snd (process_http env pr http w))"
| elsewhere: "process_life env s pr w \<Longrightarrow> process_life env s pr (w\<lparr>ext := x\<rparr>)"
| signalled: "process_life env s pr w \<Longrightarrow> pr_phase pr = Serving \<Longrightarrow> process_life env s (shut_down pr) w"
| stopped: "process_life env s pr w \<Longrightarrow> pr_phase pr = ShuttingDown \<Longrightarrow> process_life env s (stop pr) w"

section \<open>What starting does\<close>



text \<open>
  The descriptors of the registered services: those of the service itself carry the
  permissions of \<open>rode.proto\<close>, the others declare none; a walk of a map visits each key once.
\<close>

definition descriptors_ok :: "'w main_env \<Rightarrow> bool" where
  "descriptors_ok env \<longleftrightarrow> me_Descriptor env rodeService = Inr rode_methods \<and>
     (\<forall>n ms. me_Descriptor env n = Inr ms \<longrightarrow> n \<noteq> rodeService \<longrightarrow> (\<forall>x\<in>set ms. snd x = None)) \<and>
     (\<forall>xs. distinct xs \<longrightarrow> distinct (me_ServiceOrder env xs) \<and> set (me_ServiceOrder env xs) = set xs)"

lemma load_no_permissions: "\<forall>x\<in>set ms. snd x = None \<Longrightarrow> load_methods n ms table = table"
  by (induction ms) auto

lemma load_services:
  assumes "\<And>n ms. d n = Inr ms \<Longrightarrow> n \<noteq> rodeService \<Longrightarrow> \<forall>x\<in>set ms. snd x = None"
    "d rodeService = Inr rode_methods" "distinct services" "LoadServicePermissions d services a = Inr a'"
  shows "a' = (if rodeService \<in> set services
    then a\<lparr>ai_methodPermissions := load_methods rodeService rode_methods (ai_methodPermissions a)\<rparr> else a)"
  using assms(3,4)
proof (induction services arbitrary: a)
  case (Cons n services)
  from Cons.prems(2) obtain ms where ms: "d n = Inr ms"
    and rest: "LoadServicePermissions d services
      (a\<lparr>ai_methodPermissions := load_methods n ms (ai_methodPermissions a)\<rparr>) = Inr a'"
    by (auto split: sum.splits)
  show ?case
  proof (cases "n = rodeService")
    case True
    with Cons.IH [OF _ rest] Cons.prems(1) ms assms(2) show ?thesis by auto
  next
    case False
    with assms(1) ms have "load_methods n ms (ai_methodPermissions a) = ai_methodPermissions a"
      by (intro load_no_permissions) blast
    with Cons.IH [OF _ rest] Cons.prems(1) False show ?thesis by auto
  qed
qed simp

definition boot_events :: "'w manager \<Rightarrow> event list \<Rightarrow> bool" where
  "boot_events m events \<longleftrightarrow>
     (\<exists>project. (project = [] \<or> project = [GrCreateProject \<lparr>prj_Name = RodeProjectSlug\<rparr>]) \<and>
        events = [IxInitialize, GrGetProject RodeProjectSlug] @ project @
          map create_index_event (index_settings m))"

text \<open>What holds of the parts of a process, whatever phase it is in.\<close>

definition process_of :: "'w main_env \<Rightarrow> config \<Rightarrow> 'w manager \<Rightarrow> 'w process \<Rightarrow> bool" where
  "process_of env c m pr \<longleftrightarrow> Build (me_NewProvider env) (me_Flags env) = Inr c \<and>
     wired (cf_Auth c) (me_AuthFromMD env) (me_Oidc env) (me_ClaimPath env) (me_IsSubset env)
       = (pr_authn pr, pr_authz pr) \<and>
     (\<exists>g p opa. pr_server pr = wired_server g p m opa) \<and> esConfig m = cf_Elasticsearch c \<and>
     pr_gateway pr = rode_routes"

lemma start_server_Ok:
  assumes "start_server env c lis g p opa es s = (Ok pr, s')" "descriptors_ok env"
    "Build (me_NewProvider env) (me_Flags env) = Inr c"
  shows "\<exists>m boot. process_of env c m pr \<and> boot_events m boot \<and> trace s' = trace s @ boot \<and>
    pr_healthz pr = NewHealthzServer \<and> pr_phase pr = Listening"
proof -
  define m where "m = NewManager es (cf_Elasticsearch c) (me_IndexManager env ''rode'' ''mappings'')
                (me_Filterer env) (me_Runtime env) (me_Codec env) (me_Rego env)"
  define authz where "authz = NewAuthorizationInterceptor (cf_Auth c) (me_IsSubset env)"
  have rt: "runtime m = me_Runtime env" by (simp add: m_def NewManager_def)
  from assms(1) obtain r s1 a u where
    new: "NewRodeServer (wired_server g p m opa) s = (Ok r, s1)"
    and load: "LoadServicePermissions (me_Descriptor env)
          (me_ServiceOrder env (registered_services (cf_Debug c))) authz = Inr a"
    and dial: "me_DialServer env lis = Inr u" "s' = s1"
    and pr: "pr = \<lparr>pr_authn = NewAuthenticator (cf_Auth c) (me_AuthFromMD env) (me_Oidc env) (me_ClaimPath env),
      pr_authz = a, pr_server = r, pr_healthz = NewHealthzServer, pr_gateway = rode_routes,
      pr_phase = Listening\<rparr>"
    unfolding start_server_def Let_def createGrpcGateway_def
    by (auto simp: attempt_Ok wired_server_def rt simp flip: m_def authz_def)
  from new have r: "r = wired_server g p m opa" and init: "initialize (wired_server g p m opa) s = (Ok (), s1)"
    unfolding NewRodeServer_def by (auto simp: attempt_Ok)
  have sv: "sv_manager (wired_server g p m opa) = m" by (simp add: wired_server_def)
  from initialize_Ok [OF init] sv have boot: "\<exists>boot. boot_events m boot \<and> trace s1 = trace s @ boot"
    unfolding boot_events_def by auto
  have services: "distinct (me_ServiceOrder env (registered_services (cf_Debug c)))"
    "rodeService \<in> set (me_ServiceOrder env (registered_services (cf_Debug c)))"
    using assms(2) by (auto simp: descriptors_ok_def registered_services_def rodeService_def)
  have "a = authz\<lparr>ai_methodPermissions := load_methods rodeService rode_methods (ai_methodPermissions authz)\<rparr>"
    using load_services [OF _ _ services(1) load] services(2) assms(2) by (auto simp: descriptors_ok_def)
  then have "process_of env c m pr"
    using r assms(3) by (auto simp: process_of_def pr wired_def authz_def NewAuthenticator_def
        NewAuthorizationInterceptor_def m_def NewManager_def)
  with boot dial pr show ?thesis by auto
qed

lemma start_Ok:
  assumes "start env s = (Ok pr, s')" "descriptors_ok env"
  shows "\<exists>c m boot. process_of env c m pr \<and> boot_events m boot \<and> trace s' = trace s @ boot \<and>
    pr_healthz pr = NewHealthzServer \<and> pr_phase pr = Listening"
proof -
  from assms(1) obtain c lis g p es s1 where c: "Build (me_NewProvider env) (me_Flags env) = Inr c"
    and run: "start_server env c lis g p (NewOpaClient (cf_OpaHost c) (cf_Debug c) (me_HttpClient env)) es s1
      = (Ok pr, s')" and "trace s1 = trace s"
    unfolding start_def createGrafeasClients_def createESClient_def Let_def
    by (auto simp: attempt_Ok consult_Ok split: option.splits)
  with start_server_Ok [OF run assms(2) c] show ?thesis by auto
qed

section \<open>The life of the process\<close>

lemma emits_serve_http:
  assumes "\<And>header q. emits P (serve authn authz r header q)"
  shows "emits P (serve_http lib authn authz r http)"
  unfolding serve_http_def route_handler_def by (intro io_emits assms)

text \<open>What the health service answers, in each phase of the process.\<close>

definition health_ok :: "'w process \<Rightarrow> bool" where
  "health_ok pr \<longleftrightarrow> (Check (pr_healthz pr) = SERVING \<longleftrightarrow> pr_phase pr \<in> {Serving})
     \<and> (pr_phase pr = Stopped \<longrightarrow> Check (pr_healthz pr) = NOT_SERVING)"

text \<open>C5: a process that \<open>main\<close> started has the wiring the other properties are about, for the
  configuration that was built: both interceptors with the built configuration and the
  permissions of the service, and one manager behind all handlers. In every state of its
  life, whatever calls arrived over gRPC or HTTP, its requests are those of its start (one
  project, five indices) followed by requests that keep the discipline of the store, and
  the health service answers that it serves exactly between the start and the signal.\<close>

theorem process_life_ok:
  assumes "process_life env s pr w" "descriptors_ok env"
  shows "health_ok pr \<and> (\<exists>c m boot events. process_of env c m pr \<and> boot_events m boot \<and>
    trace w = trace s @ boot @ events \<and> list_all (write_ok m) events)"
  using assms(1)
proof induction
  case (started pr w)
  from start_Ok [OF started assms(2)] obtain c m boot where "process_of env c m pr" "boot_events m boot"
    "trace w = trace s @ boot" "pr_healthz pr = NewHealthzServer" "pr_phase pr = Listening" by blast
  then show ?case by (intro conjI exI [of _ c] exI [of _ m] exI [of _ boot] exI [of _ "[]"])
      (simp_all add: health_ok_def Check_def NewHealthzServer_def)
next
  case (called pr w header request)
  then obtain c m boot events where p: "process_of env c m pr" "boot_events m boot"
    "trace w = trace s @ boot @ events" "list_all (write_ok m) events" by blast
  then have "emits (write_ok m) (process_call pr header request)"
    unfolding process_call_def process_of_def using kept_serve by auto
  then obtain es where "trace (snd (process_call pr header request w)) = trace w @ es" "list_all (write_ok m) es"
    unfolding emits_def by blast
  with called p show ?case by (intro conjI exI [of _ c] exI [of _ m] exI [of _ boot] exI [of _ "events @ es"]) simp_all
next
  case (called_http pr w http)
  then obtain c m boot events where p: "process_of env c m pr" "boot_events m boot"
    "trace w = trace s @ boot @ events" "list_all (write_ok m) events" by blast
  then have "emits (write_ok m) (process_http env pr http)"
    unfolding process_http_def process_of_def using kept_serve by (auto intro!: emits_serve_http)
  then obtain es where "trace (snd (process_http env pr http w)) = trace w @ es" "list_all (write_ok m) es"
    unfolding emits_def by blast
  with called_http p show ?case
    by (intro conjI exI [of _ c] exI [of _ m] exI [of _ boot] exI [of _ "events @ es"]) simp_all
next
  case (announced pr w)
  then show ?case by (auto simp: health_ok_def process_of_def announce_def Check_def Ready_def)
next
  case (elsewhere pr w x)
  then show ?case by simp
next
  case (signalled pr w)
  then show ?case by (auto simp: health_ok_def process_of_def shut_down_def Check_def NotReady_def)
next
  case (stopped pr w)
  then show ?case by (auto simp: health_ok_def process_of_def stop_def Check_def)
qed

end
