(* ===== verification/Http_Gateway_Server.thy ===== *)
theory Http_Gateway_Server
  imports Http_Gateway
begin

text \<open>
  The other way \<open>proto/v1alpha1/rode.pb.gw.go\<close> offers to serve HTTP: \<open>RegisterRodeHandlerServer\<close>
  calls the service in the same process, with no gRPC connection and so with none of the
  interceptors. The program registers the client side only (\<open>main.go\<close>); the equations below
  relate the two.
\<close>

section \<open>One function per route\<close>

type_synonym 'w local_fn =
  "gateway_lib \<Rightarrow> 'w rode_server \<Rightarrow> http_request \<Rightarrow> path_params \<Rightarrow> ('w, reply) io"

definition local_request_Rode_BatchCreateOccurrences_0 :: "'w local_fn" where
  "local_request_Rode_BatchCreateOccurrences_0 lib r http params =
     attempt (lift (decode_body http (gd_BatchCreateOccurrences lib) \<lparr>bco_Occurrences = []\<rparr>)) id (\<lambda>q.
     replying (BatchCreateOccurrences r q) ReplyBatchCreateOccurrences)"

definition local_request_Rode_EvaluatePolicy_0 :: "'w local_fn" where
  "local_request_Rode_EvaluatePolicy_0 lib r http params =
     attempt (lift (decode_body http (gd_EvaluatePolicy lib) \<lparr>epr_Policy = '''', epr_ResourceUri = ''''\<rparr>)) id (\<lambda>q.
     attempt (lift (path_param lib params ''policy'')) id (\<lambda>v.
     replying (EvaluatePolicy (sv_evaluation r) (q\<lparr>epr_Policy := v\<rparr>)) ReplyEvaluatePolicy))"

definition local_request_Rode_ListResources_0 :: "'w local_fn" where
  "local_request_Rode_ListResources_0 lib r http params =
     attempt (lift (query_params http (gq_ListResources lib []) \<lparr>lrr_Filter = '''', lrr_PageSize = 0, lrr_PageToken = ''''\<rparr>)) id (\<lambda>q.
     replying (ListResources (sv_manager r) q) ReplyListResources)"

definition local_request_Rode_ListResourceVersions_0 :: "'w local_fn" where
  "local_request_Rode_ListResourceVersions_0 lib r http params =
     attempt (lift (query_params http (gq_ListResourceVersions lib []) \<lparr>lrv_Id = '''', lrv_Filter = '''', lrv_PageSize = 0,
       lrv_PageToken = ''''\<rparr>)) id (\<lambda>q.
     replying (ServerListResourceVersions r q) ReplyListResourceVersions)"

definition local_request_Rode_ListVersionedResourceOccurrences_0 :: "'w local_fn" where
  "local_request_Rode_ListVersionedResourceOccurrences_0 lib r http params =
     attempt (lift (query_params http (gq_ListVersionedResourceOccurrences lib []) \<lparr>lvo_ResourceUri = '''',
       lvo_PageSize = 0, lvo_PageToken = '''', lvo_FetchRelatedNotes = False\<rparr>)) id (\<lambda>q.
     replying (ListVersionedResourceOccurrences r q) ReplyListVersionedResourceOccurrences)"

definition local_request_Rode_ListOccurrences_0 :: "'w local_fn" where
  "local_request_Rode_ListOccurrences_0 lib r http params =
     attempt (lift (query_params http (gq_ListOccurrences lib []) \<lparr>lor_Filter = '''', lor_PageSize = 0, lor_PageToken = ''''\<rparr>)) id (\<lambda>q.
     replying (ListOccurrences r q) ReplyListOccurrences)"

definition local_request_Rode_UpdateOccurrence_0 :: "'w local_fn" where
  "local_request_Rode_UpdateOccurrence_0 lib r http params =
     attempt (lift (decode_body http (decoded_pointer (gd_Occurrence lib)) None)) id (\<lambda>occ.
     let q = \<lparr>uor_Id = '''', uor_Occurrence = occ, uor_UpdateMask = None\<rparr> in
     attempt (lift (if uor_UpdateMask q = None \<or> uor_UpdateMask q = Some []
               then and_then (invalid_argument (and_then (hr_Body http)
                      (\<lambda>body. gl_FieldMask lib body (uor_Occurrence q))))
                      (\<lambda>fieldMask. Inr (q\<lparr>uor_UpdateMask := Some fieldMask\<rparr>))
               else Inr q)) id (\<lambda>q.
     attempt (lift (path_param lib params ''id'')) id (\<lambda>v.
     attempt (lift (query_params http (gq_UpdateOccurrence lib [''occurrence'', ''id'']) (q\<lparr>uor_Id := v\<rparr>))) id (\<lambda>q.
     replying (UpdateOccurrence r q) ReplyOccurrence))))"

definition local_request_Rode_CreatePolicy_0 :: "'w local_fn" where
  "local_request_Rode_CreatePolicy_0 lib r http params =
     attempt (lift (decode_body http (gd_Policy lib) zero_policy)) id (\<lambda>q.
     replying (CreatePolicy (sv_manager r) q) ReplyPolicy)"

definition local_request_Rode_GetPolicy_0 :: "'w local_fn" where
  "local_request_Rode_GetPolicy_0 lib r http params =
     attempt (lift (path_param lib params ''id'')) id (\<lambda>v.
     replying (GetPolicy (sv_manager r) \<lparr>gpr_Id = v\<rparr>) ReplyPolicy)"

definition local_request_Rode_DeletePolicy_0 :: "'w local_fn" where
  "local_request_Rode_DeletePolicy_0 lib r http params =
     attempt (lift (path_param lib params ''id'')) id (\<lambda>v.
     replying (DeletePolicy (sv_manager r) \<lparr>dpr_Id = v\<rparr>) (\<lambda>_. ReplyEmpty))"

definition local_request_Rode_ListPolicies_0 :: "'w local_fn" where
  "local_request_Rode_ListPolicies_0 lib r http params =
     attempt (lift (query_params http (gq_ListPolicies lib []) \<lparr>lpr_Filter = '''', lpr_PageSize = 0, lpr_PageToken = ''''\<rparr>)) id (\<lambda>q.
     replying (ListPolicies (sv_manager r) q) ReplyListPolicies)"

definition local_request_Rode_ListPolicyVersions_0 :: "'w local_fn" where
  "local_request_Rode_ListPolicyVersions_0 lib r http params =
     attempt (lift (path_param lib params ''id'')) id (\<lambda>v.
     attempt (lift (query_params http (gq_ListPolicyVersions lib [''id''])
       \<lparr>lvr_Id = v, lvr_Filter = '''', lvr_PageSize = 0, lvr_PageToken = ''''\<rparr>)) id (\<lambda>q.
     replying (ListPolicyVersions (sv_manager r) q) ReplyListPolicyVersions))"

definition local_request_Rode_ValidatePolicy_0 :: "'w local_fn" where
  "local_request_Rode_ValidatePolicy_0 lib r http params =
     attempt (lift (decode_body http (gd_ValidatePolicy lib) \<lparr>vpr_Policy = ''''\<rparr>)) id (\<lambda>q.
     validate_rpc (sv_manager r) q)"

definition local_request_Rode_UpdatePolicy_0 :: "'w local_fn" where
  "local_request_Rode_UpdatePolicy_0 lib r http params =
     attempt (lift (decode_body http (decoded_pointer (gd_Policy lib)) None)) id (\<lambda>pol.
     attempt (lift (policy_id_param lib params \<lparr>upr_Policy = pol\<rparr>)) id (\<lambda>q.
     replying (UpdatePolicy (sv_manager r) q) ReplyPolicy))"

definition local_request_Rode_RegisterCollector_0 :: "'w local_fn" where
  "local_request_Rode_RegisterCollector_0 lib r http params =
     attempt (lift (decode_body http (gd_RegisterCollector lib) \<lparr>rcr_Id = '''', rcr_Notes = []\<rparr>)) id (\<lambda>q.
     attempt (lift (path_param lib params ''id'')) id (\<lambda>v.
     replying (RegisterCollector r (q\<lparr>rcr_Id := v\<rparr>)) ReplyRegisterCollector))"

definition local_request_Rode_CreateNote_0 :: "'w local_fn" where
  "local_request_Rode_CreateNote_0 lib r http params =
     attempt (lift (decode_body http (decoded_pointer (gd_Note lib)) None)) id (\<lambda>noteBody.
     attempt (lift (query_params http (gq_CreateNote lib [''note''])
       \<lparr>cnr_NoteId = '''', cnr_Note = noteBody\<rparr>)) id (\<lambda>q.
     replying (CreateNote r q) ReplyNote))"

definition local_request_Rode_CreatePolicyGroup_0 :: "'w local_fn" where
  "local_request_Rode_CreatePolicyGroup_0 lib r http params =
     attempt (lift (decode_body http (gd_PolicyGroup lib) zero_policy_group)) id (\<lambda>q.
     replying (CreatePolicyGroup (sv_manager r) q) ReplyPolicyGroup)"

definition local_request_Rode_ListPolicyGroups_0 :: "'w local_fn" where
  "local_request_Rode_ListPolicyGroups_0 lib r http params =
     attempt (lift (query_params http (gq_ListPolicyGroups lib []) \<lparr>lgr_Filter = '''', lgr_PageSize = 0, lgr_PageToken = ''''\<rparr>)) id (\<lambda>q.
     replying (ListPolicyGroups (sv_manager r) q) ReplyListPolicyGroups)"

definition local_request_Rode_GetPolicyGroup_0 :: "'w local_fn" where
  "local_request_Rode_GetPolicyGroup_0 lib r http params =
     attempt (lift (path_param lib params ''name'')) id (\<lambda>v.
     replying (GetPolicyGroup (sv_manager r) \<lparr>ggr_Name = v\<rparr>) ReplyPolicyGroup)"

definition local_request_Rode_UpdatePolicyGroup_0 :: "'w local_fn" where
  "local_request_Rode_UpdatePolicyGroup_0 lib r http params =
     attempt (lift (decode_body http (gd_PolicyGroup lib) zero_policy_group)) id (\<lambda>q.
     attempt (lift (path_param lib params ''name'')) id (\<lambda>v.
     replying (UpdatePolicyGroup (sv_manager r) (q\<lparr>pg_Name := v\<rparr>)) ReplyPolicyGroup))"

definition local_request_Rode_DeletePolicyGroup_0 :: "'w local_fn" where
  "local_request_Rode_DeletePolicyGroup_0 lib r http params =
     attempt (lift (path_param lib params ''name'')) id (\<lambda>v.
     replying (DeletePolicyGroup (sv_manager r) \<lparr>dgr_Name = v\<rparr>) (\<lambda>_. ReplyEmpty))"

definition local_request_Rode_CreatePolicyAssignment_0 :: "'w local_fn" where
  "local_request_Rode_CreatePolicyAssignment_0 lib r http params =
     attempt (lift (decode_body http (gd_PolicyAssignment lib) zero_policy_assignment)) id (\<lambda>q.
     attempt (lift (path_param lib params ''policy_version_id'')) id (\<lambda>v.
     attempt (lift (path_param lib params ''policy_group'')) id (\<lambda>g.
     replying (CreatePolicyAssignment (sv_manager r) (q\<lparr>pa_PolicyVersionId := v, pa_PolicyGroup := g\<rparr>)) ReplyPolicyAssignment)))"

definition local_request_Rode_GetPolicyAssignment_0 :: "'w local_fn" where
  "local_request_Rode_GetPolicyAssignment_0 lib r http params =
     attempt (lift (path_param lib params ''id'')) id (\<lambda>v.
     replying (GetPolicyAssignment (sv_manager r) \<lparr>gar_Id = v\<rparr>) ReplyPolicyAssignment)"

definition local_request_Rode_UpdatePolicyAssignment_0 :: "'w local_fn" where
  "local_request_Rode_UpdatePolicyAssignment_0 lib r http params =
     attempt (lift (decode_body http (gd_PolicyAssignment lib) zero_policy_assignment)) id (\<lambda>q.
     attempt (lift (path_param lib params ''id'')) id (\<lambda>v.
     replying (UpdatePolicyAssignment (sv_manager r) (q\<lparr>pa_Id := v\<rparr>)) ReplyPolicyAssignment))"

definition local_request_Rode_DeletePolicyAssignment_0 :: "'w local_fn" where
  "local_request_Rode_DeletePolicyAssignment_0 lib r http params =
     attempt (lift (path_param lib params ''id'')) id (\<lambda>v.
     replying (DeletePolicyAssignment (sv_manager r) \<lparr>dar_Id = v\<rparr>) (\<lambda>_. ReplyEmpty))"

definition local_request_Rode_ListPolicyAssignments_0 :: "'w local_fn" where
  "local_request_Rode_ListPolicyAssignments_0 lib r http params =
     attempt (lift (path_param lib params ''policy_id'')) id (\<lambda>v.
     attempt (lift (query_params http (gq_ListPolicyAssignments lib [''policy_id''])
       (zero_list_assignments\<lparr>lar_PolicyId := v\<rparr>))) id (\<lambda>q.
     replying (ListPolicyAssignments (sv_manager r) q) ReplyListPolicyAssignments))"

definition local_request_Rode_ListPolicyAssignments_1 :: "'w local_fn" where
  "local_request_Rode_ListPolicyAssignments_1 lib r http params =
     attempt (lift (path_param lib params ''policy_group'')) id (\<lambda>v.
     attempt (lift (query_params http (gq_ListPolicyAssignments lib [''policy_group''])
       (zero_list_assignments\<lparr>lar_PolicyGroup := v\<rparr>))) id (\<lambda>q.
     replying (ListPolicyAssignments (sv_manager r) q) ReplyListPolicyAssignments))"

definition local_request_Rode_EvaluateResource_0 :: "'w local_fn" where
  "local_request_Rode_EvaluateResource_0 lib r http params =
     attempt (lift (decode_body http (gd_EvaluateResource lib) \<lparr>rer_ResourceUri = '''', rer_PolicyGroup = '''', rer_Source = None\<rparr>)) id (\<lambda>q.
     replying (EvaluateResource (sv_evaluation r) q) ReplyResourceEvaluationResult)"

definition local_request_Rode_GetResourceEvaluation_0 :: "'w local_fn" where
  "local_request_Rode_GetResourceEvaluation_0 lib r http params =
     attempt (lift (path_param lib params ''id'')) id (\<lambda>v.
     replying (GetResourceEvaluation (sv_evaluation r) \<lparr>gre_Id = v\<rparr>) ReplyResourceEvaluationResult)"

definition local_request_Rode_ListResourceEvaluations_0 :: "'w local_fn" where
  "local_request_Rode_ListResourceEvaluations_0 lib r http params =
     attempt (lift (query_params http (gq_ListResourceEvaluations lib []) \<lparr>lre_ResourceUri = '''', lre_Filter = '''',
       lre_PageSize = 0, lre_PageToken = ''''\<rparr>)) id (\<lambda>q.
     replying (ListResourceEvaluations (sv_evaluation r) q) ReplyListResourceEvaluations)"

section \<open>The routes\<close>

type_synonym 'w local_route = "string \<times> string \<times> string \<times> string \<times> 'w local_fn"

definition local_occurrence_routes :: "'w local_route list" where
  "local_occurrence_routes =
    [(''POST'', ''pattern_Rode_BatchCreateOccurrences_0'', ''/rode.v1alpha1.Rode/BatchCreateOccurrences'',
       ''/v1alpha1/occurrences:batchCreate'', local_request_Rode_BatchCreateOccurrences_0),
     (''POST'', ''pattern_Rode_EvaluatePolicy_0'', ''/rode.v1alpha1.Rode/EvaluatePolicy'',
       ''/v1alpha1/policies/{policy}:attest'', local_request_Rode_EvaluatePolicy_0),
     (''GET'', ''pattern_Rode_ListResources_0'', ''/rode.v1alpha1.Rode/ListResources'',
       ''/v1alpha1/resources'', local_request_Rode_ListResources_0),
     (''GET'', ''pattern_Rode_ListResourceVersions_0'', ''/rode.v1alpha1.Rode/ListResourceVersions'',
       ''/v1alpha1/resource-versions'', local_request_Rode_ListResourceVersions_0),
     (''GET'', ''pattern_Rode_ListVersionedResourceOccurrences_0'', ''/rode.v1alpha1.Rode/ListVersionedResourceOccurrences'',
       ''/v1alpha1/versioned-resource-occurrences'', local_request_Rode_ListVersionedResourceOccurrences_0),
     (''GET'', ''pattern_Rode_ListOccurrences_0'', ''/rode.v1alpha1.Rode/ListOccurrences'',
       ''/v1alpha1/occurrences'', local_request_Rode_ListOccurrences_0),
     (''PATCH'', ''pattern_Rode_UpdateOccurrence_0'', ''/rode.v1alpha1.Rode/UpdateOccurrence'',
       ''/v1alpha1/occurrences/{id}'', local_request_Rode_UpdateOccurrence_0)]"

definition local_policy_routes :: "'w local_route list" where
  "local_policy_routes =
    [(''POST'', ''pattern_Rode_CreatePolicy_0'', ''/rode.v1alpha1.Rode/CreatePolicy'',
       ''/v1alpha1/policies'', local_request_Rode_CreatePolicy_0),
     (''GET'', ''pattern_Rode_GetPolicy_0'', ''/rode.v1alpha1.Rode/GetPolicy'',
       ''/v1alpha1/policies/{id}'', local_request_Rode_GetPolicy_0),
     (''DELETE'', ''pattern_Rode_DeletePolicy_0'', ''/rode.v1alpha1.Rode/DeletePolicy'',
       ''/v1alpha1/policies/{id}'', local_request_Rode_DeletePolicy_0),
     (''GET'', ''pattern_Rode_ListPolicies_0'', ''/rode.v1alpha1.Rode/ListPolicies'',
       ''/v1alpha1/policies'', local_request_Rode_ListPolicies_0),
     (''GET'', ''pattern_Rode_ListPolicyVersions_0'', ''/rode.v1alpha1.Rode/ListPolicyVersions'',
       ''/v1alpha1/policies/{id}/versions'', local_request_Rode_ListPolicyVersions_0),
     (''POST'', ''pattern_Rode_ValidatePolicy_0'', ''/rode.v1alpha1.Rode/ValidatePolicy'',
       ''/v1alpha1/policies:validate'', local_request_Rode_ValidatePolicy_0),
     (''PATCH'', ''pattern_Rode_UpdatePolicy_0'', ''/rode.v1alpha1.Rode/UpdatePolicy'',
       ''/v1alpha1/policies/{policy.id}'', local_request_Rode_UpdatePolicy_0)]"

definition local_group_routes :: "'w local_route list" where
  "local_group_routes =
    [(''POST'', ''pattern_Rode_RegisterCollector_0'', ''/rode.v1alpha1.Rode/RegisterCollector'',
       ''/v1alpha1/collectors/{id}:register'', local_request_Rode_RegisterCollector_0),
     (''POST'', ''pattern_Rode_CreateNote_0'', ''/rode.v1alpha1.Rode/CreateNote'',
       ''/v1alpha1/notes'', local_request_Rode_CreateNote_0),
     (''POST'', ''pattern_Rode_CreatePolicyGroup_0'', ''/rode.v1alpha1.Rode/CreatePolicyGroup'',
       ''/v1alpha1/policy-groups'', local_request_Rode_CreatePolicyGroup_0),
     (''GET'', ''pattern_Rode_ListPolicyGroups_0'', ''/rode.v1alpha1.Rode/ListPolicyGroups'',
       ''/v1alpha1/policy-groups'', local_request_Rode_ListPolicyGroups_0),
     (''GET'', ''pattern_Rode_GetPolicyGroup_0'', ''/rode.v1alpha1.Rode/GetPolicyGroup'',
       ''/v1alpha1/policy-groups/{name}'', local_request_Rode_GetPolicyGroup_0),
     (''PATCH'', ''pattern_Rode_UpdatePolicyGroup_0'', ''/rode.v1alpha1.Rode/UpdatePolicyGroup'',
       ''/v1alpha1/policy-groups/{name}'', local_request_Rode_UpdatePolicyGroup_0),
     (''DELETE'', ''pattern_Rode_DeletePolicyGroup_0'', ''/rode.v1alpha1.Rode/DeletePolicyGroup'',
       ''/v1alpha1/policy-groups/{name}'', local_request_Rode_DeletePolicyGroup_0)]"

definition local_assignment_routes :: "'w local_route list" where
  "local_assignment_routes =
    [(''POST'', ''pattern_Rode_CreatePolicyAssignment_0'', ''/rode.v1alpha1.Rode/CreatePolicyAssignment'',
       ''/v1alpha1/policies/{policy_version_id}/assignments/{policy_group}'', local_request_Rode_CreatePolicyAssignment_0),
     (''GET'', ''pattern_Rode_GetPolicyAssignment_0'', ''/rode.v1alpha1.Rode/GetPolicyAssignment'',
       ''/v1alpha1/{id=policies/*/assignments/*}'', local_request_Rode_GetPolicyAssignment_0),
     (''PATCH'', ''pattern_Rode_UpdatePolicyAssignment_0'', ''/rode.v1alpha1.Rode/UpdatePolicyAssignment'',
       ''/v1alpha1/{id=policies/*/assignments/*}'', local_request_Rode_UpdatePolicyAssignment_0),
     (''DELETE'', ''pattern_Rode_DeletePolicyAssignment_0'', ''/rode.v1alpha1.Rode/DeletePolicyAssignment'',
       ''/v1alpha1/{id=policies/*/assignments/*}'', local_request_Rode_DeletePolicyAssignment_0),
     (''GET'', ''pattern_Rode_ListPolicyAssignments_0'', ''/rode.v1alpha1.Rode/ListPolicyAssignments'',
       ''/v1alpha1/policies/{policy_id}/assignments'', local_request_Rode_ListPolicyAssignments_0),
     (''GET'', ''pattern_Rode_ListPolicyAssignments_1'', ''/rode.v1alpha1.Rode/ListPolicyAssignments'',
       ''/v1alpha1/policy-groups/{policy_group}/assignments'', local_request_Rode_ListPolicyAssignments_1)]"

definition local_evaluation_routes :: "'w local_route list" where
  "local_evaluation_routes =
    [(''POST'', ''pattern_Rode_EvaluateResource_0'', ''/rode.v1alpha1.Rode/EvaluateResource'',
       ''/v1alpha1/resource-evaluations'', local_request_Rode_EvaluateResource_0),
     (''GET'', ''pattern_Rode_GetResourceEvaluation_0'', ''/rode.v1alpha1.Rode/GetResourceEvaluation'',
       ''/v1alpha1/resource-evaluations/{id}'', local_request_Rode_GetResourceEvaluation_0),
     (''GET'', ''pattern_Rode_ListResourceEvaluations_0'', ''/rode.v1alpha1.Rode/ListResourceEvaluations'',
       ''/v1alpha1/resource-evaluations'', local_request_Rode_ListResourceEvaluations_0)]"

definition rode_local_routes :: "'w local_route list" where
  "rode_local_routes =
     local_occurrence_routes @ local_policy_routes @ local_group_routes @ local_assignment_routes @ local_evaluation_routes"

lemmas rode_local_routes_all = rode_local_routes_def
  local_occurrence_routes_def
  local_policy_routes_def
  local_group_routes_def
  local_assignment_routes_def
  local_evaluation_routes_def

text \<open>The handler each \<open>mux.Handle\<close> of \<open>RegisterRodeHandlerServer\<close> registers.\<close>

definition local_route_handler ::
  "gateway_lib \<Rightarrow> 'w rode_server \<Rightarrow> 'w local_route \<Rightarrow> http_request \<Rightarrow> path_params \<Rightarrow> ('w, reply) io"
where
  "local_route_handler lib r rt http params = (case rt of (_, _, full, template, request) \<Rightarrow>
     attempt (lift (gl_AnnotateIncoming lib http full template)) id (\<lambda>_.
     request lib r http params))"

definition local_route_pattern :: "'w local_route \<Rightarrow> pattern option" where
  "local_route_pattern rt = (case rt of (_, pat, _, _, _) \<Rightarrow> map_of rode_patterns pat)"

text \<open>An HTTP request served by a multiplexer with these handlers.\<close>

definition serve_http_local :: "gateway_lib \<Rightarrow> 'w rode_server \<Rightarrow> http_request \<Rightarrow> ('w, reply) io" where
  "serve_http_local lib r http =
     attempt (lift (gl_Match lib
       (map (\<lambda>rt. (fst rt, the (local_route_pattern rt))) (rode_local_routes :: 'w local_route list)) http)) id
       (\<lambda>(i, params).
     attempt (index_at rode_local_routes i) id (\<lambda>rt.
     local_route_handler lib r rt http params))"

section \<open>Both sides make the same requests\<close>

lemma lift_and_then: "attempt (lift (and_then x k)) id f = attempt (lift x) id (\<lambda>y. attempt (lift (k y)) id f)"
  by (cases x) (simp_all add: and_then_def)

lemmas local_request_defs =
  local_request_Rode_BatchCreateOccurrences_0_def local_request_Rode_EvaluatePolicy_0_def
  local_request_Rode_ListResources_0_def local_request_Rode_ListResourceVersions_0_def
  local_request_Rode_ListVersionedResourceOccurrences_0_def
  local_request_Rode_ListOccurrences_0_def local_request_Rode_UpdateOccurrence_0_def
  local_request_Rode_CreatePolicy_0_def local_request_Rode_GetPolicy_0_def
  local_request_Rode_DeletePolicy_0_def local_request_Rode_ListPolicies_0_def
  local_request_Rode_ListPolicyVersions_0_def local_request_Rode_ValidatePolicy_0_def
  local_request_Rode_UpdatePolicy_0_def local_request_Rode_RegisterCollector_0_def
  local_request_Rode_CreateNote_0_def local_request_Rode_CreatePolicyGroup_0_def
  local_request_Rode_ListPolicyGroups_0_def local_request_Rode_GetPolicyGroup_0_def
  local_request_Rode_UpdatePolicyGroup_0_def local_request_Rode_DeletePolicyGroup_0_def
  local_request_Rode_CreatePolicyAssignment_0_def local_request_Rode_GetPolicyAssignment_0_def
  local_request_Rode_UpdatePolicyAssignment_0_def
  local_request_Rode_DeletePolicyAssignment_0_def local_request_Rode_ListPolicyAssignments_0_def
  local_request_Rode_ListPolicyAssignments_1_def local_request_Rode_EvaluateResource_0_def
  local_request_Rode_GetResourceEvaluation_0_def
  local_request_Rode_ListResourceEvaluations_0_def

text \<open>A local function makes the request its counterpart makes, and calls the method itself.\<close>

lemma local_requests:
  "local_request_Rode_BatchCreateOccurrences_0 lib r http params = attempt (lift (request_Rode_BatchCreateOccurrences_0 lib http params)) id (handle r)"
  "local_request_Rode_EvaluatePolicy_0 lib r http params = attempt (lift (request_Rode_EvaluatePolicy_0 lib http params)) id (handle r)"
  "local_request_Rode_ListResources_0 lib r http params = attempt (lift (request_Rode_ListResources_0 lib http params)) id (handle r)"
  "local_request_Rode_ListResourceVersions_0 lib r http params = attempt (lift (request_Rode_ListResourceVersions_0 lib http params)) id (handle r)"
  "local_request_Rode_ListVersionedResourceOccurrences_0 lib r http params = attempt (lift (request_Rode_ListVersionedResourceOccurrences_0 lib http params)) id (handle r)"
  "local_request_Rode_ListOccurrences_0 lib r http params = attempt (lift (request_Rode_ListOccurrences_0 lib http params)) id (handle r)"
  "local_request_Rode_UpdateOccurrence_0 lib r http params = attempt (lift (request_Rode_UpdateOccurrence_0 lib http params)) id (handle r)"
  "local_request_Rode_CreatePolicy_0 lib r http params = attempt (lift (request_Rode_CreatePolicy_0 lib http params)) id (handle r)"
  "local_request_Rode_GetPolicy_0 lib r http params = attempt (lift (request_Rode_GetPolicy_0 lib http params)) id (handle r)"
  "local_request_Rode_DeletePolicy_0 lib r http params = attempt (lift (request_Rode_DeletePolicy_0 lib http params)) id (handle r)"
  "local_request_Rode_ListPolicies_0 lib r http params = attempt (lift (request_Rode_ListPolicies_0 lib http params)) id (handle r)"
  "local_request_Rode_ListPolicyVersions_0 lib r http params = attempt (lift (request_Rode_ListPolicyVersions_0 lib http params)) id (handle r)"
  "local_request_Rode_ValidatePolicy_0 lib r http params = attempt (lift (request_Rode_ValidatePolicy_0 lib http params)) id (handle r)"
  "local_request_Rode_UpdatePolicy_0 lib r http params = attempt (lift (request_Rode_UpdatePolicy_0 lib http params)) id (handle r)"
  "local_request_Rode_RegisterCollector_0 lib r http params = attempt (lift (request_Rode_RegisterCollector_0 lib http params)) id (handle r)"
  "local_request_Rode_CreateNote_0 lib r http params = attempt (lift (request_Rode_CreateNote_0 lib http params)) id (handle r)"
  "local_request_Rode_CreatePolicyGroup_0 lib r http params = attempt (lift (request_Rode_CreatePolicyGroup_0 lib http params)) id (handle r)"
  "local_request_Rode_ListPolicyGroups_0 lib r http params = attempt (lift (request_Rode_ListPolicyGroups_0 lib http params)) id (handle r)"
  "local_request_Rode_GetPolicyGroup_0 lib r http params = attempt (lift (request_Rode_GetPolicyGroup_0 lib http params)) id (handle r)"
  "local_request_Rode_UpdatePolicyGroup_0 lib r http params = attempt (lift (request_Rode_UpdatePolicyGroup_0 lib http params)) id (handle r)"
  "local_request_Rode_DeletePolicyGroup_0 lib r http params = attempt (lift (request_Rode_DeletePolicyGroup_0 lib http params)) id (handle r)"
  "local_request_Rode_CreatePolicyAssignment_0 lib r http params = attempt (lift (request_Rode_CreatePolicyAssignment_0 lib http params)) id (handle r)"
  "local_request_Rode_GetPolicyAssignment_0 lib r http params = attempt (lift (request_Rode_GetPolicyAssignment_0 lib http params)) id (handle r)"
  "local_request_Rode_UpdatePolicyAssignment_0 lib r http params = attempt (lift (request_Rode_UpdatePolicyAssignment_0 lib http params)) id (handle r)"
  "local_request_Rode_DeletePolicyAssignment_0 lib r http params = attempt (lift (request_Rode_DeletePolicyAssignment_0 lib http params)) id (handle r)"
  "local_request_Rode_ListPolicyAssignments_0 lib r http params = attempt (lift (request_Rode_ListPolicyAssignments_0 lib http params)) id (handle r)"
  "local_request_Rode_ListPolicyAssignments_1 lib r http params = attempt (lift (request_Rode_ListPolicyAssignments_1 lib http params)) id (handle r)"
  "local_request_Rode_EvaluateResource_0 lib r http params = attempt (lift (request_Rode_EvaluateResource_0 lib http params)) id (handle r)"
  "local_request_Rode_GetResourceEvaluation_0 lib r http params = attempt (lift (request_Rode_GetResourceEvaluation_0 lib http params)) id (handle r)"
  "local_request_Rode_ListResourceEvaluations_0 lib r http params = attempt (lift (request_Rode_ListResourceEvaluations_0 lib http params)) id (handle r)"
  by (simp_all only: local_request_defs request_defs lift_and_then lift_simps attempt_ret handle.simps Let_def)

definition same_route :: "'w local_route \<Rightarrow> route \<Rightarrow> bool" where
  "same_route l rt \<longleftrightarrow> fst l = fst rt \<and> fst (snd l) = fst (snd rt) \<and>
     fst (snd (snd l)) = fst (snd (snd rt)) \<and> fst (snd (snd (snd l))) = fst (snd (snd (snd rt))) \<and>
     (\<forall>lib r http params. snd (snd (snd (snd l))) lib r http params =
        attempt (lift (route_request rt lib http params)) id (handle r))"

lemma same_routes: "list_all2 same_route rode_local_routes rode_routes"
  by (simp add: rode_local_routes_all rode_routes_all same_route_def route_request_def local_requests)

lemma same_patterns:
  "map (\<lambda>rt. (fst rt, the (local_route_pattern rt))) rode_local_routes =
   map (\<lambda>rt. (route_method rt, the (route_pattern rt))) rode_routes"
  by (rule nth_equalityI)
    (use same_routes in \<open>auto simp: list_all2_conv_all_nth same_route_def local_route_pattern_def
      route_pattern_def route_method_def split_beta\<close>)

lemma local_route_runs:
  assumes "i < length rode_routes"
  shows "local_route_handler lib (r :: 'a rode_server) (rode_local_routes ! i) http params =
    attempt (lift (gl_AnnotateIncoming lib http (route_rpc (rode_routes ! i))
      (fst (snd (snd (snd (rode_routes ! i))))))) id (\<lambda>_.
    attempt (lift (route_request (rode_routes ! i) lib http params)) id (handle r))"
proof -
  have "same_route (rode_local_routes ! i :: 'a local_route) (rode_routes ! i)"
    by (rule list_all2_nthD2 [OF same_routes assms])
  then show ?thesis by (simp add: local_route_handler_def same_route_def route_rpc_def split_beta)
qed

section \<open>With authentication off the two sides agree\<close>

definition authentication_off :: "'w authenticator \<Rightarrow> authorization_interceptor \<Rightarrow> bool" where
  "authentication_off authn authz \<longleftrightarrow> bac_Username (ac_Basic (at_authConfig authn)) = '''' \<and>
     oac_Issuer (ac_OIDC (at_authConfig authn)) = '''' \<and> \<not> ac_Enabled (ai_authConfig authz)"

lemma serve_authentication_off:
  assumes "authentication_off authn authz"
  shows "serve authn authz (r :: 'w rode_server) header q = recovered (handle r q)"
proof -
  let ?ctx = "\<lparr>cx_Authorization = header, cx_Method = Some (full_method (method_name q)), cx_Roles = None\<rparr>"
  obtain ctx where "(Authenticate authn ?ctx :: ('w, request_context) io) = ret ctx"
  proof (cases "header = ''''")
    case True
    then have "(Authenticate authn ?ctx :: ('w, request_context) io) = ret (with_roles [RoleAnonymous] ?ctx)" by (simp add: Authenticate_def)
    then show thesis by (rule that)
  next
    case False
    with assms have "(Authenticate authn ?ctx :: ('w, request_context) io) = ret ?ctx"
      by (simp add: Authenticate_def authentication_off_def)
    then show thesis by (rule that)
  qed
  moreover from assms have "(Authorize authz ctx :: ('w, request_context) io) = ret ctx"
    by (simp add: authentication_off_def Authorize_def)
  ultimately show ?thesis by (simp add: serve_def)
qed

lemma recovered_lift: "recovered (attempt (lift x) id k) = attempt (lift x) id (\<lambda>y. recovered (k y))"
  by (cases x) (simp_all add: recovered_def fun_eq_iff)

lemma routed_same:
  assumes "authentication_off authn authz" "gl_AnnotateIncoming lib = gl_Annotate lib"
    "i < length rode_routes"
  shows "route_handler lib (serve authn authz r) (rode_routes ! i) http params =
    recovered (local_route_handler lib r (rode_local_routes ! i) http params)"
  unfolding local_route_runs [OF assms(3)] recovered_lift serve_authentication_off [OF assms(1)]
  by (simp add: route_handler_def route_rpc_def route_request_def serve_authentication_off [OF assms(1)]
      assms(2) split_beta)

text \<open>C20: with authentication off, a request over HTTP is answered the same way, with the same calls
  to the outside, whether the gateway calls the service over gRPC or in the same process:
  the only difference is that a panic of the service is an error of a gRPC call, and stays
  a panic of a call in the same process.\<close>

theorem local_gateway_agrees:
  assumes "library_ok lib" "gl_AnnotateIncoming lib = gl_Annotate lib" "authentication_off authn authz"
  shows "serve_http lib authn authz r http = recovered (serve_http_local lib r http)"
proof (cases "gl_Match lib (map (\<lambda>rt. (route_method rt, the (route_pattern rt))) rode_routes) http")
  case (Inl e)
  then show ?thesis by (simp add: serve_http_def serve_http_local_def same_patterns recovered_def fun_eq_iff)
next
  case (Inr ip)
  obtain i params where ip: "ip = (i, params)" by (cases ip)
  from library_match [OF assms(1) Inr [unfolded ip]] have i: "i < length rode_routes" by simp
  then have j: "i < length (rode_local_routes :: 'a local_route list)"
    using list_all2_lengthD [OF same_routes] by metis
  from Inr i j routed_same [OF assms(3,2) i, of r http params] show ?thesis
    by (simp add: serve_http_def serve_http_local_def same_patterns ip index_at_def)
qed

end
