(* ===== verification/Rode_Client.thy ===== *)
theory Rode_Client
  imports Authentication
begin

text \<open>
  The client side, \<open>common/\<close>: how \<open>NewRodeClient\<close> chooses the credentials of a
  connection, and the header each kind of credentials puts on a request. Dialling and the
  OAuth2 token source are parameters on the open state.
\<close>

section \<open>Configuration\<close>

record rode_client_config =
  rcc_Host :: string
  rcc_DisableTransportSecurity :: bool

record client_oidc_config =
  coc_ClientID :: string
  coc_ClientSecret :: string
  coc_TokenURL :: string
  coc_TlsInsecureSkipVerify :: bool
  coc_Scopes :: string

record client_config =
  cc_Rode :: "rode_client_config option"
  cc_OIDCAuth :: "client_oidc_config option"
  cc_BasicAuth :: "basic_auth_config option"
  cc_ProxyAuth :: bool

text \<open>\<open>SetupRodeClientFlags\<close>: the configuration when no flag is given.\<close>

definition SetupRodeClientFlags :: client_config where
  "SetupRodeClientFlags =
     \<lparr>cc_Rode = Some \<lparr>rcc_Host = ''rode:50051'', rcc_DisableTransportSecurity = False\<rparr>,
      cc_OIDCAuth = Some \<lparr>coc_ClientID = '''', coc_ClientSecret = '''', coc_TokenURL = '''',
                          coc_TlsInsecureSkipVerify = False, coc_Scopes = ''''\<rparr>,
      cc_BasicAuth = Some \<lparr>bac_Username = '''', bac_Password = ''''\<rparr>,
      cc_ProxyAuth = False\<rparr>"

definition basicAuthIsConfigured :: "client_config \<Rightarrow> bool" where
  "basicAuthIsConfigured c = (case cc_BasicAuth c of
       None \<Rightarrow> False | Some b \<Rightarrow> bac_Username b \<noteq> '''' \<or> bac_Password b \<noteq> '''')"

definition oidcAuthIsConfigured :: "client_config \<Rightarrow> bool" where
  "oidcAuthIsConfigured c = (case cc_OIDCAuth c of
       None \<Rightarrow> False | Some b \<Rightarrow> coc_ClientID b \<noteq> '''' \<or> coc_ClientSecret b \<noteq> '''')"

section \<open>Credentials\<close>

record basic_auth =
  ba_username :: string
  ba_password :: string
  ba_insecure :: bool

record client_credentials =
  ccr_ClientID :: string
  ccr_ClientSecret :: string
  ccr_TokenURL :: string
  ccr_Scopes :: "string list"

record oidc_auth =
  oa_tokenSource :: client_credentials
  oa_skipVerify :: bool
  oa_insecure :: bool

datatype per_rpc_credentials =
    BasicCredentials basic_auth
  | OidcCredentials oidc_auth
  | ProxyCredentials bool

definition newBasicAuth :: "basic_auth_config \<Rightarrow> bool \<Rightarrow> per_rpc_credentials" where
  "newBasicAuth config insecure = BasicCredentials
     \<lparr>ba_username = bac_Username config, ba_password = bac_Password config, ba_insecure = insecure\<rparr>"

definition newProxyAuth :: "bool \<Rightarrow> per_rpc_credentials" where
  "newProxyAuth insecure = ProxyCredentials insecure"

definition is_space :: "char \<Rightarrow> bool" where
  "is_space c \<longleftrightarrow> c \<in> {CHR '' '', CHR 0x09, CHR 0x0A, CHR 0x0B, CHR 0x0C, CHR 0x0D}"

definition trim_space :: "string \<Rightarrow> string" where
  "trim_space s = rev (dropWhile is_space (rev (dropWhile is_space s)))"

type_synonym 'w token_source = "client_credentials \<Rightarrow> bool \<Rightarrow> 'w \<Rightarrow> (go_error + string) \<times> 'w"

definition get_token :: "'w token_source \<Rightarrow> client_credentials \<Rightarrow> bool \<Rightarrow> ('w, string) io" where
  "get_token src cred skip = attempt (draw (src cred skip)) id lift"

definition newOidcAuth ::
  "'w token_source \<Rightarrow> client_oidc_config \<Rightarrow> bool \<Rightarrow> ('w, per_rpc_credentials) io" where
  "newOidcAuth src config insecure =
     (if coc_ClientID config = '''' \<or> coc_ClientSecret config = '''' \<or> coc_TokenURL config = '''' then
        fail (ErrorNew ''client ID, client secret, and token URL must all be set for OIDC auth'')
      else
        let cred = \<lparr>ccr_ClientID = coc_ClientID config, ccr_ClientSecret = coc_ClientSecret config,
                    ccr_TokenURL = coc_TokenURL config,
                    ccr_Scopes = (if coc_Scopes config \<noteq> ''''
                                  then split_on (CHR '' '') (trim_space (coc_Scopes config)) else [])\<rparr> in
        attempt (get_token src cred (coc_TlsInsecureSkipVerify config))
          (\<lambda>err. Errorf ''error getting initial token'' err) (\<lambda>_.
        ret (OidcCredentials \<lparr>oa_tokenSource = cred, oa_skipVerify = coc_TlsInsecureSkipVerify config,
                              oa_insecure = insecure\<rparr>)))"

text \<open>
  \<open>GetRequestMetadata\<close> of the three; \<open>incoming\<close> is the authorization header of the
  caller's own request.
\<close>

definition basic_GetRequestMetadata :: "basic_auth \<Rightarrow> ('w, (string \<times> string) list) io" where
  "basic_GetRequestMetadata b =
     ret [(''authorization'', ''Basic '' @ EncodeToString (ba_username b @ '':'' @ ba_password b))]"

definition oidc_GetRequestMetadata ::
  "'w token_source \<Rightarrow> oidc_auth \<Rightarrow> ('w, (string \<times> string) list) io" where
  "oidc_GetRequestMetadata src j =
     attempt (get_token src (oa_tokenSource j) (oa_skipVerify j)) id (\<lambda>token.
     ret [(''authorization'', ''Bearer '' @ token)])"

definition proxy_GetRequestMetadata :: "string \<Rightarrow> ('w, (string \<times> string) list) io" where
  "proxy_GetRequestMetadata incoming =
     ret (if incoming \<noteq> '''' then [(''authorization'', incoming)] else [])"

fun GetRequestMetadata ::
  "'w token_source \<Rightarrow> string \<Rightarrow> per_rpc_credentials \<Rightarrow> ('w, (string \<times> string) list) io" where
  "GetRequestMetadata src incoming (BasicCredentials b) = basic_GetRequestMetadata b"
| "GetRequestMetadata src incoming (OidcCredentials j) = oidc_GetRequestMetadata src j"
| "GetRequestMetadata src incoming (ProxyCredentials i) = proxy_GetRequestMetadata incoming"

fun RequireTransportSecurity :: "per_rpc_credentials \<Rightarrow> bool" where
  "RequireTransportSecurity (BasicCredentials b) = (\<not> ba_insecure b)"
| "RequireTransportSecurity (OidcCredentials j) = (\<not> oa_insecure j)"
| "RequireTransportSecurity (ProxyCredentials i) = (\<not> i)"

datatype dial_option =
    WithBlock
  | FailOnNonTempDialError
  | WithInsecure
  | WithTransportCredentials
  | WithPerRPCCredentials per_rpc_credentials
  | OtherDialOption string

text \<open>The value is the target and the options the connection was made with.\<close>

definition dial_options ::
  "'w token_source \<Rightarrow> client_config \<Rightarrow> rode_client_config \<Rightarrow> dial_option list
     \<Rightarrow> ('w, dial_option list) io" where
  "dial_options src config rode dialOptions =
     (let insecure = rcc_DisableTransportSecurity rode;
          opts1 = dialOptions @ [WithBlock, FailOnNonTempDialError]
                    @ [if insecure then WithInsecure else WithTransportCredentials] in
      attempt (case cc_OIDCAuth config of
          Some oc \<Rightarrow> if oidcAuthIsConfigured config
            then attempt (newOidcAuth src oc insecure) (\<lambda>err. Errorf ''error configuring OIDC auth'' err)
                   (\<lambda>cred. ret (opts1 @ [WithPerRPCCredentials cred]))
            else ret opts1
        | None \<Rightarrow> ret opts1) id (\<lambda>opts2.
      attempt (case cc_BasicAuth config of
          Some b \<Rightarrow> if basicAuthIsConfigured config
            then (if bac_Username b = '''' \<or> bac_Password b = ''''
                  then fail (ErrorNew ''both username and password must be set for basic auth'')
                  else ret (opts2 @ [WithPerRPCCredentials (newBasicAuth b insecure)]))
            else ret opts2
        | None \<Rightarrow> ret opts2) id (\<lambda>opts3.
      ret (if cc_ProxyAuth config then opts3 @ [WithPerRPCCredentials (newProxyAuth insecure)] else opts3))))"

definition NewRodeClient ::
  "'w token_source \<Rightarrow> (string \<Rightarrow> dial_option list \<Rightarrow> 'w \<Rightarrow> (go_error + unit) \<times> 'w)
     \<Rightarrow> client_config option \<Rightarrow> dial_option list \<Rightarrow> ('w, string \<times> dial_option list) io" where
  "NewRodeClient src dial config dialOptions =
     (case Option.bind config cc_Rode of
        None \<Rightarrow> fail (ErrorNew ''rode host must be specified'')
      | Some rode \<Rightarrow>
          (case config of
             None \<Rightarrow> fail (ErrorNew ''rode host must be specified'')
           | Some conf \<Rightarrow>
               if rcc_Host rode = '''' then fail (ErrorNew ''rode host must be specified'')
               else if oidcAuthIsConfigured conf \<and> basicAuthIsConfigured conf
                  \<or> cc_ProxyAuth conf \<and> (oidcAuthIsConfigured conf \<or> basicAuthIsConfigured conf)
               then fail (ErrorNew ''only one authentication method can be used'')
               else
                 attempt (dial_options src conf rode dialOptions) id (\<lambda>opts.
                 attempt (attempt (draw (dial (rcc_Host rode) opts)) id lift)
                   (\<lambda>err. Errorf ''error connecting to rode server'' err) (\<lambda>_.
                 ret (rcc_Host rode, opts)))))"

section \<open>What a client connects with\<close>

definition credentials_of :: "dial_option list \<Rightarrow> per_rpc_credentials list" where
  "credentials_of opts =
     concat (map (\<lambda>opt. case opt of WithPerRPCCredentials c \<Rightarrow> [c] | _ \<Rightarrow> []) opts)"

lemma credentials_of_append [simp]: "credentials_of (a @ b) = credentials_of a @ credentials_of b"
  by (simp add: credentials_of_def)

lemma credentials_of_simps [simp]:
  "credentials_of [] = []"
  "credentials_of (opt # opts) =
     (case opt of WithPerRPCCredentials c \<Rightarrow> [c] | _ \<Rightarrow> []) @ credentials_of opts"
  by (simp_all add: credentials_of_def)

lemma newOidcAuth_Ok:
  assumes "newOidcAuth src config insecure s = (Ok c, s')"
  shows "\<exists>j. c = OidcCredentials j \<and> oa_insecure j = insecure"
  using assms unfolding newOidcAuth_def by (auto simp: attempt_Ok Let_def split: if_splits)

text \<open>With at most one authentication configured, a client that dials ends up with at
  most one set of call credentials, which ask for transport security unless it is disabled;
  configured basic authentication is the credentials used.\<close>

lemma dial_options_Ok:
  assumes "dial_options src config rode opts s = (Ok opts', s')"
    "credentials_of opts = []"
    "\<not> (oidcAuthIsConfigured config \<and> basicAuthIsConfigured config)"
    "\<not> (cc_ProxyAuth config \<and> (oidcAuthIsConfigured config \<or> basicAuthIsConfigured config))"
  shows "length (credentials_of opts') \<le> 1 \<and>
    (\<forall>c\<in>set (credentials_of opts'). RequireTransportSecurity c \<longleftrightarrow> \<not> rcc_DisableTransportSecurity rode) \<and>
    (\<forall>b. cc_BasicAuth config = Some b \<and> basicAuthIsConfigured config \<longrightarrow>
       bac_Username b \<noteq> '''' \<and> bac_Password b \<noteq> '''' \<and>
       credentials_of opts' = [newBasicAuth b (rcc_DisableTransportSecurity rode)])"
  using assms unfolding dial_options_def
  by (auto simp: attempt_Ok Let_def newBasicAuth_def newProxyAuth_def basicAuthIsConfigured_def
      oidcAuthIsConfigured_def dest!: newOidcAuth_Ok split: option.splits if_splits)

section \<open>The server accepts what the client sends\<close>

text \<open>
  \<open>AuthFromMD\<close> gives what follows the expected scheme, whose case does not matter.
\<close>

definition auth_from_md_ok :: "'w authenticator \<Rightarrow> bool" where
  "auth_from_md_ok a \<longleftrightarrow>
     (\<forall>token. at_AuthFromMD a (''Basic '' @ token) ''basic'' = Inr token) \<and>
     (\<forall>token. at_AuthFromMD a (''Bearer '' @ token) ''bearer'' = Inr token)"

lemma client_header:
  "GetRequestMetadata src incoming (newBasicAuth b insecure) s =
     (Ok [(''authorization'', ''Basic '' @ EncodeToString (bac_Username b @ '':'' @ bac_Password b))], s)"
  by (simp add: newBasicAuth_def basic_GetRequestMetadata_def)

lemma server_basic_run:
  assumes "auth_from_md_ok a"
    "bac_Username (ac_Basic (at_authConfig a)) \<noteq> ''''" "bac_Password (ac_Basic (at_authConfig a)) \<noteq> ''''"
    "cx_Authorization ctx = ''Basic '' @ EncodeToString data"
  shows "Authenticate a ctx s = check_credentials a ctx data s"
  using assms by (simp add: Authenticate_def basic_def auth_from_md_ok_def DecodeString_EncodeToString)

section \<open>Properties\<close>

text \<open>C31: the basic credentials a client sends make it Administrator at a server configured with
  the same user name and password, unless one of them holds a colon: then the server
  refuses its own credentials, with an error about the format of the token.\<close>

theorem basic_auth_round_trip:
  assumes "auth_from_md_ok a" "bac_Username (ac_Basic (at_authConfig a)) \<noteq> []"
    "bac_Password (ac_Basic (at_authConfig a)) \<noteq> []"
    "GetRequestMetadata src incoming (newBasicAuth (ac_Basic (at_authConfig a)) insecure) s
       = (Ok [(''authorization'', cx_Authorization ctx)], s)"
  shows "Authenticate a ctx s =
    (if CHR '':'' \<in> set (bac_Username (ac_Basic (at_authConfig a))) \<union> set (bac_Password (ac_Basic (at_authConfig a)))
     then (Err (GrpcErrorWithCode ''expected auth token to follow format ${username}:${password}'' None
                  Unauthenticated), s)
     else (Ok (with_roles [RoleAdministrator] ctx), s))"
proof -
  let ?u = "bac_Username (ac_Basic (at_authConfig a))" and ?p = "bac_Password (ac_Basic (at_authConfig a))"
  from assms(4) have header: "cx_Authorization ctx = ''Basic '' @ EncodeToString (?u @ '':'' @ ?p)"
    unfolding client_header by simp
  have run: "Authenticate a ctx s = check_credentials a ctx (?u @ '':'' @ ?p) s"
    by (rule server_basic_run [OF assms(1-3) header])
  show ?thesis
  proof (cases "CHR '':'' \<in> set ?u \<union> set ?p")
    case True
    then have "count_list (?u @ '':'' @ ?p) (CHR '':'') > 1"
      using count_list_0_iff [of ?u "CHR '':''"] count_list_0_iff [of ?p "CHR '':''"] by auto
    then have "length (split_on (CHR '':'') (?u @ '':'' @ ?p)) > 2" by (simp add: length_split_on)
    then obtain x y z zs where "split_on (CHR '':'') (?u @ '':'' @ ?p) = x # y # z # zs"
      by (auto simp: Suc_le_length_iff less_eq_Suc_le numeral_eq_Suc)
    with True run show ?thesis by (simp add: check_credentials_def)
  next
    case False
    then have "split_on (CHR '':'') (?u @ '':'' @ ?p) = [?u, ?p]" by (simp add: split_on_two_iff)
    with False run show ?thesis by (simp add: check_credentials_def)
  qed
qed

end
