(* ===== verification/Example_World.thy ===== *)
theory Example_World
  imports Rode_Rpc Rode_Client "HOL-Library.Code_Target_Nat"
begin

text \<open>
  A concrete outside for the witnesses: an Elasticsearch with a handful of documents, a
  Grafeas with one build, an Open Policy Agent that lets everything pass, and a clock. It
  answers from tables and keeps only the time, so it is one of the outsides the theorems
  quantify over, and a run of the model on it evaluates. A document's source is its id.
\<close>

section \<open>Documents\<close>

definition ex_time :: "timestamp option" where
  "ex_time = Some (Timestamp 1 0)"

definition ex_policy :: policy where
  "ex_policy = \<lparr>p_Id = ''p1'', p_Name = ''no-high'', p_Description = ''d'', p_CurrentVersion = 1,
     p_Policy = None, p_Created = ex_time, p_Updated = ex_time, p_Deleted = False\<rparr>"

definition ex_entity :: policy_entity where
  "ex_entity = \<lparr>pe_Id = ''p1.1'', pe_Version = 1, pe_Message = ''m'', pe_RegoContent = ''package a'',
     pe_SourcePath = '''', pe_Created = ex_time\<rparr>"

definition ex_policies :: "(string \<times> policy) list" where
  "ex_policies = [(''p1'', ex_policy), (''p2'', ex_policy\<lparr>p_Id := ''p2'', p_Deleted := True\<rparr>)]"

definition ex_entities :: "(string \<times> policy_entity) list" where
  "ex_entities = [(''p1.1'', ex_entity), (''p2.1'', ex_entity\<lparr>pe_Id := ''p2.1''\<rparr>)]"

definition ex_group :: policy_group where
  "ex_group = \<lparr>pg_Name = ''dev'', pg_Description = '''', pg_Created = ex_time, pg_Updated = ex_time,
     pg_Deleted = False\<rparr>"

definition ex_groups :: "(string \<times> policy_group) list" where
  "ex_groups = [(''dev'', ex_group), (''qa'', ex_group\<lparr>pg_Name := ''qa''\<rparr>),
     (''old'', ex_group\<lparr>pg_Name := ''old'', pg_Deleted := True\<rparr>)]"

definition ex_assignment :: policy_assignment where
  "ex_assignment = \<lparr>pa_Id = ''policies/p1/assignments/dev'', pa_PolicyVersionId = ''p1.1'',
     pa_PolicyGroup = ''dev'', pa_Created = ex_time, pa_Updated = ex_time\<rparr>"

definition ex_assignments :: "(string \<times> policy_assignment) list" where
  "ex_assignments = [(pa_Id ex_assignment, ex_assignment)]"

definition ex_uri :: string where
  "ex_uri = ''git://r@1''"

definition ex_resources :: "(string \<times> resource) list" where
  "ex_resources = [(''git://r'', \<lparr>r_Id = '''', r_Name = ''r'', r_Type = GIT, r_Created = ex_time\<rparr>)]"

definition ex_versions :: "(string \<times> resource_version) list" where
  "ex_versions = [(ex_uri, \<lparr>rv_Version = ex_uri, rv_Names = [], rv_Created = ex_time\<rparr>)]"

definition ex_evaluation :: resource_evaluation where
  "ex_evaluation = \<lparr>re_Id = ''e1'', re_Pass = True, re_Source = None, re_Created = ex_time,
     re_ResourceVersion = map_of ex_versions ex_uri, re_PolicyGroup = ''dev''\<rparr>"

definition ex_policy_evaluation :: policy_evaluation where
  "ex_policy_evaluation = \<lparr>pev_Id = ''x1'', pev_ResourceEvaluationId = ''e1'', pev_Pass = True,
     pev_PolicyVersionId = ''p1.1'', pev_Violations = []\<rparr>"

definition ex_stored :: "string set" where
  "ex_stored = set (map fst ex_policies @ map fst ex_entities @ map fst ex_groups
     @ map fst ex_assignments @ map fst ex_resources @ map fst ex_versions)"

definition decode_from :: "(string \<times> 'a) list \<Rightarrow> string \<Rightarrow> go_error + 'a" where
  "decode_from table source = (case map_of table source of
       Some x \<Rightarrow> Inr x | None \<Rightarrow> Inl (ErrorNew ''unexpected token''))"

definition ex_codec :: codec where
  "ex_codec = \<lparr>cd_Policy = \<lambda>_. decode_from ex_policies, cd_PolicyEntity = \<lambda>_. decode_from ex_entities,
     cd_PolicyGroup = \<lambda>_. decode_from ex_groups, cd_PolicyAssignment = \<lambda>_. decode_from ex_assignments,
     cd_Resource = \<lambda>_. decode_from ex_resources, cd_ResourceVersion = \<lambda>_. decode_from ex_versions,
     cd_ResourceEvaluation = \<lambda>_. decode_from [(''e1'', ex_evaluation)],
     cd_PolicyEvaluation = \<lambda>_. decode_from [(''x1'', ex_policy_evaluation)],
     cd_MarshalInput = \<lambda>_. ''{}''\<rparr>"

section \<open>Elasticsearch\<close>

definition ex_doc :: "string \<Rightarrow> get_response" where
  "ex_doc i = \<lparr>grs_Id = i, grs_Found = i \<in> ex_stored, grs_Source = i\<rparr>"

definition ex_hits :: "string list \<Rightarrow> search_response" where
  "ex_hits ids = \<lparr>srs_Total = int (length ids), srs_Hits = map (\<lambda>i. \<lparr>hit_ID = i, hit_Source = i\<rparr>) ids,
     srs_NextPageToken = ''''\<rparr>"

definition ex_found :: "string \<Rightarrow> string list" where
  "ex_found index =
     (if index = ''rode-policies'' then [''p1'']
      else if index = ''rode-policy-groups'' then [''dev'']
      else if index = ''rode-policy-assignments'' then map fst ex_assignments
      else if index = ''rode-resources'' then [''git://r'']
      else if index = ''rode-evaluations'' then [''e1''] else [])"

definition ex_es :: "nat es_client" where
  "ex_es = \<lparr>
     esc_Create = \<lambda>req t. (Inr (cr_DocumentId req), t),
     esc_Bulk = \<lambda>req t. (Inr \<lparr>brs_Items = map (\<lambda>_. \<lparr>bri_Create = None,
        bri_Index = Some \<lparr>bs_Status = 201, bs_Error = None\<rparr>\<rparr>) (br_Items req)\<rparr>, t),
     esc_Update = \<lambda>req t. (Inr \<lparr>urs_Version = 2\<rparr>, t),
     esc_Delete = \<lambda>req t. (Inr (), t),
     esc_Get = \<lambda>req t. (Inr (ex_doc (gt_DocumentId req)), t),
     esc_MultiGet = \<lambda>req t. (Inr \<lparr>mgr_Docs = map ex_doc (mg_DocumentIds req)
        @ map (ex_doc \<circ> mgi_Id) (mg_Items req)\<rparr>, t),
     esc_Search = \<lambda>req t. (Inr (ex_hits (ex_found (sr_Index req))), t),
     esc_MultiSearch = \<lambda>req t. (Inr \<lparr>msr_Responses = map (\<lambda>s. case s_Query s of
        QTerm _ _ \<Rightarrow> ex_hits [''e1''] | _ \<Rightarrow> ex_hits [''x1'']) (ms_Searches req)\<rparr>, t)\<rparr>"

definition ex_index_manager :: "nat index_manager" where
  "ex_index_manager = \<lparr>im_Initialize = \<lambda>t. (Inr (), t), im_IndexName = \<lambda>kind _. ''rode-v1-'' @ kind,
     im_AliasName = \<lambda>kind _. ''rode-'' @ kind, im_CreateIndex = \<lambda>_ _ _ t. (Inr (), t)\<rparr>"

section \<open>Rego, clock and the rest\<close>

definition ex_module :: rego_module where
  "ex_module name = (if name = ''pass'' then [\<lparr>rl_Key = None, rl_Body = []\<rparr>]
     else if name = ''violations'' then [\<lparr>rl_Key = Some ''result'', rl_Body = []\<rparr>] else [])"

definition ex_rego :: rego_lib where
  "ex_rego = \<lparr>rg_ParseModule = \<lambda>src. if src = ''bad'' then Inl ''rego_parse_error'' else Inr ex_module,
     rg_Compile = \<lambda>_. [], rg_Unquote = \<lambda>s. Some s\<rparr>"

definition ex_runtime :: "nat runtime" where
  "ex_runtime = \<lparr>rt_Now = \<lambda>t. (Timestamp (int t) 0, Suc t), rt_Uuid = \<lambda>t. (''u'' @ format_nat t, Suc t),
     rt_KeyOrder = \<lambda>ks t. (ks, t), rt_HandlerOrder = \<lambda>t. (map fst uriHandlers, t)\<rparr>"

definition ex_manager :: "nat manager" where
  "ex_manager = NewManager ex_es \<lparr>esc_Host = ''es'', esc_Username = '''', esc_Password = '''',
     esc_Refresh = ''true''\<rparr> ex_index_manager (\<lambda>f. Inr (QFilter f)) ex_runtime ex_codec ex_rego"

definition ex_build :: occurrence where
  "ex_build = \<lparr>o_Name = ''projects/rode/occurrences/b'',
     o_Resource = Some \<lparr>gr_Name = '''', gr_Uri = ex_uri, gr_ContentHash = None\<rparr>,
     o_NoteName = ''projects/rode/notes/c-build'', o_Kind = BUILD, o_Remediation = '''',
     o_CreateTime = ex_time, o_UpdateTime = None,
     o_Details = Some (Occurrence_Build (Some \<lparr>bd_Provenance = Some \<lparr>bp_Id = '''',
       bp_BuiltArtifacts = [\<lparr>art_Checksum = '''', art_Id = ''i@sha256:c'', art_Names = [''n'']\<rparr>],
       bp_Rest = ''''\<rparr>, bd_ProvenanceBytes = ''''\<rparr>))\<rparr>"

definition ex_note :: grafeas_note where
  "ex_note = \<lparr>n_Name = '''', n_ShortDescription = ''s'', n_LongDescription = '''', n_Kind = BUILD,
     n_RelatedUrl = [], n_ExpirationTime = None, n_CreateTime = None, n_UpdateTime = None,
     n_RelatedNoteNames = [], n_Type = None\<rparr>"

definition ex_grafeas :: "nat grafeas_client" where
  "ex_grafeas = \<lparr>
     gc_BatchCreateOccurrences = \<lambda>req t. (Inr \<lparr>gbos_Occurrences = gbo_Occurrences req\<rparr>, t),
     gc_ListOccurrences = \<lambda>req t. (Inr \<lparr>glos_Occurrences = [ex_build], glos_NextPageToken = ''''\<rparr>, t),
     gc_UpdateOccurrence = \<lambda>req t. (case guo_Occurrence req of
        Some occ \<Rightarrow> (Inr occ, t) | None \<Rightarrow> (Inl (ErrorNew ''no occurrence''), t)),
     gc_ListNotes = \<lambda>req t. (Inr \<lparr>glns_Notes = [ex_note\<lparr>n_Name := ''projects/rode/notes/c-build''\<rparr>],
        glns_NextPageToken = ''''\<rparr>, t),
     gc_BatchCreateNotes = \<lambda>req t. (Inr \<lparr>gbns_Notes = map (\<lambda>(i, n).
        n\<lparr>n_Name := ''projects/rode/notes/'' @ i\<rparr>) (gbn_Notes req)\<rparr>, t),
     gc_CreateNote = \<lambda>req t. (Inr ex_note, t)\<rparr>"

definition ex_projects :: "nat projects_client" where
  "ex_projects = \<lparr>pc_GetProject = \<lambda>n t. (Inl (StatusError NotFound ''no project'' None []), t),
     pc_CreateProject = \<lambda>p t. (Inr p, t)\<rparr>"

definition ex_http :: "nat http_client" where
  "ex_http = \<lparr>hc_Get = \<lambda>u t. (Inr \<lparr>http_StatusCode = 404, http_Status = '''', http_Body = ''''\<rparr>, t),
     hc_Put = \<lambda>u b t. (Inr \<lparr>http_StatusCode = 200, http_Status = '''', http_Body = ''''\<rparr>, t),
     hc_Post = \<lambda>u b t. (Inr \<lparr>http_StatusCode = 200, http_Status = '''', http_Body = ''''\<rparr>, t),
     hc_NewRequest = \<lambda>u. None, hc_MarshalRequest = \<lambda>s. Inr s,
     hc_DecodeResponse = \<lambda>s. Inr (Some \<lparr>or_Result = Some \<lparr>or_Pass = True, or_Violations = []\<rparr>,
        or_Explanation = None\<rparr>)\<rparr>"

definition ex_opa :: "nat opa_client" where
  "ex_opa = NewOpaClient ''http://opa'' False ex_http"

definition ex_server :: "nat rode_server" where
  "ex_server = wired_server ex_grafeas ex_projects ex_manager ex_opa"

definition ex_world :: "nat world" where
  "ex_world = \<lparr>ext = 1, trace = []\<rparr>"

lemma ex_range_orders: "range_orders_ok ex_runtime"
  by (simp add: range_orders_ok_def ex_runtime_def)

lemma ex_manager_runtime: "runtime ex_manager = ex_runtime"
  by (simp add: ex_manager_def NewManager_def)

text \<open>A run that can be seen to return has a value and a world it returned in.\<close>

fun is_Ok :: "'a outcome \<Rightarrow> bool" where
  "is_Ok (Ok _) = True"
| "is_Ok (Err _) = False"
| "is_Ok (Panic _) = False"

lemma run_Ok: "is_Ok (fst (f s)) \<Longrightarrow> \<exists>x. f s = (Ok x, snd (f s))"
  by (cases "f s"; cases "fst (f s)") auto

section \<open>Evaluating a run\<close>

text \<open>The combinators as functions of the world: a continuation is unfolded when it is called.\<close>

lemma combinators_applied [code]:
  "ret x s = (Ok x, s)" "fail e s = (Err e, s)" "panic p s = (Panic p, s)"
  by simp_all

lemma attempt_applied [code]: "attempt f w k s = (case f s of
     (Ok x, s') \<Rightarrow> k x s' | (Err e, s') \<Rightarrow> (Err (w e), s') | (Panic p, s') \<Rightarrow> (Panic p, s'))"
  by (simp add: attempt_def)

lemma inspect_applied [code]: "inspect f k s = (case f s of
     (Ok x, s') \<Rightarrow> k (Inr x) s' | (Err e, s') \<Rightarrow> k (Inl e) s' | (Panic p, s') \<Rightarrow> (Panic p, s'))"
  by (simp add: inspect_def)

lemma external_applied [code]: "external ev f s = (case f (ext s) of (r, x) \<Rightarrow>
     ((case r of Inl e \<Rightarrow> Err e | Inr a \<Rightarrow> Ok a), s\<lparr>ext := x, trace := trace s @ [ev]\<rparr>))"
  by (simp add: external_def)

lemma draw_applied [code]: "draw f s = (case f (ext s) of (a, x) \<Rightarrow> (Ok a, s\<lparr>ext := x\<rparr>))"
  by (simp add: draw_def)

text \<open>The same for the handlers: each is unfolded when it is run, not when it is named.\<close>

lemmas handlers_applied [code] =
  Authenticate_def[THEN fun_cong] BatchCreateOccurrences_def[THEN fun_cong]
  BatchCreateResourceVersions_def[THEN fun_cong] BatchCreateResources_def[THEN fun_cong]
  CreateNote_def[THEN fun_cong] CreatePolicy_def[THEN fun_cong] CreatePolicyAssignment_def[THEN
  fun_cong] CreatePolicyGroup_def[THEN fun_cong] DeletePolicy_def[THEN fun_cong]
  DeletePolicyAssignment_def[THEN fun_cong] DeletePolicyGroup_def[THEN fun_cong]
  EvaluatePolicy_def[THEN fun_cong] EvaluateResource_def[THEN fun_cong]
  ExtListVersionedResourceOccurrences_def[THEN fun_cong] GetPolicy_def[THEN fun_cong]
  GetPolicyAssignment_def[THEN fun_cong] GetPolicyGroup_def[THEN fun_cong]
  GetPolicyVersion_def[THEN fun_cong] GetResource_def[THEN fun_cong]
  GetResourceEvaluation_def[THEN fun_cong] GetResourceVersion_def[THEN fun_cong]
  InitializePolicy_def[THEN fun_cong] ListOccurrences_def[THEN fun_cong] ListPolicies_def[THEN
  fun_cong] ListPolicyAssignments_def[THEN fun_cong] ListPolicyGroups_def[THEN fun_cong]
  ListPolicyVersions_def[THEN fun_cong] ListResourceEvaluations_def[THEN fun_cong]
  ListResourceVersions_def[THEN fun_cong] ListResources_def[THEN fun_cong]
  ListVersionedResourceOccurrences_def[THEN fun_cong] NewRodeServer_def[THEN fun_cong]
  OpaEvaluatePolicy_def[THEN fun_cong] RegisterCollector_def[THEN fun_cong]
  ServerListResourceVersions_def[THEN fun_cong] UpdateOccurrence_def[THEN fun_cong]
  UpdatePolicy_def[THEN fun_cong] UpdatePolicyAssignment_def[THEN fun_cong]
  UpdatePolicyGroup_def[THEN fun_cong] applyUpdate_def[THEN fun_cong] Authorize_def[THEN
  fun_cong] basic_def[THEN fun_cong] build_artifacts_def[THEN fun_cong]
  checkAssignmentTargets_def[THEN fun_cong] check_bulk_def[THEN fun_cong]
  check_credentials_def[THEN fun_cong] createNewVersion_def[THEN fun_cong] create_index_def[THEN
  fun_cong] create_missing_notes_def[THEN fun_cong] decode_policy_evaluations_def[THEN fun_cong]
  deref_def[THEN fun_cong] ensure_project_def[THEN fun_cong] evaluatePolicy_def[THEN fun_cong]
  evaluate_assignment_def[THEN fun_cong] evaluate_group_def[THEN fun_cong]
  fetchRelatedNotes_def[THEN fun_cong] getOpaPackagePath_def[THEN fun_cong] getPolicy_def[THEN
  fun_cong] hasPolicyContentChanges_def[THEN fun_cong] incrementPolicyVersion_def[THEN fun_cong]
  index_at_def[THEN fun_cong] initialize_def[THEN fun_cong] lift_def[THEN fun_cong]
  loadPolicy_def[THEN fun_cong] oidc_def[THEN fun_cong] parse_uri_def[THEN fun_cong]
  policyExists_def[THEN fun_cong] resourceVersionsFromOccurrence_def[THEN fun_cong]
  stamp_created_def[THEN fun_cong] storePolicy_def[THEN fun_cong] validateAssignment_def[THEN
  fun_cong] validateCreate_def[THEN fun_cong] validateUpdate_def[THEN fun_cong]
  validatePolicy_def[THEN fun_cong] validate_rpc_def[THEN fun_cong] serve_def[THEN fun_cong]

lemmas loops_applied [code] =
  attach_evaluations.simps[THEN fun_cong] attach_versions.simps[THEN fun_cong]
  check_found.simps[THEN fun_cong] collect_resources.simps[THEN fun_cong]
  collect_uris.simps[THEN fun_cong] collect_versions.simps[THEN fun_cong]
  collector_notes.simps[THEN fun_cong] for_each.simps[THEN fun_cong] handle.simps[THEN fun_cong]
  index_errors.simps[THEN fun_cong] resource_items.simps[THEN fun_cong] version_items.simps[THEN
  fun_cong]

text \<open>A run that is seen to return a value with a property.\<close>

lemma run_case: "(case fst r of Ok x \<Rightarrow> P x | _ \<Rightarrow> False) \<Longrightarrow> \<exists>x s'. r = (Ok x, s') \<and> P x"
  by (cases r) (auto split: outcome.splits)

end
