(* ===== verification/Example_Runs.thy ===== *)
theory Example_Runs
  imports Example_World Rode_History
begin

text \<open>
  The theorems at work on the concrete outside: for each property with hypotheses a run
  of the model that meets them. The runs are evaluated by the kernel.
\<close>

section \<open>Policies\<close>

definition ex_new_policy :: policy where
  "ex_new_policy = ex_policy\<lparr>p_Id := '''', p_Policy := Some ex_entity\<rparr>"

definition ex_update :: update_policy_request where
  "ex_update = \<lparr>upr_Policy = Some (ex_policy\<lparr>p_Policy := Some (ex_entity\<lparr>pe_RegoContent := ''package b''\<rparr>)\<rparr>)\<rparr>"

definition ex_list :: list_policies_request where
  "ex_list = \<lparr>lpr_Filter = '''', lpr_PageSize = 0, lpr_PageToken = ''''\<rparr>"

lemma ex_policy_runs:
  "is_Ok (fst (CreatePolicy ex_manager ex_new_policy ex_world))" (is ?A)
  "is_Ok (fst (GetPolicy ex_manager \<lparr>gpr_Id = ''p1.1''\<rparr> ex_world))" (is ?B)
  "is_Ok (fst (DeletePolicy ex_manager \<lparr>dpr_Id = ''p1''\<rparr> ex_world))" (is ?C)
  "is_Ok (fst (UpdatePolicy ex_manager ex_update ex_world))" (is ?D)
  "case fst (GetPolicy ex_manager \<lparr>gpr_Id = p_Id ex_policy\<rparr> ex_world) of Ok q \<Rightarrow> \<not> p_Deleted q | _ \<Rightarrow> False" (is ?E)
  "case fst (ListPolicies ex_manager ex_list ex_world) of Ok r \<Rightarrow> lps_Policies r \<noteq> [] | _ \<Rightarrow> False" (is ?F)
proof -
  have "?A \<and> ?B \<and> ?C \<and> ?D \<and> ?E \<and> ?F" by code_simp
  then show ?A ?B ?C ?D ?E ?F by blast+
qed

theorem ValidatePolicy_exact_witness:
  "ValidatePolicy ex_rego \<lparr>vpr_Policy = ''package a''\<rparr> =
     Ok (Some \<lparr>vps_Policy = ''package a'', vps_Compile = True, vps_Errors = []\<rparr>, None)
   \<and> (\<exists>res e. ValidatePolicy ex_rego \<lparr>vpr_Policy = ''bad''\<rparr> = Ok (res, Some e) \<and> status_code e = InvalidArgument)"
proof
  show "ValidatePolicy ex_rego \<lparr>vpr_Policy = ''package a''\<rparr> =
     Ok (Some \<lparr>vps_Policy = ''package a'', vps_Compile = True, vps_Errors = []\<rparr>, None)" by code_simp
  have bad: "rg_ParseModule ex_rego ''bad'' = Inl ''rego_parse_error''" by (simp add: ex_rego_def)
  from ValidatePolicy_exact [of ex_rego "\<lparr>vpr_Policy = ''bad''\<rparr>"] obtain res err where
    "ValidatePolicy ex_rego \<lparr>vpr_Policy = ''bad''\<rparr> = Ok (res, err)" "err \<noteq> None"
    "\<forall>e. err = Some e \<longrightarrow> status_code e = InvalidArgument"
    by (auto simp: bad)
  then show "\<exists>res e. ValidatePolicy ex_rego \<lparr>vpr_Policy = ''bad''\<rparr> = Ok (res, Some e)
      \<and> status_code e = InvalidArgument" by auto
qed

definition failing_rego :: rego_lib where
  "failing_rego = ex_rego\<lparr>rg_Compile := \<lambda>_. [''rego_type_error'']\<rparr>"

theorem ValidatePolicy_compile_errors_witness:
  "\<exists>r e. ValidatePolicy failing_rego \<lparr>vpr_Policy = ''package a''\<rparr> = Ok (Some r, Some e)
     \<and> length (vps_Errors r) = 2"
  using ValidatePolicy_compile_errors [of "\<lparr>vpr_Policy = ''package a''\<rparr>" failing_rego ex_module]
  by (auto simp: failing_rego_def ex_rego_def)

theorem CreatePolicy_exact_witness:
  "\<exists>q v s'. CreatePolicy ex_manager ex_new_policy ex_world = (Ok (q\<lparr>p_Policy := Some v\<rparr>), s') \<and>
     trace s' = [EsBulk (creation_request ex_manager q v)] \<and> p_Id q = ''u1'' \<and> pe_RegoContent v = ''package a''"
proof -
  have shapes: "parsed_shapes_ok (rego ex_manager)"
    by (auto simp: parsed_shapes_ok_def body_shaped_def ex_manager_def NewManager_def ex_rego_def ex_module_def
        split: if_splits)
  have parts: "p_Policy ex_new_policy = Some ex_entity" "p_Name ex_new_policy = ''no-high''"
    "pe_RegoContent ex_entity = ''package a''" "valid_source (rego ex_manager) ''package a''"
    by (auto simp: ex_new_policy_def ex_policy_def ex_entity_def valid_source_def ex_manager_def NewManager_def
        ex_rego_def ex_module_def rule_result_ok_def)
  have draws: "rt_Uuid (runtime ex_manager) (ext ex_world) = (''u1'', 2)" "rt_Now (runtime ex_manager) 2 = (Timestamp 2 0, 3)"
    unfolding ex_manager_runtime by code_simp+
  from run_Ok [of "CreatePolicy ex_manager ex_new_policy", OF ex_policy_runs(1)] obtain p where
    run: "CreatePolicy ex_manager ex_new_policy ex_world = (Ok p, snd (CreatePolicy ex_manager ex_new_policy ex_world))"
    by blast
  define q where "q = ex_new_policy\<lparr>p_Id := ''u1'', p_Created := Some (Timestamp 2 0),
    p_Updated := Some (Timestamp 2 0), p_CurrentVersion := 1, p_Policy := None\<rparr>"
  from CreatePolicy_exact [OF run shapes draws q_def] obtain v z where
    v: "v = ex_entity\<lparr>pe_Id := policyVersionId ''u1'' 1, pe_Version := 1,
      pe_Message := ''Initial policy creation'', pe_Created := Some (Timestamp 2 0)\<rparr>"
    and world: "snd (CreatePolicy ex_manager ex_new_policy ex_world) =
      ex_world\<lparr>ext := z, trace := trace ex_world @ [EsBulk (creation_request ex_manager q v)]\<rparr>"
    and p: "p = q\<lparr>p_Policy := Some v\<rparr>"
    by (auto simp: parts split: if_splits)
  have "trace (snd (CreatePolicy ex_manager ex_new_policy ex_world)) = [EsBulk (creation_request ex_manager q v)]"
    by (simp add: world) (simp add: ex_world_def)
  moreover have "pe_RegoContent v = ''package a''" "p_Id q = ''u1''" by (simp_all add: v parts q_def)
  ultimately show ?thesis using run p by blast
qed

lemma run_Err: "\<not> is_Ok (fst (f s)) \<Longrightarrow> (\<And>p. fst (f s) \<noteq> Panic p) \<Longrightarrow> \<exists>e. f s = (Err e, snd (f s))"
  by (cases "f s"; cases "fst (f s)") auto

lemma CreatePolicy_errors_witness:
  "\<exists>e. fst (CreatePolicy ex_manager (ex_new_policy\<lparr>p_Name := ''''\<rparr>) ex_world) = Err e \<and>
     status_code e = InvalidArgument"
proof -
  have "CreatePolicy ex_manager (ex_new_policy\<lparr>p_Name := ''''\<rparr>) ex_world
      = (Err (StatusError InvalidArgument ''policy name not provided'' None []), ex_world)"
    by (simp add: CreatePolicy_def)
  with CreatePolicy_errors [OF this] show ?thesis by (auto simp: ex_world_def)
qed

theorem GetPolicy_reads_version_witness:
  "\<exists>q. fst (GetPolicy ex_manager \<lparr>gpr_Id = ''p1.1''\<rparr> ex_world) = Ok q \<and> p_Policy q \<noteq> None"
proof -
  from run_Ok [of "GetPolicy ex_manager \<lparr>gpr_Id = ''p1.1''\<rparr>", OF ex_policy_runs(2)] obtain q s' where
    "GetPolicy ex_manager \<lparr>gpr_Id = ''p1.1''\<rparr> ex_world = (Ok q, s')" by blast
  with GetPolicy_reads_version [OF this] show ?thesis by auto
qed

theorem DeletePolicy_soft_witness:
  "\<exists>p. getPolicy ex_manager ''p1'' ex_world = (Ok p, snd (getPolicy ex_manager ''p1'' ex_world)) \<and>
     fst (DeletePolicy ex_manager \<lparr>dpr_Id = ''p1''\<rparr> ex_world) = Ok ()"
proof -
  from run_Ok [of "DeletePolicy ex_manager \<lparr>dpr_Id = ''p1''\<rparr>", OF ex_policy_runs(3)] obtain u s' where
    "DeletePolicy ex_manager \<lparr>dpr_Id = ''p1''\<rparr> ex_world = (Ok u, s')" by blast
  with DeletePolicy_soft [OF this] show ?thesis by auto
qed

theorem UpdatePolicy_Ok_witness:
  "\<exists>q cur evs. fst (UpdatePolicy ex_manager ex_update ex_world) = Ok q \<and>
     update_stored ex_manager (the (upr_Policy ex_update)) cur evs q \<and> \<not> p_Deleted cur"
proof -
  from run_Ok [of "UpdatePolicy ex_manager ex_update", OF ex_policy_runs(4)] obtain q s' where
    "UpdatePolicy ex_manager ex_update ex_world = (Ok q, s')" by blast
  with UpdatePolicy_Ok [OF this] show ?thesis by fastforce
qed

lemma UpdatePolicy_nil_entity_witness:
  "\<exists>p. fst (UpdatePolicy ex_manager \<lparr>upr_Policy = Some ex_policy\<rparr> ex_world) = Panic p"
proof -
  from run_case [OF ex_policy_runs(5)] obtain q s' where
    g: "GetPolicy ex_manager \<lparr>gpr_Id = p_Id ex_policy\<rparr> ex_world = (Ok q, s')" "\<not> p_Deleted q" by blast
  from UpdatePolicy_nil_entity [OF g] show ?thesis by (auto simp: ex_policy_def)
qed

theorem ListPolicies_current_versions_witness:
  "\<exists>response. fst (ListPolicies ex_manager ex_list ex_world) = Ok response \<and> lps_Policies response \<noteq> [] \<and>
     length (trace (snd (ListPolicies ex_manager ex_list ex_world))) = 2"
proof -
  from run_case [OF ex_policy_runs(6)] obtain q s' where
    l: "ListPolicies ex_manager ex_list ex_world = (Ok q, s')" and some: "lps_Policies q \<noteq> []" by blast
  from ListPolicies_current_versions [OF l] some have "length (trace s') = 2"
    by (elim exE conjE) (auto simp: ex_world_def split: if_splits)
  with l some show ?thesis by simp
qed

section \<open>Groups and assignments\<close>

definition ex_new_assignment :: policy_assignment where
  "ex_new_assignment = ex_assignment\<lparr>pa_Id := '''', pa_PolicyGroup := ''qa''\<rparr>"

lemma ex_group_runs:
  "is_Ok (fst (CreatePolicyGroup ex_manager (ex_group\<lparr>pg_Name := ''new''\<rparr>) ex_world))" (is ?A)
  "is_Ok (fst (UpdatePolicyGroup ex_manager (ex_group\<lparr>pg_Description := ''d''\<rparr>) ex_world))" (is ?B)
  "is_Ok (fst (CreatePolicyAssignment ex_manager ex_new_assignment ex_world))" (is ?C)
  "is_Ok (fst (UpdatePolicyAssignment ex_manager ex_assignment ex_world))" (is ?D)
proof -
  have "?A \<and> ?B \<and> ?C \<and> ?D" by code_simp
  then show ?A ?B ?C ?D by blast+
qed

theorem CreatePolicyGroup_Ok_witness:
  "\<exists>g. fst (CreatePolicyGroup ex_manager (ex_group\<lparr>pg_Name := ''new''\<rparr>) ex_world) = Ok g \<and> pg_Name g = ''new''"
proof -
  let ?g = "ex_group\<lparr>pg_Name := ''new''\<rparr>"
  from run_Ok [of "CreatePolicyGroup ex_manager ?g", OF ex_group_runs(1)] obtain q s' where
    "CreatePolicyGroup ex_manager ?g ex_world = (Ok q, s')" by blast
  with CreatePolicyGroup_Ok [OF this] show ?thesis by auto
qed

theorem UpdatePolicyGroup_Ok_witness:
  "\<exists>g. fst (UpdatePolicyGroup ex_manager (ex_group\<lparr>pg_Description := ''d''\<rparr>) ex_world) = Ok g \<and>
     pg_Description g = ''d''"
proof -
  let ?g = "ex_group\<lparr>pg_Description := ''d''\<rparr>"
  from run_Ok [of "UpdatePolicyGroup ex_manager ?g", OF ex_group_runs(2)] obtain q s' where
    "UpdatePolicyGroup ex_manager ?g ex_world = (Ok q, s')" by blast
  with UpdatePolicyGroup_Ok [OF this] show ?thesis by auto
qed

theorem CreatePolicyAssignment_Ok_witness:
  "\<exists>b. fst (CreatePolicyAssignment ex_manager ex_new_assignment ex_world) = Ok b \<and>
     pa_PolicyGroup b = ''qa'' \<and> pa_Created b = pa_Updated b"
proof -
  from run_Ok [of "CreatePolicyAssignment ex_manager ex_new_assignment", OF ex_group_runs(3)] obtain q s' where
    "CreatePolicyAssignment ex_manager ex_new_assignment ex_world = (Ok q, s')" by blast
  with CreatePolicyAssignment_Ok [OF this] show ?thesis by (auto simp: ex_new_assignment_def)
qed

theorem UpdatePolicyAssignment_Ok_witness:
  "\<exists>b. fst (UpdatePolicyAssignment ex_manager ex_assignment ex_world) = Ok b \<and>
     pa_PolicyVersionId b = ''p1.1'' \<and> pa_Updated b \<noteq> None"
proof -
  from run_Ok [of "UpdatePolicyAssignment ex_manager ex_assignment", OF ex_group_runs(4)] obtain q s' where
    "UpdatePolicyAssignment ex_manager ex_assignment ex_world = (Ok q, s')" by blast
  with UpdatePolicyAssignment_Ok [OF this] show ?thesis by (auto simp: ex_assignment_def)
qed

section \<open>Resources\<close>

lemma ex_resource_runs:
  "is_Ok (fst (BatchCreateResources ex_manager [ex_build] ex_world))" (is ?A)
  "length (trace (snd (BatchCreateResources ex_manager [ex_build] ex_world))) = 1" (is ?B)
proof -
  have "?A \<and> ?B" by code_simp
  then show ?A ?B by blast+
qed

theorem BatchCreateResources_Ok_witness:
  "\<exists>rs :: (string \<times> resource) list. trace (snd (BatchCreateResources ex_manager [ex_build] ex_world)) =
     [EsMultiGet \<lparr>mg_Index = resourcesAlias ex_manager, mg_DocumentIds = map fst rs, mg_Items = []\<rparr>]"
proof -
  from run_Ok [of "BatchCreateResources ex_manager [ex_build]", OF ex_resource_runs(1)] obtain u where
    u: "BatchCreateResources ex_manager [ex_build] ex_world
      = (Ok u, snd (BatchCreateResources ex_manager [ex_build] ex_world))" by blast
  from BatchCreateResources_Ok [OF u] obtain rs docs where
    "trace (snd (BatchCreateResources ex_manager [ex_build] ex_world)) = trace ex_world @
      EsMultiGet \<lparr>mg_Index = resourcesAlias ex_manager, mg_DocumentIds = map fst rs, mg_Items = []\<rparr> #
      (if missing docs rs = [] then [] else [EsBulk (resources_bulk ex_manager (map resource_item (missing docs rs)))])"
    by blast
  with ex_resource_runs(2) have "trace (snd (BatchCreateResources ex_manager [ex_build] ex_world)) =
     [EsMultiGet \<lparr>mg_Index = resourcesAlias ex_manager, mg_DocumentIds = map fst rs, mg_Items = []\<rparr>]"
    by (simp add: ex_world_def split: if_splits)
  then show ?thesis by blast
qed

theorem resourceVersionsFromOccurrence_panics_witness:
  "\<exists>p s'. resourceVersionsFromOccurrence (ex_build\<lparr>o_Details := None\<rparr>) ex_world = (Panic p, s')"
  using resourceVersionsFromOccurrence_panics [of "ex_build\<lparr>o_Details := None\<rparr>" ex_world]
  by (simp add: ex_build_def)

section \<open>Open Policy Agent and Grafeas\<close>

lemma ex_opa_runs:
  "is_Ok (fst (InitializePolicy ex_opa ''p1'' ''package a'' ex_world))" (is ?A)
  "policyExists ex_opa ''p1'' ex_world = (Ok False, snd (policyExists ex_opa ''p1'' ex_world))" (is ?B)
  "package_lines ''package a.b'' = [''package a.b'']" (is ?C)
  "is_Ok (fst (ExtListVersionedResourceOccurrences (NewExtensions ex_grafeas ex_runtime) ex_uri [] 10 ex_world))" (is ?D)
proof -
  have "?A \<and> ?B \<and> ?C \<and> ?D" by code_simp
  then show ?A ?B ?C ?D by blast+
qed

theorem InitializePolicy_exact_witness:
  "InitializePolicy ex_opa ''p1'' ''package a'' ex_world = (Ok (), ex_world\<lparr>trace :=
     [HttpGet ''http://opa/v1/policies/p1'', HttpPut ''http://opa/v1/policies/p1'' ''package a'']\<rparr>)"
proof -
  let ?found = "\<lparr>http_StatusCode = 404, http_Status = [], http_Body = []\<rparr> :: http_response"
  let ?taken = "\<lparr>http_StatusCode = 200, http_Status = [], http_Body = []\<rparr> :: http_response"
  have parts: "Host ex_opa = ''http://opa''" "hc_NewRequest (httpClient ex_opa) u = None"
    "hc_Get (httpClient ex_opa) u t = (Inr ?found, t)" "hc_Put (httpClient ex_opa) u b t = (Inr ?taken, t)" for u b t
    by (simp_all add: ex_opa_def ex_http_def NewOpaClient_def)
  obtain out s' where run: "InitializePolicy ex_opa ''p1'' ''package a'' ex_world = (out, s')" by fastforce
  from InitializePolicy_exact [OF parts(3) parts(4) refl run]
  have "out = Ok ()" "s' = ex_world\<lparr>trace := [HttpGet ''http://opa/v1/policies/p1'',
      HttpPut ''http://opa/v1/policies/p1'' ''package a'']\<rparr>"
    by (simp_all add: parts) (simp_all add: ex_world_def)
  with run show ?thesis by simp
qed

theorem getOpaPackagePath_exact_witness:
  "\<exists>path. getOpaPackagePath ''package a.b'' ex_world = (Ok path, ex_world) \<and> CHR ''.'' \<notin> set path"
  using getOpaPackagePath_exact [of "''package a.b''" ex_world] ex_opa_runs(3) by auto

theorem ExtList_Ok_witness:
  "length (trace (snd (ExtListVersionedResourceOccurrences (NewExtensions ex_grafeas ex_runtime) ex_uri '''' 10
     ex_world))) = 2"
proof -
  let ?run = "ExtListVersionedResourceOccurrences (NewExtensions ex_grafeas ex_runtime) ex_uri '''' 10"
  from run_Ok [of ?run, OF ex_opa_runs(4)] obtain occs tok where
    u: "?run ex_world = (Ok (occs, tok), snd (?run ex_world))" by fastforce
  have "range_orders_ok (extensions.ex_runtime (NewExtensions ex_grafeas ex_runtime))"
    by (simp add: NewExtensions_def ex_range_orders)
  from ExtList_Ok [OF u this refl] show ?thesis by (auto simp: ex_world_def)
qed

section \<open>Evaluations\<close>

abbreviation ex_evaluations :: "nat evaluation_manager" where
  "ex_evaluations \<equiv> NewEvaluationManager ex_manager (NewExtensions ex_grafeas ex_runtime) ex_opa"

definition ex_evaluate :: evaluate_policy_request where
  "ex_evaluate = \<lparr>epr_Policy = ''p1'', epr_ResourceUri = ex_uri\<rparr>"

definition ex_evaluate_resource :: resource_evaluation_request where
  "ex_evaluate_resource = \<lparr>rer_ResourceUri = ex_uri, rer_PolicyGroup = ''dev'', rer_Source = None\<rparr>"

definition ex_list_evaluations :: list_resource_evaluations_request where
  "ex_list_evaluations = \<lparr>lre_ResourceUri = ex_uri, lre_Filter = '''', lre_PageSize = 0, lre_PageToken = ''''\<rparr>"

lemma ex_evaluation_runs:
  "is_Ok (fst (EvaluatePolicy ex_evaluations ex_evaluate ex_world))" (is ?A)
  "case fst (ListResourceEvaluations ex_evaluations ex_list_evaluations ex_world) of
     Ok r \<Rightarrow> lres_ResourceEvaluations r \<noteq> [] | _ \<Rightarrow> False" (is ?B)
proof -
  have "?A \<and> ?B" by code_simp
  then show ?A ?B by blast+
qed

theorem EvaluatePolicy_Ok_witness:
  "\<exists>response. fst (EvaluatePolicy ex_evaluations ex_evaluate ex_world) = Ok response \<and>
     map eres_Pass (ersp_Result response) = [ersp_Pass response]"
proof -
  from run_Ok [of "EvaluatePolicy ex_evaluations ex_evaluate", OF ex_evaluation_runs(1)] obtain q s' where
    "EvaluatePolicy ex_evaluations ex_evaluate ex_world = (Ok q, s')" by blast
  with EvaluatePolicy_Ok [OF this] show ?thesis by auto
qed

lemma ex_bulk_run: "es_bulk ex_manager q s =
   (Ok \<lparr>brs_Items = map (\<lambda>_. \<lparr>bri_Create = None, bri_Index = Some \<lparr>bs_Status = 201, bs_Error = None\<rparr>\<rparr>) (br_Items q)\<rparr>,
    s\<lparr>trace := trace s @ [EsBulk q]\<rparr>)"
  by (simp add: external_def ex_manager_def NewManager_def ex_es_def)

lemma ex_draws: "new_uuid ex_manager s = (Ok (''u'' @ format_nat (ext s)), s\<lparr>ext := Suc (ext s)\<rparr>)"
  "now ex_manager s = (Ok (Timestamp (int (ext s)) 0), s\<lparr>ext := Suc (ext s)\<rparr>)"
  by (simp_all add: draw_def ex_manager_def NewManager_def ex_runtime_def)

lemma ex_evaluate_group:
  "is_Ok (fst (evaluate_group ex_evaluations ex_evaluate_resource v grp [ex_assignment]
     (snd (ListPolicyAssignments ex_manager \<lparr>lar_Filter = '''', lar_PageSize = 0, lar_PageToken = '''', lar_PolicyId = '''', lar_PolicyGroup = ''dev''\<rparr>
        (snd (GetPolicyGroup ex_manager \<lparr>ggr_Name = ''dev''\<rparr> (snd (GetResourceVersion ex_manager ex_uri ex_world))))))))"
  (is "is_Ok (fst (evaluate_group _ _ _ _ _ ?s))")
proof -
  let ?a = "ExtListVersionedResourceOccurrences (NewExtensions ex_grafeas ex_runtime) ex_uri '''' (of_nat MaxPageSize) ?s"
  have a: "fst ?a = Ok ([ex_build], '''') \<and> ext (snd ?a) = 1 \<and> is_Ok (fst (for_each [ex_assignment] (True, [])
     (evaluate_assignment ex_evaluations (''u'' @ format_nat 1) [ex_build]) ((snd ?a)\<lparr>ext := 3\<rparr>)))" by code_simp
  then obtain s1 where s1: "?a = (Ok ([ex_build], []), s1)" "ext s1 = 1" by (metis prod.collapse)
  from a [THEN conjunct2, THEN conjunct2, unfolded s1(1)] obtain pass evals s2 where
    b: "for_each [ex_assignment] (True, []) (evaluate_assignment ex_evaluations (''u'' @ format_nat 1) [ex_build])
       (s1\<lparr>ext := 3\<rparr>) = (Ok (pass, evals), s2)"
    by (metis is_Ok.elims(2) snd_conv prod.collapse)
  have base: "ev_base ex_evaluations = ex_manager" "ev_ListVersionedResourceOccurrences ex_evaluations =
     ExtListVersionedResourceOccurrences (NewExtensions ex_grafeas ex_runtime)"
    "rer_ResourceUri ex_evaluate_resource = ex_uri"
    by (simp_all add: NewEvaluationManager_def ex_evaluate_resource_def)
  have "\<exists>x s'. evaluate_group ex_evaluations ex_evaluate_resource v grp [ex_assignment] ?s = (Ok x, s')"
    using b unfolding evaluate_group_def base
    by (simp add: attempt_Ok Let_def s1(1) ex_draws ex_bulk_run s1(2) CheckBulkResponseErrors_None
        bulk_item_error_def numeral_eq_Suc del: for_each.simps)
  then show ?thesis by auto
qed

lemma ex_EvaluateResource: "is_Ok (fst (EvaluateResource ex_evaluations ex_evaluate_resource ex_world))"
proof -
  let ?q = "\<lparr>lar_Filter = [], lar_PageSize = 0, lar_PageToken = [], lar_PolicyId = [], lar_PolicyGroup = ''dev''\<rparr>"
  let ?a = "GetResourceVersion ex_manager ex_uri ex_world"
  let ?b = "GetPolicyGroup ex_manager \<lparr>ggr_Name = ''dev''\<rparr> (snd ?a)"
  let ?c = "ListPolicyAssignments ex_manager ?q (snd ?b)"
  have "is_Ok (fst ?a) \<and> fst ?b = Ok ex_group \<and>
    fst ?c = Ok \<lparr>las_PolicyAssignments = [ex_assignment], las_NextPageToken = []\<rparr>"
    by code_simp
  then obtain v s1 s2 s3 where runs: "?a = (Ok v, s1)" "GetPolicyGroup ex_manager \<lparr>ggr_Name = ''dev''\<rparr> s1 = (Ok ex_group, s2)"
    "ListPolicyAssignments ex_manager ?q s2 = (Ok \<lparr>las_PolicyAssignments = [ex_assignment], las_NextPageToken = []\<rparr>, s3)"
    by (metis is_Ok.elims(2) prod.collapse snd_conv)
  from ex_evaluate_group [of v "''dev''"] have "is_Ok (fst (evaluate_group ex_evaluations ex_evaluate_resource v ''dev'' [ex_assignment] s3))"
    by (simp add: runs)
  then show ?thesis
    using runs unfolding EvaluateResource_def
    by (simp add: attempt_def NewEvaluationManager_def ex_evaluate_resource_def ex_uri_def ex_group_def)
qed

theorem EvaluateResource_records_witness:
  "\<exists>result version grp las events. fst (EvaluateResource ex_evaluations ex_evaluate_resource ex_world) = Ok result \<and>
     las \<noteq> [] \<and> evaluation_recorded ex_evaluations ex_evaluate_resource version grp las result events"
proof -
  from run_Ok [of "EvaluateResource ex_evaluations ex_evaluate_resource", OF ex_EvaluateResource]
  obtain q s' where "EvaluateResource ex_evaluations ex_evaluate_resource ex_world = (Ok q, s')" by blast
  with EvaluateResource_records [OF this] show ?thesis by fastforce
qed

lemma ListResourceEvaluations_pairs_witness:
  "\<exists>response (evaluations :: resource_evaluation list).
     fst (ListResourceEvaluations ex_evaluations ex_list_evaluations ex_world) = Ok response \<and>
     map rres_ResourceEvaluation (lres_ResourceEvaluations response) = map Some evaluations"
proof -
  from run_case [OF ex_evaluation_runs(2)] obtain q s' where
    l: "ListResourceEvaluations ex_evaluations ex_list_evaluations ex_world = (Ok q, s')"
    and "lres_ResourceEvaluations q \<noteq> []" by blast
  from ListResourceEvaluations_pairs [OF this] l show ?thesis by auto
qed

section \<open>Configuration and access\<close>

definition ex_auth :: auth_config where
  "ex_auth = \<lparr>ac_Enabled = True, ac_Basic = \<lparr>bac_Username = ''u'', bac_Password = ''p''\<rparr>,
     ac_OIDC = \<lparr>oac_Issuer = '''', oac_RequiredAudience = '''', oac_RoleClaimPath = '''',
               oac_TlsInsecureSkipVerify = False, oac_Verifier = None\<rparr>\<rparr>"

definition ex_flags :: config where
  "ex_flags = \<lparr>cf_Auth = ex_auth\<lparr>ac_Enabled := False\<rparr>,
     cf_Elasticsearch = \<lparr>esc_Host = ''es'', esc_Username = '''', esc_Password = '''', esc_Refresh = ''true''\<rparr>,
     cf_GrafeasHost = ''g'', cf_OpaHost = ''o'', cf_Port = 50051, cf_Debug = False\<rparr>"

theorem Build_config_ok_witness:
  "\<exists>c. Build (\<lambda>_ _. Inl (ErrorNew ''unreachable'')) (Inr ex_flags) = Inr c \<and> config_ok c \<and> ac_Enabled (cf_Auth c)"
proof -
  have "Build (\<lambda>_ _. Inl (ErrorNew ''unreachable'')) (Inr ex_flags) = Inr (ex_flags\<lparr>cf_Auth := ex_auth\<rparr>)"
    by (simp add: Build_def check_flags_def ConfigIsValid_def ex_flags_def ex_auth_def RefreshTrue_def
        one_without_other_def set_enabled_def Let_def)
  with Build_config_ok [OF this] show ?thesis by (simp add: ex_flags_def ex_auth_def)
qed

definition strip_scheme :: "string \<Rightarrow> string \<Rightarrow> go_error + string" where
  "strip_scheme header scheme =
     (if scheme = ''basic'' \<and> has_prefix header ''Basic '' then Inr (drop 6 header)
      else if scheme = ''bearer'' \<and> has_prefix header ''Bearer '' then Inr (drop 7 header)
      else Inl (StatusError Unauthenticated ''Bad authorization string'' None []))"

definition ex_subset :: "string list \<Rightarrow> string list \<Rightarrow> bool" where
  "ex_subset s t = list_all (\<lambda>x. List.member s x) t"

text \<open>A verifier that accepts any token until time 10, and moves the clock when asked.\<close>

definition ex_oidc :: "nat oidc_lib" where
  "ex_oidc = \<lparr>ol_Verify = \<lambda>_ token t. (if t < 10 then Inr token else Inl (ErrorNew ''token is expired''), Suc t),
     ol_Claims = \<lambda>token. Inr token\<rparr>"

definition ex_authn :: "nat authenticator" where
  "ex_authn = fst (wired ex_auth strip_scheme ex_oidc (\<lambda>_ _. None) ex_subset)"

definition ex_authz :: authorization_interceptor where
  "ex_authz = snd (wired ex_auth strip_scheme ex_oidc (\<lambda>_ _. None) ex_subset)"

text \<open>The table of permissions as it is once loaded, so that a run does not load it.\<close>

lemma load_methods_fresh:
  "distinct (map fst methods) \<Longrightarrow> list_all (\<lambda>(n, a). a \<noteq> None) methods \<Longrightarrow>
     (\<And>n. n \<in> fst ` set methods \<Longrightarrow> ''/'' @ service @ ''/'' @ n \<notin> fst ` set table) \<Longrightarrow>
     load_methods service methods table = table @ map (\<lambda>(n, a). (''/'' @ service @ ''/'' @ n, the a)) methods"
proof (induction service methods table rule: load_methods.induct)
  case (2 service n a methods table)
  then obtain ps where a: "a = Some ps" by auto
  have fresh: "''/'' @ service @ ''/'' @ n \<notin> fst ` set table" using "2.prems"(3) by simp
  have "load_methods service methods (table @ [(''/'' @ service @ ''/'' @ n, ps)]) =
      (table @ [(''/'' @ service @ ''/'' @ n, ps)]) @ map (\<lambda>(n, a). (''/'' @ service @ ''/'' @ n, the a)) methods"
  proof (rule "2.IH" [unfolded a option.case alist_put_new [OF fresh]])
    show "distinct (map fst methods)" "list_all (\<lambda>(n, a). a \<noteq> None) methods" using "2.prems" by simp_all
    fix n' assume "n' \<in> fst ` set methods"
    with "2.prems"(1,3) show "''/'' @ service @ ''/'' @ n' \<notin> fst ` set (table @ [(''/'' @ service @ ''/'' @ n, ps)])"
      by auto
  qed
  then show ?case unfolding load_methods.simps a option.case alist_put_new [OF fresh] by simp
qed simp

lemma ex_access_loaded [code]:
  "ex_authn = \<lparr>at_authConfig = ex_auth, at_GetRoleByName = GetRoleByName, at_AuthFromMD = strip_scheme,
     at_Oidc = ex_oidc, at_ClaimPath = \<lambda>_ _. None\<rparr>"
  "ex_authz = \<lparr>ai_authConfig = ex_auth, ai_GetRolePermissions = GetRolePermissions,
     ai_methodPermissions = map (\<lambda>(n, a). (full_method n, the a)) rode_methods, ai_IsSubset = ex_subset\<rparr>"
  using load_methods_fresh [OF rode_methods_distinct rode_methods_protected, of rodeService "[]"]
  by (simp_all add: ex_authn_def ex_authz_def wired_def full_method_def)

lemma ex_wired: "wired ex_auth strip_scheme ex_oidc (\<lambda>_ _. None) ex_subset = (ex_authn, ex_authz)"
  by (simp add: ex_authn_def ex_authz_def)

lemma ex_subset_iff: "ex_subset s t \<longleftrightarrow> set t \<subseteq> set s"
  by (auto simp: ex_subset_def list_all_iff)

lemma ex_enabled: "ac_Enabled ex_auth"
  by (simp add: ex_auth_def)

lemma ex_authn_simps: "at_GetRoleByName ex_authn = GetRoleByName" "at_authConfig ex_authn = ex_auth"
  "at_AuthFromMD ex_authn = strip_scheme"
  by (simp_all add: ex_authn_def wired_def)

definition ex_rpc :: rpc where
  "ex_rpc = RpcGetPolicy \<lparr>gpr_Id = ''p1''\<rparr>"

definition ex_oidc_auth :: auth_config where
  "ex_oidc_auth = \<lparr>ac_Enabled = True, ac_Basic = \<lparr>bac_Username = '''', bac_Password = ''''\<rparr>,
     ac_OIDC = \<lparr>oac_Issuer = ''https://issuer'', oac_RequiredAudience = '''', oac_RoleClaimPath = ''roles'',
               oac_TlsInsecureSkipVerify = False,
               oac_Verifier = Some \<lparr>vf_Provider = ''https://issuer'', vf_Config = verifier_config ''''\<rparr>\<rparr>\<rparr>"

definition ex_oidc_authn :: "nat authenticator" where
  "ex_oidc_authn = fst (wired ex_oidc_auth strip_scheme ex_oidc
     (\<lambda>_ _. Some [ClaimString ''Enforcer'', ClaimString ''Visitor'']) ex_subset)"

lemma ex_oidc_run:
  "fst (Authenticate ex_oidc_authn (call_context ''Bearer t'' ex_rpc) ex_world) =
     Ok \<lparr>cx_Authorization = ''Bearer t'', cx_Method = Some (full_method ''GetPolicy''), cx_Roles = Some [''Enforcer'']\<rparr>"
  "ext (snd (Authenticate ex_oidc_authn (call_context ''Bearer t'' ex_rpc) ex_world)) = Suc (ext ex_world)"
  by code_simp+

lemma ex_oidc_authn_simps: "at_GetRoleByName ex_oidc_authn = GetRoleByName" "at_authConfig ex_oidc_authn = ex_oidc_auth"
  "at_AuthFromMD ex_oidc_authn = strip_scheme" "at_Oidc ex_oidc_authn = ex_oidc"
  "at_ClaimPath ex_oidc_authn claims path = Some [ClaimString ''Enforcer'', ClaimString ''Visitor'']"
  by (simp_all add: ex_oidc_authn_def wired_def)


lemma ex_auth_from_md: "auth_from_md_ok ex_authn"
  by (simp add: auth_from_md_ok_def ex_authn_simps strip_scheme_def has_prefix_def)

definition ex_header :: string where
  "ex_header = ''Basic '' @ EncodeToString ''u:p''"

theorem basic_auth_round_trip_witness:
  "Authenticate ex_authn (call_context ex_header (RpcGetPolicy \<lparr>gpr_Id = ''p1''\<rparr>)) ex_world =
     (Ok (with_roles [RoleAdministrator] (call_context ex_header (RpcGetPolicy \<lparr>gpr_Id = ''p1''\<rparr>))), ex_world)"
proof -
  let ?c = "call_context ex_header (RpcGetPolicy \<lparr>gpr_Id = ''p1''\<rparr>)"
  have "GetRequestMetadata (\<lambda>_ _ t. (Inr '''', t)) '''' (newBasicAuth (ac_Basic (at_authConfig ex_authn)) False) ex_world
      = (Ok [(''authorization'', cx_Authorization ?c)], ex_world)"
    unfolding client_header by (simp add: ex_authn_simps ex_auth_def ex_header_def call_context_def)
  from basic_auth_round_trip [OF ex_auth_from_md _ _ this] show ?thesis
    by (simp add: ex_authn_simps ex_auth_def)
qed

definition ex_basic :: basic_auth_config where
  "ex_basic = \<lparr>bac_Username = ''u'', bac_Password = ''p''\<rparr>"

definition ex_client :: client_config where
  "ex_client = SetupRodeClientFlags\<lparr>cc_BasicAuth := Some ex_basic\<rparr>"

definition ex_rode :: rode_client_config where
  "ex_rode = \<lparr>rcc_Host = ''rode:50051'', rcc_DisableTransportSecurity = False\<rparr>"

theorem dial_options_Ok_witness:
  "\<exists>opts. fst (dial_options (\<lambda>_ _ t. (Inr [], t)) ex_client ex_rode [] ex_world) = Ok opts \<and>
     credentials_of opts = [newBasicAuth ex_basic False]"
proof -
  let ?run = "dial_options (\<lambda>_ _ t. (Inr [], t)) ex_client ex_rode []"
  have "is_Ok (fst (?run ex_world))" by code_simp
  from run_Ok [of ?run, OF this] obtain opts s' where run: "?run ex_world = (Ok opts, s')" by blast
  have c: "cc_BasicAuth ex_client = Some ex_basic" "basicAuthIsConfigured ex_client"
    "\<not> oidcAuthIsConfigured ex_client" "\<not> cc_ProxyAuth ex_client" "\<not> rcc_DisableTransportSecurity ex_rode"
    by code_simp+
  from dial_options_Ok [OF run] c have "credentials_of opts = [newBasicAuth ex_basic False]" by simp
  with run show ?thesis by simp
qed

section \<open>The service\<close>

definition ex_register :: register_collector_request where
  "ex_register = \<lparr>rcr_Id = ''c'', rcr_Notes = [ex_note]\<rparr>"

definition ex_create_rpc :: rpc where
  "ex_create_rpc = RpcCreatePolicy ex_new_policy"

lemma ex_server_runs:
  "is_Ok (fst (BatchCreateOccurrences ex_server \<lparr>bco_Occurrences = [ex_build]\<rparr> ex_world))" (is ?A)
  "is_Ok (fst (RegisterCollector ex_server ex_register ex_world))" (is ?B)
  "\<exists>ev\<in>set (trace (snd (serve ex_authn ex_authz ex_server ex_header ex_create_rpc ex_world))). es_write ev" (is ?C)
proof -
  have "?A \<and> ?B \<and> ?C" by code_simp
  then show ?A ?B ?C by blast+
qed

theorem BatchCreateOccurrences_Ok_witness:
  "\<exists>stored. fst (BatchCreateOccurrences ex_server \<lparr>bco_Occurrences = [ex_build]\<rparr> ex_world)
     = Ok \<lparr>bcos_Occurrences = stored\<rparr>"
proof -
  let ?run = "BatchCreateOccurrences ex_server \<lparr>bco_Occurrences = [ex_build]\<rparr>"
  from run_Ok [of ?run, OF ex_server_runs(1)] obtain q s' where run: "?run ex_world = (Ok q, s')" by blast
  from BatchCreateOccurrences_Ok [OF run] run show ?thesis by auto
qed

theorem RegisterCollector_Ok_witness:
  "\<exists>response. fst (RegisterCollector ex_server ex_register ex_world) = Ok response \<and>
     map fst (rcs_Notes response) = [buildNoteIdFromCollectorId ''c'' ex_note]"
proof -
  from run_Ok [of "RegisterCollector ex_server ex_register", OF ex_server_runs(2)] obtain q s' where
    run: "RegisterCollector ex_server ex_register ex_world = (Ok q, s')" by blast
  from RegisterCollector_Ok [OF run] run show ?thesis by (simp add: ex_register_def Let_def)
qed

theorem history_kept_witness:
  "\<exists>events. trace (snd (serve ex_authn ex_authz ex_server ex_header ex_create_rpc ex_world)) = events \<and>
     list_all (write_ok ex_manager) events"
proof -
  have "lives ex_authn ex_authz ex_server ex_world
      (snd (serve ex_authn ex_authz ex_server ex_header ex_create_rpc ex_world))"
    by (intro lives.intros)
  from history_kept [OF this [unfolded ex_server_def]] show ?thesis
    by (simp add: ex_server_def ex_world_def)
qed

theorem serve_access_witness:
  "\<exists>e. serve ex_authn ex_authz ex_server [] ex_create_rpc ex_world = (Err e, ex_world) \<and>
     status_code e = PermissionDenied"
proof -
  have a: "Authenticate ex_authn (call_context [] ex_create_rpc) ex_world
      = (Ok (with_roles [RoleAnonymous] (call_context [] ex_create_rpc)), ex_world)"
    by (simp add: Authenticate_def call_context_def)
  have "\<not> set (required_permissions ex_create_rpc) \<subseteq> caller_permissions [RoleAnonymous]"
    by (simp add: caller_permissions_def) code_simp
  then have "\<not> granted ex_create_rpc (with_roles [RoleAnonymous] (call_context [] ex_create_rpc))"
    by (simp add: granted_def with_roles_def)
  with serve_access [OF ex_wired ex_subset_iff ex_enabled a, of ex_server]
  show ?thesis by simp
qed

theorem anonymous_reads_only_witness:
  "\<exists>es. trace (snd (serve ex_authn ex_authz ex_server [] (RpcGetPolicy \<lparr>gpr_Id = ''p1''\<rparr>) ex_world)) = es \<and>
     list_all (\<lambda>ev. \<not> mutating ev) es"
proof -
  have "reads_only (serve ex_authn ex_authz ex_server [] (RpcGetPolicy \<lparr>gpr_Id = ''p1''\<rparr>))"
    unfolding ex_server_def by (rule anonymous_reads_only [OF ex_wired ex_subset_iff ex_enabled])
  then show ?thesis
    unfolding emits_def by (metis append_Nil ex_world_def world.select_convs(2))
qed

theorem only_storing_roles_store_witness:
  "\<exists>ctx rs. fst (Authenticate ex_authn (call_context ex_header ex_create_rpc) ex_world) = Ok ctx \<and>
     cx_Roles ctx = Some rs \<and> set rs \<inter> storing_roles \<noteq> {}"
proof -
  let ?run = "serve ex_authn ex_authz ex_server ex_header ex_create_rpc ex_world"
  note ex_server_runs(3)
  moreover have "trace (snd ?run) = trace ex_world @ trace (snd ?run)" by (simp add: ex_world_def)
  ultimately show ?thesis
    using only_storing_roles_store [OF ex_wired ex_subset_iff ex_enabled, where header = ex_header
        and request = ex_create_rpc and s = ex_world and g = ex_grafeas and p = ex_projects and m = ex_manager
        and opa = ex_opa and reply = "fst ?run" and s' = "snd ?run" and events = "trace (snd ?run)"]
    by (simp add: ex_server_def)
qed

end
