(* ===== verification/Example_Process.thy ===== *)
theory Example_Process
  imports Rode_Calls Rode_Main Http_Gateway_Server Example_Runs
begin

text \<open>
  A concrete runtime library of the gateway and a concrete process, for the witnesses: bodies
  are empty, query parameters are ignored, every HTTP request is for
  \<open>GET /v1alpha1/policies/p1.1\<close>, and the process finds the outside of \<open>Example_World\<close>.
\<close>

definition ex_lib :: gateway_lib where
  "ex_lib = \<lparr>gd_BatchCreateOccurrences = \<lambda>_. NoBody, gd_EvaluatePolicy = \<lambda>_. NoBody,
     gd_Occurrence = \<lambda>_. NoBody, gd_Policy = \<lambda>_. NoBody, gd_ValidatePolicy = \<lambda>_. NoBody,
     gd_RegisterCollector = \<lambda>_. NoBody, gd_Note = \<lambda>_. NoBody, gd_PolicyGroup = \<lambda>_. NoBody,
     gd_PolicyAssignment = \<lambda>_. NoBody, gd_EvaluateResource = \<lambda>_. NoBody,
     gq_ListResources = \<lambda>_ _. Inr, gq_ListResourceVersions = \<lambda>_ _. Inr,
     gq_ListVersionedResourceOccurrences = \<lambda>_ _. Inr, gq_ListOccurrences = \<lambda>_ _. Inr,
     gq_UpdateOccurrence = \<lambda>_ _. Inr, gq_ListPolicies = \<lambda>_ _. Inr, gq_ListPolicyVersions = \<lambda>_ _. Inr,
     gq_CreateNote = \<lambda>_ _. Inr, gq_ListPolicyGroups = \<lambda>_ _. Inr,
     gq_ListPolicyAssignments = \<lambda>_ _. Inr, gq_ListResourceEvaluations = \<lambda>_ _. Inr,
     gl_String = Inr,
     gl_PolicyIdFromPath = \<lambda>v q. Inr (q\<lparr>upr_Policy :=
        Some ((case upr_Policy q of None \<Rightarrow> zero_policy | Some p \<Rightarrow> p)\<lparr>p_Id := v\<rparr>)\<rparr>),
     gl_FieldMask = \<lambda>_ _. Inr [],
     gl_Annotate = \<lambda>_ _ _. Inr ex_header, gl_AnnotateIncoming = \<lambda>_ _ _. Inr ex_header,
     gl_Match = \<lambda>routes _. if 8 < length routes then Inr (8, [(''id'', ''p1.1'')])
        else Inl (StatusError NotFound ''Not Found'' None [])\<rparr>"

definition ex_get :: http_request where
  "ex_get = \<lparr>hr_Body = Inr '''', hr_Form = Inr []\<rparr>"

lemma ex_lib_ok: "library_ok ex_lib"
  by (auto simp: library_ok_def ex_lib_def split: if_split_asm)

theorem path_parameters_win_witness:
  "\<exists>q. route_request (rode_routes ! 8) ex_lib ex_get [(''id'', ''p1.1'')] = Inr q \<and>
     map_of (path_fields q) ''id'' = Some ''p1.1''"
proof -
  have rt: "rode_routes ! 8 = (''GET'', ''pattern_Rode_GetPolicy_0'', ''/rode.v1alpha1.Rode/GetPolicy'',
       ''/v1alpha1/policies/{id}'', request_Rode_GetPolicy_0)"
    by (simp add: rode_routes_all)
  have mem: "rode_routes ! 8 \<in> set rode_routes" by (rule nth_mem) (simp add: rode_routes_all)
  have run: "route_request (rode_routes ! 8) ex_lib ex_get [(''id'', ''p1.1'')] = Inr (RpcGetPolicy \<lparr>gpr_Id = ''p1.1''\<rparr>)"
    unfolding rt by (simp add: route_request_def request_Rode_GetPolicy_0_def path_param_def ex_lib_def and_then_def)
  have captured: "''id'' \<in> set (captures (rode_routes ! 8))"
    unfolding rt by (simp add: captures_def route_pattern_def rode_patterns_def)
  from path_parameters_win [OF ex_lib_ok mem run captured] run show ?thesis by simp
qed

theorem serve_http_is_serve_witness:
  "\<exists>header q reply. serve ex_authn ex_authz ex_server header q ex_world
     = serve_http ex_lib ex_authn ex_authz ex_server ex_get ex_world \<and>
   fst (serve_http ex_lib ex_authn ex_authz ex_server ex_get ex_world) = Ok reply"
proof -
  have "is_Ok (fst (serve_http ex_lib ex_authn ex_authz ex_server ex_get ex_world))" by code_simp
  from run_Ok [of "serve_http ex_lib ex_authn ex_authz ex_server ex_get", OF this] obtain reply s' where
    run: "serve_http ex_lib ex_authn ex_authz ex_server ex_get ex_world = (Ok reply, s')" by blast
  with serve_http_is_serve [OF ex_lib_ok run] show ?thesis by fastforce
qed

theorem routes_cover_methods_witness:
  "route_rpc (rode_routes ! 8) = full_method ''GetPolicy''"
proof -
  have mem: "rode_routes ! 8 \<in> set rode_routes" by (rule nth_mem) (simp add: rode_routes_all)
  have "route_request (rode_routes ! 8) ex_lib ex_get [(''id'', ''p1.1'')] = Inr (RpcGetPolicy \<lparr>gpr_Id = ''p1.1''\<rparr>)"
    by (simp add: rode_routes_all route_request_def request_Rode_GetPolicy_0_def path_param_def ex_lib_def
        and_then_def)
  with routes_cover_methods [THEN conjunct2, THEN conjunct2, THEN bspec, OF mem, rule_format,
      of ex_lib ex_get "[(''id'', ''p1.1'')]"] show ?thesis by simp
qed

definition ex_open :: auth_config where
  "ex_open = ex_auth\<lparr>ac_Enabled := False, ac_Basic := \<lparr>bac_Username = [], bac_Password = []\<rparr>\<rparr>"

definition ex_open_authn :: "nat authenticator" where
  "ex_open_authn = fst (wired ex_open strip_scheme ex_oidc (\<lambda>_ _. None) ex_subset)"

definition ex_open_authz :: authorization_interceptor where
  "ex_open_authz = snd (wired ex_open strip_scheme ex_oidc (\<lambda>_ _. None) ex_subset)"

theorem local_gateway_agrees_witness:
  "serve_http ex_lib ex_open_authn ex_open_authz ex_server ex_get
     = recovered (serve_http_local ex_lib ex_server ex_get) \<and>
   is_Ok (fst (serve_http_local ex_lib ex_server ex_get ex_world))"
proof -
  have "gl_AnnotateIncoming ex_lib = gl_Annotate ex_lib" by (simp add: ex_lib_def)
  moreover have "authentication_off ex_open_authn ex_open_authz"
    by (simp add: authentication_off_def ex_open_authn_def ex_open_authz_def wired_def ex_open_def ex_auth_def)
  moreover have "is_Ok (fst (serve_http_local ex_lib ex_server ex_get ex_world))" by code_simp
  ultimately show ?thesis using local_gateway_agrees [OF ex_lib_ok] by blast
qed

section \<open>A process\<close>

definition ex_env :: "nat main_env" where
  "ex_env = \<lparr>me_Flags = Inr ex_flags, me_NewProvider = \<lambda>_ _. Inl (ErrorNew ''unreachable''),
     me_NewDevelopment = Inr (), me_NewProduction = Inr (),
     me_Listen = \<lambda>address t. (Inr address, t),
     me_DialGrafeas = \<lambda>host t. (Inr (ex_grafeas, ex_projects), t),
     me_HttpClient = ex_http, me_NewESClient = \<lambda>_ _ _. Inr ex_es,
     me_ESInfo = \<lambda>t. (Inr '''', t), me_DecodeInfo = \<lambda>_. Inr (Some ''7.10''),
     me_IndexManager = \<lambda>_ _. ex_index_manager, me_Filterer = \<lambda>f. Inr (QFilter f),
     me_Runtime = ex_runtime, me_Codec = ex_codec, me_Rego = ex_rego,
     me_AuthFromMD = strip_scheme, me_Oidc = ex_oidc, me_ClaimPath = \<lambda>_ _. None, me_IsSubset = ex_subset,
     me_Descriptor = \<lambda>n. if n = rodeService then Inr rode_methods else Inr [(''Check'', None)],
     me_ServiceOrder = \<lambda>ks. ks, me_DialServer = \<lambda>_. Inr (), me_Gateway = ex_lib\<rparr>"

lemma ex_descriptors: "descriptors_ok ex_env"
  by (auto simp: descriptors_ok_def ex_env_def split: if_split_asm)

definition ex_started :: "nat rode_server" where
  "ex_started = wired_server ex_grafeas ex_projects ex_manager (NewOpaClient ''o'' False ex_http)"

lemma ex_initialize:
  "fst (initialize ex_started ex_world) = Ok ()" "length (trace (snd (initialize ex_started ex_world))) = 8"
  by code_simp+

lemma ex_build: "Build (me_NewProvider ex_env) (me_Flags ex_env) = Inr (ex_flags\<lparr>cf_Auth := ex_auth\<rparr>)"
  by (simp add: ex_env_def Build_def check_flags_def ConfigIsValid_def ex_flags_def ex_auth_def RefreshTrue_def
      one_without_other_def set_enabled_def Let_def)

lemma ex_loads: "\<exists>a. LoadServicePermissions (me_Descriptor ex_env) (me_ServiceOrder ex_env
    (registered_services False)) authz = Inr a"
  by (simp add: ex_env_def registered_services_def)

lemma ex_start_server:
  "\<exists>pr w. start_server ex_env (ex_flags\<lparr>cf_Auth := ex_auth\<rparr>) lis ex_grafeas ex_projects
     (NewOpaClient ''o'' False ex_http) ex_es ex_world = (Ok pr, w) \<and> pr_phase pr = Listening \<and>
     length (trace w) = 8"
proof -
  let ?c = "ex_flags\<lparr>cf_Auth := ex_auth\<rparr>"
  have m: "NewManager ex_es (cf_Elasticsearch ?c) (me_IndexManager ex_env ''rode'' ''mappings'')
      (me_Filterer ex_env) (me_Runtime ex_env) (me_Codec ex_env) (me_Rego ex_env) = ex_manager"
    by (simp add: ex_env_def ex_manager_def ex_flags_def)
  have r: "\<lparr>sv_grafeasCommon = ex_grafeas, sv_grafeasProjects = ex_projects,
         sv_grafeasExtensions = NewExtensions ex_grafeas (me_Runtime ex_env), sv_manager = ex_manager,
         sv_evaluation = NewEvaluationManager ex_manager (NewExtensions ex_grafeas (me_Runtime ex_env))
           (NewOpaClient ''o'' False ex_http)\<rparr> = ex_started"
    by (simp add: ex_started_def wired_server_def ex_env_def ex_manager_runtime)
  have new: "NewRodeServer ex_started ex_world = (Ok ex_started, snd (initialize ex_started ex_world))"
    using ex_initialize(1) by (cases "initialize ex_started ex_world") (simp add: NewRodeServer_def attempt_def)
  obtain a where load: "LoadServicePermissions (me_Descriptor ex_env) (me_ServiceOrder ex_env
      (registered_services False)) (NewAuthorizationInterceptor ex_auth (me_IsSubset ex_env)) = Inr a"
    using ex_loads by blast
  have dial: "me_DialServer ex_env lis = Inr ()" by (simp add: ex_env_def)
  have debug: "cf_Debug ?c = False" "cf_Auth ?c = ex_auth" by (simp_all add: ex_flags_def)
  show ?thesis
    unfolding start_server_def m r Let_def debug attempt_def [of "NewRodeServer ex_started"] new
    by (simp add: load createGrpcGateway_def dial ex_initialize(2) attempt_def)
qed

theorem process_life_ok_witness:
  "\<exists>pr w. process_life ex_env ex_world pr w \<and> Check (pr_healthz pr) = SERVING \<and> length (trace w) = 8"
proof -
  have parts: "createLogger ex_env (cf_Debug (ex_flags\<lparr>cf_Auth := ex_auth\<rparr>)) = Inr ()"
    "consult (me_Listen ex_env address) ex_world = (Ok address, ex_world)"
    "createGrafeasClients ex_env host ex_world = (Ok (ex_grafeas, ex_projects), ex_world)"
    "createESClient ex_env host user password ex_world = (Ok ex_es, ex_world)"
    "NewOpaClient (cf_OpaHost (ex_flags\<lparr>cf_Auth := ex_auth\<rparr>)) (cf_Debug (ex_flags\<lparr>cf_Auth := ex_auth\<rparr>))
       (me_HttpClient ex_env) = NewOpaClient ''o'' False ex_http" for address host user password
    by (simp_all add: ex_env_def createLogger_def consult_def attempt_def draw_def createGrafeasClients_def
        createESClient_def ex_flags_def)
  have "start ex_env ex_world = start_server ex_env (ex_flags\<lparr>cf_Auth := ex_auth\<rparr>)
      ('':'' @ format_int (cf_Port (ex_flags\<lparr>cf_Auth := ex_auth\<rparr>)))
      ex_grafeas ex_projects (NewOpaClient ''o'' False ex_http) ex_es ex_world"
    unfolding start_def ex_build lift_simps attempt_ret parts(1,5)
    by (simp add: attempt_def parts Let_def)
  with ex_start_server obtain pr w where
    run: "start ex_env ex_world = (Ok pr, w)" "pr_phase pr = Listening" "length (trace w) = 8" by metis
  then have "process_life ex_env ex_world (announce pr) w" by (intro announced started) simp_all
  with process_life_ok [OF this ex_descriptors] run show ?thesis
    by (intro exI [of _ "announce pr"] exI [of _ w]) (auto simp: health_ok_def announce_def)
qed

theorem calls_end_witness:
  "\<exists>answer events s'. serve ex_authn ex_authz ex_server ex_header (RpcEvaluateResource ex_evaluate_resource) ex_world
      = (answer, s') \<and> (\<forall>message. answer \<noteq> Panic message) \<and> trace s' = events \<and> length events \<le> 10"
proof -
  have "hits_within ex_manager 1"
    by (auto simp: hits_within_def ex_manager_def NewManager_def ex_es_def ex_hits_def ex_found_def
        ex_assignments_def)
  from calls_end [OF this, of ex_authn ex_authz ex_grafeas ex_projects ex_opa ex_header
      "RpcEvaluateResource ex_evaluate_resource" ex_world]
  show ?thesis by (auto simp: ex_server_def ex_world_def)
qed

end
