(* ===== verification/Document_Store.thy ===== *)
theory Document_Store
  imports Manager_Base
begin

text \<open>
  What the managers rely on of Elasticsearch, as its documentation states it: a document is
  found by its index, its id and the shard its routing leads to; a bulk request whose reply
  carries no error has done its items in their order, where a create needs an id that is not
  taken; every write of a document counts its version up. The store itself is not under
  src/, so it stays a parameter: \<open>docs\<close> reads the documents off the state of the outside,
  and \<open>document_store\<close> is the contract between them and the client's operations.
\<close>

section \<open>Documents and writes\<close>

type_synonym doc_key = "string \<times> nat \<times> string"
type_synonym documents = "doc_key \<Rightarrow> (es_message \<times> nat) option"

definition route :: "string \<Rightarrow> string \<Rightarrow> string" where
  "route routing i = (if routing = '''' then i else routing)"

text \<open>An item of a bulk request is routed by its routing, or else by its join parent.\<close>

definition item_route :: "bulk_item \<Rightarrow> string" where
  "item_route item = route (bi_Routing item)
     (route (case bi_Join item of Some j \<Rightarrow> join_Parent j | None \<Rightarrow> '''') (bi_DocumentId item))"

definition put_doc :: "doc_key \<Rightarrow> es_message \<Rightarrow> documents \<Rightarrow> documents" where
  "put_doc k msg d = d(k \<mapsto> (msg, case d k of None \<Rightarrow> 1 | Some (_, n) \<Rightarrow> Suc n))"

fun apply_items ::
  "(string \<Rightarrow> nat) \<Rightarrow> string \<Rightarrow> bulk_item list \<Rightarrow> documents \<Rightarrow> documents option" where
  "apply_items shard ix [] d = Some d"
| "apply_items shard ix (item # items) d =
     (let k = (ix, shard (item_route item), bi_DocumentId item) in
      if bi_Operation item = BULK_CREATE \<and> d k \<noteq> None then None
      else apply_items shard ix items (put_doc k (bi_Message item) d))"

text \<open>
  Decoding the source of a document gives back the message that was stored. Groups and
  assignments are decoded strictly: they are stored without a join field, so their sources
  hold nothing but the message.
\<close>

fun decodes_to :: "codec \<Rightarrow> es_message \<Rightarrow> string \<Rightarrow> bool" where
  "decodes_to cd (MsgPolicy x) src \<longleftrightarrow> cd_Policy cd True src = Inr x"
| "decodes_to cd (MsgPolicyEntity x) src \<longleftrightarrow> cd_PolicyEntity cd True src = Inr x"
| "decodes_to cd (MsgPolicyGroup x) src \<longleftrightarrow> cd_PolicyGroup cd False src = Inr x"
| "decodes_to cd (MsgPolicyAssignment x) src \<longleftrightarrow> cd_PolicyAssignment cd False src = Inr x"
| "decodes_to cd (MsgResource x) src \<longleftrightarrow> cd_Resource cd True src = Inr x"
| "decodes_to cd (MsgResourceVersion x) src \<longleftrightarrow> cd_ResourceVersion cd True src = Inr x"
| "decodes_to cd (MsgResourceEvaluation x) src \<longleftrightarrow> cd_ResourceEvaluation cd True src = Inr x"
| "decodes_to cd (MsgPolicyEvaluation x) src \<longleftrightarrow> cd_PolicyEvaluation cd True src = Inr x"
| "decodes_to cd MsgEmpty src \<longleftrightarrow> True"

definition get_answers :: "codec \<Rightarrow> (es_message \<times> nat) option \<Rightarrow> get_response \<Rightarrow> bool" where
  "get_answers cd entry r \<longleftrightarrow>
     (case entry of None \<Rightarrow> \<not> grs_Found r
      | Some (msg, _) \<Rightarrow> grs_Found r \<and> decodes_to cd msg (grs_Source r))"

section \<open>The contract\<close>

definition get_contract :: "'w manager \<Rightarrow> (string \<Rightarrow> nat) \<Rightarrow> ('w \<Rightarrow> documents) \<Rightarrow> bool" where
  "get_contract m shard docs \<longleftrightarrow> (\<forall>q w r w'. esc_Get (esClient m) q w = (Inr r, w') \<longrightarrow>
     docs w' = docs w \<and>
     get_answers (codec m)
       (docs w (gt_Index q, shard (route (gt_Routing q) (gt_DocumentId q)), gt_DocumentId q)) r)"

definition bulk_contract :: "'w manager \<Rightarrow> (string \<Rightarrow> nat) \<Rightarrow> ('w \<Rightarrow> documents) \<Rightarrow> bool" where
  "bulk_contract m shard docs \<longleftrightarrow> (\<forall>q w r w'. esc_Bulk (esClient m) q w = (Inr r, w') \<longrightarrow>
     CheckBulkResponseErrors r = None \<longrightarrow>
     apply_items shard (br_Index q) (br_Items q) (docs w) = Some (docs w'))"

definition update_contract :: "'w manager \<Rightarrow> (string \<Rightarrow> nat) \<Rightarrow> ('w \<Rightarrow> documents) \<Rightarrow> bool" where
  "update_contract m shard docs \<longleftrightarrow> (\<forall>q w r w'. esc_Update (esClient m) q w = (Inr r, w') \<longrightarrow>
     (let k = (ur_Index q, shard (route (ur_Routing q) (ur_DocumentId q)), ur_DocumentId q) in
      docs w' = put_doc k (ur_Message q) (docs w) \<and>
      (\<exists>n. docs w' k = Some (ur_Message q, n) \<and> urs_Version r = int n)))"

definition document_store :: "'w manager \<Rightarrow> (string \<Rightarrow> nat) \<Rightarrow> ('w \<Rightarrow> documents) \<Rightarrow> bool" where
  "document_store m shard docs \<longleftrightarrow>
     get_contract m shard docs \<and> bulk_contract m shard docs \<and> update_contract m shard docs \<and>
     (\<forall>w. docs (snd (rt_Now (runtime m) w)) = docs w) \<and>
     (\<forall>w. docs (snd (rt_Uuid (runtime m) w)) = docs w)"

text \<open>
  The rest of the client: a create that succeeded has stored its message, a delete by
  \<open>_id\<close> has removed the documents of that id, and a multi-get answers every key it is
  asked for, in the order of the request.
\<close>

definition drop_docs :: "string \<Rightarrow> string \<Rightarrow> documents \<Rightarrow> documents" where
  "drop_docs ix i d = (\<lambda>k. if fst k = ix \<and> snd (snd k) = i then None else d k)"

definition requested_keys :: "(string \<Rightarrow> nat) \<Rightarrow> multi_get_request \<Rightarrow> doc_key list" where
  "requested_keys shard q = map (\<lambda>i. (mg_Index q, shard i, i)) (mg_DocumentIds q) @
     map (\<lambda>item. (mgi_Index item, shard (route (mgi_Routing item) (mgi_Id item)), mgi_Id item)) (mg_Items q)"

definition create_contract :: "'w manager \<Rightarrow> (string \<Rightarrow> nat) \<Rightarrow> ('w \<Rightarrow> documents) \<Rightarrow> bool" where
  "create_contract m shard docs \<longleftrightarrow> (\<forall>q w i w'. esc_Create (esClient m) q w = (Inr i, w') \<longrightarrow>
     docs w' = put_doc (cr_Index q, shard (cr_DocumentId q), cr_DocumentId q) (cr_Message q) (docs w))"

definition delete_contract :: "'w manager \<Rightarrow> ('w \<Rightarrow> documents) \<Rightarrow> bool" where
  "delete_contract m docs \<longleftrightarrow> (\<forall>q w u w' i. esc_Delete (esClient m) q w = (Inr u, w') \<longrightarrow>
     s_Query (dr_Search q) = QTerm ''_id'' i \<longrightarrow> docs w' = drop_docs (dr_Index q) i (docs w))"

definition multi_get_contract :: "'w manager \<Rightarrow> (string \<Rightarrow> nat) \<Rightarrow> ('w \<Rightarrow> documents) \<Rightarrow> bool" where
  "multi_get_contract m shard docs \<longleftrightarrow> (\<forall>q w r w'. esc_MultiGet (esClient m) q w = (Inr r, w') \<longrightarrow>
     docs w' = docs w \<and>
     list_all2 (\<lambda>k doc. get_answers (codec m) (docs w k) doc) (requested_keys shard q) (mgr_Docs r))"

definition full_store :: "'w manager \<Rightarrow> (string \<Rightarrow> nat) \<Rightarrow> ('w \<Rightarrow> documents) \<Rightarrow> bool" where
  "full_store m shard docs \<longleftrightarrow> document_store m shard docs \<and> create_contract m shard docs \<and>
     delete_contract m docs \<and> multi_get_contract m shard docs"

text \<open>Reads are answered, and a UUID is a non-empty text without dots.\<close>

definition gets_answered :: "'w manager \<Rightarrow> bool" where
  "gets_answered m \<longleftrightarrow> (\<forall>q w. \<exists>r w'. esc_Get (esClient m) q w = (Inr r, w'))"

definition plain_uuids :: "'w manager \<Rightarrow> bool" where
  "plain_uuids m \<longleftrightarrow> (\<forall>w. fst (rt_Uuid (runtime m) w) \<noteq> '''' \<and> CHR ''.'' \<notin> set (fst (rt_Uuid (runtime m) w)))"

section \<open>Using it\<close>

lemma put_doc_same [simp]: "put_doc k msg d k = Some (msg, case d k of None \<Rightarrow> 1 | Some (_, n) \<Rightarrow> Suc n)"
  by (simp add: put_doc_def)

lemma put_doc_other [simp]: "k' \<noteq> k \<Longrightarrow> put_doc k msg d k' = d k'"
  by (simp add: put_doc_def)

lemma item_route_simps [simp]:
  "bi_Routing i = '''' \<Longrightarrow> bi_Join i = Some j \<Longrightarrow> join_Parent j = '''' \<Longrightarrow> item_route i = bi_DocumentId i"
  "bi_Routing i = '''' \<Longrightarrow> bi_Join i = Some j \<Longrightarrow> join_Parent j \<noteq> '''' \<Longrightarrow> item_route i = join_Parent j"
  "bi_Routing i \<noteq> '''' \<Longrightarrow> item_route i = bi_Routing i"
  by (simp_all add: item_route_def route_def)

lemma store_get:
  assumes "document_store m shard docs" "esc_Get (esClient m) q w = (Inr r, w')"
  shows "docs w' = docs w" "get_answers (codec m)
      (docs w (gt_Index q, shard (route (gt_Routing q) (gt_DocumentId q)), gt_DocumentId q)) r"
  using assms unfolding document_store_def get_contract_def by blast+

lemma store_bulk:
  assumes "document_store m shard docs" "esc_Bulk (esClient m) q w = (Inr r, w')"
    "CheckBulkResponseErrors r = None"
  shows "apply_items shard (br_Index q) (br_Items q) (docs w) = Some (docs w')"
  using assms unfolding document_store_def bulk_contract_def by blast

lemma store_update:
  assumes "document_store m shard docs" "esc_Update (esClient m) q w = (Inr r, w')"
    "k = (ur_Index q, shard (route (ur_Routing q) (ur_DocumentId q)), ur_DocumentId q)"
  shows "docs w' = put_doc k (ur_Message q) (docs w)"
    "urs_Version r = int (case docs w k of None \<Rightarrow> 1 | Some (_, n) \<Rightarrow> Suc n)"
  using assms unfolding document_store_def update_contract_def Let_def by fastforce+

lemma store_now: "document_store m shard docs \<Longrightarrow> rt_Now (runtime m) w = (t, w') \<Longrightarrow> docs w' = docs w"
  unfolding document_store_def by (metis snd_conv)

lemma store_uuid: "document_store m shard docs \<Longrightarrow> rt_Uuid (runtime m) w = (i, w') \<Longrightarrow> docs w' = docs w"
  unfolding document_store_def by (metis snd_conv)

lemma full_store_documents: "full_store m shard docs \<Longrightarrow> document_store m shard docs"
  by (simp add: full_store_def)

lemma store_create:
  assumes "full_store m shard docs" "esc_Create (esClient m) q w = (Inr i, w')"
  shows "docs w' = put_doc (cr_Index q, shard (cr_DocumentId q), cr_DocumentId q) (cr_Message q) (docs w)"
  using assms unfolding full_store_def create_contract_def by blast

lemma store_delete:
  assumes "full_store m shard docs" "esc_Delete (esClient m) q w = (Inr u, w')"
    "s_Query (dr_Search q) = QTerm ''_id'' i"
  shows "docs w' = drop_docs (dr_Index q) i (docs w)"
  using assms unfolding full_store_def delete_contract_def by blast

lemma store_multi_get:
  assumes "full_store m shard docs" "esc_MultiGet (esClient m) q w = (Inr r, w')"
  shows "docs w' = docs w"
    "list_all2 (\<lambda>k doc. get_answers (codec m) (docs w k) doc) (requested_keys shard q) (mgr_Docs r)"
  using assms unfolding full_store_def multi_get_contract_def by blast+

lemma drop_docs_simps [simp]:
  "drop_docs ix i d (ix, sh, i) = None" "j \<noteq> i \<Longrightarrow> drop_docs ix i d (jx, sh, j) = d (jx, sh, j)"
  "jx \<noteq> ix \<Longrightarrow> drop_docs ix i d (jx, sh, j) = d (jx, sh, j)"
  by (simp_all add: drop_docs_def)

lemma plain_uuidsD:
  assumes "plain_uuids m" "rt_Uuid (runtime m) w = (i, w')"
  shows "i \<noteq> ''''" "CHR ''.'' \<notin> set i"
  using assms unfolding plain_uuids_def by (metis fst_conv)+

end
