(* ===== verification/Policy_Store.thy ===== *)
theory Policy_Store
  imports Document_Store Policy_Manager
begin

text \<open>
  What the policy manager promises its callers, whatever documents it keeps: a store of
  policies with histories. A history is the policy's own fields, the versions written so
  far and the count of them; creating a policy starts one, updating it adds at most one
  version and takes none away. The lemmas show that the operations of
  \<open>pkg/policy/manager.go\<close>, run on any Elasticsearch that keeps the contract of
  \<open>Document_Store\<close>, implement these abstract operations on the histories the
  documents stand for, and that reading gives back what was written.
\<close>

section \<open>The abstract store\<close>

record policy_history =
  h_Policy :: policy
  h_Versions :: "uint32 \<Rightarrow> policy_entity option"
  h_Counter :: nat

definition current_policy :: "policy_history \<Rightarrow> policy" where
  "current_policy h = (h_Policy h)\<lparr>p_Policy := h_Versions h (p_CurrentVersion (h_Policy h))\<rparr>"

definition new_history :: "policy \<Rightarrow> policy_history" where
  "new_history q = \<lparr>h_Policy = q\<lparr>p_Policy := None\<rparr>,
     h_Versions = [p_CurrentVersion q \<mapsto> the (p_Policy q)], h_Counter = 1\<rparr>"

text \<open>An update at time \<open>t\<close> with the policy \<open>upd\<close> and its content \<open>u\<close>.\<close>

definition touch_policy :: "timestamp \<Rightarrow> policy \<Rightarrow> policy \<Rightarrow> policy" where
  "touch_policy t upd p = p\<lparr>p_Name := p_Name upd, p_Description := p_Description upd,
     p_Updated := Some t\<rparr>"

definition next_version :: "string \<Rightarrow> timestamp \<Rightarrow> uint32 \<Rightarrow> policy_entity \<Rightarrow> policy_entity" where
  "next_version i t v u = u\<lparr>pe_Id := policyVersionId i v, pe_Created := Some t, pe_Version := v,
     pe_Message := (if pe_Message u = '''' then ''Updated policy'' else pe_Message u)\<rparr>"

definition same_content :: "policy_entity \<Rightarrow> policy_entity option \<Rightarrow> bool" where
  "same_content u c \<longleftrightarrow> (case c of None \<Rightarrow> False
     | Some e \<Rightarrow> pe_RegoContent u = pe_RegoContent e \<and> pe_SourcePath u = pe_SourcePath e)"

definition update_history ::
  "timestamp \<Rightarrow> policy \<Rightarrow> policy_entity \<Rightarrow> policy_history \<Rightarrow> policy_history" where
  "update_history t upd u h =
     (let p = touch_policy t upd (h_Policy h); n = Suc (h_Counter h); v = word_of_nat n in
      if same_content u (h_Versions h (p_CurrentVersion p)) then h\<lparr>h_Policy := p\<rparr>
      else h\<lparr>h_Policy := p\<lparr>p_CurrentVersion := v\<rparr>,
             h_Versions := (h_Versions h)(v \<mapsto> next_version (p_Id upd) t v u), h_Counter := n\<rparr>)"

text \<open>
  What the second half of an update writes, when \<open>cur\<close> is the policy its first half read.
  Nothing keeps the store from changing in between; where it did not, this is
  \<open>update_history\<close>.
\<close>

definition write_back ::
  "timestamp \<Rightarrow> policy \<Rightarrow> policy_entity \<Rightarrow> policy \<Rightarrow> policy_history \<Rightarrow> policy_history" where
  "write_back t upd u cur h =
     (let p = touch_policy t upd cur; n = Suc (h_Counter h); v = word_of_nat n in
      if same_content u (p_Policy cur) then h\<lparr>h_Policy := p\<lparr>p_Policy := None\<rparr>\<rparr>
      else h\<lparr>h_Policy := p\<lparr>p_CurrentVersion := v, p_Policy := None\<rparr>,
             h_Versions := (h_Versions h)(v \<mapsto> next_version (p_Id upd) t v u), h_Counter := n\<rparr>)"

text \<open>The policy \<open>cur\<close> was read from an earlier state of this history.\<close>

definition read_before :: "policy \<Rightarrow> policy_history \<Rightarrow> bool" where
  "read_before cur h \<longleftrightarrow> p_Id cur = p_Id (h_Policy h) \<and> p_Policy cur \<noteq> None \<and>
     h_Versions h (p_CurrentVersion cur) = p_Policy cur"

section \<open>The histories the documents stand for\<close>

definition policy_key :: "'w manager \<Rightarrow> (string \<Rightarrow> nat) \<Rightarrow> string \<Rightarrow> doc_key" where
  "policy_key m shard i = (policiesAlias m, shard i, i)"

definition counter_key :: "'w manager \<Rightarrow> (string \<Rightarrow> nat) \<Rightarrow> string \<Rightarrow> doc_key" where
  "counter_key m shard i = (policiesAlias m, shard i, policyCounterId i)"

definition version_key :: "'w manager \<Rightarrow> (string \<Rightarrow> nat) \<Rightarrow> string \<Rightarrow> uint32 \<Rightarrow> doc_key" where
  "version_key m shard i v = (policiesAlias m, shard i, policyVersionId i v)"

fun the_policy :: "(es_message \<times> nat) option \<Rightarrow> policy option" where
  "the_policy (Some (MsgPolicy p, n)) = Some p"
| "the_policy _ = None"

fun the_entity :: "(es_message \<times> nat) option \<Rightarrow> policy_entity option" where
  "the_entity (Some (MsgPolicyEntity e, n)) = Some e"
| "the_entity _ = None"

definition history_at ::
  "'w manager \<Rightarrow> (string \<Rightarrow> nat) \<Rightarrow> documents \<Rightarrow> string \<Rightarrow> policy_history option" where
  "history_at m shard d i =
     (if CHR ''.'' \<in> set i then None
      else case (the_policy (d (policy_key m shard i)), d (counter_key m shard i)) of
        (Some p, Some (MsgEmpty, n)) \<Rightarrow>
          Some \<lparr>h_Policy = p, h_Versions = (\<lambda>v. the_entity (d (version_key m shard i v))),
                h_Counter = n\<rparr>
      | _ \<Rightarrow> None)"

text \<open>
  The invariant: an id either names a policy with all its documents, or none of the
  documents that could belong to it exists.
\<close>

definition history_ok :: "string \<Rightarrow> policy_history \<Rightarrow> bool" where
  "history_ok i h \<longleftrightarrow> p_Id (h_Policy h) = i \<and> p_Policy (h_Policy h) = None \<and> i \<noteq> '''' \<and>
     h_Versions h (p_CurrentVersion (h_Policy h)) \<noteq> None \<and>
     (\<forall>v e. h_Versions h v = Some e \<longrightarrow>
        pe_Id e = policyVersionId i v \<and> pe_Version e = v \<and> unat v \<le> h_Counter h)"

definition policy_documents_ok :: "'w manager \<Rightarrow> (string \<Rightarrow> nat) \<Rightarrow> documents \<Rightarrow> string \<Rightarrow> bool" where
  "policy_documents_ok m shard d i \<longleftrightarrow>
     (\<forall>v. d (version_key m shard i v) = None \<or> the_entity (d (version_key m shard i v)) \<noteq> None) \<and>
     (case d (policy_key m shard i) of
        None \<Rightarrow> d (counter_key m shard i) = None \<and> (\<forall>v. d (version_key m shard i v) = None)
      | Some _ \<Rightarrow> (\<exists>h. history_at m shard d i = Some h \<and> history_ok i h))"

definition policies_ok :: "'w manager \<Rightarrow> (string \<Rightarrow> nat) \<Rightarrow> documents \<Rightarrow> bool" where
  "policies_ok m shard d \<longleftrightarrow> (\<forall>i. CHR ''.'' \<notin> set i \<longrightarrow> policy_documents_ok m shard d i)"

section \<open>Keys\<close>

lemma policyCounterId_inject: "policyCounterId i = policyCounterId j \<longleftrightarrow> i = j"
  by (simp add: policyCounterId_def)

lemma counter_has_dot: "CHR ''.'' \<in> set (policyCounterId i)"
  by (simp add: policyCounterId_def)

lemma version_has_dot: "CHR ''.'' \<in> set (policyVersionId i v)"
  by (simp add: policyVersionId_def)

lemma version_neq_counter:
  assumes "CHR ''.'' \<notin> set i" "CHR ''.'' \<notin> set j"
  shows "policyVersionId i v \<noteq> policyCounterId j"
  using parse_policyVersionId [OF assms(1), of v] parse_policyCounterId [OF assms(2)] by auto

lemma keys_differ:
  assumes "CHR ''.'' \<notin> set i" "CHR ''.'' \<notin> set j"
  shows "policy_key m shard i \<noteq> counter_key m shard j" "counter_key m shard i \<noteq> policy_key m shard j"
    "policy_key m shard i \<noteq> version_key m shard j v" "version_key m shard i v \<noteq> policy_key m shard j"
    "counter_key m shard i \<noteq> version_key m shard j v" "version_key m shard i v \<noteq> counter_key m shard j"
    "policy_key m shard i = policy_key m shard j \<longleftrightarrow> i = j"
    "counter_key m shard i = counter_key m shard j \<longleftrightarrow> i = j"
    "version_key m shard i v = version_key m shard j w \<longleftrightarrow> i = j \<and> v = w"
  using assms counter_has_dot [of i] counter_has_dot [of j] version_has_dot [of i v] version_has_dot [of j v]
    version_neq_counter [OF assms, of v] version_neq_counter [OF assms(2,1), of v]
    version_neq_counter [OF assms, of v, symmetric] version_neq_counter [OF assms(2,1), of v, symmetric]
    policyVersionId_inject [OF assms(1), of j w v]
  by (auto simp: policy_key_def counter_key_def version_key_def policyCounterId_inject)

lemma the_policy_Some: "the_policy x = Some p \<longleftrightarrow> (\<exists>n. x = Some (MsgPolicy p, n))"
  by (cases x rule: the_policy.cases) auto

lemma the_policy_cases [simp]: "the_policy None = None" "the_entity None = None"
  by simp_all

lemma the_entity_Some: "the_entity x = Some e \<longleftrightarrow> (\<exists>n. x = Some (MsgPolicyEntity e, n))"
  by (cases x rule: the_entity.cases) auto

lemma history_at_Some:
  "history_at m shard d i = Some h \<longleftrightarrow> CHR ''.'' \<notin> set i \<and>
     the_policy (d (policy_key m shard i)) = Some (h_Policy h) \<and>
     d (counter_key m shard i) = Some (MsgEmpty, h_Counter h) \<and>
     h_Versions h = (\<lambda>v. the_entity (d (version_key m shard i v)))"
  unfolding history_at_def by (auto split: option.splits es_message.splits)

lemma history_of_policy:
  assumes "policies_ok m shard d" "CHR ''.'' \<notin> set i" "d (policy_key m shard i) = Some x"
  obtains h where "history_at m shard d i = Some h" "history_ok i h"
  using assms unfolding policies_ok_def policy_documents_ok_def by fastforce

lemma history_at_ok:
  assumes "policies_ok m shard d" "history_at m shard d i = Some h"
  shows "history_ok i h"
proof -
  from assms(2) obtain x where "CHR ''.'' \<notin> set i" "d (policy_key m shard i) = Some x"
    by (auto simp: history_at_Some the_policy_Some)
  with history_of_policy [OF assms(1) this] assms(2) show ?thesis by auto
qed

section \<open>Reading\<close>

text \<open>What a read of a policy with history \<open>h\<close> answers; version 0 asks for the current one.\<close>

definition lookup_policy :: "policy_history option \<Rightarrow> uint32 \<Rightarrow> policy outcome" where
  "lookup_policy found version = (case found of
       None \<Rightarrow> Err (createErrorWithCode ''policy not found'' None NotFound)
     | Some h \<Rightarrow>
         (case h_Versions h (if version = 0 then p_CurrentVersion (h_Policy h) else version) of
            None \<Rightarrow> Err (createError ''policy version not found'' None)
          | Some e \<Rightarrow> Ok ((h_Policy h)\<lparr>p_Policy := Some e\<rparr>)))"

lemma store_read:
  assumes "document_store m shard docs" "gets_answered m"
  obtains r s' where "es_get m q s = (Ok r, s')" "docs (ext s') = docs (ext s)" "get_answers (codec m)
      (docs (ext s) (gt_Index q, shard (route (gt_Routing q) (gt_DocumentId q)), gt_DocumentId q)) r"
proof -
  obtain r w' where g: "esc_Get (esClient m) q (ext s) = (Inr r, w')"
    using assms(2) unfolding gets_answered_def by blast
  show ?thesis
    by (rule that [of r "s\<lparr>ext := w', trace := trace s @ [EsGet q]\<rparr>"])
      (use g store_get [OF assms(1) g] in \<open>simp_all add: external_def\<close>)
qed

lemma getPolicy_answer:
  assumes "document_store m shard docs" "gets_answered m" "policies_ok m shard (docs (ext s))"
    "i \<noteq> ''''" "CHR ''.'' \<notin> set i"
  obtains s' where "docs (ext s') = docs (ext s)" "getPolicy m i s = ((case history_at m shard (docs (ext s)) i of
       None \<Rightarrow> Err (createErrorWithCode ''policy not found'' None NotFound) | Some h \<Rightarrow> Ok (h_Policy h)), s')"
proof -
  let ?q = "\<lparr>gt_Index = policiesAlias m, gt_DocumentId = i, gt_Routing = ''''\<rparr>"
  obtain r s' where run: "es_get m ?q s = (Ok r, s')" and same: "docs (ext s') = docs (ext s)"
    and answer: "get_answers (codec m) (docs (ext s) (gt_Index ?q,
      shard (route (gt_Routing ?q) (gt_DocumentId ?q)), gt_DocumentId ?q)) r"
    by (rule store_read [OF assms(1,2), of ?q s])
  then have at: "get_answers (codec m) (docs (ext s) (policy_key m shard i)) r"
    by (simp add: policy_key_def route_def)
  show ?thesis
  proof (cases "docs (ext s) (policy_key m shard i)")
    case None
    then have "history_at m shard (docs (ext s)) i = None" by (simp add: history_at_def)
    with None at run assms(4) show ?thesis
      by (intro that [OF same]) (simp add: getPolicy_def attempt_def get_answers_def)
  next
    case (Some x)
    then obtain h where h: "history_at m shard (docs (ext s)) i = Some h"
      using history_of_policy [OF assms(3,5)] by blast
    with at have "grs_Found r" "cd_Policy (codec m) True (grs_Source r) = Inr (h_Policy h)"
      by (auto simp: history_at_Some the_policy_Some get_answers_def)
    with h run assms(4) show ?thesis
      by (intro that [OF same]) (simp add: getPolicy_def attempt_def)
  qed
qed

lemma GetPolicyVersion_answer:
  assumes "document_store m shard docs" "gets_answered m"
    "history_at m shard (docs (ext s)) i = Some h" "i \<noteq> ''''"
    "\<forall>v. docs (ext s) (version_key m shard i v) = None \<or>
      the_entity (docs (ext s) (version_key m shard i v)) \<noteq> None"
  obtains s' where "docs (ext s') = docs (ext s)"
    "GetPolicyVersion m (policyVersionId i v) s = (Ok (h_Versions h v), s')"
proof -
  let ?q = "\<lparr>gt_Index = policiesAlias m, gt_DocumentId = policyVersionId i v, gt_Routing = i\<rparr>"
  obtain r s' where run: "es_get m ?q s = (Ok r, s')" and same: "docs (ext s') = docs (ext s)"
    and answer: "get_answers (codec m) (docs (ext s) (gt_Index ?q,
      shard (route (gt_Routing ?q) (gt_DocumentId ?q)), gt_DocumentId ?q)) r"
    by (rule store_read [OF assms(1,2), of ?q s])
  then have at: "get_answers (codec m) (docs (ext s) (version_key m shard i v)) r"
    using assms(4) by (simp add: version_key_def route_def)
  from assms(3) have dot: "CHR ''.'' \<notin> set i"
    and hv: "h_Versions h v = the_entity (docs (ext s) (version_key m shard i v))"
    by (simp_all add: history_at_Some)
  show ?thesis
  proof (cases "docs (ext s) (version_key m shard i v)")
    case None
    with at run hv show ?thesis
      by (intro that [OF same])
        (simp add: GetPolicyVersion_def attempt_def get_answers_def parse_policyVersionId [OF dot])
  next
    case (Some x)
    with assms(5) obtain e where "the_entity (docs (ext s) (version_key m shard i v)) = Some e"
      by (metis not_None_eq)
    with at run hv show ?thesis
      by (intro that [OF same])
        (auto simp: GetPolicyVersion_def attempt_def get_answers_def the_entity_Some
          parse_policyVersionId [OF dot])
  qed
qed

text \<open>
  Reading a policy answers what its history says: the policy with the version the id names,
  or with the current one when it names none.
\<close>

lemma GetPolicy_history:
  assumes "document_store m shard docs" "gets_answered m" "policies_ok m shard (docs (ext s))"
    "parsePolicyVersionId (gpr_Id request) = Inr (i, v)" "i \<noteq> ''''"
  shows "\<exists>s'. GetPolicy m request s = (lookup_policy (history_at m shard (docs (ext s)) i) v, s') \<and>
    docs (ext s') = docs (ext s)"
proof -
  have dot: "CHR ''.'' \<notin> set i" using parsePolicyVersionId_Inr assms(4) by blast
  obtain s1 where s1: "docs (ext s1) = docs (ext s)"
    and get: "getPolicy m i s = ((case history_at m shard (docs (ext s)) i of
       None \<Rightarrow> Err (createErrorWithCode ''policy not found'' None NotFound) | Some h \<Rightarrow> Ok (h_Policy h)), s1)"
    by (rule getPolicy_answer [OF assms(1-3,5) dot])
  show ?thesis
  proof (cases "history_at m shard (docs (ext s)) i")
    case None
    with get s1 show ?thesis by (simp add: GetPolicy_def attempt_def assms(4) lookup_policy_def)
  next
    case (Some h)
    with history_at_ok [OF assms(3)] have id: "p_Id (h_Policy h) = i" by (simp add: history_ok_def)
    obtain s2 where s2: "docs (ext s2) = docs (ext s1)"
      and ver: "GetPolicyVersion m (policyVersionId i
        (if v = 0 then p_CurrentVersion (h_Policy h) else v)) s1 = (Ok (h_Versions h
        (if v = 0 then p_CurrentVersion (h_Policy h) else v)), s2)"
      by (rule GetPolicyVersion_answer [OF assms(1,2), of s1 i h])
        (use Some s1 assms(3,5) dot in \<open>auto simp: policies_ok_def policy_documents_ok_def\<close>)
    show ?thesis
      by (intro exI [of _ s2])
        (use get ver Some id s1 s2 in \<open>auto simp: GetPolicy_def attempt_def assms(4) lookup_policy_def
          Let_def split: option.splits\<close>)
  qed
qed

section \<open>Writing\<close>

definition same_documents ::
  "'w manager \<Rightarrow> (string \<Rightarrow> nat) \<Rightarrow> documents \<Rightarrow> documents \<Rightarrow> string \<Rightarrow> bool" where
  "same_documents m shard d d' j \<longleftrightarrow> d' (policy_key m shard j) = d (policy_key m shard j) \<and>
     d' (counter_key m shard j) = d (counter_key m shard j) \<and>
     (\<forall>v. d' (version_key m shard j v) = d (version_key m shard j v))"

lemma same_documents_history:
  assumes "same_documents m shard d d' j"
  shows "history_at m shard d' j = history_at m shard d j"
proof -
  have v: "(\<lambda>v. the_entity (d' (version_key m shard j v))) = (\<lambda>v. the_entity (d (version_key m shard j v)))"
    and keys: "d' (policy_key m shard j) = d (policy_key m shard j)"
    "d' (counter_key m shard j) = d (counter_key m shard j)"
    using assms by (simp_all add: same_documents_def)
  show ?thesis unfolding history_at_def v keys ..
qed

lemma same_documents_ok:
  "same_documents m shard d d' j \<Longrightarrow> policy_documents_ok m shard d' j = policy_documents_ok m shard d j"
  using same_documents_history [of m shard d d' j]
  by (simp add: same_documents_def policy_documents_ok_def cong: option.case_cong)

text \<open>A write of the documents of one policy is an update of the map from ids to histories.\<close>

lemma histories_updated:
  assumes "\<And>j. CHR ''.'' \<notin> set j \<Longrightarrow> j \<noteq> i \<Longrightarrow> same_documents m shard d d' j"
    "history_at m shard d' i = Some h"
  shows "history_at m shard d' = (history_at m shard d)(i \<mapsto> h)"
proof
  fix j
  show "history_at m shard d' j = ((history_at m shard d)(i \<mapsto> h)) j"
  proof (cases "CHR ''.'' \<in> set j")
    case True
    then have "history_at m shard d' j = None" "history_at m shard d j = None"
      by (simp_all add: history_at_def)
    with assms(2) show ?thesis by (cases "j = i") auto
  next
    case False
    then show ?thesis using assms same_documents_history [of m shard d d' j] by (cases "j = i") auto
  qed
qed

lemma policies_ok_updated:
  assumes "policies_ok m shard d" "\<And>j. CHR ''.'' \<notin> set j \<Longrightarrow> j \<noteq> i \<Longrightarrow> same_documents m shard d d' j"
    "history_at m shard d' i = Some h" "history_ok i h"
    "\<And>v. d' (version_key m shard i v) = None \<or> the_entity (d' (version_key m shard i v)) \<noteq> None"
  shows "policies_ok m shard d'"
  unfolding policies_ok_def
proof (intro allI impI)
  fix j
  assume j: "CHR ''.'' \<notin> set j"
  show "policy_documents_ok m shard d' j"
  proof (cases "j = i")
    case True
    from assms(3) obtain x where "d' (policy_key m shard i) = Some x"
      by (auto simp: history_at_Some the_policy_Some)
    with True assms show ?thesis by (simp add: policy_documents_ok_def)
  next
    case False
    with assms(1,2) j same_documents_ok [of m shard d d' j] show ?thesis by (simp add: policies_ok_def)
  qed
qed

lemma no_policy_no_documents:
  assumes "policies_ok m shard d" "CHR ''.'' \<notin> set i" "d (policy_key m shard i) = None"
  shows "d (counter_key m shard i) = None" "d (version_key m shard i v) = None"
proof -
  from assms(1,2) have "policy_documents_ok m shard d i" by (simp add: policies_ok_def)
  with assms(3) show "d (counter_key m shard i) = None" "d (version_key m shard i v) = None"
    by (simp_all add: policy_documents_ok_def)
qed

text \<open>The three documents of a new policy.\<close>

definition created_documents ::
  "'w manager \<Rightarrow> (string \<Rightarrow> nat) \<Rightarrow> policy \<Rightarrow> policy_entity \<Rightarrow> documents \<Rightarrow> documents" where
  "created_documents m shard p e d = put_doc (version_key m shard (p_Id p) 1) (MsgPolicyEntity e)
     (put_doc (counter_key m shard (p_Id p)) MsgEmpty
       (put_doc (policy_key m shard (p_Id p)) (MsgPolicy p) d))"

lemma CreatePolicy_documents:
  assumes "CreatePolicy m pol s = (Ok q, s')" "document_store m shard docs" "plain_uuids m"
  obtains e where "p_Id q \<noteq> ''''" "CHR ''.'' \<notin> set (p_Id q)" "p_Policy q = Some e"
    "p_CurrentVersion q = 1" "pe_Id e = policyVersionId (p_Id q) 1" "pe_Version e = 1"
    "docs (ext s) (policy_key m shard (p_Id q)) = None"
    "docs (ext s') = created_documents m shard (q\<lparr>p_Policy := None\<rparr>) e (docs (ext s))"
proof -
  from assms(1) obtain ent i x t y r z e where
    uuid: "rt_Uuid (runtime m) (ext s) = (i, x)" and time: "rt_Now (runtime m) x = (t, y)"
    and e: "e = ent\<lparr>pe_Id := policyVersionId i 1, pe_Version := 1,
                       pe_Message := ''Initial policy creation'', pe_Created := Some t\<rparr>"
    and q: "q = pol\<lparr>p_Id := i, p_Created := Some t, p_Updated := Some t, p_CurrentVersion := 1,
                    p_Policy := Some e\<rparr>"
    and bulk: "esc_Bulk (esClient m) \<lparr>br_Index = policiesAlias m, br_Refresh = refresh_of m, br_Items =
             [\<lparr>bi_Operation = BULK_CREATE, bi_Message = MsgPolicy (q\<lparr>p_Policy := None\<rparr>), bi_DocumentId = i,
               bi_Join = Some \<lparr>join_Field = policyDocumentJoinField,
                               join_Name = policyRelationName, join_Parent = ''''\<rparr>,
               bi_Routing = ''''\<rparr>,
              \<lparr>bi_Operation = BULK_CREATE, bi_Message = MsgEmpty,
               bi_DocumentId = policyCounterId i,
               bi_Join = None, bi_Routing = i\<rparr>,
              \<lparr>bi_Operation = BULK_CREATE, bi_Message = MsgPolicyEntity e,
               bi_DocumentId = policyVersionId i 1,
               bi_Join = Some \<lparr>join_Field = policyDocumentJoinField,
                               join_Name = policyVersionRelationName, join_Parent = i\<rparr>,
               bi_Routing = ''''\<rparr>]\<rparr> y = (Inr r, z)"
    and checked: "CheckBulkResponseErrors r = None" and ext: "ext s' = z"
    unfolding CreatePolicy_def by (auto simp: policy_runs split: if_splits option.splits)
  note plain = plain_uuidsD [OF assms(3) uuid]
  have same: "docs y = docs (ext s)"
    using store_uuid [OF assms(2) uuid] store_now [OF assms(2) time] by simp
  from store_bulk [OF assms(2) bulk checked] plain
  have "docs (ext s) (policy_key m shard i) = None \<and>
    docs z = created_documents m shard (q\<lparr>p_Policy := None\<rparr>) e (docs (ext s))"
    unfolding same
    by (simp add: Let_def created_documents_def policy_key_def counter_key_def version_key_def q
        del: not_None_eq split: if_split_asm)
  with plain e q ext show ?thesis by (intro that [of e]) auto
qed

text \<open>Creating a policy starts a history, and every other history is as before.\<close>

lemma CreatePolicy_history:
  assumes "CreatePolicy m pol s = (Ok q, s')" "document_store m shard docs" "plain_uuids m"
    "policies_ok m shard (docs (ext s))"
  shows "history_at m shard (docs (ext s)) (p_Id q) = None \<and>
    history_at m shard (docs (ext s')) = (history_at m shard (docs (ext s)))(p_Id q \<mapsto> new_history q) \<and>
    current_policy (new_history q) = q \<and> policies_ok m shard (docs (ext s'))"
proof -
  let ?i = "p_Id q" and ?d = "docs (ext s)" and ?d' = "docs (ext s')"
  obtain e where i: "?i \<noteq> ''''" "CHR ''.'' \<notin> set ?i" and e: "p_Policy q = Some e" "p_CurrentVersion q = 1"
    "pe_Id e = policyVersionId ?i 1" "pe_Version e = 1"
    and new: "?d (policy_key m shard ?i) = None"
    and d': "?d' = created_documents m shard (q\<lparr>p_Policy := None\<rparr>) e ?d"
    by (rule CreatePolicy_documents [OF assms(1-3)])
  have none: "?d (counter_key m shard ?i) = None" "\<And>v. ?d (version_key m shard ?i v) = None"
    by (rule no_policy_no_documents [OF assms(4) i(2) new])+
  have others: "same_documents m shard ?d ?d' j" if "CHR ''.'' \<notin> set j" "j \<noteq> ?i" for j
    using that i unfolding d' created_documents_def same_documents_def
    by (simp add: keys_differ)
  have entity: "the_entity (?d' (version_key m shard ?i v)) = (if v = 1 then Some e else None)" for v
    unfolding d' created_documents_def using i none(2) [of v] none(2) [of 1]
    by (auto simp: keys_differ)
  have at: "history_at m shard ?d' ?i = Some (new_history q)"
    unfolding history_at_Some
    using i e none new entity unfolding d'
    by (auto simp: created_documents_def new_history_def keys_differ)
  have "history_ok ?i (new_history q)"
    using i e by (auto simp: history_ok_def new_history_def)
  moreover have "?d' (version_key m shard ?i v) = None \<or> the_entity (?d' (version_key m shard ?i v)) \<noteq> None" for v
    using none(2) [of v] i unfolding entity unfolding d' created_documents_def
    by (simp add: keys_differ)
  ultimately have "policies_ok m shard ?d'"
    by (intro policies_ok_updated [OF assms(4) others at]) simp_all
  moreover have "history_at m shard ?d ?i = None" using new by (simp add: history_at_def)
  moreover have "current_policy (new_history q) = q"
    using e by (simp add: current_policy_def new_history_def)
  ultimately show ?thesis using histories_updated [OF others at] by simp
qed

text \<open>The documents an update writes: the policy, and before it a version when there is a new one.\<close>

definition updated_documents ::
  "'w manager \<Rightarrow> (string \<Rightarrow> nat) \<Rightarrow> policy \<Rightarrow> policy_entity option \<Rightarrow> documents \<Rightarrow> documents" where
  "updated_documents m shard p new d = (case new of
       None \<Rightarrow> put_doc (policy_key m shard (p_Id p)) (MsgPolicy p) d
     | Some e \<Rightarrow> put_doc (version_key m shard (p_Id p) (pe_Version e)) (MsgPolicyEntity e)
         (put_doc (policy_key m shard (p_Id p)) (MsgPolicy p)
           (put_doc (counter_key m shard (p_Id p)) MsgEmpty d)))"

lemma createNewVersion_documents:
  assumes "createNewVersion m i t cur upd s = (Ok (p2, pv, items), s')" "document_store m shard docs"
    "p_Policy upd = Some u" "docs (ext s) (counter_key m shard i) = Some (MsgEmpty, n)"
    "i \<noteq> ''''" "v = word_of_nat (Suc n)" "e = next_version i t v u"
  shows "p2 = cur\<lparr>p_CurrentVersion := v\<rparr> \<and> pv = Some e \<and>
    items = [\<lparr>bi_Operation = BULK_CREATE, bi_Message = MsgPolicyEntity e,
            bi_DocumentId = policyVersionId i v,
            bi_Join = Some \<lparr>join_Field = policyDocumentJoinField,
                            join_Name = policyVersionRelationName, join_Parent = i\<rparr>,
            bi_Routing = ''''\<rparr>] \<and>
    docs (ext s') = put_doc (counter_key m shard i) MsgEmpty (docs (ext s))"
proof -
  from assms(1,3) obtain r x where
    upd: "esc_Update (esClient m) \<lparr>ur_Index = policiesAlias m, ur_DocumentId = policyCounterId i,
        ur_Refresh = refresh_of m, ur_Message = MsgEmpty, ur_Routing = i\<rparr> (ext s) = (Inr r, x)"
    and s': "ext s' = x" and out: "p2 = cur\<lparr>p_CurrentVersion := word_of_int (urs_Version r)\<rparr>"
      "pv = Some (next_version i t (word_of_int (urs_Version r)) u)"
      "items = [\<lparr>bi_Operation = BULK_CREATE,
            bi_Message = MsgPolicyEntity (next_version i t (word_of_int (urs_Version r)) u),
            bi_DocumentId = policyVersionId i (word_of_int (urs_Version r)),
            bi_Join = Some \<lparr>join_Field = policyDocumentJoinField,
                            join_Name = policyVersionRelationName, join_Parent = i\<rparr>,
            bi_Routing = ''''\<rparr>]"
    unfolding createNewVersion_def incrementPolicyVersion_def
    by (auto simp: policy_runs next_version_def)
  have k: "counter_key m shard i = (policiesAlias m, shard (route i (policyCounterId i)), policyCounterId i)"
    using assms(5) by (simp add: counter_key_def route_def)
  from store_update [OF assms(2) upd, of "counter_key m shard i"] assms(4) k
  have "docs x = put_doc (counter_key m shard i) MsgEmpty (docs (ext s))" "urs_Version r = int (Suc n)"
    by simp_all
  moreover from this(2) have "word_of_int (urs_Version r) = v" using assms(6) by (simp only: of_int_of_nat_eq)
  ultimately show ?thesis using out s' assms(7) by simp
qed

lemma storePolicy_documents:
  assumes "storePolicy m i p pv items s = (Ok q, s')" "document_store m shard docs"
  shows "q = p\<lparr>p_Policy := pv\<rparr> \<and> apply_items shard (policiesAlias m) items
    (put_doc (policy_key m shard i) (MsgPolicy (p\<lparr>p_Policy := None\<rparr>)) (docs (ext s))) = Some (docs (ext s'))"
proof -
  from assms(1) obtain r x where bulk: "esc_Bulk (esClient m) \<lparr>br_Index = policiesAlias m,
        br_Refresh = refresh_of m, br_Items =
          \<lparr>bi_Operation = BULK_INDEX, bi_Message = MsgPolicy (p\<lparr>p_Policy := None\<rparr>), bi_DocumentId = i,
           bi_Join = Some \<lparr>join_Field = policyDocumentJoinField,
                           join_Name = policyRelationName, join_Parent = ''''\<rparr>,
           bi_Routing = ''''\<rparr> # items\<rparr> (ext s) = (Inr r, x)"
    and checked: "CheckBulkResponseErrors r = None" and out: "ext s' = x" "q = p\<lparr>p_Policy := pv\<rparr>"
    unfolding storePolicy_def by (auto simp: policy_runs)
  from store_bulk [OF assms(2) bulk checked] out show ?thesis by (simp add: Let_def policy_key_def)
qed

lemma applyUpdate_documents:
  assumes "applyUpdate m upd cur s = (Ok q, s')" "document_store m shard docs"
    "history_at m shard (docs (ext s)) (p_Id upd) = Some h" "history_ok (p_Id upd) h" "read_before cur h"
  obtains t u where "p_Policy upd = Some u" "q = current_policy (write_back t upd u cur h)"
    "docs (ext s') = updated_documents m shard (h_Policy (write_back t upd u cur h))
       (if same_content u (p_Policy cur) then None else p_Policy q) (docs (ext s))"
    "\<not> same_content u (p_Policy cur) \<longrightarrow>
       docs (ext s) (version_key m shard (p_Id upd) (word_of_nat (Suc (h_Counter h)))) = None"
proof -
  let ?i = "p_Id upd" and ?n = "Suc (h_Counter h)"
  let ?p = "\<lambda>t. cur\<lparr>p_Name := p_Name upd, p_Description := p_Description upd, p_Updated := Some t\<rparr>"
  from assms(1) obtain t x s0 chg s2 p2 pv items s1 where
    now: "rt_Now (runtime m) (ext s) = (t, x)" "s0 = s\<lparr>ext := x\<rparr>"
    and chg: "hasPolicyContentChanges (?p t) upd s0 = (Ok chg, s2)"
    and step: "(if chg then createNewVersion m ?i t (?p t) upd else ret (?p t, p_Policy (?p t), [])) s2
      = (Ok (p2, pv, items), s1)"
    and st: "storePolicy m ?i p2 pv items s1 = (Ok q, s')"
    unfolding applyUpdate_def attempt_Ok Let_def draw_Ok split_paired_Ex prod.case
    by (elim exE conjE) (rule that, assumption+)
  from chg obtain u c where u: "p_Policy upd = Some u" and c: "p_Policy cur = Some c"
    and same2: "s2 = s\<lparr>ext := x\<rparr>" and "chg = (\<not> same_content u (p_Policy cur))"
    using now(2) by (auto simp: hasPolicyContentChanges_Ok same_content_def)
  with step have branch: "if same_content u (p_Policy cur)
      then p2 = ?p t \<and> pv = p_Policy cur \<and> items = [] \<and> ext s1 = x
      else createNewVersion m ?i t (?p t) upd (s\<lparr>ext := x\<rparr>) = (Ok (p2, pv, items), s1)"
    by (auto split: if_splits)
  have id: "p_Id cur = ?i" "?i \<noteq> ''''" and dot: "CHR ''.'' \<notin> set ?i"
    and ver: "h_Versions h (p_CurrentVersion cur) = p_Policy cur"
    using assms(3-5) by (auto simp: history_ok_def read_before_def history_at_Some)
  have same: "docs x = docs (ext s)" by (rule store_now [OF assms(2) now(1)])
  note st' = storePolicy_documents [OF st assms(2)]
  show ?thesis
  proof (cases "same_content u (p_Policy cur)")
    case True
    then have upd: "write_back t upd u cur h = h\<lparr>h_Policy := (touch_policy t upd cur)\<lparr>p_Policy := None\<rparr>\<rparr>"
      by (simp add: write_back_def Let_def)
    from True branch have b: "p2 = ?p t" "pv = p_Policy cur" "items = []" "ext s1 = x" by simp_all
    show ?thesis
      by (rule that [of u t])
        (use st' b same True u id ver in \<open>simp_all add: upd current_policy_def touch_policy_def
          updated_documents_def\<close>)
  next
    case False
    let ?e = "next_version ?i t (word_of_nat ?n) u"
    from False branch have "createNewVersion m ?i t (?p t) upd (s\<lparr>ext := x\<rparr>) = (Ok (p2, pv, items), s1)"
      by simp
    from createNewVersion_documents [OF this assms(2) u _ id(2) refl refl, of "h_Counter h"] assms(3) same
    have b: "p2 = (?p t)\<lparr>p_CurrentVersion := word_of_nat ?n\<rparr>" "pv = Some ?e"
      "items = [\<lparr>bi_Operation = BULK_CREATE, bi_Message = MsgPolicyEntity ?e,
            bi_DocumentId = policyVersionId ?i (word_of_nat ?n),
            bi_Join = Some \<lparr>join_Field = policyDocumentJoinField,
                            join_Name = policyVersionRelationName, join_Parent = ?i\<rparr>,
            bi_Routing = ''''\<rparr>]"
      "docs (ext s1) = put_doc (counter_key m shard ?i) MsgEmpty (docs (ext s))"
      by (simp_all add: history_at_Some)
    have upd: "write_back t upd u cur h = h\<lparr>h_Policy := (touch_policy t upd cur)
        \<lparr>p_CurrentVersion := word_of_nat ?n, p_Policy := None\<rparr>,
        h_Versions := (h_Versions h)(word_of_nat ?n \<mapsto> ?e), h_Counter := ?n\<rparr>"
      using False by (simp add: write_back_def Let_def)
    from st' b id have docs: "docs (ext s) (version_key m shard ?i (word_of_nat ?n)) = None"
      "docs (ext s') = put_doc (version_key m shard ?i (word_of_nat ?n)) (MsgPolicyEntity ?e)
        (put_doc (policy_key m shard ?i) (MsgPolicy (p2\<lparr>p_Policy := None\<rparr>))
          (put_doc (counter_key m shard ?i) MsgEmpty (docs (ext s))))"
      by (simp_all add: keys_differ [OF dot dot] Let_def version_key_def [symmetric] del: not_None_eq of_nat_Suc split: if_split_asm)
    show ?thesis
      by (rule that [of u t])
        (use st' b docs False u id in \<open>simp_all add: upd current_policy_def touch_policy_def
          updated_documents_def next_version_def del: of_nat_Suc\<close>)
  qed
qed

lemma read_before_current: "history_ok i h \<Longrightarrow> read_before (current_policy h) h"
  by (auto simp: read_before_def history_ok_def current_policy_def)

lemma write_back_current:
  assumes "history_ok i h"
  shows "write_back t upd u (current_policy h) h = update_history t upd u h"
  using assms by (cases "h_Policy h") (simp add: history_ok_def current_policy_def touch_policy_def
      write_back_def update_history_def Let_def)

lemma write_back_ok:
  assumes "history_ok i h" "read_before cur h" "i = p_Id upd" "h' = write_back t upd u cur h"
  shows "history_ok i h'"
proof -
  have "unat (word_of_nat (Suc (h_Counter h)) :: uint32) \<le> Suc (h_Counter h)"
    by (simp only: unsigned_of_nat take_bit_eq_mod) simp
  with assms show ?thesis
    by (auto simp: history_ok_def write_back_def read_before_def Let_def touch_policy_def next_version_def
        simp del: of_nat_Suc intro: le_SucI)
qed

lemma write_back_keeps:
  assumes "h_Versions h v = Some e" "\<not> same_content u (p_Policy cur) \<longrightarrow>
    h_Versions h (word_of_nat (Suc (h_Counter h))) = None"
  shows "h_Versions (write_back t upd u cur h) v = Some e"
  using assms by (auto simp: write_back_def Let_def simp del: of_nat_Suc)

lemma write_back_grows:
  assumes "history_at m shard d i = Some h" "\<not> same_content u (p_Policy cur) \<Longrightarrow>
       d (version_key m shard i (word_of_nat (Suc (h_Counter h)))) = None"
  shows "h_Versions h \<subseteq>\<^sub>m h_Versions (write_back t upd u cur h)"
  unfolding map_le_def using assms
  by (auto intro!: write_back_keeps [symmetric] simp: history_at_Some simp del: of_nat_Suc)

lemma updated_documents_history:
  assumes "policies_ok m shard d" "history_at m shard d i = Some h" "history_ok i h" "read_before cur h"
    "i = p_Id upd" "h' = write_back t upd u cur h"
    "d' = updated_documents m shard (h_Policy h')
       (if same_content u (p_Policy cur) then None else p_Policy (current_policy h')) d"
    "\<not> same_content u (p_Policy cur) \<Longrightarrow>
       d (version_key m shard i (word_of_nat (Suc (h_Counter h)))) = None"
  shows "history_at m shard d' = (history_at m shard d)(i \<mapsto> h') \<and> policies_ok m shard d'"
proof -
  let ?same = "same_content u (p_Policy cur)"
  let ?v = "word_of_nat (Suc (h_Counter h)) :: uint32" and ?e = "next_version i t (word_of_nat (Suc (h_Counter h))) u"
  have dot: "CHR ''.'' \<notin> set i" using assms(2) by (simp add: history_at_Some)
  have id: "p_Id (h_Policy h') = i"
    using assms(3,4,6) by (simp add: history_ok_def read_before_def write_back_def Let_def touch_policy_def)
  have d': "d' = (if ?same then put_doc (policy_key m shard i) (MsgPolicy (h_Policy h')) d
    else put_doc (version_key m shard i ?v) (MsgPolicyEntity ?e)
       (put_doc (policy_key m shard i) (MsgPolicy (h_Policy h')) (put_doc (counter_key m shard i) MsgEmpty d)))"
    unfolding assms(7) updated_documents_def id
    using assms(6) assms(5) [symmetric] by (simp add: write_back_def Let_def current_policy_def
        next_version_def del: of_nat_Suc)
  note diff = keys_differ [OF dot dot]
  have others: "same_documents m shard d d' j" if "CHR ''.'' \<notin> set j" "j \<noteq> i" for j
    using that by (simp add: d' same_documents_def keys_differ [OF that(1) dot] del: of_nat_Suc)
  have versions: "the_entity (d' (version_key m shard i v)) = h_Versions h' v" for v
  proof -
    have "h_Versions h = (\<lambda>v. the_entity (d (version_key m shard i v)))"
      using assms(2) by (simp add: history_at_Some)
    then show ?thesis using assms(6) assms(5) [symmetric]
      by (auto simp: d' diff write_back_def Let_def simp del: of_nat_Suc)
  qed
  have at: "history_at m shard d' i = Some h'"
    unfolding history_at_Some
  proof (intro conjI)
    show "d' (counter_key m shard i) = Some (MsgEmpty, h_Counter h')"
      using assms(2,6) by (simp add: d' diff history_at_Some write_back_def Let_def)
    show "the_policy (d' (policy_key m shard i)) = Some (h_Policy h')" by (simp add: d' diff)
    show "h_Versions h' = (\<lambda>v. the_entity (d' (version_key m shard i v)))" by (simp add: versions)
  qed (rule dot)
  have kinds: "d' (version_key m shard i v) = None \<or> the_entity (d' (version_key m shard i v)) \<noteq> None" for v
  proof -
    from assms(1) dot have "d (version_key m shard i v) = None \<or> the_entity (d (version_key m shard i v)) \<noteq> None"
      by (simp add: policies_ok_def policy_documents_ok_def)
    then show ?thesis by (cases "v = ?v") (simp_all add: d' diff del: of_nat_Suc not_None_eq)
  qed
  have ok: "history_ok i h'" by (rule write_back_ok [OF assms(3-6)])
  have "policies_ok m shard d'" by (rule policies_ok_updated [OF assms(1) others at ok kinds])
  with histories_updated [OF others at] show ?thesis by simp
qed

text \<open>An update writes the documents of one step of the history.\<close>

lemma UpdatePolicy_documents:
  assumes "UpdatePolicy m request s = (Ok q, s')" "upr_Policy request = Some upd"
    "CHR ''.'' \<notin> set (p_Id upd)" "document_store m shard docs" "gets_answered m"
    "policies_ok m shard (docs (ext s))"
  obtains h t u where "history_at m shard (docs (ext s)) (p_Id upd) = Some h"
    "\<not> p_Deleted (h_Policy h)" "history_ok (p_Id upd) h" "p_Policy upd = Some u"
    "q = current_policy (update_history t upd u h)"
    "docs (ext s') = updated_documents m shard (h_Policy (update_history t upd u h))
       (if same_content u (p_Policy (current_policy h)) then None
        else p_Policy (current_policy (update_history t upd u h))) (docs (ext s))"
    "\<not> same_content u (p_Policy (current_policy h)) \<longrightarrow>
       docs (ext s) (version_key m shard (p_Id upd) (word_of_nat (Suc (h_Counter h)))) = None"
proof -
  let ?i = "p_Id upd"
  from assms(1,2) obtain cur s1 where get: "GetPolicy m \<lparr>gpr_Id = ?i\<rparr> s = (Ok cur, s1)"
    and alive: "\<not> p_Deleted cur" and run: "applyUpdate m upd cur s1 = (Ok q, s')"
    unfolding UpdatePolicy_def by (auto simp: attempt_Ok split: if_splits)
  from get have i: "?i \<noteq> ''''"
    using parse_plain [of "[]"] by (auto dest!: GetPolicy_Ok simp: getPolicy_Ok)
  have parse: "parsePolicyVersionId (gpr_Id \<lparr>gpr_Id = ?i\<rparr>) = Inr (?i, 0)" by (simp add: parse_plain [OF assms(3)])
  from GetPolicy_history [OF assms(4-6) parse i] get
  have found: "lookup_policy (history_at m shard (docs (ext s)) ?i) 0 = Ok cur" and same: "docs (ext s1) = docs (ext s)"
    by simp_all
  from found obtain h where h: "history_at m shard (docs (ext s)) ?i = Some h" and cur: "cur = current_policy h"
    by (auto simp: lookup_policy_def current_policy_def split: option.splits)
  have ok: "history_ok ?i h" by (rule history_at_ok [OF assms(6) h])
  from h same have h1: "history_at m shard (docs (ext s1)) ?i = Some h" by simp
  note wb = write_back_current [OF ok]
  have before: "read_before cur h" unfolding cur by (rule read_before_current [OF ok])
  obtain t u where u: "p_Policy upd = Some u" and q: "q = current_policy (update_history t upd u h)"
    and d': "docs (ext s') = updated_documents m shard (h_Policy (update_history t upd u h))
       (if same_content u (p_Policy cur) then None else p_Policy q) (docs (ext s1))"
    and new: "\<not> same_content u (p_Policy cur) \<longrightarrow>
       docs (ext s1) (version_key m shard ?i (word_of_nat (Suc (h_Counter h)))) = None"
    by (rule applyUpdate_documents [OF run assms(4) h1 ok before, unfolded cur wb, folded cur])
  have "\<not> p_Deleted (h_Policy h)" using alive cur by (simp add: current_policy_def)
  then show ?thesis
    by (rule that [OF h _ ok u q]) (use d' new same cur q in \<open>simp_all del: of_nat_Suc\<close>)
qed

text \<open>Updating a policy is one step of its history, and loses no version.\<close>

lemma UpdatePolicy_history:
  assumes "UpdatePolicy m request s = (Ok q, s')" "upr_Policy request = Some upd"
    "CHR ''.'' \<notin> set (p_Id upd)" "document_store m shard docs" "gets_answered m"
    "policies_ok m shard (docs (ext s))"
  shows "\<exists>h t u. history_at m shard (docs (ext s)) (p_Id upd) = Some h \<and> \<not> p_Deleted (h_Policy h) \<and>
    p_Policy upd = Some u \<and> q = current_policy (update_history t upd u h) \<and>
    history_at m shard (docs (ext s'))
      = (history_at m shard (docs (ext s)))(p_Id upd \<mapsto> update_history t upd u h) \<and>
    h_Versions h \<subseteq>\<^sub>m h_Versions (update_history t upd u h) \<and> policies_ok m shard (docs (ext s'))"
proof -
  let ?i = "p_Id upd"
  obtain h t u where h: "history_at m shard (docs (ext s)) ?i = Some h" and alive: "\<not> p_Deleted (h_Policy h)"
    and ok: "history_ok ?i h" and u: "p_Policy upd = Some u" and q: "q = current_policy (update_history t upd u h)"
    and d': "docs (ext s') = updated_documents m shard (h_Policy (update_history t upd u h))
       (if same_content u (p_Policy (current_policy h)) then None
        else p_Policy (current_policy (update_history t upd u h))) (docs (ext s))"
    and new: "\<not> same_content u (p_Policy (current_policy h)) \<longrightarrow>
       docs (ext s) (version_key m shard ?i (word_of_nat (Suc (h_Counter h)))) = None"
    by (rule UpdatePolicy_documents [OF assms])
  note wb = write_back_current [OF ok, of t upd u]
  note step = updated_documents_history [OF assms(6) h ok read_before_current [OF ok] refl wb [symmetric] d'
      new [rule_format]]
  moreover have "h_Versions h \<subseteq>\<^sub>m h_Versions (update_history t upd u h)"
    unfolding wb [symmetric] by (rule write_back_grows [OF h new [rule_format]])
  ultimately show ?thesis using h alive u q by blast
qed

section \<open>The operations implement the abstract store\<close>

text \<open>Getting a policy from a map of histories, for every id a request can carry.\<close>

definition read_policy :: "(string \<Rightarrow> policy_history option) \<Rightarrow> string \<Rightarrow> policy outcome" where
  "read_policy histories i = (case parsePolicyVersionId i of
       Inl err \<Rightarrow> Err (createErrorWithCode ''invalid policy id'' (Some err) InvalidArgument)
     | Inr (policyId, version) \<Rightarrow>
         if policyId = '''' then Err (createErrorWithCode ''must specify policy id'' None InvalidArgument)
         else lookup_policy (histories policyId) version)"

lemma GetPolicy_read:
  assumes "document_store m shard docs" "gets_answered m" "policies_ok m shard (docs (ext s))"
  shows "\<exists>s'. GetPolicy m request s = (read_policy (history_at m shard (docs (ext s))) (gpr_Id request), s') \<and>
    docs (ext s') = docs (ext s)"
proof (cases "parsePolicyVersionId (gpr_Id request)")
  case (Inl e)
  then show ?thesis by (simp add: GetPolicy_def attempt_def read_policy_def)
next
  case (Inr iv)
  then show ?thesis
  proof (cases "fst iv = ''''")
    case True
    with Inr show ?thesis
      by (cases iv) (simp add: GetPolicy_def attempt_def read_policy_def getPolicy_def)
  next
    case False
    with Inr GetPolicy_history [OF assms, of request "fst iv" "snd iv"] show ?thesis
      by (cases iv) (simp add: read_policy_def)
  qed
qed

lemma read_plain:
  assumes "history_at m shard d i = Some h" "history_ok i h"
  shows "read_policy (history_at m shard d) i = Ok (current_policy h)"
proof -
  have "CHR ''.'' \<notin> set i" using assms(1) by (simp add: history_at_Some)
  with assms show ?thesis
    by (auto simp: read_policy_def parse_plain lookup_policy_def current_policy_def history_ok_def)
qed

lemma read_version:
  assumes "history_at m shard d i = Some h" "i \<noteq> ''''" "h_Versions h v = Some e" "v \<noteq> 0"
  shows "read_policy (history_at m shard d) (policyVersionId i v) = Ok ((h_Policy h)\<lparr>p_Policy := Some e\<rparr>)"
proof -
  have "CHR ''.'' \<notin> set i" using assms(1) by (simp add: history_at_Some)
  with assms show ?thesis by (simp add: read_policy_def parse_policyVersionId lookup_policy_def)
qed

text \<open>C9: reading a policy, with any id and any store, answers exactly what the histories say:
  the policy with the version the id names, or with its current version when the id names
  none; InvalidArgument for an id that is no policy id, NotFound where there is no such
  policy, and an internal error where there is no such version. No document changes.\<close>

theorem GetPolicy_refines:
  assumes "document_store m shard docs" "gets_answered m" "policies_ok m shard (docs (ext s))"
  shows "\<exists>s'. GetPolicy m request s = (read_policy (history_at m shard (docs (ext s))) (gpr_Id request), s') \<and>
    history_at m shard (docs (ext s')) = history_at m shard (docs (ext s)) \<and>
    policies_ok m shard (docs (ext s'))"
  using GetPolicy_read [OF assms, of request] assms(3) by (elim exE conjE) auto

text \<open>C8: creating a policy starts a history under an id that had none, leaves every other
  history and the invariant of the documents as they were, and the policy it returned is what
  the next read of its id answers.\<close>

theorem CreatePolicy_refines:
  assumes "CreatePolicy m pol s = (Ok q, s')" "document_store m shard docs" "gets_answered m"
    "plain_uuids m" "policies_ok m shard (docs (ext s))"
  shows "history_at m shard (docs (ext s)) (p_Id q) = None \<and>
    history_at m shard (docs (ext s')) = (history_at m shard (docs (ext s)))(p_Id q \<mapsto> new_history q) \<and>
    policies_ok m shard (docs (ext s')) \<and>
    fst (GetPolicy m \<lparr>gpr_Id = p_Id q\<rparr> s') = Ok q"
proof -
  from CreatePolicy_history [OF assms(1,2,4,5)]
  have none: "history_at m shard (docs (ext s)) (p_Id q) = None"
    and new: "history_at m shard (docs (ext s')) = (history_at m shard (docs (ext s)))(p_Id q \<mapsto> new_history q)"
    and q: "current_policy (new_history q) = q" and ok: "policies_ok m shard (docs (ext s'))"
    by simp_all
  from new have at: "history_at m shard (docs (ext s')) (p_Id q) = Some (new_history q)" by simp
  from read_plain [OF at history_at_ok [OF ok at]] q GetPolicy_read [OF assms(2,3) ok, of "\<lparr>gpr_Id = p_Id q\<rparr>"]
  have "fst (GetPolicy m \<lparr>gpr_Id = p_Id q\<rparr> s') = Ok q" by auto
  with none new ok show ?thesis by blast
qed

text \<open>C7: updating a policy under an id without a dot, which a version id is not, is one step of its
  history, at the time of the update: the policy
  was there and not deleted, its history becomes the updated one, every other history is as
  before, no version of before is lost or changed, the invariant of the documents is kept,
  and the policy returned is what the next read of its id answers. Under the id of a version
  the update is another one, and does lose a version (see C35).\<close>

theorem UpdatePolicy_refines:
  assumes "UpdatePolicy m request s = (Ok q, s')" "upr_Policy request = Some upd"
    "CHR ''.'' \<notin> set (p_Id upd)" "document_store m shard docs" "gets_answered m"
    "policies_ok m shard (docs (ext s))"
  shows "\<exists>h t u. history_at m shard (docs (ext s)) (p_Id upd) = Some h \<and> \<not> p_Deleted (h_Policy h) \<and>
    p_Policy upd = Some u \<and>
    history_at m shard (docs (ext s'))
      = (history_at m shard (docs (ext s)))(p_Id upd \<mapsto> update_history t upd u h) \<and>
    h_Versions h \<subseteq>\<^sub>m h_Versions (update_history t upd u h) \<and> policies_ok m shard (docs (ext s')) \<and>
    fst (GetPolicy m \<lparr>gpr_Id = p_Id upd\<rparr> s') = Ok q"
proof -
  from UpdatePolicy_history [OF assms] obtain h t u where
    h: "history_at m shard (docs (ext s)) (p_Id upd) = Some h" "\<not> p_Deleted (h_Policy h)"
    "p_Policy upd = Some u" "q = current_policy (update_history t upd u h)"
    "h_Versions h \<subseteq>\<^sub>m h_Versions (update_history t upd u h)"
    and new: "history_at m shard (docs (ext s'))
      = (history_at m shard (docs (ext s)))(p_Id upd \<mapsto> update_history t upd u h)"
    and ok: "policies_ok m shard (docs (ext s'))"
    by blast
  from new have at: "history_at m shard (docs (ext s')) (p_Id upd) = Some (update_history t upd u h)" by simp
  from read_plain [OF at history_at_ok [OF ok at]] h(4) GetPolicy_read [OF assms(4,5) ok, of "\<lparr>gpr_Id = p_Id upd\<rparr>"]
  have "fst (GetPolicy m \<lparr>gpr_Id = p_Id upd\<rparr> s') = Ok q" by auto
  with h new ok show ?thesis by blast
qed

section \<open>Deleting\<close>

definition delete_history :: "policy_history \<Rightarrow> policy_history" where
  "delete_history h = h\<lparr>h_Policy := (h_Policy h)\<lparr>p_Deleted := True\<rparr>\<rparr>"

lemma DeletePolicy_documents:
  assumes "DeletePolicy m request s = (Ok u, s')" "document_store m shard docs" "gets_answered m"
    "policies_ok m shard (docs (ext s))" "CHR ''.'' \<notin> set (dpr_Id request)" "i = dpr_Id request"
  obtains h where "history_at m shard (docs (ext s)) i = Some h"
    "docs (ext s') = put_doc (policy_key m shard i) (MsgPolicy (h_Policy (delete_history h))) (docs (ext s))"
proof -
  from assms(1) obtain p s1 r x where get: "getPolicy m i s = (Ok p, s1)"
    and upd: "esc_Update (esClient m) \<lparr>ur_Index = policiesAlias m, ur_DocumentId = i,
        ur_Refresh = refresh_of m, ur_Message = MsgPolicy (p\<lparr>p_Deleted := True\<rparr>), ur_Routing = ''''\<rparr>
        (ext s1) = (Inr r, x)" and s': "ext s' = x"
    unfolding DeletePolicy_def assms(6) by (auto simp: attempt_Ok external_Ok)
  have i: "i \<noteq> ''''" using get by (simp add: getPolicy_Ok)
  obtain s2 where "docs (ext s2) = docs (ext s)"
    and "getPolicy m i s = ((case history_at m shard (docs (ext s)) i of
       None \<Rightarrow> Err (createErrorWithCode ''policy not found'' None NotFound) | Some h \<Rightarrow> Ok (h_Policy h)), s2)"
    by (rule getPolicy_answer [OF assms(2-4) i]) (use assms(5,6) in simp)
  with get obtain h where h: "history_at m shard (docs (ext s)) i = Some h" "p = h_Policy h"
    and same: "docs (ext s1) = docs (ext s)"
    by (auto split: option.splits)
  from store_update(1) [OF assms(2) upd refl] s' same h
  show ?thesis by (intro that [of h]) (simp_all add: delete_history_def policy_key_def route_def)
qed

lemma DeletePolicy_history:
  assumes "DeletePolicy m request s = (Ok u, s')" "document_store m shard docs" "gets_answered m"
    "policies_ok m shard (docs (ext s))" "CHR ''.'' \<notin> set (dpr_Id request)" "i = dpr_Id request"
  shows "\<exists>h. history_at m shard (docs (ext s)) i = Some h \<and>
    history_at m shard (docs (ext s')) = (history_at m shard (docs (ext s)))(i \<mapsto> delete_history h) \<and>
    policies_ok m shard (docs (ext s'))"
proof -
  obtain h where h: "history_at m shard (docs (ext s)) i = Some h"
    and d': "docs (ext s') = put_doc (policy_key m shard i) (MsgPolicy (h_Policy (delete_history h))) (docs (ext s))"
    by (rule DeletePolicy_documents [OF assms])
  have dot: "CHR ''.'' \<notin> set i" using assms(5,6) by simp
  note diff = keys_differ [OF dot dot]
  have others: "same_documents m shard (docs (ext s)) (docs (ext s')) j"
    if "CHR ''.'' \<notin> set j" "j \<noteq> i" for j
    using that by (simp add: d' same_documents_def keys_differ [OF that(1) dot])
  have at: "history_at m shard (docs (ext s')) i = Some (delete_history h)"
    using h by (simp add: history_at_Some d' diff) (simp add: delete_history_def)
  have ok: "history_ok i (delete_history h)"
    using history_at_ok [OF assms(4) h] by (simp add: history_ok_def delete_history_def)
  have kinds: "docs (ext s') (version_key m shard i v) = None \<or>
      the_entity (docs (ext s') (version_key m shard i v)) \<noteq> None" for v
    using assms(4) dot by (simp add: d' diff policies_ok_def policy_documents_ok_def)
  show ?thesis
    by (intro exI [of _ h] conjI h histories_updated [OF others at]
        policies_ok_updated [OF assms(4) others at ok kinds])
qed

section \<open>An update under a version id\<close>

lemma one_item_elsewhere:
  assumes "apply_items shard ix items d = Some d'" "\<forall>item\<in>set items. bi_DocumentId item \<noteq> i"
  shows "d' (ix, r, i) = d (ix, r, i)"
  using assms
proof (induction items arbitrary: d)
  case (Cons item items)
  then have "apply_items shard ix items
      (put_doc (ix, shard (item_route item), bi_DocumentId item) (bi_Message item) d) = Some d'"
    by (auto simp: Let_def split: if_splits)
  from Cons.IH [OF this] Cons.prems(2) show ?case by (auto simp: put_doc_def)
qed simp

lemma applyUpdate_overwrites:
  assumes "applyUpdate m upd cur s = (Ok q, s')" "document_store m shard docs"
  shows "\<exists>p n. docs (ext s') (policy_key m shard (p_Id upd)) = Some (MsgPolicy p, n)"
proof -
  from applyUpdate_steps [OF assms(1)] obtain t s2 chg p2 pv items s4 where
    chg: "hasPolicyContentChanges (cur\<lparr>p_Name := p_Name upd, p_Description := p_Description upd,
        p_Updated := Some t\<rparr>) upd s2 = (Ok chg, s2)"
    and ver: "(if chg then createNewVersion m (p_Id upd) t (cur\<lparr>p_Name := p_Name upd,
        p_Description := p_Description upd, p_Updated := Some t\<rparr>) upd
      else ret (cur\<lparr>p_Name := p_Name upd, p_Description := p_Description upd,
        p_Updated := Some t\<rparr>, p_Policy cur, [])) s2 = (Ok (p2, pv, items), s4)"
    and st: "storePolicy m (p_Id upd) p2 pv items s4 = (Ok q, s')"
    by blast
  have "\<forall>item\<in>set items. bi_DocumentId item \<noteq> p_Id upd"
  proof (cases chg)
    case True
    with ver chg obtain u where "p_Policy upd = Some u" by (auto simp: hasPolicyContentChanges_Ok)
    from True ver have "createNewVersion m (p_Id upd) t (cur\<lparr>p_Name := p_Name upd,
        p_Description := p_Description upd, p_Updated := Some t\<rparr>) upd s2 = (Ok (p2, pv, items), s4)"
      by simp
    from createNewVersion_Ok [OF this \<open>p_Policy upd = Some u\<close>] obtain ent :: policy_entity
      where "map bi_DocumentId items = [policyVersionId (p_Id upd) (pe_Version ent)]" by (elim exE conjE)
    then show ?thesis by (auto simp: map_eq_Cons_conv policyVersionId_def)
  next
    case False
    with ver show ?thesis by simp
  qed
  from one_item_elsewhere [OF conjunct2 [OF storePolicy_documents [OF st assms(2)]] this]
  show ?thesis by (simp add: policy_key_def)
qed

text \<open>C35: the id of an update is taken as the id of the policy document, although it may be the
  id of a version, for which the policy is found. Such an update writes the policy over the
  version: where both ids lead to one shard, the content of that version is gone and the
  documents no longer make up a store of policies.\<close>

theorem update_under_version_id:
  assumes "UpdatePolicy m \<lparr>upr_Policy = Some upd\<rparr> s = (Ok q, s')"
    "p_Id upd = policyVersionId i v" "v \<noteq> 0" "i \<noteq> ''''" "CHR ''.'' \<notin> set i"
    "document_store m shard docs" "gets_answered m" "policies_ok m shard (docs (ext s))"
    "shard (policyVersionId i v) = shard i"
  shows "the_entity (docs (ext s) (version_key m shard i v)) \<noteq> None \<and>
    the_entity (docs (ext s') (version_key m shard i v)) = None \<and>
    \<not> policies_ok m shard (docs (ext s'))"
proof -
  from assms(1) obtain cur s1 where get: "GetPolicy m \<lparr>gpr_Id = p_Id upd\<rparr> s = (Ok cur, s1)"
    and run: "applyUpdate m upd cur s1 = (Ok q, s')"
    unfolding UpdatePolicy_def by (auto simp: attempt_Ok split: if_splits)
  from GetPolicy_read [OF assms(6-8), of "\<lparr>gpr_Id = p_Id upd\<rparr>"] get
  have "read_policy (history_at m shard (docs (ext s))) (policyVersionId i v) = Ok cur"
    by (simp add: assms(2))
  with assms(3,4) have before: "the_entity (docs (ext s) (version_key m shard i v)) \<noteq> None"
    by (auto simp: read_policy_def parse_policyVersionId [OF assms(5)] lookup_policy_def history_at_Some
        split: option.splits)
  have "policy_key m shard (p_Id upd) = version_key m shard i v"
    using assms(2,9) by (simp add: policy_key_def version_key_def)
  with applyUpdate_overwrites [OF run assms(6)] obtain p n
    where after: "docs (ext s') (version_key m shard i v) = Some (MsgPolicy p, n)" by auto
  have "\<not> policy_documents_ok m shard (docs (ext s')) i"
  proof
    assume "policy_documents_ok m shard (docs (ext s')) i"
    then have "docs (ext s') (version_key m shard i v) = None \<or>
        the_entity (docs (ext s') (version_key m shard i v)) \<noteq> None"
      unfolding policy_documents_ok_def by blast
    with after show False by simp
  qed
  with assms(5) have "\<not> policies_ok m shard (docs (ext s'))" by (auto simp: policies_ok_def)
  with before after show ?thesis by simp
qed

end
