(* ===== verification/Policy_Overlap.thy ===== *)
theory Policy_Overlap
  imports Policy_Store
begin

text \<open>
  Updates that overlap. \<open>UpdatePolicy\<close> of \<open>pkg/policy/manager.go\<close> reads the policy, and
  writes it back later; nothing in between notices what other calls do. Here the two halves
  are steps of their own, so that calls interleave: the documents still make up a store of
  policies and no version is lost, but what the second half writes is the policy the
  first half read. Calls one after the other are the case where each update that begins is
  the next to finish. The calls considered are those that succeed, and updates and deletions
  name their policy by an id without a dot: what an update under the id of a version does
  is another matter (C35).
\<close>

section \<open>The two halves of an update\<close>

lemma UpdatePolicy_halves:
  assumes "upr_Policy request = Some upd"
  shows "UpdatePolicy m request s = (Ok q, s') \<longleftrightarrow>
    (\<exists>cur s1. GetPolicy m \<lparr>gpr_Id = p_Id upd\<rparr> s = (Ok cur, s1) \<and> \<not> p_Deleted cur \<and>
       applyUpdate m upd cur s1 = (Ok q, s'))"
  using assms unfolding UpdatePolicy_def by (auto simp: attempt_Ok split: if_splits)

text \<open>An update under way: the request and the policy it read.\<close>

type_synonym pending = "policy \<times> policy"

inductive overlap :: "'w manager \<Rightarrow> 'w world \<Rightarrow> pending list \<Rightarrow> policy list \<Rightarrow> 'w world \<Rightarrow> bool"
  for m :: "'w manager" and s :: "'w world" where
  overlap_none: "overlap m s [] [] s"
| overlap_create: "overlap m s pend ps s1 \<Longrightarrow> CreatePolicy m pol s1 = (Ok q, s2) \<Longrightarrow>
    overlap m s pend (ps @ [q]) s2"
| overlap_begin: "overlap m s pend ps s1 \<Longrightarrow> GetPolicy m \<lparr>gpr_Id = p_Id upd\<rparr> s1 = (Ok cur, s2) \<Longrightarrow>
    \<not> p_Deleted cur \<Longrightarrow> CHR ''.'' \<notin> set (p_Id upd) \<Longrightarrow> overlap m s (pend @ [(upd, cur)]) ps s2"
| overlap_finish: "overlap m s pend ps s1 \<Longrightarrow> (upd, cur) \<in> set pend \<Longrightarrow>
    applyUpdate m upd cur s1 = (Ok q, s2) \<Longrightarrow> overlap m s (remove1 (upd, cur) pend) (ps @ [q]) s2"
| overlap_delete: "overlap m s pend ps s1 \<Longrightarrow> DeletePolicy m request s1 = (Ok u, s2) \<Longrightarrow>
    CHR ''.'' \<notin> set (dpr_Id request) \<Longrightarrow> overlap m s pend ps s2"
| overlap_get: "overlap m s pend ps s1 \<Longrightarrow> GetPolicy m get_request s1 = (r, s2) \<Longrightarrow> overlap m s pend ps s2"

section \<open>Histories grow\<close>

definition histories_grow ::
  "'w manager \<Rightarrow> (string \<Rightarrow> nat) \<Rightarrow> documents \<Rightarrow> documents \<Rightarrow> bool" where
  "histories_grow m shard d d' \<longleftrightarrow> policies_ok m shard d' \<and>
     (\<forall>i h. history_at m shard d i = Some h \<longrightarrow>
        (\<exists>h'. history_at m shard d' i = Some h' \<and> h_Versions h \<subseteq>\<^sub>m h_Versions h'))"

lemma histories_grow_intro:
  assumes "history_at m shard d' = (history_at m shard d)(i \<mapsto> h')" "policies_ok m shard d'"
    "\<And>h. history_at m shard d i = Some h \<Longrightarrow> h_Versions h \<subseteq>\<^sub>m h_Versions h'"
  shows "histories_grow m shard d d'"
  using assms by (auto simp: histories_grow_def)

lemma histories_grow_same: "policies_ok m shard d \<Longrightarrow> histories_grow m shard d d"
  by (simp add: histories_grow_def)

lemma grown_version:
  assumes "h_Versions h v = Some e" "h_Versions h \<subseteq>\<^sub>m h_Versions h'"
  shows "h_Versions h' v = Some e"
  using assms by (metis domI map_le_def)

text \<open>The histories remember the content of every policy that was returned.\<close>

definition remembers :: "'w manager \<Rightarrow> (string \<Rightarrow> nat) \<Rightarrow> documents \<Rightarrow> policy \<Rightarrow> bool" where
  "remembers m shard d q \<longleftrightarrow> (\<exists>h e. history_at m shard d (p_Id q) = Some h \<and> p_Id q \<noteq> '''' \<and>
     p_Policy q = Some e \<and> h_Versions h (p_CurrentVersion q) = Some e)"

lemma remembers_current:
  assumes "history_at m shard d i = Some h" "history_ok i h" "q = current_policy h"
  shows "remembers m shard d q"
  using assms by (auto simp: remembers_def history_ok_def current_policy_def)

lemma remembers_grown:
  assumes "remembers m shard d q" "histories_grow m shard d d'"
  shows "remembers m shard d' q"
  using assms grown_version unfolding remembers_def histories_grow_def by metis

text \<open>What an update under way has read is still a version of its policy.\<close>

definition pending_ok :: "'w manager \<Rightarrow> (string \<Rightarrow> nat) \<Rightarrow> documents \<Rightarrow> pending \<Rightarrow> bool" where
  "pending_ok m shard d pend \<longleftrightarrow> (\<exists>h. history_at m shard d (p_Id (fst pend)) = Some h \<and>
     p_Id (snd pend) = p_Id (fst pend) \<and> read_before (snd pend) h)"

lemma pending_grown:
  assumes "pending_ok m shard d pend" "histories_grow m shard d d'"
  shows "pending_ok m shard d' pend"
proof -
  from assms(1) obtain h where h: "history_at m shard d (p_Id (fst pend)) = Some h"
    "p_Id (snd pend) = p_Id (fst pend)" "read_before (snd pend) h"
    unfolding pending_ok_def by blast
  from assms(2) h(1) obtain h' where h': "history_at m shard d' (p_Id (fst pend)) = Some h'"
    "h_Versions h \<subseteq>\<^sub>m h_Versions h'" and ok: "policies_ok m shard d'"
    unfolding histories_grow_def by blast
  have "p_Id (h_Policy h') = p_Id (fst pend)"
    using history_at_ok [OF ok h'(1)] by (simp add: history_ok_def)
  moreover from h(3) obtain e where "p_Policy (snd pend) = Some e" "h_Versions h (p_CurrentVersion (snd pend)) = Some e"
    unfolding read_before_def by auto
  moreover note grown_version [OF this(2) h'(2)]
  ultimately show ?thesis using h(2) h'(1) by (auto simp: pending_ok_def read_before_def)
qed

lemma begin_pending:
  assumes "GetPolicy m \<lparr>gpr_Id = p_Id upd\<rparr> s = (Ok cur, s')" "CHR ''.'' \<notin> set (p_Id upd)"
    "document_store m shard docs" "gets_answered m" "policies_ok m shard (docs (ext s))"
  shows "docs (ext s') = docs (ext s)" "pending_ok m shard (docs (ext s)) (upd, cur)"
    "\<exists>h. history_at m shard (docs (ext s)) (p_Id upd) = Some h \<and> cur = current_policy h"
proof -
  from GetPolicy_read [OF assms(3-5), of "\<lparr>gpr_Id = p_Id upd\<rparr>"] assms(1)
  have read: "read_policy (history_at m shard (docs (ext s))) (p_Id upd) = Ok cur"
    and same: "docs (ext s') = docs (ext s)" by auto
  from read obtain h where h: "history_at m shard (docs (ext s)) (p_Id upd) = Some h"
    and cur: "cur = current_policy h"
    by (auto simp: read_policy_def parse_plain [OF assms(2)] lookup_policy_def current_policy_def
        split: if_splits option.splits)
  show "docs (ext s') = docs (ext s)" by (rule same)
  from history_at_ok [OF assms(5) h] have ok: "history_ok (p_Id upd) h" .
  from read_before_current [OF ok] cur h ok show "pending_ok m shard (docs (ext s)) (upd, cur)"
    by (auto simp: pending_ok_def history_ok_def current_policy_def)
  from h cur show "\<exists>h. history_at m shard (docs (ext s)) (p_Id upd) = Some h \<and> cur = current_policy h" by blast
qed

lemma finish_history:
  assumes "applyUpdate m upd cur s = (Ok q, s')" "pending_ok m shard (docs (ext s)) (upd, cur)"
    "document_store m shard docs" "policies_ok m shard (docs (ext s))"
  obtains h t u where "p_Policy upd = Some u"
    "history_at m shard (docs (ext s)) (p_Id upd) = Some h"
    "q = current_policy (write_back t upd u cur h)"
    "history_at m shard (docs (ext s')) = (history_at m shard (docs (ext s)))(p_Id upd \<mapsto> write_back t upd u cur h)"
    "histories_grow m shard (docs (ext s)) (docs (ext s'))"
proof -
  from assms(2) obtain h where h: "history_at m shard (docs (ext s)) (p_Id upd) = Some h"
    and before: "read_before cur h"
    by (auto simp: pending_ok_def)
  have ok: "history_ok (p_Id upd) h" by (rule history_at_ok [OF assms(4) h])
  obtain t u where u: "p_Policy upd = Some u" and q: "q = current_policy (write_back t upd u cur h)"
    and d': "docs (ext s') = updated_documents m shard (h_Policy (write_back t upd u cur h))
       (if same_content u (p_Policy cur) then None else p_Policy q) (docs (ext s))"
    and new: "\<not> same_content u (p_Policy cur) \<longrightarrow>
       docs (ext s) (version_key m shard (p_Id upd) (word_of_nat (Suc (h_Counter h)))) = None"
    by (rule applyUpdate_documents [OF assms(1,3) h ok before])
  note step = updated_documents_history [OF assms(4) h ok before refl refl d' [unfolded q] new [rule_format]]
  have "h_Versions h \<subseteq>\<^sub>m h_Versions (write_back t upd u cur h)"
    by (rule write_back_grows [OF h new [rule_format]])
  with step h have "histories_grow m shard (docs (ext s)) (docs (ext s'))"
    by (intro histories_grow_intro [of m shard _ _ "p_Id upd" "write_back t upd u cur h"]) auto
  with u h q step show thesis by (intro that [of u h t]) simp_all
qed

section \<open>Whatever overlaps, the store stays a store of policies\<close>

lemma overlap_kept:
  assumes "overlap m s pend ps s'" "document_store m shard docs" "gets_answered m" "plain_uuids m"
    "policies_ok m shard (docs (ext s))"
  shows "policies_ok m shard (docs (ext s')) \<and> list_all (pending_ok m shard (docs (ext s'))) pend \<and>
    list_all (remembers m shard (docs (ext s'))) ps"
proof -
  have later: "policies_ok m shard d' \<and> list_all (pending_ok m shard d') pend' \<and> list_all (remembers m shard d') ps'"
    if "histories_grow m shard d d'" "list_all (pending_ok m shard d) pend'" "list_all (remembers m shard d) ps'"
    for d d' pend' ps'
  proof (intro conjI)
    show "policies_ok m shard d'" using that(1) by (simp add: histories_grow_def)
    show "list_all (pending_ok m shard d') pend'"
      by (rule list.pred_mono_strong [OF that(2)]) (rule pending_grown [OF _ that(1)])
    show "list_all (remembers m shard d') ps'"
      by (rule list.pred_mono_strong [OF that(3)]) (rule remembers_grown [OF _ that(1)])
  qed
  from assms(1) show ?thesis
  proof induction
    case overlap_none
    then show ?case using assms(5) by simp
  next
    case (overlap_create pend ps s1 pol q s2)
    then have ok: "policies_ok m shard (docs (ext s1))" by simp
    note c = CreatePolicy_history [OF overlap_create.hyps(2) assms(2,4) ok]
    then have grow: "histories_grow m shard (docs (ext s1)) (docs (ext s2))"
      by (intro histories_grow_intro [of m shard _ _ "p_Id q" "new_history q"]) auto
    from c have at: "history_at m shard (docs (ext s2)) (p_Id q) = Some (new_history q)"
      and ok2: "policies_ok m shard (docs (ext s2))" by simp_all
    have "remembers m shard (docs (ext s2)) q"
      using remembers_current [OF at history_at_ok [OF ok2 at]] c by simp
    with later [OF grow, of pend ps] overlap_create.IH show ?case by simp
  next
    case (overlap_begin pend ps s1 upd cur s2)
    then have ok: "policies_ok m shard (docs (ext s1))" by simp
    from begin_pending [OF overlap_begin.hyps(2,4) assms(2,3) ok] overlap_begin.IH show ?case by simp
  next
    case (overlap_finish pend ps s1 upd cur q s2)
    then have ok: "policies_ok m shard (docs (ext s1))" and pend: "pending_ok m shard (docs (ext s1)) (upd, cur)"
      by (auto simp: list_all_iff)
    obtain h t u where q: "q = current_policy (write_back t upd u cur h)"
      and new: "history_at m shard (docs (ext s2)) = (history_at m shard (docs (ext s1)))
        (p_Id upd \<mapsto> write_back t upd u cur h)"
      and grow: "histories_grow m shard (docs (ext s1)) (docs (ext s2))"
      by (rule finish_history [OF overlap_finish.hyps(3) pend assms(2) ok])
    from grow have ok2: "policies_ok m shard (docs (ext s2))" by (simp add: histories_grow_def)
    from new have at: "history_at m shard (docs (ext s2)) (p_Id upd) = Some (write_back t upd u cur h)" by simp
    have "remembers m shard (docs (ext s2)) q"
      by (rule remembers_current [OF at history_at_ok [OF ok2 at] q])
    moreover have "list_all (pending_ok m shard (docs (ext s1))) (remove1 (upd, cur) pend)"
      using overlap_finish.IH by (auto simp: list_all_iff dest: set_remove1_subset [THEN subsetD])
    ultimately show ?case using later [OF grow, of "remove1 (upd, cur) pend" ps] overlap_finish.IH by simp
  next
    case (overlap_delete pend ps s1 request u s2)
    then have ok: "policies_ok m shard (docs (ext s1))" by simp
    from DeletePolicy_history [OF overlap_delete.hyps(2) assms(2,3) ok overlap_delete.hyps(3) refl]
    obtain h where h: "history_at m shard (docs (ext s1)) (dpr_Id request) = Some h"
      "history_at m shard (docs (ext s2))
        = (history_at m shard (docs (ext s1)))(dpr_Id request \<mapsto> delete_history h)"
      "policies_ok m shard (docs (ext s2))" by blast
    have "histories_grow m shard (docs (ext s1)) (docs (ext s2))"
      by (rule histories_grow_intro [OF h(2,3)]) (use h(1) in \<open>simp add: delete_history_def\<close>)
    from later [OF this, of pend ps] overlap_delete.IH show ?case by simp
  next
    case (overlap_get pend ps s1 get_request r s2)
    then have ok: "policies_ok m shard (docs (ext s1))" by simp
    from GetPolicy_read [OF assms(2,3) ok, of get_request] overlap_get.hyps(2)
    have "docs (ext s2) = docs (ext s1)" by auto
    with overlap_get.IH show ?case by simp
  qed
qed

text \<open>C4: versions survive updates that overlap. Let updates overlap in any order with one another and
  with creations, deletions and reads, where each update and each deletion names its policy
  by an id without a dot, which a version id is not (an update under a version id can
  destroy a version, see C35), and where the calls succeed; an update may also stop after it
  has read. Then the version id of every policy that a creation or an update returned
  answers, at any later time, the content it returned, unless the version number has
  wrapped around to 0, which an id cannot name.\<close>

theorem versions_survive_overlap:
  assumes "overlap m s pend ps s'" "q \<in> set ps" "p_CurrentVersion q \<noteq> 0"
    "document_store m shard docs" "gets_answered m" "plain_uuids m" "policies_ok m shard (docs (ext s))"
  shows "\<exists>p. fst (GetPolicy m \<lparr>gpr_Id = policyVersionId (p_Id q) (p_CurrentVersion q)\<rparr> s') = Ok p \<and>
    p_Id p = p_Id q \<and> p_Policy p = p_Policy q"
proof -
  note life = overlap_kept [OF assms(1,4-7)]
  with assms(2) obtain h e where h: "history_at m shard (docs (ext s')) (p_Id q) = Some h" "p_Id q \<noteq> ''''"
    and e: "p_Policy q = Some e" "h_Versions h (p_CurrentVersion q) = Some e"
    unfolding list_all_iff remembers_def by blast
  from life have ok: "policies_ok m shard (docs (ext s'))" by blast
  have "p_Id (h_Policy h) = p_Id q" using history_at_ok [OF ok h(1)] by (simp add: history_ok_def)
  moreover obtain s2 where "GetPolicy m \<lparr>gpr_Id = policyVersionId (p_Id q) (p_CurrentVersion q)\<rparr> s'
      = (read_policy (history_at m shard (docs (ext s'))) (policyVersionId (p_Id q) (p_CurrentVersion q)), s2)"
    using GetPolicy_read [OF assms(4,5) ok,
        of "\<lparr>gpr_Id = policyVersionId (p_Id q) (p_CurrentVersion q)\<rparr>"] by auto
  ultimately show ?thesis
    by (intro exI [of _ "(h_Policy h)\<lparr>p_Policy := Some e\<rparr>"])
      (simp add: read_version [OF h e(2) assms(3)] e(1))
qed

text \<open>C11: an update overwrites what it has not read. Let an update that leaves the content as it
  read it begin, let other calls run that name policies by ids without a dot, updates and
  deletions of the same policy among
  them, and let it finish: the policy is then again the one that was read at the beginning,
  with its version, its content and its deleted flag, under the name and the description of
  the request. Newer versions that were acknowledged in between are no longer current, and a
  policy deleted in between is not deleted.\<close>

theorem update_overwrites_unread:
  assumes "overlap m s pend ps s'" "(upd, cur) \<in> set pend" "p_Policy upd = Some u"
    "same_content u (p_Policy cur)" "applyUpdate m upd cur s' = (Ok q, s'')"
    "document_store m shard docs" "gets_answered m" "plain_uuids m" "policies_ok m shard (docs (ext s))"
  shows "fst (GetPolicy m \<lparr>gpr_Id = p_Id upd\<rparr> s'') = Ok q \<and>
    (\<exists>t. q = cur\<lparr>p_Name := p_Name upd, p_Description := p_Description upd, p_Updated := Some t\<rparr>)"
proof -
  from overlap_kept [OF assms(1,6-9)] assms(2) have ok: "policies_ok m shard (docs (ext s'))"
    and pend: "pending_ok m shard (docs (ext s')) (upd, cur)" by (auto simp: list_all_iff)
  obtain h t u' where u': "p_Policy upd = Some u'" and h: "history_at m shard (docs (ext s')) (p_Id upd) = Some h"
    and q: "q = current_policy (write_back t upd u' cur h)"
    and new: "history_at m shard (docs (ext s'')) = (history_at m shard (docs (ext s')))
        (p_Id upd \<mapsto> write_back t upd u' cur h)"
    and grow: "histories_grow m shard (docs (ext s')) (docs (ext s''))"
    by (rule finish_history [OF assms(5) pend assms(6) ok])
  from grow have ok2: "policies_ok m shard (docs (ext s''))" by (simp add: histories_grow_def)
  from new have at: "history_at m shard (docs (ext s'')) (p_Id upd) = Some (write_back t upd u' cur h)" by simp
  from read_plain [OF at history_at_ok [OF ok2 at]] q
    GetPolicy_read [OF assms(6,7) ok2, of "\<lparr>gpr_Id = p_Id upd\<rparr>"]
  have "fst (GetPolicy m \<lparr>gpr_Id = p_Id upd\<rparr> s'') = Ok q" by auto
  moreover from pend h have "h_Versions h (p_CurrentVersion cur) = p_Policy cur"
    by (auto simp: pending_ok_def read_before_def)
  then have "q = touch_policy t upd cur"
    using q u' assms(3,4) by (simp add: write_back_def Let_def current_policy_def touch_policy_def)
  ultimately show ?thesis by (auto simp: touch_policy_def)
qed

end
