(* ===== verification/Assignment_Store.thy ===== *)
theory Assignment_Store
  imports Policy_Store Assignment_Manager
begin

text \<open>
  What the three policy managers promise together: a catalogue of policies, groups and
  assignments in which every assignment refers to a group and to a version of a policy that
  are there. Groups and assignments are maps read off the documents; the lemmas show what each operation
  of \<open>pkg/policy/policy_group_manager.go\<close> and \<open>pkg/policy/assignment_manager.go\<close> does to
  these maps, on any Elasticsearch that keeps the contract of \<open>Document_Store\<close>.
\<close>

section \<open>The catalogue the documents stand for\<close>

definition group_key :: "'w manager \<Rightarrow> (string \<Rightarrow> nat) \<Rightarrow> string \<Rightarrow> doc_key" where
  "group_key m shard i = (policyGroupsAlias m, shard i, i)"

definition assignment_key :: "'w manager \<Rightarrow> (string \<Rightarrow> nat) \<Rightarrow> string \<Rightarrow> doc_key" where
  "assignment_key m shard i = (policyAssignmentsAlias m, shard i, i)"

fun the_group :: "(es_message \<times> nat) option \<Rightarrow> policy_group option" where
  "the_group (Some (MsgPolicyGroup g, n)) = Some g"
| "the_group _ = None"

fun the_assignment :: "(es_message \<times> nat) option \<Rightarrow> policy_assignment option" where
  "the_assignment (Some (MsgPolicyAssignment a, n)) = Some a"
| "the_assignment _ = None"

definition groups_at :: "'w manager \<Rightarrow> (string \<Rightarrow> nat) \<Rightarrow> documents \<Rightarrow> string \<Rightarrow> policy_group option" where
  "groups_at m shard d i = the_group (d (group_key m shard i))"

definition assignments_at ::
  "'w manager \<Rightarrow> (string \<Rightarrow> nat) \<Rightarrow> documents \<Rightarrow> string \<Rightarrow> policy_assignment option" where
  "assignments_at m shard d i = the_assignment (d (assignment_key m shard i))"

text \<open>The three kinds of documents are kept under three names.\<close>

definition aliases_apart :: "'w manager \<Rightarrow> bool" where
  "aliases_apart m \<longleftrightarrow> distinct [policiesAlias m, policyGroupsAlias m, policyAssignmentsAlias m]"

section \<open>The invariant\<close>

definition policy_keys :: "'w manager \<Rightarrow> (string \<Rightarrow> nat) \<Rightarrow> doc_key set" where
  "policy_keys m shard = {k. \<exists>i. CHR ''.'' \<notin> set i \<and>
     (k = policy_key m shard i \<or> k = counter_key m shard i \<or> (\<exists>v. k = version_key m shard i v))}"

definition only_policies :: "'w manager \<Rightarrow> (string \<Rightarrow> nat) \<Rightarrow> documents \<Rightarrow> bool" where
  "only_policies m shard d \<longleftrightarrow>
     (\<forall>k. fst k = policiesAlias m \<longrightarrow> d k \<noteq> None \<longrightarrow> k \<in> policy_keys m shard)"

definition groups_ok :: "'w manager \<Rightarrow> (string \<Rightarrow> nat) \<Rightarrow> documents \<Rightarrow> bool" where
  "groups_ok m shard d \<longleftrightarrow> (\<forall>i. d (group_key m shard i) = None \<or>
     (\<exists>g. groups_at m shard d i = Some g \<and> pg_Name g = i \<and> policyGroupNamePattern i))"

text \<open>An assignment is stored under its id, which names its policy and its group; the group
  and the version of the policy are there.\<close>

definition refers ::
  "(string \<Rightarrow> policy_group option) \<Rightarrow> (string \<Rightarrow> policy_history option) \<Rightarrow> string \<Rightarrow> policy_assignment \<Rightarrow> bool"
where
  "refers gs hs i a \<longleftrightarrow> pa_Id a = i \<and> (\<exists>p v h. pa_PolicyVersionId a = policyVersionId p v \<and>
     CHR ''.'' \<notin> set p \<and> v \<noteq> 0 \<and> i = policyAssignmentId p (pa_PolicyGroup a) \<and>
     gs (pa_PolicyGroup a) \<noteq> None \<and> hs p = Some h \<and> h_Versions h v \<noteq> None)"

definition assignments_ok :: "'w manager \<Rightarrow> (string \<Rightarrow> nat) \<Rightarrow> documents \<Rightarrow> bool" where
  "assignments_ok m shard d \<longleftrightarrow> (\<forall>i. d (assignment_key m shard i) = None \<or>
     (\<exists>a. assignments_at m shard d i = Some a \<and>
        refers (groups_at m shard d) (history_at m shard d) i a))"

definition catalogue_ok :: "'w manager \<Rightarrow> (string \<Rightarrow> nat) \<Rightarrow> documents \<Rightarrow> bool" where
  "catalogue_ok m shard d \<longleftrightarrow> policies_ok m shard d \<and> only_policies m shard d \<and>
     groups_ok m shard d \<and> assignments_ok m shard d"

lemma catalogue_okD:
  assumes "catalogue_ok m shard d"
  shows "policies_ok m shard d" "only_policies m shard d" "groups_ok m shard d" "assignments_ok m shard d"
  using assms by (simp_all add: catalogue_ok_def)

section \<open>Keys\<close>

lemma the_group_Some: "the_group x = Some g \<longleftrightarrow> (\<exists>n. x = Some (MsgPolicyGroup g, n))"
  by (cases x rule: the_group.cases) auto

lemma the_assignment_Some: "the_assignment x = Some a \<longleftrightarrow> (\<exists>n. x = Some (MsgPolicyAssignment a, n))"
  by (cases x rule: the_assignment.cases) auto

lemma the_none [simp]: "the_group None = None" "the_assignment None = None"
  by simp_all

lemma catalogue_keys [simp]:
  "group_key m shard i = group_key m shard j \<longleftrightarrow> i = j"
  "assignment_key m shard i = assignment_key m shard j \<longleftrightarrow> i = j"
  by (auto simp: group_key_def assignment_key_def)

lemma policy_keys_alias: "k \<in> policy_keys m shard \<Longrightarrow> fst k = policiesAlias m"
  by (auto simp: policy_keys_def policy_key_def counter_key_def version_key_def)

lemma group_key_alias [simp]: "fst (group_key m shard i) = policyGroupsAlias m"
  by (simp add: group_key_def)

lemma assignment_key_alias [simp]: "fst (assignment_key m shard i) = policyAssignmentsAlias m"
  by (simp add: assignment_key_def)

text \<open>A change that leaves the documents of policies alone leaves the histories alone.\<close>

definition same_alias :: "string \<Rightarrow> documents \<Rightarrow> documents \<Rightarrow> bool" where
  "same_alias ix d d' \<longleftrightarrow> (\<forall>k. fst k = ix \<longrightarrow> d' k = d k)"

lemma same_aliasD: "same_alias ix d d' \<Longrightarrow> fst k = ix \<Longrightarrow> d' k = d k"
  by (simp add: same_alias_def del: split_paired_All)

lemma same_alias_documents:
  "same_alias (policiesAlias m) d d' \<Longrightarrow> same_documents m shard d d' i"
  by (simp add: same_alias_def same_documents_def policy_key_def counter_key_def version_key_def)

lemma same_alias_histories:
  assumes "same_alias (policiesAlias m) d d'"
  shows "history_at m shard d' = history_at m shard d" "policies_ok m shard d' = policies_ok m shard d"
    "only_policies m shard d' = only_policies m shard d"
proof -
  note same = same_alias_documents [OF assms]
  show "history_at m shard d' = history_at m shard d"
    by (rule ext) (rule same_documents_history [OF same])
  show "policies_ok m shard d' = policies_ok m shard d"
    by (simp add: policies_ok_def same_documents_ok [OF same])
  show "only_policies m shard d' = only_policies m shard d"
    using assms by (simp add: only_policies_def same_alias_def)
qed

lemma same_alias_groups:
  assumes "same_alias (policyGroupsAlias m) d d'"
  shows "groups_at m shard d' = groups_at m shard d" "groups_ok m shard d' = groups_ok m shard d"
  by (simp_all add: groups_at_def [abs_def] groups_ok_def same_aliasD [OF assms])

lemma same_alias_assignments:
  assumes "same_alias (policyAssignmentsAlias m) d d'"
  shows "assignments_at m shard d' = assignments_at m shard d"
  by (simp add: assignments_at_def [abs_def] same_aliasD [OF assms])

text \<open>What an assignment refers to stays as long as nothing is taken away.\<close>

lemma refers_later:
  assumes "refers gs hs i a" "\<And>g. gs g \<noteq> None \<Longrightarrow> gs' g \<noteq> None"
    "\<And>p h. hs p = Some h \<Longrightarrow> \<exists>h'. hs' p = Some h' \<and> h_Versions h \<subseteq>\<^sub>m h_Versions h'"
  shows "refers gs' hs' i a"
proof -
  from assms(1) obtain p v h where a: "pa_Id a = i" "pa_PolicyVersionId a = policyVersionId p v"
    "CHR ''.'' \<notin> set p" "v \<noteq> 0" "i = policyAssignmentId p (pa_PolicyGroup a)"
    "gs (pa_PolicyGroup a) \<noteq> None" "hs p = Some h" "h_Versions h v \<noteq> None"
    unfolding refers_def by (elim exE conjE) (rule that)
  from assms(3) [OF a(7)] obtain h' where "hs' p = Some h'" "h_Versions h \<subseteq>\<^sub>m h_Versions h'" by blast
  moreover from this a(8) have "h_Versions h' v \<noteq> None" by (auto simp: map_le_def dom_def)
  ultimately show ?thesis unfolding refers_def using a assms(2) by blast
qed

lemma group_stored:
  assumes "groups_ok m shard d" "d (group_key m shard i) \<noteq> None"
  obtains g where "groups_at m shard d i = Some g" "pg_Name g = i" "policyGroupNamePattern i"
  using assms(1) [unfolded groups_ok_def, THEN spec, of i] assms(2) by (elim disjE exE conjE) simp_all

lemma assignment_stored:
  assumes "assignments_ok m shard d" "d (assignment_key m shard i) \<noteq> None"
  obtains a where "assignments_at m shard d i = Some a"
    "refers (groups_at m shard d) (history_at m shard d) i a"
  using assms(1) [unfolded assignments_ok_def, THEN spec, of i] assms(2) by (elim disjE exE conjE) simp_all

lemma assignment_refers:
  assumes "assignments_ok m shard d" "assignments_at m shard d i = Some a"
  shows "refers (groups_at m shard d) (history_at m shard d) i a"
proof -
  from assms(2) have "d (assignment_key m shard i) \<noteq> None" by (auto simp: assignments_at_def the_assignment_Some)
  with assms show ?thesis by (auto elim!: assignment_stored)
qed

lemma assignments_ok_later:
  assumes "assignments_ok m shard d" "same_alias (policyAssignmentsAlias m) d d'"
    "\<And>g. groups_at m shard d g \<noteq> None \<Longrightarrow> groups_at m shard d' g \<noteq> None"
    "\<And>p h. history_at m shard d p = Some h \<Longrightarrow>
       \<exists>h'. history_at m shard d' p = Some h' \<and> h_Versions h \<subseteq>\<^sub>m h_Versions h'"
  shows "assignments_ok m shard d'"
proof -
  have keys: "d' (assignment_key m shard i) = d (assignment_key m shard i)" for i
    by (simp add: same_aliasD [OF assms(2)])
  show ?thesis
    unfolding assignments_ok_def keys same_alias_assignments [OF assms(2)]
  proof
    fix i
    from assms(1) [unfolded assignments_ok_def, THEN spec, of i]
    consider "d (assignment_key m shard i) = None"
      | a where "assignments_at m shard d i = Some a" "refers (groups_at m shard d) (history_at m shard d) i a"
      by (elim disjE exE conjE)
    then show "d (assignment_key m shard i) = None \<or> (\<exists>a. assignments_at m shard d i = Some a \<and>
        refers (groups_at m shard d') (history_at m shard d') i a)"
    proof cases
      case 2
      have "refers (groups_at m shard d') (history_at m shard d') i a"
        by (rule refers_later [OF 2(2)]) (erule assms(3), erule assms(4))
      with 2(1) show ?thesis by (intro disjI2 exI conjI)
    qed blast
  qed
qed

section \<open>One write\<close>

text \<open>A write of a policy: nothing else changes, and no version goes away.\<close>

definition policy_write :: "'w manager \<Rightarrow> (string \<Rightarrow> nat) \<Rightarrow> documents \<Rightarrow> documents \<Rightarrow> bool" where
  "policy_write m shard d d' \<longleftrightarrow> (\<forall>k. k \<notin> policy_keys m shard \<longrightarrow> d' k = d k) \<and>
     (\<forall>p h. history_at m shard d p = Some h \<longrightarrow>
        (\<exists>h'. history_at m shard d' p = Some h' \<and> h_Versions h \<subseteq>\<^sub>m h_Versions h'))"

lemma policy_write_catalogue:
  assumes "policy_write m shard d d'" "policies_ok m shard d'" "catalogue_ok m shard d" "aliases_apart m"
  shows "catalogue_ok m shard d' \<and> groups_at m shard d' = groups_at m shard d \<and>
    assignments_at m shard d' = assignments_at m shard d"
proof -
  have other: "same_alias ix d d'" if "ix \<noteq> policiesAlias m" for ix
    using assms(1) that policy_keys_alias by (fastforce simp: policy_write_def same_alias_def)
  have groups: "same_alias (policyGroupsAlias m) d d'" and asgs: "same_alias (policyAssignmentsAlias m) d d'"
    using assms(4) by (auto intro!: other simp: aliases_apart_def)
  have "only_policies m shard d'"
    using assms(1) catalogue_okD(2) [OF assms(3)] unfolding only_policies_def policy_write_def by metis
  moreover have "assignments_ok m shard d'"
    by (rule assignments_ok_later [OF catalogue_okD(4) [OF assms(3)] asgs])
      (use assms(1) same_alias_groups(1) [OF groups] in \<open>simp_all add: policy_write_def\<close>)
  ultimately show ?thesis
    using assms(2) catalogue_okD(3) [OF assms(3)]
    by (simp add: catalogue_ok_def same_alias_groups [OF groups] same_alias_assignments [OF asgs])
qed

lemma put_same_alias: "fst k \<noteq> ix \<Longrightarrow> same_alias ix d (put_doc k msg d)"
  by (auto simp: same_alias_def put_doc_def)

lemma drop_same_alias: "jx \<noteq> ix \<Longrightarrow> same_alias ix d (drop_docs jx i d)"
  by (auto simp: same_alias_def drop_docs_def)

lemma group_write_catalogue:
  assumes "d' = put_doc (group_key m shard (pg_Name g)) (MsgPolicyGroup g) d" "catalogue_ok m shard d"
    "aliases_apart m" "policyGroupNamePattern (pg_Name g)"
  shows "catalogue_ok m shard d' \<and> groups_at m shard d' = (groups_at m shard d)(pg_Name g \<mapsto> g) \<and>
    assignments_at m shard d' = assignments_at m shard d \<and> history_at m shard d' = history_at m shard d"
proof -
  have pols: "same_alias (policiesAlias m) d d'" and asgs: "same_alias (policyAssignmentsAlias m) d d'"
    using assms(1,3) by (auto intro!: put_same_alias simp: aliases_apart_def)
  have groups: "groups_at m shard d' = (groups_at m shard d)(pg_Name g \<mapsto> g)"
    by (auto simp: groups_at_def assms(1) put_doc_def fun_eq_iff)
  have "groups_ok m shard d'"
    using catalogue_okD(3) [OF assms(2)] assms(4) unfolding groups_ok_def groups
    by (auto simp: assms(1) put_doc_def)
  moreover have "assignments_ok m shard d'"
    by (rule assignments_ok_later [OF catalogue_okD(4) [OF assms(2)] asgs])
      (simp_all add: groups same_alias_histories(1) [OF pols])
  ultimately show ?thesis
    using catalogue_okD [OF assms(2)] groups
    by (simp add: catalogue_ok_def same_alias_histories [OF pols] same_alias_assignments [OF asgs])
qed

lemma assignment_write_catalogue:
  assumes "d' = put_doc (assignment_key m shard i) (MsgPolicyAssignment a) d" "catalogue_ok m shard d"
    "aliases_apart m" "refers (groups_at m shard d) (history_at m shard d) i a"
  shows "catalogue_ok m shard d' \<and> assignments_at m shard d' = (assignments_at m shard d)(i \<mapsto> a) \<and>
    groups_at m shard d' = groups_at m shard d \<and> history_at m shard d' = history_at m shard d"
proof -
  have pols: "same_alias (policiesAlias m) d d'" and groups: "same_alias (policyGroupsAlias m) d d'"
    using assms(1,3) by (auto intro!: put_same_alias simp: aliases_apart_def)
  have asgs: "assignments_at m shard d' = (assignments_at m shard d)(i \<mapsto> a)"
    by (auto simp: assignments_at_def assms(1) put_doc_def fun_eq_iff)
  have keys: "d' (assignment_key m shard j) = None \<longleftrightarrow> j \<noteq> i \<and> d (assignment_key m shard j) = None" for j
    by (simp add: assms(1) put_doc_def)
  have "assignments_ok m shard d'"
    using catalogue_okD(4) [OF assms(2)] assms(4) unfolding assignments_ok_def asgs keys
      same_alias_histories(1) [OF pols] same_alias_groups(1) [OF groups]
    by auto
  then show ?thesis
    using catalogue_okD [OF assms(2)] asgs
    by (simp add: catalogue_ok_def same_alias_histories [OF pols] same_alias_groups [OF groups])
qed

lemma assignment_drop_catalogue:
  assumes "d' = drop_docs (policyAssignmentsAlias m) i d" "catalogue_ok m shard d" "aliases_apart m"
  shows "catalogue_ok m shard d' \<and> assignments_at m shard d' = (assignments_at m shard d)(i := None) \<and>
    groups_at m shard d' = groups_at m shard d \<and> history_at m shard d' = history_at m shard d"
proof -
  have pols: "same_alias (policiesAlias m) d d'" and groups: "same_alias (policyGroupsAlias m) d d'"
    using assms(1,3) by (auto intro!: drop_same_alias simp: aliases_apart_def)
  have asgs: "assignments_at m shard d' = (assignments_at m shard d)(i := None)"
    by (auto simp: assignments_at_def assms(1) drop_docs_def assignment_key_def fun_eq_iff)
  have keys: "d' (assignment_key m shard j) = None \<longleftrightarrow> j = i \<or> d (assignment_key m shard j) = None" for j
    by (simp add: assms(1) drop_docs_def assignment_key_def)
  have "assignments_ok m shard d'"
    using catalogue_okD(4) [OF assms(2)] unfolding assignments_ok_def asgs keys
      same_alias_histories(1) [OF pols] same_alias_groups(1) [OF groups]
    by auto
  then show ?thesis
    using catalogue_okD [OF assms(2)] asgs
    by (simp add: catalogue_ok_def same_alias_histories [OF pols] same_alias_groups [OF groups])
qed

section \<open>Reading\<close>

definition read_group :: "(string \<Rightarrow> policy_group option) \<Rightarrow> string \<Rightarrow> policy_group outcome" where
  "read_group gs i =
     (if i = '''' then Err (createErrorWithCode ''policy group name must be supplied'' None InvalidArgument)
      else case gs i of None \<Rightarrow> Err (createErrorWithCode ''policy group not found'' None NotFound)
        | Some g \<Rightarrow> Ok g)"

definition read_assignment ::
  "(string \<Rightarrow> policy_assignment option) \<Rightarrow> string \<Rightarrow> policy_assignment outcome" where
  "read_assignment as i =
     (if i = '''' then Err (createErrorWithCode ''invalid policy assignment id'' None InvalidArgument)
      else case as i of None \<Rightarrow> Err (createErrorWithCode ''assignment not found'' None NotFound)
        | Some a \<Rightarrow> Ok a)"

lemma GetPolicyGroup_answer:
  assumes "document_store m shard docs" "gets_answered m" "groups_ok m shard (docs (ext s))"
  obtains s' where "docs (ext s') = docs (ext s)"
    "GetPolicyGroup m \<lparr>ggr_Name = i\<rparr> s = (read_group (groups_at m shard (docs (ext s))) i, s')"
proof (cases "i = ''''")
  case True
  then show thesis by (intro that [of s]) (simp_all add: GetPolicyGroup_def read_group_def)
next
  case False
  let ?q = "\<lparr>gt_Index = policyGroupsAlias m, gt_DocumentId = i, gt_Routing = ''''\<rparr>"
  obtain r s' where run: "es_get m ?q s = (Ok r, s')" and same: "docs (ext s') = docs (ext s)"
    and answer: "get_answers (codec m) (docs (ext s) (gt_Index ?q,
      shard (route (gt_Routing ?q) (gt_DocumentId ?q)), gt_DocumentId ?q)) r"
    by (rule store_read [OF assms(1,2), of ?q s])
  then have at: "get_answers (codec m) (docs (ext s) (group_key m shard i)) r"
    by (simp add: group_key_def route_def)
  show thesis
  proof (cases "docs (ext s) (group_key m shard i)")
    case None
    with at run False show thesis
      by (intro that [OF same]) (simp add: GetPolicyGroup_def attempt_def get_answers_def read_group_def
          groups_at_def)
  next
    case (Some x)
    with assms(3) obtain g where "groups_at m shard (docs (ext s)) i = Some g"
      unfolding groups_ok_def by (metis option.distinct(1))
    with at run False show thesis
      by (intro that [OF same]) (auto simp: GetPolicyGroup_def attempt_def get_answers_def read_group_def
          groups_at_def the_group_Some)
  qed
qed

lemma GetPolicyAssignment_answer:
  assumes "document_store m shard docs" "gets_answered m" "assignments_ok m shard (docs (ext s))"
  obtains s' where "docs (ext s') = docs (ext s)"
    "GetPolicyAssignment m \<lparr>gar_Id = i\<rparr> s = (read_assignment (assignments_at m shard (docs (ext s))) i, s')"
proof (cases "i = ''''")
  case True
  then show thesis by (intro that [of s]) (simp_all add: GetPolicyAssignment_def read_assignment_def)
next
  case False
  let ?q = "\<lparr>gt_Index = policyAssignmentsAlias m, gt_DocumentId = i, gt_Routing = ''''\<rparr>"
  obtain r s' where run: "es_get m ?q s = (Ok r, s')" and same: "docs (ext s') = docs (ext s)"
    and answer: "get_answers (codec m) (docs (ext s) (gt_Index ?q,
      shard (route (gt_Routing ?q) (gt_DocumentId ?q)), gt_DocumentId ?q)) r"
    by (rule store_read [OF assms(1,2), of ?q s])
  then have at: "get_answers (codec m) (docs (ext s) (assignment_key m shard i)) r"
    by (simp add: assignment_key_def route_def)
  show thesis
  proof (cases "docs (ext s) (assignment_key m shard i)")
    case None
    with at run False show thesis
      by (intro that [OF same]) (simp add: GetPolicyAssignment_def attempt_def get_answers_def
          read_assignment_def assignments_at_def)
  next
    case (Some x)
    with assms(3) obtain a where "assignments_at m shard (docs (ext s)) i = Some a"
      unfolding assignments_ok_def by (metis option.distinct(1))
    with at run False show thesis
      by (intro that [OF same]) (auto simp: GetPolicyAssignment_def attempt_def get_answers_def
          read_assignment_def assignments_at_def the_assignment_Some)
  qed
qed

lemma read_group_Ok: "read_group gs i = Ok g \<longleftrightarrow> i \<noteq> '''' \<and> gs i = Some g"
  by (simp add: read_group_def split: option.splits)

lemma read_assignment_Ok: "read_assignment as i = Ok a \<longleftrightarrow> i \<noteq> '''' \<and> as i = Some a"
  by (simp add: read_assignment_def split: option.splits)

lemma GetPolicyGroup_found:
  assumes "GetPolicyGroup m \<lparr>ggr_Name = i\<rparr> s = (Ok g, s')" "document_store m shard docs" "gets_answered m"
    "groups_ok m shard (docs (ext s))"
  shows "groups_at m shard (docs (ext s)) i = Some g" "pg_Name g = i" "policyGroupNamePattern i"
    "docs (ext s') = docs (ext s)"
proof -
  obtain s1 where s1: "docs (ext s1) = docs (ext s)"
    "GetPolicyGroup m \<lparr>ggr_Name = i\<rparr> s = (read_group (groups_at m shard (docs (ext s))) i, s1)"
    by (rule GetPolicyGroup_answer [OF assms(2-4), of i])
  with assms(1) show at: "groups_at m shard (docs (ext s)) i = Some g" and "docs (ext s') = docs (ext s)"
    by (simp_all add: read_group_Ok)
  from at have "docs (ext s) (group_key m shard i) \<noteq> None" by (auto simp: groups_at_def the_group_Some)
  with assms(4) [unfolded groups_ok_def, THEN spec, of i] at
  show "pg_Name g = i" "policyGroupNamePattern i" by (simp_all del: not_None_eq)
qed

section \<open>What the group operations write\<close>

lemma CreatePolicyGroup_documents:
  assumes "CreatePolicyGroup m pg s = (Ok g, s')" "full_store m shard docs" "gets_answered m"
    "groups_ok m shard (docs (ext s))"
  shows "groups_at m shard (docs (ext s)) (pg_Name pg) = None \<and> policyGroupNamePattern (pg_Name g) \<and>
    (\<exists>t. g = pg\<lparr>pg_Created := Some t, pg_Updated := Some t\<rparr>) \<and>
    docs (ext s') = put_doc (group_key m shard (pg_Name g)) (MsgPolicyGroup g) (docs (ext s))"
proof -
  from assms(1) obtain e s1 t x i y where
    get: "GetPolicyGroup m \<lparr>ggr_Name = pg_Name pg\<rparr> s = (Err e, s1)" and code: "status_code e = NotFound"
    and name: "policyGroupNamePattern (pg_Name pg)" and time: "rt_Now (runtime m) (ext s1) = (t, x)"
    and g: "g = pg\<lparr>pg_Created := Some t, pg_Updated := Some t\<rparr>"
    and new: "esc_Create (esClient m) \<lparr>cr_Index = policyGroupsAlias m, cr_Refresh = refresh_of m,
      cr_Message = MsgPolicyGroup g, cr_DocumentId = pg_Name g\<rparr> x = (Inr i, y)" "ext s' = y"
    unfolding CreatePolicyGroup_def
    by (auto simp: group_runs draw_Ok external_Ok split: if_splits)
  note store = full_store_documents [OF assms(2)]
  obtain s2 where s2: "docs (ext s2) = docs (ext s)"
    "GetPolicyGroup m \<lparr>ggr_Name = pg_Name pg\<rparr> s = (read_group (groups_at m shard (docs (ext s))) (pg_Name pg), s2)"
    by (rule GetPolicyGroup_answer [OF store assms(3,4), of "pg_Name pg"])
  with get code have "groups_at m shard (docs (ext s)) (pg_Name pg) = None" and same: "docs (ext s1) = docs (ext s)"
    by (auto simp: read_group_def createErrorWithCode_def split: if_splits option.splits)
  moreover from store_create [OF assms(2) new(1)] store_now [OF store time] same
  have "docs y = put_doc (group_key m shard (pg_Name g)) (MsgPolicyGroup g) (docs (ext s))"
    by (simp add: group_key_def)
  ultimately show ?thesis using g name new(2) by auto
qed

lemma UpdatePolicyGroup_documents:
  assumes "UpdatePolicyGroup m pg s = (Ok g, s')" "document_store m shard docs" "gets_answered m"
    "groups_ok m shard (docs (ext s))"
  shows "\<exists>cur t. groups_at m shard (docs (ext s)) (pg_Name pg) = Some cur \<and> \<not> pg_Deleted cur \<and>
    g = cur\<lparr>pg_Description := pg_Description pg, pg_Updated := Some t\<rparr> \<and> pg_Name g = pg_Name pg \<and>
    policyGroupNamePattern (pg_Name g) \<and>
    docs (ext s') = put_doc (group_key m shard (pg_Name g)) (MsgPolicyGroup g) (docs (ext s))"
proof -
  from assms(1) obtain cur s1 t x r y where
    get: "GetPolicyGroup m \<lparr>ggr_Name = pg_Name pg\<rparr> s = (Ok cur, s1)" and alive: "\<not> pg_Deleted cur"
    and time: "rt_Now (runtime m) (ext s1) = (t, x)"
    and g: "g = cur\<lparr>pg_Description := pg_Description pg, pg_Updated := Some t\<rparr>"
    and upd: "esc_Update (esClient m) \<lparr>ur_Index = policyGroupsAlias m, ur_DocumentId = pg_Name g,
      ur_Refresh = refresh_of m, ur_Message = MsgPolicyGroup g, ur_Routing = ''''\<rparr> x = (Inr r, y)" "ext s' = y"
    unfolding UpdatePolicyGroup_def by (auto simp: group_runs split: if_splits)
  note found = GetPolicyGroup_found [OF get assms(2-4)]
  from store_update(1) [OF assms(2) upd(1) refl] store_now [OF assms(2) time] found(4)
  have "docs y = put_doc (group_key m shard (pg_Name g)) (MsgPolicyGroup g) (docs (ext s))"
    by (simp add: group_key_def route_def)
  with found g alive upd(2) show ?thesis by (intro exI [of _ cur] exI [of _ t]) simp
qed

lemma DeletePolicyGroup_documents:
  assumes "DeletePolicyGroup m request s = (Ok u, s')" "document_store m shard docs" "gets_answered m"
    "groups_ok m shard (docs (ext s))"
  shows "\<exists>cur g. groups_at m shard (docs (ext s)) (dgr_Name request) = Some cur \<and>
    g = cur\<lparr>pg_Deleted := True\<rparr> \<and> pg_Name g = dgr_Name request \<and> policyGroupNamePattern (pg_Name g) \<and>
    docs (ext s') = put_doc (group_key m shard (pg_Name g)) (MsgPolicyGroup g) (docs (ext s))"
proof -
  from assms(1) obtain cur s1 r y where
    get: "GetPolicyGroup m \<lparr>ggr_Name = dgr_Name request\<rparr> s = (Ok cur, s1)"
    and upd: "esc_Update (esClient m) \<lparr>ur_Index = policyGroupsAlias m, ur_DocumentId = dgr_Name request,
      ur_Refresh = refresh_of m, ur_Message = MsgPolicyGroup (cur\<lparr>pg_Deleted := True\<rparr>), ur_Routing = ''''\<rparr>
      (ext s1) = (Inr r, y)" "ext s' = y"
    unfolding DeletePolicyGroup_def by (auto simp: group_runs)
  note found = GetPolicyGroup_found [OF get assms(2-4)]
  from store_update(1) [OF assms(2) upd(1) refl] found
  have "docs y = put_doc (group_key m shard (dgr_Name request)) (MsgPolicyGroup (cur\<lparr>pg_Deleted := True\<rparr>))
      (docs (ext s))"
    by (simp add: group_key_def route_def)
  with found upd(2) show ?thesis by (intro exI [of _ cur] exI [of _ "cur\<lparr>pg_Deleted := True\<rparr>"]) simp
qed

section \<open>What the assignment operations write\<close>

text \<open>A version id that parses and whose document is there is the id of that version.\<close>

lemma stored_version:
  assumes "only_policies m shard d" "policies_ok m shard d" "parsePolicyVersionId i = Inr (p, v)" "v \<noteq> 0"
    "d (policiesAlias m, shard p, i) \<noteq> None" "history_at m shard d p = Some h"
  shows "i = policyVersionId p v \<and> h_Versions h v \<noteq> None"
proof -
  let ?k = "(policiesAlias m, shard p, i)"
  from assms(1,5) have "?k \<in> policy_keys m shard" unfolding only_policies_def by (metis fst_conv)
  then obtain j where j: "CHR ''.'' \<notin> set j"
    and k: "?k = policy_key m shard j \<or> ?k = counter_key m shard j \<or> (\<exists>w. ?k = version_key m shard j w)"
    unfolding policy_keys_def by blast
  have "\<exists>w. i = policyVersionId j w"
    using k assms(3,4) parse_plain [OF j] parse_policyCounterId [OF j]
    by (auto simp: policy_key_def counter_key_def version_key_def)
  then have i: "i = policyVersionId p v"
    using assms(3) parse_policyVersionId [OF j] by auto
  have dot: "CHR ''.'' \<notin> set p" using assms(6) by (simp add: history_at_Some)
  from assms(2) dot have "d (version_key m shard p v) = None \<or> the_entity (d (version_key m shard p v)) \<noteq> None"
    by (simp add: policies_ok_def policy_documents_ok_def)
  with assms(5,6) i show ?thesis by (auto simp: history_at_Some version_key_def)
qed

lemma get_answers_found: "get_answers cd entry r \<Longrightarrow> grs_Found r \<Longrightarrow> entry \<noteq> None"
  by (cases entry) (simp_all add: get_answers_def)

lemma checkAssignmentTargets_found:
  assumes "checkAssignmentTargets m p a s = (Ok u, s')" "full_store m shard docs"
    "catalogue_ok m shard (docs (ext s))" "parsePolicyVersionId (pa_PolicyVersionId a) = Inr (p, v)" "v \<noteq> 0"
  shows "docs (ext s') = docs (ext s) \<and> (\<exists>h g. history_at m shard (docs (ext s)) p = Some h \<and>
    \<not> p_Deleted (h_Policy h) \<and> pa_PolicyVersionId a = policyVersionId p v \<and> h_Versions h v \<noteq> None \<and>
    groups_at m shard (docs (ext s)) (pa_PolicyGroup a) = Some g \<and> \<not> pg_Deleted g)"
proof -
  let ?d = "docs (ext s)"
  from checkAssignmentTargets_Ok [OF assms(1)] obtain found pol grp x where
    mg: "esc_MultiGet (esClient m) (target_request m p a) (ext s) = (Inr \<lparr>mgr_Docs = found\<rparr>, x)"
    and s': "ext s' = x" and all: "3 \<le> length found" "\<forall>j<3. grs_Found (found ! j)"
    and pol: "cd_Policy (codec m) True (grs_Source (found ! 0)) = Inr pol" "\<not> p_Deleted pol"
    and grp: "cd_PolicyGroup (codec m) False (grs_Source (found ! 2)) = Inr grp" "\<not> pg_Deleted grp"
    by auto
  note ok = catalogue_okD [OF assms(3)]
  have dot: "CHR ''.'' \<notin> set p" using parsePolicyVersionId_Inr [OF assms(4)] by blast
  from store_multi_get [OF assms(2) mg]
  have same: "docs x = ?d" and answers: "list_all2 (\<lambda>k doc. get_answers (codec m) (?d k) doc)
      (requested_keys shard (target_request m p a)) found"
    by simp_all
  have keys: "requested_keys shard (target_request m p a) =
      [policy_key m shard p, (policiesAlias m, shard (route p (pa_PolicyVersionId a)), pa_PolicyVersionId a),
       group_key m shard (pa_PolicyGroup a)]"
    by (simp add: requested_keys_def target_request_def policy_key_def group_key_def policiesAlias_def
        policyGroupsAlias_def route_def)
  from answers keys have a0: "get_answers (codec m) (?d (policy_key m shard p)) (found ! 0)"
    and a1: "get_answers (codec m) (?d (policiesAlias m, shard (route p (pa_PolicyVersionId a)),
       pa_PolicyVersionId a)) (found ! 1)"
    and a2: "get_answers (codec m) (?d (group_key m shard (pa_PolicyGroup a))) (found ! 2)"
    by (auto simp: list_all2_conv_all_nth numeral_3_eq_3 numeral_2_eq_2 less_Suc_eq)
  from all have found: "grs_Found (found ! 0)" "grs_Found (found ! 1)" "grs_Found (found ! 2)" by simp_all
  from get_answers_found [OF a0 found(1)] obtain y where "?d (policy_key m shard p) = Some y" by blast
  then obtain h where h: "history_at m shard ?d p = Some h" and hok: "history_ok p h"
    using history_of_policy [OF ok(1) dot] by blast
  with a0 pol have alive: "\<not> p_Deleted (h_Policy h)"
    by (auto simp: get_answers_def history_at_Some the_policy_Some)
  have "?d (policiesAlias m, shard p, pa_PolicyVersionId a) \<noteq> None"
    using get_answers_found [OF a1 found(2)] hok by (simp add: route_def history_ok_def del: not_None_eq)
  from stored_version [OF ok(2,1) assms(4,5) this h]
  have version: "pa_PolicyVersionId a = policyVersionId p v" "h_Versions h v \<noteq> None" by simp_all
  from group_stored [OF ok(3) get_answers_found [OF a2 found(3)]]
  obtain g where g: "groups_at m shard ?d (pa_PolicyGroup a) = Some g" .
  with a2 grp have "\<not> pg_Deleted g" by (auto simp: get_answers_def groups_at_def the_group_Some)
  with h alive version g same s' show ?thesis by blast
qed

text \<open>What the validation of a new assignment has seen; it changes no document.\<close>

lemma validated_create:
  assumes "validateAssignment m a (validateCreate m) s = (Ok a1, s')" "full_store m shard docs" "gets_answered m"
    "catalogue_ok m shard (docs (ext s))"
  obtains p v h g where "a1 = a" "docs (ext s') = docs (ext s)"
    "pa_PolicyVersionId a = policyVersionId p v" "v \<noteq> 0" "CHR ''.'' \<notin> set p"
    "assignments_at m shard (docs (ext s)) (policyAssignmentId p (pa_PolicyGroup a)) = None"
    "history_at m shard (docs (ext s)) p = Some h" "\<not> p_Deleted (h_Policy h)" "h_Versions h v \<noteq> None"
    "groups_at m shard (docs (ext s)) (pa_PolicyGroup a) = Some g" "\<not> pg_Deleted g"
proof -
  from create_check.validate_Ok [OF assms(1)] obtain p v s1 where
    v: "parsePolicyVersionId (pa_PolicyVersionId a) = Inr (p, v)" "v \<noteq> 0"
      "validateCreate m p a s = (Ok a1, s1)" "checkAssignmentTargets m p a1 s1 = (Ok (), s')"
    by blast
  from v(3) obtain e where a1: "a1 = a" and code: "status_code e = NotFound"
    and get: "GetPolicyAssignment m \<lparr>gar_Id = policyAssignmentId p (pa_PolicyGroup a)\<rparr> s = (Err e, s1)"
    by (auto simp: validateCreate_Ok)
  note store = full_store_documents [OF assms(2)] and ok = catalogue_okD [OF assms(4)]
  obtain s3 where s3: "docs (ext s3) = docs (ext s)"
    "GetPolicyAssignment m \<lparr>gar_Id = policyAssignmentId p (pa_PolicyGroup a)\<rparr> s =
       (read_assignment (assignments_at m shard (docs (ext s))) (policyAssignmentId p (pa_PolicyGroup a)), s3)"
    by (rule GetPolicyAssignment_answer [OF store assms(3) ok(4)])
  with get code have none: "assignments_at m shard (docs (ext s)) (policyAssignmentId p (pa_PolicyGroup a)) = None"
    and same: "docs (ext s1) = docs (ext s)"
    by (auto simp: read_assignment_def createErrorWithCode_def split: if_splits option.splits)
  from assms(4) same have "catalogue_ok m shard (docs (ext s1))" by simp
  from checkAssignmentTargets_found [OF v(4) [unfolded a1] assms(2) this v(1,2)] same
  obtain h g where "docs (ext s') = docs (ext s)" "history_at m shard (docs (ext s)) p = Some h"
    "\<not> p_Deleted (h_Policy h)" "pa_PolicyVersionId a = policyVersionId p v" "h_Versions h v \<noteq> None"
    "groups_at m shard (docs (ext s)) (pa_PolicyGroup a) = Some g" "\<not> pg_Deleted g"
    by auto
  moreover have "CHR ''.'' \<notin> set p" using parsePolicyVersionId_Inr [OF v(1)] by blast
  ultimately show thesis using that v(2) a1 none by blast
qed

lemma CreatePolicyAssignment_documents:
  assumes "CreatePolicyAssignment m a s = (Ok b, s')" "full_store m shard docs" "gets_answered m"
    "catalogue_ok m shard (docs (ext s))"
  obtains p v h g t where "pa_PolicyVersionId a = policyVersionId p v" "v \<noteq> 0" "CHR ''.'' \<notin> set p"
    "pa_Id b = policyAssignmentId p (pa_PolicyGroup a)"
    "b = a\<lparr>pa_Created := Some t, pa_Updated := Some t, pa_Id := policyAssignmentId p (pa_PolicyGroup a)\<rparr>"
    "assignments_at m shard (docs (ext s)) (pa_Id b) = None"
    "history_at m shard (docs (ext s)) p = Some h" "\<not> p_Deleted (h_Policy h)" "h_Versions h v \<noteq> None"
    "groups_at m shard (docs (ext s)) (pa_PolicyGroup a) = Some g" "\<not> pg_Deleted g"
    "docs (ext s') = put_doc (assignment_key m shard (pa_Id b)) (MsgPolicyAssignment b) (docs (ext s))"
proof -
  from assms(1) obtain a1 s2 t x i y where val: "validateAssignment m a (validateCreate m) s = (Ok a1, s2)"
    and time: "rt_Now (runtime m) (ext s2) = (t, x)"
    and b: "b = a1\<lparr>pa_Created := Some t, pa_Updated := Some t, pa_Id := policyAssignmentId
      (case parsePolicyVersionId (pa_PolicyVersionId a1) of Inl _ \<Rightarrow> '''' | Inr (i, _) \<Rightarrow> i) (pa_PolicyGroup a1)\<rparr>"
    and new: "esc_Create (esClient m) \<lparr>cr_Index = policyAssignmentsAlias m, cr_Refresh = refresh_of m,
      cr_Message = MsgPolicyAssignment b, cr_DocumentId = pa_Id b\<rparr> x = (Inr i, y)" "ext s' = y"
    unfolding CreatePolicyAssignment_def by (auto simp: attempt_Ok draw_Ok external_Ok Let_def)
  obtain p v h g where seen: "a1 = a" "docs (ext s2) = docs (ext s)"
    "pa_PolicyVersionId a = policyVersionId p v" "v \<noteq> 0" "CHR ''.'' \<notin> set p"
    "assignments_at m shard (docs (ext s)) (policyAssignmentId p (pa_PolicyGroup a)) = None"
    "history_at m shard (docs (ext s)) p = Some h" "\<not> p_Deleted (h_Policy h)" "h_Versions h v \<noteq> None"
    "groups_at m shard (docs (ext s)) (pa_PolicyGroup a) = Some g" "\<not> pg_Deleted g"
    by (rule validated_create [OF val assms(2-4)])
  have b': "b = a\<lparr>pa_Created := Some t, pa_Updated := Some t, pa_Id := policyAssignmentId p (pa_PolicyGroup a)\<rparr>"
    using b seen(1,3) parse_policyVersionId [OF seen(5)] by simp
  have "docs (ext s') = put_doc (assignment_key m shard (pa_Id b)) (MsgPolicyAssignment b) (docs (ext s))"
    using store_create [OF assms(2) new(1)] store_now [OF full_store_documents [OF assms(2)] time] seen(2) new(2)
    by (simp add: assignment_key_def)
  moreover have "pa_Id b = policyAssignmentId p (pa_PolicyGroup a)" using b' by simp
  ultimately show thesis using that [of p v t h g] seen b' by simp
qed

lemma validated_update:
  assumes "validateAssignment m a (validateUpdate m) s = (Ok a1, s')" "full_store m shard docs" "gets_answered m"
    "catalogue_ok m shard (docs (ext s))"
  obtains p v w cur h g where "a1 = a\<lparr>pa_Created := pa_Created cur\<rparr>" "docs (ext s') = docs (ext s)"
    "pa_PolicyVersionId a = policyVersionId p v" "v \<noteq> 0" "CHR ''.'' \<notin> set p"
    "assignments_at m shard (docs (ext s)) (pa_Id a) = Some cur" "pa_PolicyGroup cur = pa_PolicyGroup a"
    "pa_PolicyVersionId cur = policyVersionId p w" "pa_Id a = policyAssignmentId p (pa_PolicyGroup a)"
    "history_at m shard (docs (ext s)) p = Some h" "\<not> p_Deleted (h_Policy h)" "h_Versions h v \<noteq> None"
    "groups_at m shard (docs (ext s)) (pa_PolicyGroup a) = Some g" "\<not> pg_Deleted g"
proof -
  from update_check.validate_Ok [OF assms(1)] obtain p v s1 where
    v: "parsePolicyVersionId (pa_PolicyVersionId a) = Inr (p, v)" "v \<noteq> 0"
      "validateUpdate m p a s = (Ok a1, s1)" "checkAssignmentTargets m p a1 s1 = (Ok (), s')"
    by blast
  from v(3) obtain cur where get: "GetPolicyAssignment m \<lparr>gar_Id = pa_Id a\<rparr> s = (Ok cur, s1)"
    and grp: "pa_PolicyGroup cur = pa_PolicyGroup a"
    and pol: "(case parsePolicyVersionId (pa_PolicyVersionId cur) of Inl _ \<Rightarrow> '''' | Inr (j, _) \<Rightarrow> j) = p"
    and a1: "a1 = a\<lparr>pa_Created := pa_Created cur\<rparr>"
    by (auto simp: validateUpdate_Ok)
  note store = full_store_documents [OF assms(2)] and ok = catalogue_okD [OF assms(4)]
  obtain s3 where s3: "docs (ext s3) = docs (ext s)"
    "GetPolicyAssignment m \<lparr>gar_Id = pa_Id a\<rparr> s =
       (read_assignment (assignments_at m shard (docs (ext s))) (pa_Id a), s3)"
    by (rule GetPolicyAssignment_answer [OF store assms(3) ok(4)])
  with get have at: "assignments_at m shard (docs (ext s)) (pa_Id a) = Some cur"
    and same: "docs (ext s1) = docs (ext s)"
    by (simp_all add: read_assignment_Ok)
  from assignment_refers [OF ok(4) at] obtain q w where cur: "pa_PolicyVersionId cur = policyVersionId q w" "CHR ''.'' \<notin> set q"
    "pa_Id a = policyAssignmentId q (pa_PolicyGroup cur)"
    unfolding refers_def by blast
  with pol have q: "q = p" by (simp add: parse_policyVersionId)
  from assms(4) same have cat: "catalogue_ok m shard (docs (ext s1))" by simp
  from a1 v(1) have "parsePolicyVersionId (pa_PolicyVersionId a1) = Inr (p, v)" by simp
  from checkAssignmentTargets_found [OF v(4) assms(2) cat this v(2)] same a1
  obtain h g where "docs (ext s') = docs (ext s)" "history_at m shard (docs (ext s)) p = Some h"
    "\<not> p_Deleted (h_Policy h)" "pa_PolicyVersionId a = policyVersionId p v" "h_Versions h v \<noteq> None"
    "groups_at m shard (docs (ext s)) (pa_PolicyGroup a) = Some g" "\<not> pg_Deleted g"
    by auto
  then show thesis using that [of cur p v w h g] v(2) cur at grp q a1 by simp
qed

lemma UpdatePolicyAssignment_documents:
  assumes "UpdatePolicyAssignment m a s = (Ok b, s')" "full_store m shard docs" "gets_answered m"
    "catalogue_ok m shard (docs (ext s))"
  obtains p v w cur h g t where "pa_PolicyVersionId a = policyVersionId p v" "v \<noteq> 0" "CHR ''.'' \<notin> set p"
    "assignments_at m shard (docs (ext s)) (pa_Id a) = Some cur" "pa_PolicyGroup cur = pa_PolicyGroup a"
    "pa_PolicyVersionId cur = policyVersionId p w" "pa_Id a = policyAssignmentId p (pa_PolicyGroup a)"
    "b = a\<lparr>pa_Created := pa_Created cur, pa_Updated := Some t\<rparr>"
    "history_at m shard (docs (ext s)) p = Some h" "\<not> p_Deleted (h_Policy h)" "h_Versions h v \<noteq> None"
    "groups_at m shard (docs (ext s)) (pa_PolicyGroup a) = Some g" "\<not> pg_Deleted g"
    "docs (ext s') = put_doc (assignment_key m shard (pa_Id b)) (MsgPolicyAssignment b) (docs (ext s))"
proof -
  from assms(1) obtain a1 s2 t x r y where val: "validateAssignment m a (validateUpdate m) s = (Ok a1, s2)"
    and time: "rt_Now (runtime m) (ext s2) = (t, x)" and b: "b = a1\<lparr>pa_Updated := Some t\<rparr>"
    and upd: "esc_Update (esClient m) \<lparr>ur_Index = policyAssignmentsAlias m, ur_DocumentId = pa_Id a,
      ur_Refresh = refresh_of m, ur_Message = MsgPolicyAssignment b, ur_Routing = ''''\<rparr> x = (Inr r, y)" "ext s' = y"
    unfolding UpdatePolicyAssignment_def by (auto simp: attempt_Ok draw_Ok external_Ok Let_def)
  obtain p v w cur h g where seen: "a1 = a\<lparr>pa_Created := pa_Created cur\<rparr>" "docs (ext s2) = docs (ext s)"
    "pa_PolicyVersionId a = policyVersionId p v" "v \<noteq> 0" "CHR ''.'' \<notin> set p"
    "assignments_at m shard (docs (ext s)) (pa_Id a) = Some cur" "pa_PolicyGroup cur = pa_PolicyGroup a"
    "pa_PolicyVersionId cur = policyVersionId p w" "pa_Id a = policyAssignmentId p (pa_PolicyGroup a)"
    "history_at m shard (docs (ext s)) p = Some h" "\<not> p_Deleted (h_Policy h)" "h_Versions h v \<noteq> None"
    "groups_at m shard (docs (ext s)) (pa_PolicyGroup a) = Some g" "\<not> pg_Deleted g"
    by (rule validated_update [OF val assms(2-4)])
  note store = full_store_documents [OF assms(2)]
  have "docs (ext s') = put_doc (assignment_key m shard (pa_Id b)) (MsgPolicyAssignment b) (docs (ext s))"
    using store_update(1) [OF store upd(1) refl] store_now [OF store time] seen(1,2) b upd(2)
    by (simp add: assignment_key_def route_def)
  moreover have "b = a\<lparr>pa_Created := pa_Created cur, pa_Updated := Some t\<rparr>" by (simp add: b seen(1))
  ultimately show thesis using that [of p v cur w t h g] seen by simp
qed

lemma DeletePolicyAssignment_documents:
  assumes "DeletePolicyAssignment m request s = (Ok u, s')" "full_store m shard docs" "gets_answered m"
    "assignments_ok m shard (docs (ext s))"
  shows "\<exists>a. assignments_at m shard (docs (ext s)) (dar_Id request) = Some a \<and>
    docs (ext s') = drop_docs (policyAssignmentsAlias m) (dar_Id request) (docs (ext s))"
proof -
  from assms(1) obtain a s1 y where get: "GetPolicyAssignment m \<lparr>gar_Id = dar_Id request\<rparr> s = (Ok a, s1)"
    and del: "esc_Delete (esClient m) \<lparr>dr_Index = policyAssignmentsAlias m,
        dr_Search = \<lparr>s_Query = QTerm ''_id'' (dar_Id request), s_SortCreatedDesc = False, s_Routing = ''''\<rparr>,
        dr_Refresh = refresh_of m\<rparr> (ext s1) = (Inr (), y)" "ext s' = y"
    unfolding DeletePolicyAssignment_def by (auto simp: attempt_Ok external_Ok)
  obtain s2 where "docs (ext s2) = docs (ext s)"
    "GetPolicyAssignment m \<lparr>gar_Id = dar_Id request\<rparr> s =
       (read_assignment (assignments_at m shard (docs (ext s))) (dar_Id request), s2)"
    by (rule GetPolicyAssignment_answer [OF full_store_documents [OF assms(2)] assms(3,4)])
  with get store_delete [OF assms(2) del(1)] del(2) show ?thesis by (simp add: read_assignment_Ok)
qed

section \<open>Steps of the catalogue\<close>

text \<open>
  The calls that change the catalogue, when they succeed, and the reads, however they end.
  As everywhere, an update or deletion of a policy names the policy and not a version of it.
\<close>

inductive catalogue_step :: "'w manager \<Rightarrow> 'w world \<Rightarrow> 'w world \<Rightarrow> bool" for m :: "'w manager" where
  step_create_policy: "CreatePolicy m pol s = (Ok q, s') \<Longrightarrow> catalogue_step m s s'"
| step_update_policy: "UpdatePolicy m \<lparr>upr_Policy = Some upd\<rparr> s = (Ok q, s') \<Longrightarrow>
    CHR ''.'' \<notin> set (p_Id upd) \<Longrightarrow> catalogue_step m s s'"
| step_delete_policy: "DeletePolicy m dp s = (Ok u, s') \<Longrightarrow> CHR ''.'' \<notin> set (dpr_Id dp) \<Longrightarrow>
    catalogue_step m s s'"
| step_create_group: "CreatePolicyGroup m pg s = (Ok g, s') \<Longrightarrow> catalogue_step m s s'"
| step_update_group: "UpdatePolicyGroup m pg s = (Ok g, s') \<Longrightarrow> catalogue_step m s s'"
| step_delete_group: "DeletePolicyGroup m dg s = (Ok u, s') \<Longrightarrow> catalogue_step m s s'"
| step_create_assignment: "CreatePolicyAssignment m a s = (Ok b, s') \<Longrightarrow> catalogue_step m s s'"
| step_update_assignment: "UpdatePolicyAssignment m a s = (Ok b, s') \<Longrightarrow> catalogue_step m s s'"
| step_delete_assignment: "DeletePolicyAssignment m da s = (Ok u, s') \<Longrightarrow> catalogue_step m s s'"
| step_get_policy: "GetPolicy m gp s = (rp, s') \<Longrightarrow> catalogue_step m s s'"
| step_get_group: "GetPolicyGroup m gg s = (rg, s') \<Longrightarrow> catalogue_step m s s'"
| step_get_assignment: "GetPolicyAssignment m ga s = (ra, s') \<Longrightarrow> catalogue_step m s s'"

text \<open>What the operations rely on.\<close>

definition catalogue_store :: "'w manager \<Rightarrow> (string \<Rightarrow> nat) \<Rightarrow> ('w \<Rightarrow> documents) \<Rightarrow> bool" where
  "catalogue_store m shard docs \<longleftrightarrow>
     full_store m shard docs \<and> gets_answered m \<and> plain_uuids m \<and> aliases_apart m"

lemma catalogue_storeD:
  assumes "catalogue_store m shard docs"
  shows "full_store m shard docs" "document_store m shard docs" "gets_answered m" "plain_uuids m"
    "aliases_apart m"
  using assms by (simp_all add: catalogue_store_def full_store_documents)

text \<open>The writes of the policy operations.\<close>

lemma keys_in_policy_keys:
  assumes "CHR ''.'' \<notin> set i"
  shows "policy_key m shard i \<in> policy_keys m shard" "counter_key m shard i \<in> policy_keys m shard"
    "version_key m shard i v \<in> policy_keys m shard"
  using assms by (auto simp: policy_keys_def)

lemma policy_write_intro:
  assumes "\<And>k. k \<notin> policy_keys m shard \<Longrightarrow> d' k = d k"
    "history_at m shard d' = (history_at m shard d)(i \<mapsto> h')"
    "\<And>h. history_at m shard d i = Some h \<Longrightarrow> h_Versions h \<subseteq>\<^sub>m h_Versions h'"
  shows "policy_write m shard d d'"
  unfolding policy_write_def
proof (intro conjI allI impI)
  show "d' k = d k" if "k \<notin> policy_keys m shard" for k using assms(1) that .
  show "\<exists>h''. history_at m shard d' p = Some h'' \<and> h_Versions h \<subseteq>\<^sub>m h_Versions h''"
    if "history_at m shard d p = Some h" for p h
    using assms(3) that by (cases "p = i") (simp_all add: assms(2))
qed

lemma CreatePolicy_write:
  assumes "CreatePolicy m pol s = (Ok q, s')" "document_store m shard docs" "plain_uuids m"
    "policies_ok m shard (docs (ext s))"
  shows "policy_write m shard (docs (ext s)) (docs (ext s')) \<and> policies_ok m shard (docs (ext s'))"
proof -
  note step = CreatePolicy_history [OF assms]
  obtain e where dot: "CHR ''.'' \<notin> set (p_Id q)"
    and d': "docs (ext s') = created_documents m shard (q\<lparr>p_Policy := None\<rparr>) e (docs (ext s))"
    by (rule CreatePolicy_documents [OF assms(1-3)])
  have "policy_write m shard (docs (ext s)) (docs (ext s'))"
  proof (rule policy_write_intro)
    show "docs (ext s') k = docs (ext s) k" if "k \<notin> policy_keys m shard" for k
    proof -
      have "k \<noteq> policy_key m shard (p_Id q)" "k \<noteq> counter_key m shard (p_Id q)"
        "k \<noteq> version_key m shard (p_Id q) 1"
        using that keys_in_policy_keys [OF dot, of m shard] by blast+
      then show ?thesis by (simp add: d' created_documents_def)
    qed
  qed (use step in auto)
  with step show ?thesis by blast
qed

lemma UpdatePolicy_write:
  assumes "UpdatePolicy m \<lparr>upr_Policy = Some upd\<rparr> s = (Ok q, s')" "CHR ''.'' \<notin> set (p_Id upd)"
    "document_store m shard docs" "gets_answered m" "policies_ok m shard (docs (ext s))"
  shows "policy_write m shard (docs (ext s)) (docs (ext s')) \<and> policies_ok m shard (docs (ext s'))"
proof -
  have "upr_Policy \<lparr>upr_Policy = Some upd\<rparr> = Some upd" by simp
  note arg = assms(1) this assms(2-5)
  from UpdatePolicy_history [OF arg] obtain h t u where h: "history_at m shard (docs (ext s)) (p_Id upd) = Some h"
    and step: "history_at m shard (docs (ext s'))
      = (history_at m shard (docs (ext s)))(p_Id upd \<mapsto> update_history t upd u h)"
    and keeps: "h_Versions h \<subseteq>\<^sub>m h_Versions (update_history t upd u h)" and ok: "policies_ok m shard (docs (ext s'))"
    by blast
  have same: "docs (ext s') k = docs (ext s) k" if "k \<notin> policy_keys m shard" for k
  proof -
    obtain h2 t2 u2 where hok: "history_ok (p_Id upd) h2"
      and d': "docs (ext s') = updated_documents m shard (h_Policy (update_history t2 upd u2 h2))
       (if same_content u2 (p_Policy (current_policy h2)) then None
        else p_Policy (current_policy (update_history t2 upd u2 h2))) (docs (ext s))"
      by (rule UpdatePolicy_documents [OF arg])
    have "p_Id (h_Policy (update_history t2 upd u2 h2)) = p_Id upd"
      using hok by (simp add: history_ok_def update_history_def Let_def touch_policy_def)
    moreover have "k \<noteq> policy_key m shard (p_Id upd)" "k \<noteq> counter_key m shard (p_Id upd)"
      "k \<noteq> version_key m shard (p_Id upd) v" for v
      using that keys_in_policy_keys [OF assms(2), of m shard] by blast+
    ultimately show ?thesis unfolding d' updated_documents_def by (simp split: option.split)
  qed
  have "policy_write m shard (docs (ext s)) (docs (ext s'))"
    by (rule policy_write_intro [OF same step]) (use h keeps in auto)
  with ok show ?thesis by blast
qed

lemma DeletePolicy_write:
  assumes "DeletePolicy m request s = (Ok u, s')" "CHR ''.'' \<notin> set (dpr_Id request)"
    "document_store m shard docs" "gets_answered m" "policies_ok m shard (docs (ext s))"
  shows "policy_write m shard (docs (ext s)) (docs (ext s')) \<and> policies_ok m shard (docs (ext s'))"
proof -
  note arg = assms(1,3,4,5,2) refl
  from DeletePolicy_history [OF arg] obtain h where h: "history_at m shard (docs (ext s)) (dpr_Id request) = Some h"
    and step: "history_at m shard (docs (ext s'))
      = (history_at m shard (docs (ext s)))(dpr_Id request \<mapsto> delete_history h)"
    and ok: "policies_ok m shard (docs (ext s'))"
    by blast
  obtain h2 where d': "docs (ext s') = put_doc (policy_key m shard (dpr_Id request))
      (MsgPolicy (h_Policy (delete_history h2))) (docs (ext s))"
    by (rule DeletePolicy_documents [OF arg])
  have same: "docs (ext s') k = docs (ext s) k" if "k \<notin> policy_keys m shard" for k
    using that keys_in_policy_keys(1) [OF assms(2), of m shard] unfolding d' by (metis put_doc_other)
  have "policy_write m shard (docs (ext s)) (docs (ext s'))"
    by (rule policy_write_intro [OF same step]) (use h in \<open>auto simp: delete_history_def\<close>)
  with ok show ?thesis by blast
qed

section \<open>Every step keeps the catalogue\<close>

text \<open>A group keeps its name and creation time, and once it is deleted it does not change.\<close>

definition group_later :: "policy_group \<Rightarrow> policy_group \<Rightarrow> bool" where
  "group_later g g' \<longleftrightarrow> pg_Name g' = pg_Name g \<and> pg_Created g' = pg_Created g \<and>
     (pg_Deleted g \<longrightarrow> g' = g)"

definition groups_later ::
  "(string \<Rightarrow> policy_group option) \<Rightarrow> (string \<Rightarrow> policy_group option) \<Rightarrow> bool" where
  "groups_later gs gs' \<longleftrightarrow> (\<forall>i g. gs i = Some g \<longrightarrow> (\<exists>g'. gs' i = Some g' \<and> group_later g g'))"

lemma group_later_refl: "group_later g g"
  by (simp add: group_later_def)

lemma groups_later_refl: "groups_later gs gs"
  by (simp add: groups_later_def group_later_refl)

lemma groups_later_update:
  assumes "\<And>g. gs i = Some g \<Longrightarrow> group_later g g'"
  shows "groups_later gs (gs(i \<mapsto> g'))"
  using assms group_later_refl by (auto simp: groups_later_def)

lemma groups_later_trans:
  assumes "groups_later gs gs'" "groups_later gs' gs''"
  shows "groups_later gs gs''"
  unfolding groups_later_def
proof (intro allI impI)
  fix i g
  assume "gs i = Some g"
  with assms(1) obtain g' where "gs' i = Some g'" "group_later g g'" unfolding groups_later_def by blast
  moreover from this(1) assms(2) obtain g'' where "gs'' i = Some g''" "group_later g' g''"
    unfolding groups_later_def by blast
  ultimately show "\<exists>g''. gs'' i = Some g'' \<and> group_later g g''" by (auto simp: group_later_def)
qed

lemma group_eq_deleted: "pg_Deleted g \<Longrightarrow> g\<lparr>pg_Deleted := True\<rparr> = g"
  by (cases g) simp

lemma policy_write_kept:
  assumes "policy_write m shard d d' \<and> policies_ok m shard d'" "catalogue_ok m shard d" "aliases_apart m"
  shows "catalogue_ok m shard d' \<and> groups_later (groups_at m shard d) (groups_at m shard d')"
  using policy_write_catalogue [OF _ _ assms(2,3), of d'] assms(1) by (simp add: groups_later_refl)

lemma refers_intro:
  "pa_Id a = policyAssignmentId p (pa_PolicyGroup a) \<Longrightarrow> pa_PolicyVersionId a = policyVersionId p v \<Longrightarrow>
     CHR ''.'' \<notin> set p \<Longrightarrow> v \<noteq> 0 \<Longrightarrow> gs (pa_PolicyGroup a) = Some g \<Longrightarrow> hs p = Some h \<Longrightarrow>
     h_Versions h v \<noteq> None \<Longrightarrow> refers gs hs (pa_Id a) a"
  unfolding refers_def by (intro conjI refl exI [of _ p] exI [of _ v] exI [of _ h]) simp_all

lemma catalogue_step_kept:
  assumes "catalogue_step m s s'" "catalogue_store m shard docs" "catalogue_ok m shard (docs (ext s))"
  shows "catalogue_ok m shard (docs (ext s')) \<and>
    groups_later (groups_at m shard (docs (ext s))) (groups_at m shard (docs (ext s')))"
proof -
  let ?d = "docs (ext s)" and ?d' = "docs (ext s')"
  note store = catalogue_storeD [OF assms(2)] and ok = catalogue_okD [OF assms(3)]
  have written: "catalogue_ok m shard ?d' \<and> groups_later (groups_at m shard ?d) (groups_at m shard ?d')"
    if "?d' = put_doc (group_key m shard (pg_Name g)) (MsgPolicyGroup g) ?d" "policyGroupNamePattern (pg_Name g)"
      "\<And>cur. groups_at m shard ?d (pg_Name g) = Some cur \<Longrightarrow> group_later cur g" for g
    using group_write_catalogue [OF that(1) assms(3) store(5) that(2)]
      groups_later_update [of "groups_at m shard ?d" "pg_Name g" g] that(3) by simp
  have assigned: "catalogue_ok m shard ?d' \<and> groups_later (groups_at m shard ?d) (groups_at m shard ?d')"
    if "?d' = put_doc (assignment_key m shard (pa_Id b)) (MsgPolicyAssignment b) ?d"
      "refers (groups_at m shard ?d) (history_at m shard ?d) (pa_Id b) b" for b
    using assignment_write_catalogue [OF that(1) assms(3) store(5) that(2)] by (simp add: groups_later_refl)
  have unchanged: ?thesis if "?d' = ?d" using that assms(3) by (simp add: groups_later_refl)
  from assms(1) show ?thesis
  proof cases
    case (step_create_policy pol q)
    show ?thesis
      by (rule policy_write_kept [OF CreatePolicy_write [OF step_create_policy store(2,4) ok(1)] assms(3) store(5)])
  next
    case (step_update_policy upd q)
    show ?thesis
      by (rule policy_write_kept [OF UpdatePolicy_write [OF step_update_policy store(2,3) ok(1)] assms(3) store(5)])
  next
    case (step_delete_policy dp u)
    show ?thesis
      by (rule policy_write_kept [OF DeletePolicy_write [OF step_delete_policy store(2,3) ok(1)] assms(3) store(5)])
  next
    case (step_create_group pg g)
    from CreatePolicyGroup_documents [OF this store(1,3) ok(3)] show ?thesis by (intro written [of g]) auto
  next
    case (step_update_group pg g)
    from UpdatePolicyGroup_documents [OF this store(2,3) ok(3)] show ?thesis
      by (intro written [of g]) (auto simp: group_later_def)
  next
    case (step_delete_group dg u)
    from DeletePolicyGroup_documents [OF this store(2,3) ok(3)] obtain cur g where
      "groups_at m shard ?d (dgr_Name dg) = Some cur" "g = cur\<lparr>pg_Deleted := True\<rparr>" "pg_Name g = dgr_Name dg"
      "policyGroupNamePattern (pg_Name g)" "?d' = put_doc (group_key m shard (pg_Name g)) (MsgPolicyGroup g) ?d"
      by blast
    then show ?thesis by (intro written [of g]) (auto simp: group_later_def group_eq_deleted)
  next
    case (step_create_assignment a b)
    show ?thesis
      by (rule CreatePolicyAssignment_documents [OF step_create_assignment store(1,3) assms(3)],
          rule assigned, assumption, rule refers_intro) simp_all
  next
    case (step_update_assignment a b)
    show ?thesis
      by (rule UpdatePolicyAssignment_documents [OF step_update_assignment store(1,3) assms(3)],
          rule assigned, assumption, rule refers_intro) simp_all
  next
    case (step_delete_assignment da u)
    from DeletePolicyAssignment_documents [OF this store(1,3) ok(4)]
    have "?d' = drop_docs (policyAssignmentsAlias m) (dar_Id da) ?d" by blast
    from assignment_drop_catalogue [OF this assms(3) store(5)] show ?thesis by (simp add: groups_later_refl)
  next
    case (step_get_policy gp rp)
    from GetPolicy_read [OF store(2,3) ok(1), of gp] this show ?thesis by (intro unchanged) auto
  next
    case (step_get_group gg rg)
    obtain s1 where "docs (ext s1) = ?d"
      "GetPolicyGroup m \<lparr>ggr_Name = ggr_Name gg\<rparr> s = (read_group (groups_at m shard ?d) (ggr_Name gg), s1)"
      by (rule GetPolicyGroup_answer [OF store(2,3) ok(3)])
    with step_get_group show ?thesis by (intro unchanged) (cases gg; simp)
  next
    case (step_get_assignment ga ra)
    obtain s1 where "docs (ext s1) = ?d"
      "GetPolicyAssignment m \<lparr>gar_Id = gar_Id ga\<rparr> s = (read_assignment (assignments_at m shard ?d) (gar_Id ga), s1)"
      by (rule GetPolicyAssignment_answer [OF store(2,3) ok(4)])
    with step_get_assignment show ?thesis by (intro unchanged) (cases ga; simp)
  qed
qed

lemma catalogue_life_kept:
  assumes "(catalogue_step m)\<^sup>*\<^sup>* s s'" "catalogue_store m shard docs" "catalogue_ok m shard (docs (ext s))"
  shows "catalogue_ok m shard (docs (ext s')) \<and>
    groups_later (groups_at m shard (docs (ext s))) (groups_at m shard (docs (ext s')))"
  using assms(1)
proof induction
  case base
  then show ?case using assms(3) by (simp add: groups_later_refl)
next
  case (step s1 s2)
  then have ok: "catalogue_ok m shard (docs (ext s1))" by simp
  from catalogue_step_kept [OF step.hyps(2) assms(2) ok] step.IH show ?case
    by (auto intro: groups_later_trans)
qed

section \<open>What callers can rely on\<close>

lemma refers_readable:
  assumes "refers (groups_at m shard (docs (ext s))) (history_at m shard (docs (ext s))) i a"
    "catalogue_store m shard docs" "catalogue_ok m shard (docs (ext s))"
  shows "\<exists>p v q g. pa_PolicyVersionId a = policyVersionId p v \<and> i = policyAssignmentId p (pa_PolicyGroup a) \<and>
    fst (GetPolicy m \<lparr>gpr_Id = pa_PolicyVersionId a\<rparr> s) = Ok q \<and> p_Id q = p \<and>
    fst (GetPolicyGroup m \<lparr>ggr_Name = pa_PolicyGroup a\<rparr> s) = Ok g"
proof -
  from assms(1) obtain p v h where a: "pa_PolicyVersionId a = policyVersionId p v" "v \<noteq> 0"
    "i = policyAssignmentId p (pa_PolicyGroup a)" "groups_at m shard (docs (ext s)) (pa_PolicyGroup a) \<noteq> None"
    "history_at m shard (docs (ext s)) p = Some h" "h_Versions h v \<noteq> None"
    unfolding refers_def by (elim exE conjE) (rule that)
  note store = catalogue_storeD [OF assms(2)] and ok = catalogue_okD [OF assms(3)]
  have hok: "history_ok p h" by (rule history_at_ok [OF ok(1) a(5)])
  from a(6) obtain e where e: "h_Versions h v = Some e" by blast
  from hok have "p \<noteq> ''''" "p_Id (h_Policy h) = p" by (simp_all add: history_ok_def)
  with read_version [OF a(5) _ e a(2)] GetPolicy_read [OF store(2,3) ok(1), of "\<lparr>gpr_Id = pa_PolicyVersionId a\<rparr>"]
  have "fst (GetPolicy m \<lparr>gpr_Id = pa_PolicyVersionId a\<rparr> s) = Ok ((h_Policy h)\<lparr>p_Policy := Some e\<rparr>)"
    and "p_Id ((h_Policy h)\<lparr>p_Policy := Some e\<rparr>) = p"
    by (auto simp: a(1))
  moreover from a(4) obtain g where g: "groups_at m shard (docs (ext s)) (pa_PolicyGroup a) = Some g" by blast
  have "docs (ext s) (group_key m shard (pa_PolicyGroup a)) \<noteq> None"
    using g by (auto simp: groups_at_def the_group_Some)
  from group_stored [OF ok(3) this] have "pa_PolicyGroup a \<noteq> ''''" by (auto simp: policyGroupNamePattern_def)
  moreover obtain s1 where "GetPolicyGroup m \<lparr>ggr_Name = pa_PolicyGroup a\<rparr> s =
      (read_group (groups_at m shard (docs (ext s))) (pa_PolicyGroup a), s1)"
    by (rule GetPolicyGroup_answer [OF store(2,3) ok(3), of "pa_PolicyGroup a"])
  ultimately show ?thesis
    using a(1,3) g by (intro exI [of _ p] exI [of _ v] exI [of _ "(h_Policy h)\<lparr>p_Policy := Some e\<rparr>"]
        exI [of _ g]) (simp add: read_group_def)
qed

text \<open>C18: a policy group stays, as long as the calls come one after the other: however many calls on
  policies, groups and assignments succeed after it was read, policies being updated and
  deleted under ids without a dot, the group of that name can be
  read, with the same creation time, and from the moment it is deleted it never changes
  again, so it is not created anew and not brought back. For calls that overlap this is
  false: an update that read the group before its deletion brings it back (see C12).\<close>

theorem groups_stay:
  assumes "(catalogue_step m)\<^sup>*\<^sup>* s s'" "catalogue_store m shard docs" "catalogue_ok m shard (docs (ext s))"
    "fst (GetPolicyGroup m \<lparr>ggr_Name = i\<rparr> s) = Ok g"
  shows "\<exists>g'. fst (GetPolicyGroup m \<lparr>ggr_Name = i\<rparr> s') = Ok g' \<and> pg_Name g' = i \<and>
    pg_Created g' = pg_Created g \<and> (pg_Deleted g \<longrightarrow> g' = g)"
proof -
  from catalogue_life_kept [OF assms(1-3)] have ok: "catalogue_ok m shard (docs (ext s'))"
    and later: "groups_later (groups_at m shard (docs (ext s))) (groups_at m shard (docs (ext s')))" by simp_all
  note store = catalogue_storeD [OF assms(2)]
  obtain t where run: "GetPolicyGroup m \<lparr>ggr_Name = i\<rparr> s = (Ok g, t)"
    using assms(4) by (cases "GetPolicyGroup m \<lparr>ggr_Name = i\<rparr> s") simp
  note found = GetPolicyGroup_found [OF run store(2,3) catalogue_okD(3) [OF assms(3)]]
  from later found(1) obtain g' where "groups_at m shard (docs (ext s')) i = Some g'" "group_later g g'"
    unfolding groups_later_def by blast
  moreover obtain s1 where "GetPolicyGroup m \<lparr>ggr_Name = i\<rparr> s' =
      (read_group (groups_at m shard (docs (ext s'))) i, s1)"
    by (rule GetPolicyGroup_answer [OF store(2,3) catalogue_okD(3) [OF ok], of i])
  moreover have "i \<noteq> ''''" using found(3) by (auto simp: policyGroupNamePattern_def)
  ultimately show ?thesis using found(2) by (auto simp: group_later_def read_group_def)
qed


text \<open>C21: updating an assignment changes one entry of the map of assignments, and in it only the
  version and the time: the policy and the group stay what they were, the new version is
  there, and neither policy nor group is deleted. The next read answers what was returned.\<close>

theorem UpdatePolicyAssignment_refines:
  assumes "UpdatePolicyAssignment m a s = (Ok b, s')" "catalogue_store m shard docs"
    "catalogue_ok m shard (docs (ext s))"
  shows "\<exists>cur p v w h g t. assignments_at m shard (docs (ext s)) (pa_Id a) = Some cur \<and>
    b = cur\<lparr>pa_PolicyVersionId := policyVersionId p v, pa_Updated := Some t\<rparr> \<and>
    pa_PolicyVersionId cur = policyVersionId p w \<and>
    history_at m shard (docs (ext s)) p = Some h \<and> \<not> p_Deleted (h_Policy h) \<and> h_Versions h v \<noteq> None \<and>
    groups_at m shard (docs (ext s)) (pa_PolicyGroup cur) = Some g \<and> \<not> pg_Deleted g \<and>
    assignments_at m shard (docs (ext s')) = (assignments_at m shard (docs (ext s)))(pa_Id a \<mapsto> b) \<and>
    groups_at m shard (docs (ext s')) = groups_at m shard (docs (ext s)) \<and>
    history_at m shard (docs (ext s')) = history_at m shard (docs (ext s)) \<and>
    fst (GetPolicyAssignment m \<lparr>gar_Id = pa_Id a\<rparr> s') = Ok b"
proof -
  note store = catalogue_storeD [OF assms(2)]
  obtain p v w cur h g t where b: "pa_PolicyVersionId a = policyVersionId p v" "v \<noteq> 0" "CHR ''.'' \<notin> set p"
    "assignments_at m shard (docs (ext s)) (pa_Id a) = Some cur" "pa_PolicyGroup cur = pa_PolicyGroup a"
    "pa_PolicyVersionId cur = policyVersionId p w" "pa_Id a = policyAssignmentId p (pa_PolicyGroup a)"
    "b = a\<lparr>pa_Created := pa_Created cur, pa_Updated := Some t\<rparr>"
    "history_at m shard (docs (ext s)) p = Some h" "\<not> p_Deleted (h_Policy h)" "h_Versions h v \<noteq> None"
    "groups_at m shard (docs (ext s)) (pa_PolicyGroup a) = Some g" "\<not> pg_Deleted g"
    and d': "docs (ext s') = put_doc (assignment_key m shard (pa_Id b)) (MsgPolicyAssignment b) (docs (ext s))"
    by (rule UpdatePolicyAssignment_documents [OF assms(1) store(1,3) assms(3)])
  have fields: "pa_PolicyVersionId b = pa_PolicyVersionId a" "pa_PolicyGroup b = pa_PolicyGroup a" "pa_Id b = pa_Id a"
    using b(8) by simp_all
  have "refers (groups_at m shard (docs (ext s))) (history_at m shard (docs (ext s))) (pa_Id b) b"
    by (rule refers_intro) (use b fields in simp_all)
  from assignment_write_catalogue [OF d' assms(3) store(5) this]
  have ok: "catalogue_ok m shard (docs (ext s'))"
    and new: "assignments_at m shard (docs (ext s')) = (assignments_at m shard (docs (ext s)))(pa_Id a \<mapsto> b)"
    "groups_at m shard (docs (ext s')) = groups_at m shard (docs (ext s))"
    "history_at m shard (docs (ext s')) = history_at m shard (docs (ext s))" by (simp_all add: fields)
  obtain s1 where "GetPolicyAssignment m \<lparr>gar_Id = pa_Id a\<rparr> s' =
      (read_assignment (assignments_at m shard (docs (ext s'))) (pa_Id a), s1)"
    by (rule GetPolicyAssignment_answer [OF store(2,3) catalogue_okD(4) [OF ok], of "pa_Id a"])
  moreover have "pa_Id a \<noteq> ''''" using b(7) by (simp add: policyAssignmentId_def)
  ultimately have read: "fst (GetPolicyAssignment m \<lparr>gar_Id = pa_Id a\<rparr> s') = Ok b"
    by (simp add: read_assignment_def new(1))
  have "pa_Id cur = pa_Id a"
    using assignment_refers [OF catalogue_okD(4) [OF assms(3)] b(4)] by (simp add: refers_def)
  with b(1,5,8) have "b = cur\<lparr>pa_PolicyVersionId := policyVersionId p v, pa_Updated := Some t\<rparr>"
    by (cases a; cases cur) simp
  with b new read show ?thesis
    by (intro exI [of _ cur] exI [of _ p] exI [of _ v] exI [of _ w] exI [of _ h] exI [of _ g] exI [of _ t]) simp
qed

text \<open>Deleting an assignment takes away one entry of the map of assignments and nothing else;
  groups and policies stay what they are, and the next read of the id answers NotFound.\<close>

lemma DeletePolicyAssignment_refines:
  assumes "DeletePolicyAssignment m request s = (Ok u, s')" "catalogue_store m shard docs"
    "catalogue_ok m shard (docs (ext s))"
  shows "assignments_at m shard (docs (ext s)) (dar_Id request) \<noteq> None \<and>
    assignments_at m shard (docs (ext s')) = (assignments_at m shard (docs (ext s)))(dar_Id request := None) \<and>
    groups_at m shard (docs (ext s')) = groups_at m shard (docs (ext s)) \<and>
    history_at m shard (docs (ext s')) = history_at m shard (docs (ext s)) \<and>
    fst (GetPolicyAssignment m \<lparr>gar_Id = dar_Id request\<rparr> s') =
      Err (createErrorWithCode ''assignment not found'' None NotFound)"
proof -
  note store = catalogue_storeD [OF assms(2)] and ok = catalogue_okD [OF assms(3)]
  from DeletePolicyAssignment_documents [OF assms(1) store(1,3) ok(4)]
  obtain a where a: "assignments_at m shard (docs (ext s)) (dar_Id request) = Some a"
    and d': "docs (ext s') = drop_docs (policyAssignmentsAlias m) (dar_Id request) (docs (ext s))" by blast
  from assignment_drop_catalogue [OF d' assms(3) store(5)]
  have ok': "catalogue_ok m shard (docs (ext s'))"
    and new: "assignments_at m shard (docs (ext s')) = (assignments_at m shard (docs (ext s)))(dar_Id request := None)"
    "groups_at m shard (docs (ext s')) = groups_at m shard (docs (ext s))"
    "history_at m shard (docs (ext s')) = history_at m shard (docs (ext s))" by simp_all
  obtain s1 where "GetPolicyAssignment m \<lparr>gar_Id = dar_Id request\<rparr> s' =
      (read_assignment (assignments_at m shard (docs (ext s'))) (dar_Id request), s1)"
    by (rule GetPolicyAssignment_answer [OF store(2,3) catalogue_okD(4) [OF ok'], of "dar_Id request"])
  moreover have "dar_Id request \<noteq> ''''"
    using assignment_refers [OF ok(4) a] by (auto simp: refers_def policyAssignmentId_def)
  ultimately have "fst (GetPolicyAssignment m \<lparr>gar_Id = dar_Id request\<rparr> s') =
      Err (createErrorWithCode ''assignment not found'' None NotFound)"
    by (simp add: read_assignment_def new(1))
  with a new show ?thesis by simp
qed

text \<open>C39: a policy group is created only under a legal name that no group has, deleted groups
  included. It adds one entry to the map of groups, changes neither policies nor
  assignments, and the next read of the name answers the group that was returned; a name
  that is taken is answered AlreadyExists and no document changes.\<close>

theorem CreatePolicyGroup_refines:
  assumes "CreatePolicyGroup m pg s = (r, s')" "catalogue_store m shard docs"
    "catalogue_ok m shard (docs (ext s))"
  shows "case groups_at m shard (docs (ext s)) (pg_Name pg) of
      Some cur \<Rightarrow> r = Err (createErrorWithCode ''policy group already exists'' None AlreadyExists) \<and>
        docs (ext s') = docs (ext s)
    | None \<Rightarrow> (\<forall>g. r = Ok g \<longrightarrow> policyGroupNamePattern (pg_Name pg) \<and>
        (\<exists>t. g = pg\<lparr>pg_Created := Some t, pg_Updated := Some t\<rparr>) \<and>
        groups_at m shard (docs (ext s')) = (groups_at m shard (docs (ext s)))(pg_Name pg \<mapsto> g) \<and>
        assignments_at m shard (docs (ext s')) = assignments_at m shard (docs (ext s)) \<and>
        history_at m shard (docs (ext s')) = history_at m shard (docs (ext s)) \<and>
        fst (GetPolicyGroup m \<lparr>ggr_Name = pg_Name pg\<rparr> s') = Ok g)"
proof -
  note store = catalogue_storeD [OF assms(2)] and ok = catalogue_okD [OF assms(3)]
  show ?thesis
  proof (cases "groups_at m shard (docs (ext s)) (pg_Name pg)")
    case (Some cur)
    then have "docs (ext s) (group_key m shard (pg_Name pg)) \<noteq> None" by (auto simp: groups_at_def the_group_Some)
    from group_stored [OF ok(3) this] have name: "pg_Name pg \<noteq> ''''" by (auto simp: policyGroupNamePattern_def)
    obtain s1 where s1: "docs (ext s1) = docs (ext s)" "GetPolicyGroup m \<lparr>ggr_Name = pg_Name pg\<rparr> s =
      (read_group (groups_at m shard (docs (ext s))) (pg_Name pg), s1)"
      by (rule GetPolicyGroup_answer [OF store(2,3) ok(3)])
    with Some name assms(1) show ?thesis
      by (auto simp: CreatePolicyGroup_def inspect_def read_group_def)
  next
    case None
    have "policyGroupNamePattern (pg_Name pg) \<and> (\<exists>t. g = pg\<lparr>pg_Created := Some t, pg_Updated := Some t\<rparr>) \<and>
        groups_at m shard (docs (ext s')) = (groups_at m shard (docs (ext s)))(pg_Name pg \<mapsto> g) \<and>
        assignments_at m shard (docs (ext s')) = assignments_at m shard (docs (ext s)) \<and>
        history_at m shard (docs (ext s')) = history_at m shard (docs (ext s)) \<and>
        fst (GetPolicyGroup m \<lparr>ggr_Name = pg_Name pg\<rparr> s') = Ok g" if "r = Ok g" for g
    proof -
      from CreatePolicyGroup_documents [OF assms(1) [unfolded that] store(1,3) ok(3)] obtain t where
        g: "g = pg\<lparr>pg_Created := Some t, pg_Updated := Some t\<rparr>" and name: "policyGroupNamePattern (pg_Name g)"
        and d': "docs (ext s') = put_doc (group_key m shard (pg_Name g)) (MsgPolicyGroup g) (docs (ext s))" by blast
      from group_write_catalogue [OF d' assms(3) store(5) name]
      have ok': "catalogue_ok m shard (docs (ext s'))"
        and new: "groups_at m shard (docs (ext s')) = (groups_at m shard (docs (ext s)))(pg_Name g \<mapsto> g)"
        "assignments_at m shard (docs (ext s')) = assignments_at m shard (docs (ext s))"
        "history_at m shard (docs (ext s')) = history_at m shard (docs (ext s))" by simp_all
      obtain s1 where "GetPolicyGroup m \<lparr>ggr_Name = pg_Name pg\<rparr> s' =
        (read_group (groups_at m shard (docs (ext s'))) (pg_Name pg), s1)"
        by (rule GetPolicyGroup_answer [OF store(2,3) catalogue_okD(3) [OF ok']])
      moreover have "pg_Name g = pg_Name pg" using g by simp
      moreover from this name have "pg_Name pg \<noteq> ''''" by (auto simp: policyGroupNamePattern_def)
      ultimately show ?thesis using g name new by (auto simp: read_group_def)
    qed
    with None show ?thesis by simp
  qed
qed

end
