(* ===== verification/Resource_Store.thy ===== *)
theory Resource_Store
  imports Document_Store Resource_Manager
begin

text \<open>
  What recording occurrences does to the stored resources, \<open>pkg/resource/manager.go\<close>, on an
  Elasticsearch that keeps the contract of \<open>Document_Store\<close>: a resource is written once and
  never changed, so that recording the same occurrences again writes no resource; and what
  becomes of a version that is known, which the code looks up by its own id although it is
  stored on the shard of its resource.
\<close>

section \<open>The contract\<close>

text \<open>
  A bulk request of index operations is answered with an index result for each; where none of
  them carries an error, the items are done.
\<close>

definition index_bulk_contract :: "'w manager \<Rightarrow> (string \<Rightarrow> nat) \<Rightarrow> ('w \<Rightarrow> documents) \<Rightarrow> bool" where
  "index_bulk_contract m shard docs \<longleftrightarrow> (\<forall>q w r w'. esc_Bulk (esClient m) q w = (Inr r, w') \<longrightarrow>
     (\<forall>item\<in>set (br_Items q). bi_Operation item = BULK_INDEX) \<longrightarrow>
     (\<forall>item\<in>set (brs_Items r). map_option bs_Error (bri_Index item) = Some None) \<longrightarrow>
     apply_items shard (br_Index q) (br_Items q) (docs w) = Some (docs w'))"

definition resource_store :: "'w manager \<Rightarrow> (string \<Rightarrow> nat) \<Rightarrow> ('w \<Rightarrow> documents) \<Rightarrow> bool" where
  "resource_store m shard docs \<longleftrightarrow> full_store m shard docs \<and> index_bulk_contract m shard docs \<and>
     (\<forall>w. docs (snd (rt_HandlerOrder (runtime m) w)) = docs w) \<and>
     (\<forall>ks w. docs (snd (rt_KeyOrder (runtime m) ks w)) = docs w) \<and> range_orders_ok (runtime m)"

text \<open>The URIs of the occurrences parse to the same components, whatever the order of the walk.\<close>

definition steady_uris :: "'w manager \<Rightarrow> (string \<Rightarrow> uri_components) \<Rightarrow> occurrence list \<Rightarrow> bool" where
  "steady_uris m parsed occs \<longleftrightarrow> (\<forall>occ\<in>set occs. \<forall>res w. o_Resource occ = Some res \<longrightarrow>
     parseResourceUri (fst (rt_HandlerOrder (runtime m) w)) (gr_Uri res) = Inr (parsed (gr_Uri res)))"

definition resource_ids :: "(string \<Rightarrow> uri_components) \<Rightarrow> occurrence list \<Rightarrow> string set" where
  "resource_ids parsed occs =
     {uc_prefixedName (parsed (gr_Uri res)) | res. \<exists>occ\<in>set occs. o_Resource occ = Some res}"

definition resource_key :: "'w manager \<Rightarrow> (string \<Rightarrow> nat) \<Rightarrow> string \<Rightarrow> doc_key" where
  "resource_key m shard i = (resourcesAlias m, shard i, i)"

section \<open>Writing items\<close>

text \<open>The key an item is written under.\<close>

definition item_key :: "(string \<Rightarrow> nat) \<Rightarrow> string \<Rightarrow> bulk_item \<Rightarrow> doc_key" where
  "item_key shard ix item = (ix, shard (item_route item), bi_DocumentId item)"

lemma put_doc_stays: "d k' \<noteq> None \<Longrightarrow> put_doc k msg d k' \<noteq> None"
  by (simp add: put_doc_def)

lemma apply_items_keeps:
  assumes "apply_items shard ix items d = Some d'" "d k \<noteq> None"
  shows "d' k \<noteq> None"
  using assms
proof (induction items arbitrary: d)
  case (Cons item items)
  then have run: "apply_items shard ix items (put_doc (item_key shard ix item) (bi_Message item) d) = Some d'"
    by (auto simp: Let_def item_key_def split: if_splits)
  show ?case by (rule Cons.IH [OF run put_doc_stays [of d k, OF Cons.prems(2)]])
qed simp

lemma apply_items_writes:
  assumes "apply_items shard ix items d = Some d'" "item \<in> set items"
  shows "d' (item_key shard ix item) \<noteq> None"
  using assms
proof (induction items arbitrary: d)
  case (Cons i items)
  then have run: "apply_items shard ix items (put_doc (item_key shard ix i) (bi_Message i) d) = Some d'"
    by (auto simp: Let_def item_key_def split: if_splits)
  show ?case
  proof (cases "item = i")
    case True
    have "put_doc (item_key shard ix i) (bi_Message i) d (item_key shard ix i) \<noteq> None" by simp
    from apply_items_keeps [OF run this] True show ?thesis by simp
  next
    case False
    with Cons.prems(2) have "item \<in> set items" by simp
    from Cons.IH [OF run this] show ?thesis .
  qed
qed simp

lemma apply_items_elsewhere:
  assumes "apply_items shard ix items d = Some d'" "k \<notin> item_key shard ix ` set items"
  shows "d' k = d k"
  using assms
proof (induction items arbitrary: d)
  case (Cons item items)
  then have run: "apply_items shard ix items (put_doc (item_key shard ix item) (bi_Message item) d) = Some d'"
    by (auto simp: Let_def item_key_def split: if_splits)
  have "d' k = put_doc (item_key shard ix item) (bi_Message item) d k"
    by (rule Cons.IH [OF run]) (use Cons.prems(2) in simp)
  with Cons.prems(2) show ?case by simp
qed simp

lemma store_index_bulk:
  assumes "resource_store m shard docs" "esc_Bulk (esClient m) q w = (Inr r, w')"
    "\<forall>item\<in>set (br_Items q). bi_Operation item = BULK_INDEX"
    "\<forall>item\<in>set (brs_Items r). map_option bs_Error (bri_Index item) = Some None"
  shows "apply_items shard (br_Index q) (br_Items q) (docs w) = Some (docs w')"
  using assms(2-4) assms(1) [unfolded resource_store_def index_bulk_contract_def] by blast

lemma resource_storeD:
  assumes "resource_store m shard docs"
  shows "full_store m shard docs" "docs (snd (rt_HandlerOrder (runtime m) w)) = docs w"
    "docs (snd (rt_KeyOrder (runtime m) ks w)) = docs w" "range_orders_ok (runtime m)"
  using assms by (simp_all add: resource_store_def)

section \<open>Resources\<close>

lemma parse_uri_steady:
  assumes "parse_uri m uri s = (Ok c, s')" "resource_store m shard docs"
    "\<And>w. parseResourceUri (fst (rt_HandlerOrder (runtime m) w)) uri = Inr c'"
  shows "c = c' \<and> docs (ext s') = docs (ext s)"
proof -
  obtain order x where order: "rt_HandlerOrder (runtime m) (ext s) = (order, x)" by fastforce
  with assms(1) have "parseResourceUri order uri = Inr c" "ext s' = x"
    unfolding parse_uri_def by (auto simp: attempt_Ok draw_Ok)
  with order assms(3) [of "ext s"] resource_storeD(2) [OF assms(2), of "ext s"] show ?thesis by simp
qed

lemma collect_resources_ids:
  assumes "collect_resources m occs rs s = (Ok rs', s')" "resource_store m shard docs"
    "steady_uris m parsed occs"
  shows "fst ` set rs' = fst ` set rs \<union> resource_ids parsed occs \<and> docs (ext s') = docs (ext s)"
  using assms(1,3)
proof (induction occs arbitrary: rs s)
  case Nil
  then show ?case by (simp add: resource_ids_def)
next
  case (Cons occ occs)
  from Cons.prems(1) obtain res c s1 where run: "o_Resource occ = Some res"
    "parse_uri m (gr_Uri res) s = (Ok c, s1)"
    "collect_resources m occs (if map_of rs (uc_prefixedName c) \<noteq> None then rs else
       rs @ [(uc_prefixedName c, \<lparr>r_Id = '''', r_Name = uc_name c, r_Type = uc_resourceType c,
          r_Created = o_CreateTime occ\<rparr>)]) s1 = (Ok rs', s')"
    by (auto simp: attempt_Ok Let_def split: if_splits)
  have "c = parsed (gr_Uri res) \<and> docs (ext s1) = docs (ext s)"
    by (rule parse_uri_steady [OF run(2) assms(2)]) (use Cons.prems(2) run(1) in \<open>simp add: steady_uris_def\<close>)
  then have c: "c = parsed (gr_Uri res)" and same: "docs (ext s1) = docs (ext s)" by simp_all
  have ids: "resource_ids parsed (occ # occs) = insert (uc_prefixedName c) (resource_ids parsed occs)"
    using run(1) c by (auto simp: resource_ids_def)
  have steady: "steady_uris m parsed occs" using Cons.prems(2) by (simp add: steady_uris_def)
  from Cons.IH [OF run(3) steady] same have all: "docs (ext s') = docs (ext s)"
    "fst ` set rs' = fst ` set (if map_of rs (uc_prefixedName c) \<noteq> None then rs else
       rs @ [(uc_prefixedName c, \<lparr>r_Id = '''', r_Name = uc_name c, r_Type = uc_resourceType c,
          r_Created = o_CreateTime occ\<rparr>)]) \<union> resource_ids parsed occs"
    by simp_all
  have "map_of rs (uc_prefixedName c) \<noteq> None \<longleftrightarrow> uc_prefixedName c \<in> fst ` set rs"
    by (simp add: map_of_eq_None_iff del: not_None_eq)
  then show ?case unfolding all ids by auto
qed

lemma missing_answered:
  assumes "list_all2 (\<lambda>k doc. get_answers cd (d k) doc) (map f (map fst rs)) found"
  shows "set (missing found rs) = {e \<in> set rs. d (f (fst e)) = None}"
proof -
  have len: "length found = length rs" using list_all2_lengthD [OF assms] by simp
  have at: "grs_Found (found ! j) \<longleftrightarrow> d (f (fst (rs ! j))) \<noteq> None" if "j < length rs" for j
  proof -
    from list_all2_nthD [OF assms, of j] that have "get_answers cd (d (f (fst (rs ! j)))) (found ! j)" by simp
    then show ?thesis by (cases "d (f (fst (rs ! j)))") (auto simp: get_answers_def)
  qed
  show ?thesis
  proof (intro set_eqI iffI)
    fix e
    assume "e \<in> set (missing found rs)"
    then obtain doc where "(doc, e) \<in> set (zip found rs)" "\<not> grs_Found doc" by (auto simp: missing_def)
    then obtain j where "j < length rs" "e = rs ! j" "\<not> grs_Found (found ! j)"
      using len by (auto simp: set_zip)
    with at have "e \<in> set rs" "\<not> d (f (fst e)) \<noteq> None" by (simp_all del: not_None_eq)
    then show "e \<in> {e \<in> set rs. d (f (fst e)) = None}" by blast
  next
    fix e
    assume "e \<in> {e \<in> set rs. d (f (fst e)) = None}"
    then obtain j where j: "j < length rs" "e = rs ! j" "d (f (fst e)) = None" by (auto simp: in_set_conv_nth)
    with at [OF j(1)] have "\<not> grs_Found (found ! j)" by simp
    with j len show "e \<in> set (missing found rs)" by (force simp: missing_def set_zip)
  qed
qed

text \<open>One run: the resources of the occurrences that had no document get one.\<close>

lemma BatchCreateResources_documents:
  assumes "BatchCreateResources m occs s = (Ok u, s')" "resource_store m shard docs" "steady_uris m parsed occs"
  obtains new q where "fst ` set new = {i \<in> resource_ids parsed occs. docs (ext s) (resource_key m shard i) = None}"
    "apply_items shard (resourcesAlias m) (map resource_item new) (docs (ext s)) = Some (docs (ext s'))"
    "trace s' = trace s @ EsMultiGet q #
       (if new = [] then [] else [EsBulk (resources_bulk m (map resource_item new))])"
proof -
  from assms(1) obtain rs s1 resp s2 items s3 where
    c: "collect_resources m occs [] s = (Ok rs, s1)"
    and g: "es_multi_get m \<lparr>mg_Index = resourcesAlias m, mg_DocumentIds = map fst rs, mg_Items = []\<rparr> s1
      = (Ok resp, s2)"
    and i: "resource_items (mgr_Docs resp) 0 rs s2 = (Ok items, s3)"
    and none: "items = [] \<longrightarrow> s' = s3"
    and some: "items \<noteq> [] \<longrightarrow> (\<exists>r y errs s4. es_bulk m (resources_bulk m items) s3 = (Ok r, s4) \<and>
      index_errors ''error creating resource'' (brs_Items r) s4 = (Ok [], s'))"
    unfolding BatchCreateResources_def by (auto simp: attempt_Ok split: if_splits)
  from collect_resources_ids [OF c assms(2,3)]
  have ids: "fst ` set rs = resource_ids parsed occs" and same1: "docs (ext s1) = docs (ext s)" by simp_all
  from collect_resources_Ok [OF c] have trace1: "trace s1 = trace s" by simp
  note full = resource_storeD(1) [OF assms(2)]
  from g obtain y where mg: "esc_MultiGet (esClient m)
      \<lparr>mg_Index = resourcesAlias m, mg_DocumentIds = map fst rs, mg_Items = []\<rparr> (ext s1) = (Inr resp, y)"
    and s2: "ext s2 = y" "trace s2 = trace s1 @ [EsMultiGet
      \<lparr>mg_Index = resourcesAlias m, mg_DocumentIds = map fst rs, mg_Items = []\<rparr>]"
    by (auto simp: external_Ok)
  from store_multi_get [OF full mg] same1 s2
  have same2: "docs (ext s2) = docs (ext s)" and answers: "list_all2 (\<lambda>k doc. get_answers (codec m) (docs (ext s) k) doc)
      (map (resource_key m shard) (map fst rs)) (mgr_Docs resp)"
    by (simp_all add: requested_keys_def resource_key_def comp_def)
  let ?new = "missing (mgr_Docs resp) rs"
  from resource_items_Ok [OF i] have s3: "s3 = s2" and items: "items = map resource_item ?new" by simp_all
  have keys: "fst ` set ?new = {i \<in> resource_ids parsed occs. docs (ext s) (resource_key m shard i) = None}"
    unfolding missing_answered [OF answers] ids [symmetric] by auto
  show thesis
  proof (cases "?new = []")
    case True
    with none s3 same2 s2 trace1 items show thesis by (intro that [OF keys]) auto
  next
    case False
    with some items s3 obtain r s4 where bulk: "es_bulk m (resources_bulk m (map resource_item ?new)) s2 = (Ok r, s4)"
      and errs: "index_errors ''error creating resource'' (brs_Items r) s4 = (Ok [], s')" by auto
    from index_errors_Ok [OF errs] have s': "s' = s4"
      and fine: "\<forall>item\<in>set (brs_Items r). map_option bs_Error (bri_Index item) = Some None" by simp_all
    from bulk obtain y2 where run: "esc_Bulk (esClient m) (resources_bulk m (map resource_item ?new)) (ext s2) = (Inr r, y2)"
      and s4: "ext s4 = y2" "trace s4 = trace s2 @ [EsBulk (resources_bulk m (map resource_item ?new))]"
      by (auto simp: external_Ok)
    have "\<forall>item\<in>set (br_Items (resources_bulk m (map resource_item ?new))). bi_Operation item = BULK_INDEX"
      by (auto simp: resources_bulk_def resource_item_def)
    from store_index_bulk [OF assms(2) run this fine] s' s4 same2
    have "apply_items shard (resourcesAlias m) (map resource_item ?new) (docs (ext s)) = Some (docs (ext s'))"
      by (simp add: resources_bulk_def)
    with False s' s4 s2 trace1 show thesis by (intro that [OF keys]) auto
  qed
qed

lemma resource_item_key: "item_key shard (resourcesAlias m) (resource_item e) = resource_key m shard (fst e)"
  by (cases e) (simp add: item_key_def resource_item_def resource_key_def)

text \<open>C15: recording occurrences keeps what is stored and is idempotent, for occurrences whose resource
  URIs parse alike in whatever order the handlers are walked (URIs for which the order
  matters exist, see C37): afterwards every resource the
  occurrences name has a document, no document that was there has changed, and recording
  the same occurrences again, at any later time that finds the documents as they were left,
  looks the resources up and writes nothing.\<close>

theorem BatchCreateResources_idempotent:
  assumes "BatchCreateResources m occs s = (Ok u, s1)" "BatchCreateResources m occs s2 = (Ok v, s3)"
    "docs (ext s2) = docs (ext s1)" "resource_store m shard docs" "steady_uris m parsed occs"
  shows "(\<forall>i\<in>resource_ids parsed occs. docs (ext s1) (resource_key m shard i) \<noteq> None) \<and>
    (\<forall>k. docs (ext s) k \<noteq> None \<longrightarrow> docs (ext s1) k = docs (ext s) k) \<and>
    docs (ext s3) = docs (ext s1) \<and> (\<exists>q. trace s3 = trace s2 @ [EsMultiGet q])"
proof -
  obtain new q where new: "fst ` set new = {i \<in> resource_ids parsed occs. docs (ext s) (resource_key m shard i) = None}"
    and done1: "apply_items shard (resourcesAlias m) (map resource_item new) (docs (ext s)) = Some (docs (ext s1))"
    by (rule BatchCreateResources_documents [OF assms(1,4,5)])
  have stored: "docs (ext s1) (resource_key m shard i) \<noteq> None" if "i \<in> resource_ids parsed occs" for i
  proof (cases "docs (ext s) (resource_key m shard i) = None")
    case True
    with that new have "i \<in> fst ` set new" by simp
    then obtain e where "e \<in> set new" "i = fst e" by auto
    with apply_items_writes [OF done1, of "resource_item e"] show ?thesis by (simp add: resource_item_key)
  next
    case False
    from apply_items_keeps [OF done1 False] show ?thesis .
  qed
  have kept: "docs (ext s1) k = docs (ext s) k" if "docs (ext s) k \<noteq> None" for k
  proof (rule apply_items_elsewhere [OF done1])
    show "k \<notin> item_key shard (resourcesAlias m) ` set (map resource_item new)"
    proof
      assume "k \<in> item_key shard (resourcesAlias m) ` set (map resource_item new)"
      then obtain e where "e \<in> set new" "k = resource_key m shard (fst e)" by (auto simp: resource_item_key)
      moreover from this new have "docs (ext s) (resource_key m shard (fst e)) = None" by blast
      ultimately show False using that by simp
    qed
  qed
  obtain new2 q2 where new2: "fst ` set new2 = {i \<in> resource_ids parsed occs. docs (ext s2) (resource_key m shard i) = None}"
    and done2: "apply_items shard (resourcesAlias m) (map resource_item new2) (docs (ext s2)) = Some (docs (ext s3))"
    and trace: "trace s3 = trace s2 @ EsMultiGet q2 #
       (if new2 = [] then [] else [EsBulk (resources_bulk m (map resource_item new2))])"
    by (rule BatchCreateResources_documents [OF assms(2,4,5)])
  have "fst ` set new2 = {}" using stored unfolding new2 assms(3) by blast
  then have "new2 = []" by simp
  with done2 trace stored kept assms(3) show ?thesis by auto
qed

section \<open>Versions that are known\<close>

text \<open>A version is stored on the shard of its resource, and looked up on the shard of its own id.\<close>

definition stored_version_key :: "'w manager \<Rightarrow> (string \<Rightarrow> nat) \<Rightarrow> uri_components \<Rightarrow> string \<Rightarrow> doc_key" where
  "stored_version_key m shard c uri = (resourcesAlias m, shard (uc_prefixedName c), uri)"

lemma collect_one_version:
  assumes "collect_versions m [occ] [] s = (Ok vs, s')" "resource_store m shard docs"
    "o_Resource occ = Some res" "o_Kind occ \<noteq> BUILD"
  shows "vs = [(gr_Uri res, \<lparr>rv_Version = gr_Uri res, rv_Names = [], rv_Created = None\<rparr>)] \<and>
    docs (ext s') = docs (ext s)"
proof -
  let ?v = "\<lparr>rv_Version = gr_Uri res, rv_Names = [], rv_Created = None\<rparr>"
  from assms(1,3,4) obtain order x where order: "rt_KeyOrder (runtime m) [gr_Uri res] (ext s) = (order, x)"
    and vs: "vs = merge_versions [(gr_Uri res, ?v)] order []" and s': "ext s' = x"
    by (auto simp: resourceVersionsFromOccurrence_def attempt_Ok draw_Ok Let_def)
  from resource_storeD(4) [OF assms(2)] order have "distinct order" "set order = {gr_Uri res}"
    unfolding range_orders_ok_def by (metis fst_conv distinct_singleton list.set(1,2))+
  then have "order = [gr_Uri res]" by (cases order; cases "tl order") auto
  with vs s' order resource_storeD(3) [OF assms(2), of "[gr_Uri res]" "ext s"] show ?thesis by simp
qed


end
