(* ===== verification/Example_Store.thy ===== *)
theory Example_Store
  imports Policy_Overlap Assignment_Store Resource_Store Example_World
begin

text \<open>
  A concrete Elasticsearch that keeps the contract of \<open>Document_Store\<close>, for the witnesses
  of the policy store: it remembers what is written, on two shards, as long as the message
  is one of a table of messages it can encode; any other write is refused with an error.
\<close>

section \<open>The table of messages\<close>

definition st_created :: policy where
  "st_created = \<lparr>p_Id = ''u1'', p_Name = ''no-high'', p_Description = ''d'', p_CurrentVersion = 1,
     p_Policy = None, p_Created = Some (Timestamp 2 0), p_Updated = Some (Timestamp 2 0),
     p_Deleted = False\<rparr>"

definition st_first :: policy_entity where
  "st_first = \<lparr>pe_Id = ''u1.1'', pe_Version = 1, pe_Message = ''Initial policy creation'',
     pe_RegoContent = ''package a'', pe_SourcePath = '''', pe_Created = Some (Timestamp 2 0)\<rparr>"

definition st_second :: policy_entity where
  "st_second = \<lparr>pe_Id = ''u1.2'', pe_Version = 2, pe_Message = ''Updated policy'',
     pe_RegoContent = ''package b'', pe_SourcePath = '''', pe_Created = Some (Timestamp 3 0)\<rparr>"

definition st_group :: policy_group where
  "st_group = \<lparr>pg_Name = ''g'', pg_Description = ''d'', pg_Created = Some (Timestamp 3 0),
     pg_Updated = Some (Timestamp 3 0), pg_Deleted = False\<rparr>"

definition st_assignment :: policy_assignment where
  "st_assignment = \<lparr>pa_Id = ''policies/u1/assignments/g'', pa_PolicyVersionId = ''u1.1'',
     pa_PolicyGroup = ''g'', pa_Created = Some (Timestamp 4 0), pa_Updated = Some (Timestamp 4 0)\<rparr>"

definition st_named :: resource_version where
  "st_named = \<lparr>rv_Version = ex_uri, rv_Names = [''n''], rv_Created = ex_time\<rparr>"

definition st_table :: "(string \<times> es_message) list" where
  "st_table = [(''empty'', MsgEmpty), (''created'', MsgPolicy st_created),
     (''first'', MsgPolicyEntity st_first), (''second'', MsgPolicyEntity st_second),
     (''updated'', MsgPolicy (st_created\<lparr>p_Updated := Some (Timestamp 3 0), p_CurrentVersion := 2\<rparr>)),
     (''renamed'', MsgPolicy (st_created\<lparr>p_Name := ''new'', p_Updated := Some (Timestamp 3 0)\<rparr>)),
     (''late'', MsgPolicy (st_created\<lparr>p_Name := ''new'', p_Updated := Some (Timestamp 4 0)\<rparr>)),
     (''group'', MsgPolicyGroup st_group), (''groupdeleted'', MsgPolicyGroup (st_group\<lparr>pg_Deleted := True\<rparr>)),
     (''groupupdated'', MsgPolicyGroup (st_group\<lparr>pg_Updated := Some (Timestamp 4 0)\<rparr>)), (''assigned'', MsgPolicyAssignment st_assignment),
     (''reassigned'', MsgPolicyAssignment (st_assignment\<lparr>pa_Updated := Some (Timestamp 5 0)\<rparr>)),
     (''resource'', MsgResource \<lparr>r_Id = '''', r_Name = ''r'', r_Type = GIT, r_Created = ex_time\<rparr>),
     (''named'', MsgResourceVersion st_named),
     (''nameless'', MsgResourceVersion \<lparr>rv_Version = ex_uri, rv_Names = [], rv_Created = Some (Timestamp 1 0)\<rparr>)]"

definition st_encode :: "es_message \<Rightarrow> string option" where
  "st_encode = map_of (map (\<lambda>(src, msg). (msg, src)) st_table)"

definition st_codec :: codec where
  "st_codec = ex_codec\<lparr>
     cd_Policy := \<lambda>_ src. case map_of st_table src of
        Some (MsgPolicy p) \<Rightarrow> Inr p | _ \<Rightarrow> Inl (ErrorNew ''unexpected token''),
     cd_PolicyEntity := \<lambda>_ src. case map_of st_table src of
        Some (MsgPolicyEntity e) \<Rightarrow> Inr e | _ \<Rightarrow> Inl (ErrorNew ''unexpected token''),
     cd_PolicyGroup := \<lambda>_ src. case map_of st_table src of
        Some (MsgPolicyGroup g) \<Rightarrow> Inr g | _ \<Rightarrow> Inl (ErrorNew ''unexpected token''),
     cd_PolicyAssignment := \<lambda>_ src. case map_of st_table src of
        Some (MsgPolicyAssignment a) \<Rightarrow> Inr a | _ \<Rightarrow> Inl (ErrorNew ''unexpected token''),
     cd_Resource := \<lambda>_ src. case map_of st_table src of
        Some (MsgResource x) \<Rightarrow> Inr x | _ \<Rightarrow> Inl (ErrorNew ''unexpected token''),
     cd_ResourceVersion := \<lambda>_ src. case map_of st_table src of
        Some (MsgResourceVersion v) \<Rightarrow> Inr v | _ \<Rightarrow> Inl (ErrorNew ''unexpected token'')\<rparr>"

section \<open>The store\<close>

type_synonym st_state = "nat \<times> (doc_key \<Rightarrow> (string \<times> nat) option)"

definition st_docs :: "st_state \<Rightarrow> documents" where
  "st_docs w k = (case snd w k of None \<Rightarrow> None
     | Some (src, n) \<Rightarrow> (case map_of st_table src of None \<Rightarrow> None | Some msg \<Rightarrow> Some (msg, n)))"

definition st_put :: "nat \<Rightarrow> documents \<Rightarrow> st_state" where
  "st_put t d = (t, \<lambda>k. case d k of None \<Rightarrow> None
     | Some (msg, n) \<Rightarrow> (case st_encode msg of None \<Rightarrow> None | Some src \<Rightarrow> Some (src, n)))"

text \<open>Two shards: the versions of resources, whose ids have a version part, are on the other.\<close>

definition st_shard :: "string \<Rightarrow> nat" where
  "st_shard i = (if CHR ''@'' \<in> set i then 1 else 0)"

definition st_answer :: "(es_message \<times> nat) option \<Rightarrow> string \<Rightarrow> get_response" where
  "st_answer found i = (case found of
       None \<Rightarrow> \<lparr>grs_Id = i, grs_Found = False, grs_Source = ''''\<rparr>
     | Some (msg, _) \<Rightarrow> \<lparr>grs_Id = i, grs_Found = True,
          grs_Source = (case st_encode msg of None \<Rightarrow> '''' | Some src \<Rightarrow> src)\<rparr>)"

definition st_get :: "get_request \<Rightarrow> st_state \<Rightarrow> (go_error + get_response) \<times> st_state" where
  "st_get q w = (Inr (st_answer (st_docs w
     (gt_Index q, st_shard (route (gt_Routing q) (gt_DocumentId q)), gt_DocumentId q)) (gt_DocumentId q)), w)"

definition st_multi_get :: "multi_get_request \<Rightarrow> st_state \<Rightarrow> (go_error + multi_get_response) \<times> st_state" where
  "st_multi_get q w =
     (Inr \<lparr>mgr_Docs = map (\<lambda>k. st_answer (st_docs w k) (snd (snd k))) (requested_keys st_shard q)\<rparr>, w)"

definition st_create :: "create_request \<Rightarrow> st_state \<Rightarrow> (go_error + string) \<times> st_state" where
  "st_create q w = (if st_encode (cr_Message q) \<noteq> None then
       (Inr (cr_DocumentId q), st_put (fst w)
          (put_doc (cr_Index q, st_shard (cr_DocumentId q), cr_DocumentId q) (cr_Message q) (st_docs w)))
     else (Inl (ErrorNew ''cannot encode''), w))"

definition st_delete :: "delete_request \<Rightarrow> st_state \<Rightarrow> (go_error + unit) \<times> st_state" where
  "st_delete q w = (case s_Query (dr_Search q) of
       QTerm field i \<Rightarrow> if field = ''_id'' then (Inr (), st_put (fst w) (drop_docs (dr_Index q) i (st_docs w)))
         else (Inl (ErrorNew ''not supported''), w)
     | _ \<Rightarrow> (Inl (ErrorNew ''not supported''), w))"

definition st_bulk :: "bulk_request \<Rightarrow> st_state \<Rightarrow> (go_error + bulk_response) \<times> st_state" where
  "st_bulk q w =
     (if list_all (\<lambda>i. st_encode (bi_Message i) \<noteq> None) (br_Items q) then
        (case apply_items st_shard (br_Index q) (br_Items q) (st_docs w) of
           None \<Rightarrow> (Inl (ErrorNew ''version conflict''), w)
         | Some d \<Rightarrow> (Inr \<lparr>brs_Items = map (\<lambda>_. \<lparr>bri_Create = None,
              bri_Index = Some \<lparr>bs_Status = 201, bs_Error = None\<rparr>\<rparr>) (br_Items q)\<rparr>, st_put (fst w) d))
      else (Inl (ErrorNew ''cannot encode''), w))"

definition st_update :: "update_request \<Rightarrow> st_state \<Rightarrow> (go_error + update_response) \<times> st_state" where
  "st_update q w =
     (let k = (ur_Index q, st_shard (route (ur_Routing q) (ur_DocumentId q)), ur_DocumentId q) in
      if st_encode (ur_Message q) \<noteq> None then
        (Inr \<lparr>urs_Version = (case st_docs w k of None \<Rightarrow> 1 | Some (_, n) \<Rightarrow> int (Suc n))\<rparr>,
         st_put (fst w) (put_doc k (ur_Message q) (st_docs w)))
      else (Inl (ErrorNew ''cannot encode''), w))"

definition st_es :: "st_state es_client" where
  "st_es = \<lparr>
     esc_Create = st_create,
     esc_Bulk = st_bulk, esc_Update = st_update,
     esc_Delete = st_delete,
     esc_Get = st_get,
     esc_MultiGet = st_multi_get,
     esc_Search = \<lambda>req w. (Inl (ErrorNew ''not supported''), w),
     esc_MultiSearch = \<lambda>req w. (Inl (ErrorNew ''not supported''), w)\<rparr>"

definition st_runtime :: "st_state runtime" where
  "st_runtime = \<lparr>rt_Now = \<lambda>w. (Timestamp (int (fst w)) 0, (Suc (fst w), snd w)),
     rt_Uuid = \<lambda>w. (''u'' @ format_nat (fst w), (Suc (fst w), snd w)),
     rt_KeyOrder = \<lambda>ks w. (ks, w), rt_HandlerOrder = \<lambda>w. (map fst uriHandlers, w)\<rparr>"

definition st_manager :: "st_state manager" where
  "st_manager = NewManager st_es \<lparr>esc_Host = ''es'', esc_Username = '''', esc_Password = '''',
     esc_Refresh = ''true''\<rparr>
     \<lparr>im_Initialize = \<lambda>t. (Inr (), t), im_IndexName = \<lambda>kind _. ''rode-v1-'' @ kind,
      im_AliasName = \<lambda>kind _. ''rode-'' @ kind, im_CreateIndex = \<lambda>_ _ _ t. (Inr (), t)\<rparr>
     (\<lambda>f. Inr (QFilter f)) st_runtime st_codec ex_rego"

section \<open>It keeps the contract\<close>

lemma st_table_distinct: "distinct (map fst st_table)"
  by (simp add: st_table_def)

lemma st_encode_table: "st_encode msg = Some src \<Longrightarrow> map_of st_table src = Some msg"
  using map_of_is_SomeI [OF st_table_distinct] by (auto simp: st_encode_def dest!: map_of_SomeD)

lemma st_table_encodes:
  assumes "map_of st_table src = Some msg"
  shows "st_encode msg \<noteq> None"
proof -
  from map_of_SomeD [OF assms] have "msg \<in> fst ` set (map (\<lambda>(src, msg). (msg, src)) st_table)" by force
  then show ?thesis by (simp only: st_encode_def map_of_eq_None_iff not_not)
qed

definition encodable :: "documents \<Rightarrow> bool" where
  "encodable d \<longleftrightarrow> (\<forall>k msg n. d k = Some (msg, n) \<longrightarrow> st_encode msg \<noteq> None)"

lemma encodable_st_docs: "encodable (st_docs w)"
  unfolding encodable_def st_docs_def using st_table_encodes by (fastforce split: option.splits)

lemma encodable_put: "encodable d \<Longrightarrow> st_encode msg \<noteq> None \<Longrightarrow> encodable (put_doc k msg d)"
  unfolding encodable_def put_doc_def by (auto split: if_splits)

lemma encodable_apply:
  "encodable d \<Longrightarrow> list_all (\<lambda>i. st_encode (bi_Message i) \<noteq> None) items \<Longrightarrow>
     apply_items shard ix items d = Some d' \<Longrightarrow> encodable d'"
proof (induction items arbitrary: d)
  case (Cons item items)
  from Cons.prems(3) have rest: "apply_items shard ix items
      (put_doc (ix, shard (item_route item), bi_DocumentId item) (bi_Message item) d) = Some d'"
    by (auto simp: Let_def split: if_splits)
  show ?case
    by (rule Cons.IH [OF _ _ rest]) (use Cons.prems in \<open>simp_all add: encodable_put del: not_None_eq\<close>)
qed simp

lemma st_docs_put:
  assumes "encodable d"
  shows "st_docs (st_put t d) = d"
proof
  fix k
  show "st_docs (st_put t d) k = d k"
  proof (cases "d k")
    case None
    then show ?thesis by (simp add: st_docs_def st_put_def)
  next
    case (Some x)
    obtain msg n where x: "x = (msg, n)" by (cases x)
    with Some assms obtain src where "st_encode msg = Some src"
      unfolding encodable_def by (metis not_None_eq)
    with Some x st_encode_table show ?thesis by (simp add: st_docs_def st_put_def)
  qed
qed

lemma st_decodes:
  assumes "st_encode msg = Some src"
  shows "decodes_to st_codec msg src"
proof -
  from st_encode_table [OF assms] have "(src, msg) \<in> set st_table" "map_of st_table src = Some msg"
    by (auto dest: map_of_SomeD)
  then show ?thesis
    by (cases msg) (auto simp: st_codec_def st_table_def)
qed

lemma st_manager_parts:
  "esc_Get (esClient st_manager) = st_get" "esc_Bulk (esClient st_manager) = st_bulk"
  "esc_Update (esClient st_manager) = st_update" "runtime st_manager = st_runtime"
  "codec st_manager = st_codec" "esc_Create (esClient st_manager) = st_create"
  "esc_Delete (esClient st_manager) = st_delete" "esc_MultiGet (esClient st_manager) = st_multi_get"
  by (simp_all add: st_manager_def NewManager_def st_es_def)

lemma encodable_drop: "encodable d \<Longrightarrow> encodable (drop_docs ix i d)"
  unfolding encodable_def drop_docs_def by (auto split: if_splits)

lemma st_answers: "get_answers st_codec (st_docs w k) (st_answer (st_docs w k) i)"
proof (cases "st_docs w k")
  case None
  then show ?thesis by (simp add: get_answers_def st_answer_def)
next
  case (Some x)
  obtain msg n where x: "x = (msg, n)" by (cases x)
  with Some encodable_st_docs [of w] obtain src where "st_encode msg = Some src"
    unfolding encodable_def by (metis not_None_eq)
  with Some x st_decodes [OF this] show ?thesis by (simp add: get_answers_def st_answer_def)
qed

lemma st_store: "document_store st_manager st_shard st_docs"
proof -
  have "get_contract st_manager st_shard st_docs"
    unfolding get_contract_def st_manager_parts
    using st_answers by (auto simp: st_get_def)
  moreover have "bulk_contract st_manager st_shard st_docs"
    unfolding bulk_contract_def st_manager_parts
  proof (intro allI impI)
    fix q w r w'
    assume "st_bulk q w = (Inr r, w')"
    then obtain d where d: "apply_items st_shard (br_Index q) (br_Items q) (st_docs w) = Some d"
      "w' = st_put (fst w) d" "list_all (\<lambda>i. st_encode (bi_Message i) \<noteq> None) (br_Items q)"
      unfolding st_bulk_def by (auto simp del: not_None_eq split: if_split_asm option.split_asm)
    with encodable_apply [OF encodable_st_docs d(3,1)] st_docs_put
    show "apply_items st_shard (br_Index q) (br_Items q) (st_docs w) = Some (st_docs w')" by simp
  qed
  moreover have "update_contract st_manager st_shard st_docs"
    unfolding update_contract_def st_manager_parts
  proof (intro allI impI)
    fix q w r w'
    assume upd: "st_update q w = (Inr r, w')"
    let ?k = "(ur_Index q, st_shard (route (ur_Routing q) (ur_DocumentId q)), ur_DocumentId q)"
    from upd have "w' = st_put (fst w) (put_doc ?k (ur_Message q) (st_docs w))"
      "st_encode (ur_Message q) \<noteq> None"
      "urs_Version r = (case st_docs w ?k of None \<Rightarrow> 1 | Some (_, n) \<Rightarrow> int (Suc n))"
      by (auto simp: st_update_def Let_def simp del: not_None_eq split: if_split_asm)
    with st_docs_put [OF encodable_put [OF encodable_st_docs]]
    show "let k = ?k in st_docs w' = put_doc k (ur_Message q) (st_docs w) \<and>
      (\<exists>n. st_docs w' k = Some (ur_Message q, n) \<and> urs_Version r = int n)"
      by (auto simp: Let_def split: option.split)
  qed
  ultimately show ?thesis
    by (simp add: document_store_def st_manager_parts st_runtime_def st_docs_def fun_eq_iff)
qed

lemma st_full_store: "full_store st_manager st_shard st_docs"
proof -
  have "create_contract st_manager st_shard st_docs"
    unfolding create_contract_def st_manager_parts
  proof (intro allI impI)
    fix q w i w'
    assume "st_create q w = (Inr i, w')"
    then have w': "w' = st_put (fst w) (put_doc (cr_Index q, st_shard (cr_DocumentId q), cr_DocumentId q) (cr_Message q) (st_docs w))"
      and "st_encode (cr_Message q) \<noteq> None"
      by (auto simp: st_create_def simp del: not_None_eq split: if_split_asm)
    from st_docs_put [OF encodable_put [OF encodable_st_docs this(2)]]
    show "st_docs w' = put_doc (cr_Index q, st_shard (cr_DocumentId q), cr_DocumentId q) (cr_Message q) (st_docs w)"
      unfolding w' .
  qed
  moreover have "delete_contract st_manager st_docs"
    unfolding delete_contract_def st_manager_parts
  proof (intro allI impI)
    fix q w u w' i
    assume "st_delete q w = (Inr u, w')" "s_Query (dr_Search q) = QTerm ''_id'' i"
    then have "w' = st_put (fst w) (drop_docs (dr_Index q) i (st_docs w))" by (simp add: st_delete_def)
    with st_docs_put [OF encodable_drop [OF encodable_st_docs]]
    show "st_docs w' = drop_docs (dr_Index q) i (st_docs w)" by simp
  qed
  moreover have "multi_get_contract st_manager st_shard st_docs"
    unfolding multi_get_contract_def st_manager_parts
    using st_answers by (auto simp: st_multi_get_def list_all2_conv_all_nth)
  ultimately show ?thesis using st_store by (simp add: full_store_def)
qed

lemma st_answered: "gets_answered st_manager"
  by (simp add: gets_answered_def st_manager_parts st_get_def)

lemma st_plain: "plain_uuids st_manager"
  using format_nat_no_punctuation [of "CHR ''.''"]
  by (simp add: plain_uuids_def st_manager_parts st_runtime_def)

section \<open>A life of one policy\<close>

definition st_world :: "st_state world" where
  "st_world = \<lparr>ext = (1, \<lambda>_. None), trace = []\<rparr>"

definition st_new_policy :: policy where
  "st_new_policy = st_created\<lparr>p_Id := '''', p_Created := None, p_Updated := None,
     p_Policy := Some st_first\<rparr>"

definition st_stored :: "st_state world" where
  "st_stored = snd (CreatePolicy st_manager st_new_policy st_world)"

definition st_new_content :: policy where
  "st_new_content = st_created\<lparr>p_Policy := Some (st_first\<lparr>pe_RegoContent := ''package b'',
     pe_Message := ''''\<rparr>)\<rparr>"

definition st_updated :: "st_state world" where
  "st_updated = snd (UpdatePolicy st_manager \<lparr>upr_Policy = Some st_new_content\<rparr> st_stored)"

text \<open>The same policy under the id of its first version, with a new name.\<close>

definition st_misnamed :: policy where
  "st_misnamed = st_created\<lparr>p_Id := ''u1.1'', p_Name := ''new'', p_Policy := Some st_first\<rparr>"

definition st_overwritten :: "st_state world" where
  "st_overwritten = snd (UpdatePolicy st_manager \<lparr>upr_Policy = Some st_misnamed\<rparr> st_stored)"

lemma st_world_empty: "policies_ok st_manager st_shard (st_docs (ext st_world))"
  by (simp add: policies_ok_def policy_documents_ok_def st_docs_def st_world_def)

lemma st_policy_runs:
  "is_Ok (fst (CreatePolicy st_manager st_new_policy st_world))" (is ?A)
  "is_Ok (fst (UpdatePolicy st_manager \<lparr>upr_Policy = Some st_new_content\<rparr> st_stored))" (is ?B)
proof -
  have "?A \<and> ?B" by code_simp
  then show ?A ?B by blast+
qed

lemma st_misnamed_runs:
  "is_Ok (fst (UpdatePolicy st_manager \<lparr>upr_Policy = Some st_misnamed\<rparr> st_stored))" (is ?A)
  "p_Id st_misnamed = policyVersionId ''u1'' 1 \<and> st_shard (policyVersionId ''u1'' 1) = st_shard ''u1''" (is ?B)
proof -
  have "?A \<and> ?B" by code_simp
  then show ?A ?B by blast+
qed

lemma st_create_run:
  obtains q where "CreatePolicy st_manager st_new_policy st_world = (Ok q, st_stored)" "p_CurrentVersion q = 1"
    "policies_ok st_manager st_shard (st_docs (ext st_stored))"
proof -
  from run_Ok [of "CreatePolicy st_manager st_new_policy", OF st_policy_runs(1)] obtain q where
    run: "CreatePolicy st_manager st_new_policy st_world = (Ok q, st_stored)"
    unfolding st_stored_def by blast
  obtain e where "p_CurrentVersion q = 1"
    by (rule CreatePolicy_documents [OF run st_store st_plain])
  with CreatePolicy_history [OF run st_store st_plain st_world_empty] run show ?thesis
    by (intro that) simp_all
qed

lemma st_stored_ok: "policies_ok st_manager st_shard (st_docs (ext st_stored))"
  by (rule st_create_run)

theorem CreatePolicy_refines_witness:
  "\<exists>q. fst (CreatePolicy st_manager st_new_policy st_world) = Ok q \<and>
     fst (GetPolicy st_manager \<lparr>gpr_Id = p_Id q\<rparr> st_stored) = Ok q"
proof -
  obtain q where run: "CreatePolicy st_manager st_new_policy st_world = (Ok q, st_stored)"
    by (rule st_create_run)
  with CreatePolicy_refines [OF run st_store st_answered st_plain st_world_empty] show ?thesis by simp
qed

theorem GetPolicy_refines_witness:
  "\<exists>s'. GetPolicy st_manager \<lparr>gpr_Id = ''u1.2''\<rparr> st_stored
     = (read_policy (history_at st_manager st_shard (st_docs (ext st_stored))) ''u1.2'', s')"
  using GetPolicy_refines [OF st_store st_answered st_stored_ok, of "\<lparr>gpr_Id = ''u1.2''\<rparr>"]
  by (elim exE conjE) (intro exI, simp)

theorem UpdatePolicy_refines_witness:
  "\<exists>q h. fst (UpdatePolicy st_manager \<lparr>upr_Policy = Some st_new_content\<rparr> st_stored) = Ok q \<and>
     history_at st_manager st_shard (st_docs (ext st_stored)) ''u1'' = Some h \<and>
     fst (GetPolicy st_manager \<lparr>gpr_Id = ''u1''\<rparr> st_updated) = Ok q"
proof -
  from run_Ok [of "UpdatePolicy st_manager \<lparr>upr_Policy = Some st_new_content\<rparr>", OF st_policy_runs(2)]
  obtain q where run: "UpdatePolicy st_manager \<lparr>upr_Policy = Some st_new_content\<rparr> st_stored = (Ok q, st_updated)"
    unfolding st_updated_def by blast
  have id: "p_Id st_new_content = ''u1''" by (simp add: st_new_content_def st_created_def)
  from UpdatePolicy_refines [OF run _ _ st_store st_answered st_stored_ok, of st_new_content] run id
  show ?thesis by auto
qed

theorem update_under_version_id_witness:
  "the_entity (st_docs (ext st_stored) (version_key st_manager st_shard ''u1'' 1)) \<noteq> None \<and>
   the_entity (st_docs (ext st_overwritten) (version_key st_manager st_shard ''u1'' 1)) = None"
proof -
  from run_Ok [of "UpdatePolicy st_manager \<lparr>upr_Policy = Some st_misnamed\<rparr>", OF st_misnamed_runs(1)]
  obtain q where run: "UpdatePolicy st_manager \<lparr>upr_Policy = Some st_misnamed\<rparr> st_stored
      = (Ok q, st_overwritten)"
    unfolding st_overwritten_def by blast
  have id: "p_Id st_misnamed = policyVersionId ''u1'' 1" and shard: "st_shard (policyVersionId ''u1'' 1) = st_shard ''u1''"
    using st_misnamed_runs(2) by blast+
  from update_under_version_id [OF run id _ _ _ st_store st_answered st_stored_ok shard]
  show ?thesis by auto
qed

end
