(* ===== verification/Catalogue_Overlap.thy ===== *)
theory Catalogue_Overlap
  imports Assignment_Store Policy_Overlap
begin

text \<open>
  Calls on the catalogue that overlap. Every operation of the three managers that changes
  something reads first and writes later. Here each of them is its two halves, so that calls
  on policies, groups and assignments interleave in any order. The validation of an
  assignment, which only reads, is one step of the first half. The halves considered are
  those that succeed; a call may stop between them. Updates and deletions of policies name
  the policy by an id without a dot, which the id of a version is not.
\<close>

section \<open>The second halves\<close>

text \<open>What \<open>DeletePolicy\<close>, the operations on groups and the operations on assignments do
  after they have read.\<close>

definition writeDeletedPolicy :: "'w manager \<Rightarrow> string \<Rightarrow> policy \<Rightarrow> ('w, unit) io" where
  "writeDeletedPolicy m policyId pol =
     attempt (es_update m
       \<lparr>ur_Index = policiesAlias m, ur_DocumentId = policyId, ur_Refresh = refresh_of m,
        ur_Message = MsgPolicy (pol\<lparr>p_Deleted := True\<rparr>), ur_Routing = ''''\<rparr>)
       (\<lambda>err. createError ''error deleting policy and its versions'' (Some err)) (\<lambda>_. ret ())"

definition writeNewGroup :: "'w manager \<Rightarrow> policy_group \<Rightarrow> ('w, policy_group) io" where
  "writeNewGroup m policyGroup =
     attempt (now m) id (\<lambda>currentTime.
     let group1 = policyGroup\<lparr>pg_Created := Some currentTime, pg_Updated := Some currentTime\<rparr> in
     attempt (es_create m
       \<lparr>cr_Index = policyGroupsAlias m, cr_Refresh = refresh_of m,
        cr_Message = MsgPolicyGroup group1, cr_DocumentId = pg_Name group1\<rparr>)
       (\<lambda>err. createError ''error creating policy group'' (Some err)) (\<lambda>_. ret group1))"

definition writeGroup :: "'w manager \<Rightarrow> policy_group \<Rightarrow> policy_group \<Rightarrow> ('w, policy_group) io" where
  "writeGroup m policyGroup currentPolicyGroup =
     attempt (now m) id (\<lambda>currentTime.
     let group1 = currentPolicyGroup\<lparr>pg_Description := pg_Description policyGroup,
                                     pg_Updated := Some currentTime\<rparr> in
     attempt (es_update m
       \<lparr>ur_Index = policyGroupsAlias m, ur_DocumentId = pg_Name group1, ur_Refresh = refresh_of m,
        ur_Message = MsgPolicyGroup group1, ur_Routing = ''''\<rparr>)
       (\<lambda>err. createError ''error updating policy group'' (Some err)) (\<lambda>_. ret group1))"

definition writeDeletedGroup :: "'w manager \<Rightarrow> string \<Rightarrow> policy_group \<Rightarrow> ('w, unit) io" where
  "writeDeletedGroup m name currentPolicyGroup =
     attempt (es_update m
       \<lparr>ur_Index = policyGroupsAlias m, ur_DocumentId = name, ur_Refresh = refresh_of m,
        ur_Message = MsgPolicyGroup (currentPolicyGroup\<lparr>pg_Deleted := True\<rparr>), ur_Routing = ''''\<rparr>)
       (\<lambda>err. createError ''error marking policy group as deleted'' (Some err)) (\<lambda>_. ret ())"

definition newAssignmentId :: "policy_assignment \<Rightarrow> string" where
  "newAssignmentId a = policyAssignmentId
     (case parsePolicyVersionId (pa_PolicyVersionId a) of Inl _ \<Rightarrow> '''' | Inr (i, _) \<Rightarrow> i) (pa_PolicyGroup a)"

definition writeNewAssignment :: "'w manager \<Rightarrow> policy_assignment \<Rightarrow> ('w, policy_assignment) io" where
  "writeNewAssignment m assignment =
     attempt (now m) id (\<lambda>currentTime.
     let assignmentId = newAssignmentId assignment;
         assignment1 = assignment\<lparr>pa_Created := Some currentTime, pa_Updated := Some currentTime,
                                  pa_Id := assignmentId\<rparr> in
     attempt (es_create m
       \<lparr>cr_Index = policyAssignmentsAlias m, cr_Refresh = refresh_of m,
        cr_Message = MsgPolicyAssignment assignment1, cr_DocumentId = assignmentId\<rparr>)
       (\<lambda>err. createError ''error creating policy assignment'' (Some err)) (\<lambda>_. ret assignment1))"

definition writeAssignment :: "'w manager \<Rightarrow> string \<Rightarrow> policy_assignment \<Rightarrow> ('w, policy_assignment) io" where
  "writeAssignment m assignmentId assignment =
     attempt (now m) id (\<lambda>currentTime.
     let assignment1 = assignment\<lparr>pa_Updated := Some currentTime\<rparr> in
     attempt (es_update m
       \<lparr>ur_Index = policyAssignmentsAlias m, ur_DocumentId = assignmentId, ur_Refresh = refresh_of m,
        ur_Message = MsgPolicyAssignment assignment1, ur_Routing = ''''\<rparr>)
       (\<lambda>err. createError ''error updating policy assignment in Elasticsearch'' (Some err)) (\<lambda>_.
     ret assignment1))"

definition removeAssignment :: "'w manager \<Rightarrow> string \<Rightarrow> ('w, unit) io" where
  "removeAssignment m assignmentId =
     attempt (es_delete m
       \<lparr>dr_Index = policyAssignmentsAlias m,
        dr_Search = \<lparr>s_Query = QTerm ''_id'' assignmentId, s_SortCreatedDesc = False, s_Routing = ''''\<rparr>,
        dr_Refresh = refresh_of m\<rparr>)
       (\<lambda>err. createError ''error deleting assignment'' (Some err)) (\<lambda>_. ret ())"

section \<open>A call is its two halves\<close>

datatype call =
    CallUpdatePolicy policy
  | CallDeletePolicy string
  | CallCreateGroup policy_group
  | CallUpdateGroup policy_group
  | CallDeleteGroup string
  | CallCreateAssignment policy_assignment
  | CallUpdateAssignment policy_assignment
  | CallDeleteAssignment string

text \<open>A call under way holds its request and what it has read.\<close>

datatype under_way =
    UpdatingPolicy policy policy
  | DeletingPolicy string policy
  | CreatingGroup policy_group
  | UpdatingGroup policy_group policy_group
  | DeletingGroup string policy_group
  | CreatingAssignment policy_assignment
  | UpdatingAssignment string policy_assignment
  | DeletingAssignment string

datatype call_answer =
    AnswerPolicy policy | AnswerGroup policy_group | AnswerAssignment policy_assignment | AnswerEmpty unit

text \<open>The operation of a manager, its answer made a \<open>call_answer\<close>.\<close>

definition answering :: "('w, 'a) io \<Rightarrow> ('a \<Rightarrow> call_answer) \<Rightarrow> ('w, call_answer) io" where
  "answering f ans = attempt f id (\<lambda>x. ret (ans x))"

fun whole_call :: "'w manager \<Rightarrow> call \<Rightarrow> ('w, call_answer) io" where
  "whole_call m (CallUpdatePolicy p) = answering (UpdatePolicy m \<lparr>upr_Policy = Some p\<rparr>) AnswerPolicy"
| "whole_call m (CallDeletePolicy i) = answering (DeletePolicy m \<lparr>dpr_Id = i\<rparr>) AnswerEmpty"
| "whole_call m (CallCreateGroup g) = answering (CreatePolicyGroup m g) AnswerGroup"
| "whole_call m (CallUpdateGroup g) = answering (UpdatePolicyGroup m g) AnswerGroup"
| "whole_call m (CallDeleteGroup i) = answering (DeletePolicyGroup m \<lparr>dgr_Name = i\<rparr>) AnswerEmpty"
| "whole_call m (CallCreateAssignment a) = answering (CreatePolicyAssignment m a) AnswerAssignment"
| "whole_call m (CallUpdateAssignment a) = answering (UpdatePolicyAssignment m a) AnswerAssignment"
| "whole_call m (CallDeleteAssignment i) = answering (DeletePolicyAssignment m \<lparr>dar_Id = i\<rparr>) AnswerEmpty"

fun first_half :: "'w manager \<Rightarrow> call \<Rightarrow> ('w, under_way) io" where
  "first_half m (CallUpdatePolicy p) =
     attempt (GetPolicy m \<lparr>gpr_Id = p_Id p\<rparr>) id (\<lambda>cur.
     if p_Deleted cur then fail (createErrorWithCode ''cannot update a deleted policy'' None FailedPrecondition)
     else ret (UpdatingPolicy p cur))"
| "first_half m (CallDeletePolicy i) = attempt (getPolicy m i) id (\<lambda>cur. ret (DeletingPolicy i cur))"
| "first_half m (CallCreateGroup g) =
     inspect (GetPolicyGroup m \<lparr>ggr_Name = pg_Name g\<rparr>) (\<lambda>existing.
     case existing of
       Inr _ \<Rightarrow> fail (createErrorWithCode ''policy group already exists'' None AlreadyExists)
     | Inl err \<Rightarrow>
         if status_code err \<noteq> NotFound then fail err
         else if \<not> policyGroupNamePattern (pg_Name g) then
           fail (createErrorWithCode (''policy group name can only contain lowercase alphanumeric ''
             @ ''characters, dashes, and underscores.'') None InvalidArgument)
         else ret (CreatingGroup g))"
| "first_half m (CallUpdateGroup g) =
     attempt (GetPolicyGroup m \<lparr>ggr_Name = pg_Name g\<rparr>) id (\<lambda>cur.
     if pg_Deleted cur then
       fail (createErrorWithCode ''cannot update a deleted policy group'' None FailedPrecondition)
     else ret (UpdatingGroup g cur))"
| "first_half m (CallDeleteGroup i) =
     attempt (GetPolicyGroup m \<lparr>ggr_Name = i\<rparr>) id (\<lambda>cur. ret (DeletingGroup i cur))"
| "first_half m (CallCreateAssignment a) =
     attempt (validateAssignment m a (validateCreate m)) id (\<lambda>a1. ret (CreatingAssignment a1))"
| "first_half m (CallUpdateAssignment a) =
     attempt (validateAssignment m a (validateUpdate m)) id (\<lambda>a1. ret (UpdatingAssignment (pa_Id a) a1))"
| "first_half m (CallDeleteAssignment i) =
     attempt (GetPolicyAssignment m \<lparr>gar_Id = i\<rparr>) id (\<lambda>_. ret (DeletingAssignment i))"

fun second_half :: "'w manager \<Rightarrow> under_way \<Rightarrow> ('w, call_answer) io" where
  "second_half m (UpdatingPolicy p cur) = answering (applyUpdate m p cur) AnswerPolicy"
| "second_half m (DeletingPolicy i cur) = answering (writeDeletedPolicy m i cur) AnswerEmpty"
| "second_half m (CreatingGroup g) = answering (writeNewGroup m g) AnswerGroup"
| "second_half m (UpdatingGroup g cur) = answering (writeGroup m g cur) AnswerGroup"
| "second_half m (DeletingGroup i cur) = answering (writeDeletedGroup m i cur) AnswerEmpty"
| "second_half m (CreatingAssignment a) = answering (writeNewAssignment m a) AnswerAssignment"
| "second_half m (UpdatingAssignment i a) = answering (writeAssignment m i a) AnswerAssignment"
| "second_half m (DeletingAssignment i) = answering (removeAssignment m i) AnswerEmpty"

lemma answering_Ok:
  "answering f ans s = (Ok y, s') \<longleftrightarrow> (\<exists>x. f s = (Ok x, s') \<and> y = ans x)"
  by (auto simp: answering_def attempt_Ok)

lemma attempt_attempt: "attempt (attempt f w g) id k = attempt f w (\<lambda>x. attempt (g x) id k)"
  by (simp add: attempt_def fun_eq_iff split: prod.split outcome.split)

lemma attempt_inspect: "attempt (inspect f g) id k = inspect f (\<lambda>x. attempt (g x) id k)"
  by (simp add: attempt_def inspect_def fun_eq_iff split: prod.split outcome.split)

lemma attempt_branch: "attempt (if b then f else g) w k = (if b then attempt f w k else attempt g w k)"
  by simp

lemma attempt_case_sum:
  "attempt (case r of Inl e \<Rightarrow> f e | Inr x \<Rightarrow> g x) w k = (case r of Inl e \<Rightarrow> attempt (f e) w k | Inr x \<Rightarrow> attempt (g x) w k)"
  by (simp split: sum.split)

lemmas halves = answering_def attempt_attempt attempt_inspect attempt_branch attempt_case_sum

text \<open>Every operation that changes the catalogue does its first half and then its second half, with
  the same answer, error or panic and the same requests; calls one after the other are the
  case where nothing happens between the halves.\<close>

lemma call_halves: "whole_call m c = attempt (first_half m c) id (second_half m)"
proof (cases c)
  case (CallUpdatePolicy p)
  then show ?thesis by (simp add: UpdatePolicy_def halves cong: if_cong sum.case_cong)
next
  case (CallDeletePolicy i)
  then show ?thesis by (simp add: DeletePolicy_def writeDeletedPolicy_def halves cong: if_cong sum.case_cong)
next
  case (CallCreateGroup g)
  then show ?thesis by (simp add: CreatePolicyGroup_def writeNewGroup_def halves cong: if_cong sum.case_cong)
next
  case (CallUpdateGroup g)
  then show ?thesis by (simp add: UpdatePolicyGroup_def writeGroup_def halves cong: if_cong sum.case_cong)
next
  case (CallDeleteGroup i)
  then show ?thesis by (simp add: DeletePolicyGroup_def writeDeletedGroup_def halves cong: if_cong sum.case_cong)
next
  case (CallCreateAssignment a)
  then show ?thesis
    by (simp add: CreatePolicyAssignment_def writeNewAssignment_def newAssignmentId_def Let_def halves cong: if_cong sum.case_cong)
next
  case (CallUpdateAssignment a)
  then show ?thesis by (simp add: UpdatePolicyAssignment_def writeAssignment_def Let_def halves cong: if_cong sum.case_cong)
next
  case (CallDeleteAssignment i)
  then show ?thesis by (simp add: DeletePolicyAssignment_def removeAssignment_def halves cong: if_cong sum.case_cong)
qed

section \<open>What a call under way can rely on\<close>

text \<open>
  Versions and groups never go away, so what a first half has seen is still there when the
  second half writes: the version an update read, the group of a name, the version and the
  group an assignment refers to. That a policy or a group is not deleted is not among it.
\<close>

definition deleting_ok :: "'w manager \<Rightarrow> (string \<Rightarrow> nat) \<Rightarrow> documents \<Rightarrow> string \<Rightarrow> policy \<Rightarrow> bool" where
  "deleting_ok m shard d i pol \<longleftrightarrow> p_Id pol = i \<and> p_Policy pol = None \<and>
     (\<exists>h. history_at m shard d i = Some h \<and> h_Versions h (p_CurrentVersion pol) \<noteq> None)"

definition named_group :: "string \<Rightarrow> policy_group \<Rightarrow> bool" where
  "named_group i g \<longleftrightarrow> pg_Name g = i \<and> policyGroupNamePattern i"

fun under_way_ok :: "'w manager \<Rightarrow> (string \<Rightarrow> nat) \<Rightarrow> documents \<Rightarrow> under_way \<Rightarrow> bool" where
  "under_way_ok m shard d (UpdatingPolicy upd cur) = pending_ok m shard d (upd, cur)"
| "under_way_ok m shard d (DeletingPolicy i pol) = deleting_ok m shard d i pol"
| "under_way_ok m shard d (CreatingGroup g) = policyGroupNamePattern (pg_Name g)"
| "under_way_ok m shard d (UpdatingGroup g cur) =
     (named_group (pg_Name g) cur \<and> \<not> pg_Deleted cur \<and> groups_at m shard d (pg_Name g) \<noteq> None)"
| "under_way_ok m shard d (DeletingGroup i cur) = named_group i cur"
| "under_way_ok m shard d (CreatingAssignment a) = refers (groups_at m shard d) (history_at m shard d)
     (newAssignmentId a) (a\<lparr>pa_Id := newAssignmentId a\<rparr>)"
| "under_way_ok m shard d (UpdatingAssignment i a) = refers (groups_at m shard d) (history_at m shard d) i a"
| "under_way_ok m shard d (DeletingAssignment i) = True"

text \<open>Nothing goes away: the catalogue is one, every group stays, no version of a policy is lost.\<close>

definition catalogue_grows :: "'w manager \<Rightarrow> (string \<Rightarrow> nat) \<Rightarrow> documents \<Rightarrow> documents \<Rightarrow> bool" where
  "catalogue_grows m shard d d' \<longleftrightarrow> catalogue_ok m shard d' \<and>
     dom (groups_at m shard d) \<subseteq> dom (groups_at m shard d') \<and> histories_grow m shard d d'"

lemma catalogue_growsD:
  assumes "catalogue_grows m shard d d'"
  shows "catalogue_ok m shard d'" "histories_grow m shard d d'"
    "groups_at m shard d g \<noteq> None \<Longrightarrow> groups_at m shard d' g \<noteq> None"
    "history_at m shard d p = Some h \<Longrightarrow>
       \<exists>h'. history_at m shard d' p = Some h' \<and> h_Versions h \<subseteq>\<^sub>m h_Versions h'"
  using assms by (auto simp: catalogue_grows_def histories_grow_def)

lemma catalogue_grows_refl: "catalogue_ok m shard d \<Longrightarrow> catalogue_grows m shard d d"
  by (simp add: catalogue_grows_def histories_grow_same catalogue_okD)

lemma refers_grown:
  assumes "refers (groups_at m shard d) (history_at m shard d) i a" "catalogue_grows m shard d d'"
  shows "refers (groups_at m shard d') (history_at m shard d') i a"
  by (rule refers_later [OF assms(1)]) (erule catalogue_growsD [OF assms(2)])+

lemma refers_times:
  "refers gs hs i (a\<lparr>pa_Created := c, pa_Updated := u\<rparr>) = refers gs hs i a"
  "refers gs hs i (a\<lparr>pa_Created := c\<rparr>) = refers gs hs i a"
  "refers gs hs i (a\<lparr>pa_Updated := u\<rparr>) = refers gs hs i a"
  "refers gs hs i (a\<lparr>pa_Created := c, pa_Updated := u, pa_Id := j\<rparr>) = refers gs hs i (a\<lparr>pa_Id := j\<rparr>)"
  by (simp_all add: refers_def)

lemma under_way_grown:
  assumes "under_way_ok m shard d x" "catalogue_grows m shard d d'"
  shows "under_way_ok m shard d' x"
proof (cases x)
  case (UpdatingPolicy upd cur)
  with assms pending_grown catalogue_growsD(2) show ?thesis by fastforce
next
  case (DeletingPolicy i pol)
  with assms(1) obtain h where "history_at m shard d i = Some h" "h_Versions h (p_CurrentVersion pol) \<noteq> None"
    and pol: "p_Id pol = i" "p_Policy pol = None" by (auto simp: deleting_ok_def)
  moreover from catalogue_growsD(4) [OF assms(2) this(1)] obtain h' where
    "history_at m shard d' i = Some h'" "h_Versions h \<subseteq>\<^sub>m h_Versions h'" by blast
  ultimately have "h_Versions h' (p_CurrentVersion pol) \<noteq> None" by (auto simp: map_le_def dom_def)
  with \<open>history_at m shard d' i = Some h'\<close> pol DeletingPolicy show ?thesis
    unfolding under_way_ok.simps deleting_ok_def DeletingPolicy by blast
next
  case (UpdatingGroup g cur)
  with assms(1) catalogue_growsD(3) [OF assms(2)] show ?thesis by (simp del: not_None_eq)
next
  case (CreatingAssignment a)
  with assms(1) refers_grown [OF _ assms(2)] show ?thesis by simp
next
  case (UpdatingAssignment i a)
  with assms(1) refers_grown [OF _ assms(2)] show ?thesis by simp
qed (use assms in simp_all)

lemma policy_write_grows:
  assumes "policy_write m shard d d' \<and> policies_ok m shard d'" "catalogue_ok m shard d" "aliases_apart m"
  shows "catalogue_grows m shard d d'"
  using policy_write_catalogue [OF _ _ assms(2,3), of d'] assms(1)
  by (simp add: catalogue_grows_def histories_grow_def policy_write_def)

lemma other_write_grows:
  assumes "catalogue_ok m shard d'" "history_at m shard d' = history_at m shard d"
    "dom (groups_at m shard d) \<subseteq> dom (groups_at m shard d')"
  shows "catalogue_grows m shard d d'"
  using assms catalogue_okD(1) [OF assms(1)]
  by (simp add: catalogue_grows_def histories_grow_def)

lemma group_write_grows:
  assumes "d' = put_doc (group_key m shard (pg_Name g)) (MsgPolicyGroup g) d" "catalogue_ok m shard d"
    "aliases_apart m" "policyGroupNamePattern (pg_Name g)"
  shows "catalogue_grows m shard d d'"
  using group_write_catalogue [OF assms] by (auto intro!: other_write_grows)

lemma assignment_write_grows:
  assumes "d' = put_doc (assignment_key m shard i) (MsgPolicyAssignment a) d" "catalogue_ok m shard d"
    "aliases_apart m" "refers (groups_at m shard d) (history_at m shard d) i a"
  shows "catalogue_grows m shard d d'"
  using assignment_write_catalogue [OF assms] by (auto intro!: other_write_grows)

lemma assignment_drop_grows:
  assumes "d' = drop_docs (policyAssignmentsAlias m) i d" "catalogue_ok m shard d" "aliases_apart m"
  shows "catalogue_grows m shard d d'"
  using assignment_drop_catalogue [OF assms] by (auto intro!: other_write_grows)

text \<open>A late deletion writes the policy as it was read, with its flag set.\<close>

lemma late_delete_write:
  assumes "d' = put_doc (policy_key m shard i) (MsgPolicy (pol\<lparr>p_Deleted := True\<rparr>)) d"
    "deleting_ok m shard d i pol" "policies_ok m shard d"
  shows "policy_write m shard d d' \<and> policies_ok m shard d'"
proof -
  from assms(2) obtain h where h: "history_at m shard d i = Some h"
    and pol: "p_Id pol = i" "p_Policy pol = None" "h_Versions h (p_CurrentVersion pol) \<noteq> None"
    unfolding deleting_ok_def by blast
  let ?h = "h\<lparr>h_Policy := pol\<lparr>p_Deleted := True\<rparr>\<rparr>"
  have dot: "CHR ''.'' \<notin> set i" using h by (simp add: history_at_Some)
  note diff = keys_differ [OF dot dot]
  have others: "same_documents m shard d d' j" if "CHR ''.'' \<notin> set j" "j \<noteq> i" for j
    using that by (simp add: assms(1) same_documents_def keys_differ [OF that(1) dot])
  have at: "history_at m shard d' i = Some ?h"
    using h by (simp add: history_at_Some assms(1) diff)
  have ok: "history_ok i ?h"
    using history_at_ok [OF assms(3) h] pol by (simp add: history_ok_def)
  have kinds: "d' (version_key m shard i v) = None \<or> the_entity (d' (version_key m shard i v)) \<noteq> None" for v
    using assms(3) dot by (simp add: assms(1) diff policies_ok_def policy_documents_ok_def)
  have same: "d' k = d k" if "k \<notin> policy_keys m shard" for k
    using that keys_in_policy_keys(1) [OF dot, of m shard] unfolding assms(1) by (metis put_doc_other)
  have "policy_write m shard d d'"
    by (rule policy_write_intro [OF same histories_updated [OF others at]]) (use h in simp_all)
  with policies_ok_updated [OF assms(3) others at ok kinds] show ?thesis by blast
qed

text \<open>A late update writes the version it read, or a new one.\<close>

lemma late_update_write:
  assumes "applyUpdate m upd cur s = (Ok q, s')" "pending_ok m shard (docs (ext s)) (upd, cur)"
    "document_store m shard docs" "policies_ok m shard (docs (ext s))"
  shows "policy_write m shard (docs (ext s)) (docs (ext s')) \<and> policies_ok m shard (docs (ext s'))"
proof -
  from assms(2) obtain h where h: "history_at m shard (docs (ext s)) (p_Id upd) = Some h"
    and before: "read_before cur h" by (auto simp: pending_ok_def)
  have dot: "CHR ''.'' \<notin> set (p_Id upd)" using h by (simp add: history_at_Some)
  note hok = history_at_ok [OF assms(4) h]
  obtain t u where d': "docs (ext s') = updated_documents m shard (h_Policy (write_back t upd u cur h))
       (if same_content u (p_Policy cur) then None else p_Policy q) (docs (ext s))"
    by (rule applyUpdate_documents [OF assms(1,3) h hok before])
  have id: "p_Id (h_Policy (write_back t upd u cur h)) = p_Id upd"
    using hok before by (simp add: history_ok_def read_before_def write_back_def Let_def touch_policy_def)
  have same: "docs (ext s') k = docs (ext s) k" if "k \<notin> policy_keys m shard" for k
  proof -
    have "k \<noteq> policy_key m shard (p_Id upd)" "k \<noteq> counter_key m shard (p_Id upd)"
      "k \<noteq> version_key m shard (p_Id upd) v" for v
      using that keys_in_policy_keys [OF dot, of m shard] by blast+
    then show ?thesis unfolding d' updated_documents_def id by (simp split: option.split)
  qed
  have "histories_grow m shard (docs (ext s)) (docs (ext s'))"
    by (rule finish_history [OF assms])
  with same show ?thesis by (simp add: policy_write_def histories_grow_def)
qed

section \<open>What the halves do to the catalogue\<close>

text \<open>As everywhere, an update or deletion of a policy names the policy and not a version of it.\<close>

fun plain_call :: "call \<Rightarrow> bool" where
  "plain_call (CallUpdatePolicy p) \<longleftrightarrow> CHR ''.'' \<notin> set (p_Id p)"
| "plain_call (CallDeletePolicy i) \<longleftrightarrow> CHR ''.'' \<notin> set i"
| "plain_call _ \<longleftrightarrow> True"

lemma first_half_ok:
  assumes "first_half m c s = (Ok x, s')" "plain_call c" "catalogue_store m shard docs"
    "catalogue_ok m shard (docs (ext s))"
  shows "docs (ext s') = docs (ext s) \<and> under_way_ok m shard (docs (ext s)) x"
proof -
  let ?d = "docs (ext s)"
  note store = catalogue_storeD [OF assms(3)] and ok = catalogue_okD [OF assms(4)]
  have group: "docs (ext t) = ?d \<and> named_group i g \<and> groups_at m shard ?d i = Some g"
    if "GetPolicyGroup m \<lparr>ggr_Name = i\<rparr> s = (Ok g, t)" for i g t
    using GetPolicyGroup_found [OF that store(2,3) ok(3)] by (simp add: named_group_def)
  have assignment: "refers (groups_at m shard ?d) (history_at m shard ?d) i a"
    if "pa_Id a = i" "i = policyAssignmentId p (pa_PolicyGroup a)" "pa_PolicyVersionId a = policyVersionId p v"
      "CHR ''.'' \<notin> set p" "v \<noteq> 0" "groups_at m shard ?d (pa_PolicyGroup a) = Some g"
      "history_at m shard ?d p = Some h" "h_Versions h v \<noteq> None" for i a p v g h
    using refers_intro [of a p v "groups_at m shard ?d" g "history_at m shard ?d" h] that by simp
  show ?thesis
  proof (cases c)
    case (CallUpdatePolicy p)
    from assms(1) obtain cur where get: "GetPolicy m \<lparr>gpr_Id = p_Id p\<rparr> s = (Ok cur, s')"
      and x: "x = UpdatingPolicy p cur" by (auto simp: CallUpdatePolicy attempt_Ok split: if_splits)
    from begin_pending [OF get _ store(2,3) ok(1)] assms(2) x show ?thesis by (simp add: CallUpdatePolicy)
  next
    case (CallDeletePolicy i)
    from assms(1) obtain cur where get: "getPolicy m i s = (Ok cur, s')" and x: "x = DeletingPolicy i cur"
      by (auto simp: CallDeletePolicy attempt_Ok)
    have i: "i \<noteq> ''''" "CHR ''.'' \<notin> set i" using get assms(2) by (simp_all add: CallDeletePolicy getPolicy_Ok)
    obtain s2 where "docs (ext s2) = ?d" "getPolicy m i s = ((case history_at m shard ?d i of
       None \<Rightarrow> Err (createErrorWithCode ''policy not found'' None NotFound) | Some h \<Rightarrow> Ok (h_Policy h)), s2)"
      by (rule getPolicy_answer [OF store(2,3) ok(1) i])
    with get obtain h where h: "history_at m shard ?d i = Some h" "cur = h_Policy h" "docs (ext s') = ?d"
      by (auto split: option.splits)
    with history_at_ok [OF ok(1) h(1)] show ?thesis by (simp add: x deleting_ok_def history_ok_def)
  next
    case (CallCreateGroup g)
    from assms(1) obtain e where get: "GetPolicyGroup m \<lparr>ggr_Name = pg_Name g\<rparr> s = (Err e, s')"
      and x: "x = CreatingGroup g" "policyGroupNamePattern (pg_Name g)"
      by (auto simp: CallCreateGroup inspect_Ok split: if_splits)
    obtain s1 where "docs (ext s1) = ?d"
      "GetPolicyGroup m \<lparr>ggr_Name = pg_Name g\<rparr> s = (read_group (groups_at m shard ?d) (pg_Name g), s1)"
      by (rule GetPolicyGroup_answer [OF store(2,3) ok(3)])
    with get x show ?thesis by simp
  next
    case (CallUpdateGroup g)
    from assms(1) obtain cur where "GetPolicyGroup m \<lparr>ggr_Name = pg_Name g\<rparr> s = (Ok cur, s')"
      "x = UpdatingGroup g cur" "\<not> pg_Deleted cur" by (auto simp: CallUpdateGroup attempt_Ok split: if_splits)
    with group [OF this(1)] show ?thesis by simp
  next
    case (CallDeleteGroup i)
    from assms(1) obtain cur where "GetPolicyGroup m \<lparr>ggr_Name = i\<rparr> s = (Ok cur, s')" "x = DeletingGroup i cur"
      by (auto simp: CallDeleteGroup attempt_Ok)
    with group [OF this(1)] show ?thesis by simp
  next
    case (CallCreateAssignment a)
    from assms(1) obtain a1 where val: "validateAssignment m a (validateCreate m) s = (Ok a1, s')"
      and x: "x = CreatingAssignment a1" by (auto simp: CallCreateAssignment attempt_Ok)
    obtain p v h g where a: "a1 = a" "docs (ext s') = ?d" "pa_PolicyVersionId a = policyVersionId p v" "v \<noteq> 0"
      "CHR ''.'' \<notin> set p" "history_at m shard ?d p = Some h" "h_Versions h v \<noteq> None"
      "groups_at m shard ?d (pa_PolicyGroup a) = Some g"
      by (rule validated_create [OF val store(1,3) assms(4)]) (rule that; assumption)
    have new: "newAssignmentId a = policyAssignmentId p (pa_PolicyGroup a)"
      using a(3) parse_policyVersionId [OF a(5)] by (simp add: newAssignmentId_def)
    show ?thesis
      unfolding x a(1) under_way_ok.simps
      by (intro conjI a(2) assignment [where v = v and g = g and h = h and p = p]) (simp_all add: new a del: not_None_eq)
  next
    case (CallUpdateAssignment a)
    from assms(1) obtain a1 where val: "validateAssignment m a (validateUpdate m) s = (Ok a1, s')"
      and x: "x = UpdatingAssignment (pa_Id a) a1" by (auto simp: CallUpdateAssignment attempt_Ok)
    obtain p v h g and cur :: policy_assignment where a: "a1 = a\<lparr>pa_Created := pa_Created cur\<rparr>" "docs (ext s') = ?d"
      "pa_PolicyVersionId a = policyVersionId p v" "v \<noteq> 0" "CHR ''.'' \<notin> set p"
      "pa_Id a = policyAssignmentId p (pa_PolicyGroup a)" "history_at m shard ?d p = Some h"
      "h_Versions h v \<noteq> None" "groups_at m shard ?d (pa_PolicyGroup a) = Some g"
      by (rule validated_update [OF val store(1,3) assms(4)]) (rule that; assumption)
    show ?thesis
      unfolding x a(1) under_way_ok.simps refers_times
      by (intro conjI a(2) assignment [OF refl a(6,3,5,4,9,7,8)])
  next
    case (CallDeleteAssignment i)
    from assms(1) obtain a where get: "GetPolicyAssignment m \<lparr>gar_Id = i\<rparr> s = (Ok a, s')"
      and x: "x = DeletingAssignment i" by (auto simp: CallDeleteAssignment attempt_Ok)
    obtain s1 where "docs (ext s1) = ?d"
      "GetPolicyAssignment m \<lparr>gar_Id = i\<rparr> s = (read_assignment (assignments_at m shard ?d) i, s1)"
      by (rule GetPolicyAssignment_answer [OF store(2,3) ok(4)])
    with get x show ?thesis by simp
  qed
qed

lemma writeDeletedPolicy_documents:
  assumes "writeDeletedPolicy m i pol s = (Ok u, s')" "document_store m shard docs"
  shows "docs (ext s') = put_doc (policy_key m shard i) (MsgPolicy (pol\<lparr>p_Deleted := True\<rparr>)) (docs (ext s))"
  using assms(1) store_update(1) [OF assms(2) _ refl] unfolding writeDeletedPolicy_def
  by (auto simp: attempt_Ok external_Ok policy_key_def route_def)

lemma writeNewGroup_documents:
  assumes "writeNewGroup m g s = (Ok g', s')" "full_store m shard docs"
  shows "pg_Name g' = pg_Name g \<and>
    docs (ext s') = put_doc (group_key m shard (pg_Name g')) (MsgPolicyGroup g') (docs (ext s))"
  using assms(1) store_create [OF assms(2)] store_now [OF full_store_documents [OF assms(2)]]
  unfolding writeNewGroup_def by (fastforce simp: attempt_Ok draw_Ok external_Ok Let_def group_key_def)

lemma writeGroup_documents:
  assumes "writeGroup m g cur s = (Ok g', s')" "document_store m shard docs"
  shows "(\<exists>t. g' = cur\<lparr>pg_Description := pg_Description g, pg_Updated := Some t\<rparr>) \<and>
    docs (ext s') = put_doc (group_key m shard (pg_Name g')) (MsgPolicyGroup g') (docs (ext s))"
proof -
  from assms(1) obtain t x r y where time: "rt_Now (runtime m) (ext s) = (t, x)"
    and g': "g' = cur\<lparr>pg_Description := pg_Description g, pg_Updated := Some t\<rparr>"
    and upd: "esc_Update (esClient m) \<lparr>ur_Index = policyGroupsAlias m, ur_DocumentId = pg_Name g',
      ur_Refresh = refresh_of m, ur_Message = MsgPolicyGroup g', ur_Routing = ''''\<rparr> x = (Inr r, y)" "ext s' = y"
    unfolding writeGroup_def by (auto simp: attempt_Ok draw_Ok external_Ok Let_def)
  from store_update(1) [OF assms(2) upd(1) refl] store_now [OF assms(2) time] upd(2) g'
  show ?thesis by (auto simp: group_key_def route_def)
qed

lemma writeDeletedGroup_documents:
  assumes "writeDeletedGroup m i cur s = (Ok u, s')" "document_store m shard docs"
  shows "docs (ext s') = put_doc (group_key m shard i) (MsgPolicyGroup (cur\<lparr>pg_Deleted := True\<rparr>)) (docs (ext s))"
  using assms(1) store_update(1) [OF assms(2) _ refl] unfolding writeDeletedGroup_def
  by (auto simp: attempt_Ok external_Ok group_key_def route_def)

lemma writeNewAssignment_documents:
  assumes "writeNewAssignment m a s = (Ok b, s')" "full_store m shard docs"
  shows "(\<exists>t. b = a\<lparr>pa_Created := Some t, pa_Updated := Some t, pa_Id := newAssignmentId a\<rparr>) \<and>
    docs (ext s') = put_doc (assignment_key m shard (newAssignmentId a)) (MsgPolicyAssignment b) (docs (ext s))"
proof -
  from assms(1) obtain t x r y where time: "rt_Now (runtime m) (ext s) = (t, x)"
    and b: "b = a\<lparr>pa_Created := Some t, pa_Updated := Some t, pa_Id := newAssignmentId a\<rparr>"
    and new: "esc_Create (esClient m) \<lparr>cr_Index = policyAssignmentsAlias m, cr_Refresh = refresh_of m,
      cr_Message = MsgPolicyAssignment b, cr_DocumentId = newAssignmentId a\<rparr> x = (Inr r, y)" "ext s' = y"
    unfolding writeNewAssignment_def by (auto simp: attempt_Ok draw_Ok external_Ok Let_def)
  from store_create [OF assms(2) new(1)] store_now [OF full_store_documents [OF assms(2)] time] new(2) b
  show ?thesis by (auto simp: assignment_key_def)
qed

lemma writeAssignment_documents:
  assumes "writeAssignment m i a s = (Ok b, s')" "document_store m shard docs"
  shows "(\<exists>t. b = a\<lparr>pa_Updated := Some t\<rparr>) \<and>
    docs (ext s') = put_doc (assignment_key m shard i) (MsgPolicyAssignment b) (docs (ext s))"
proof -
  from assms(1) obtain t x r y where time: "rt_Now (runtime m) (ext s) = (t, x)"
    and b: "b = a\<lparr>pa_Updated := Some t\<rparr>"
    and upd: "esc_Update (esClient m) \<lparr>ur_Index = policyAssignmentsAlias m, ur_DocumentId = i,
      ur_Refresh = refresh_of m, ur_Message = MsgPolicyAssignment b, ur_Routing = ''''\<rparr> x = (Inr r, y)" "ext s' = y"
    unfolding writeAssignment_def by (auto simp: attempt_Ok draw_Ok external_Ok Let_def)
  from store_update(1) [OF assms(2) upd(1) refl] store_now [OF assms(2) time] upd(2) b
  show ?thesis by (auto simp: assignment_key_def route_def)
qed

lemma removeAssignment_documents:
  assumes "removeAssignment m i s = (Ok u, s')" "full_store m shard docs"
  shows "docs (ext s') = drop_docs (policyAssignmentsAlias m) i (docs (ext s))"
  using assms(1) store_delete [OF assms(2)] unfolding removeAssignment_def
  by (fastforce simp: attempt_Ok external_Ok)

text \<open>The second half of any call under way keeps the catalogue, whatever came in between.\<close>

lemma second_half_grows:
  assumes "second_half m x s = (Ok y, s')" "under_way_ok m shard (docs (ext s)) x"
    "catalogue_store m shard docs" "catalogue_ok m shard (docs (ext s))"
  shows "catalogue_grows m shard (docs (ext s)) (docs (ext s'))"
proof -
  note store = catalogue_storeD [OF assms(3)] and ok = catalogue_okD [OF assms(4)]
  show ?thesis
  proof (cases x)
    case (UpdatingPolicy upd cur)
    from assms(1) obtain q where fin: "applyUpdate m upd cur s = (Ok q, s')"
      by (auto simp: UpdatingPolicy answering_Ok)
    from assms(2) have pend: "pending_ok m shard (docs (ext s)) (upd, cur)" by (simp add: UpdatingPolicy)
    from late_update_write [OF fin pend store(2) ok(1)] show ?thesis
      by (rule policy_write_grows [OF _ assms(4) store(5)])
  next
    case (DeletingPolicy i pol)
    from assms(1) obtain u where "writeDeletedPolicy m i pol s = (Ok u, s')"
      by (auto simp: DeletingPolicy answering_Ok)
    from late_delete_write [OF writeDeletedPolicy_documents [OF this store(2)] _ ok(1)] assms(2)
    show ?thesis by (intro policy_write_grows [OF _ assms(4) store(5)]) (simp add: DeletingPolicy)
  next
    case (CreatingGroup g)
    from assms(1) obtain g' where "writeNewGroup m g s = (Ok g', s')" by (auto simp: CreatingGroup answering_Ok)
    from writeNewGroup_documents [OF this store(1)] assms(2) show ?thesis
      by (intro group_write_grows [OF _ assms(4) store(5), of _ g']) (simp_all add: CreatingGroup)
  next
    case (UpdatingGroup g cur)
    from assms(1) obtain g' where "writeGroup m g cur s = (Ok g', s')" by (auto simp: UpdatingGroup answering_Ok)
    from writeGroup_documents [OF this store(2)] assms(2) show ?thesis
      by (intro group_write_grows [OF _ assms(4) store(5), of _ g']) (auto simp: UpdatingGroup named_group_def)
  next
    case (DeletingGroup i cur)
    from assms(1) obtain u where "writeDeletedGroup m i cur s = (Ok u, s')" by (auto simp: DeletingGroup answering_Ok)
    from writeDeletedGroup_documents [OF this store(2)] assms(2) show ?thesis
      by (intro group_write_grows [OF _ assms(4) store(5), of _ "cur\<lparr>pg_Deleted := True\<rparr>"])
        (simp_all add: DeletingGroup named_group_def)
  next
    case (CreatingAssignment a)
    from assms(1) obtain b where "writeNewAssignment m a s = (Ok b, s')"
      by (auto simp: CreatingAssignment answering_Ok)
    from writeNewAssignment_documents [OF this store(1)] assms(2) show ?thesis
      by (intro assignment_write_grows [OF _ assms(4) store(5), of _ "newAssignmentId a" b])
        (auto simp: CreatingAssignment refers_times)
  next
    case (UpdatingAssignment i a)
    from assms(1) obtain b where "writeAssignment m i a s = (Ok b, s')"
      by (auto simp: UpdatingAssignment answering_Ok)
    from writeAssignment_documents [OF this store(2)] assms(2) show ?thesis
      by (intro assignment_write_grows [OF _ assms(4) store(5), of _ i b])
        (auto simp: UpdatingAssignment refers_times)
  next
    case (DeletingAssignment i)
    from assms(1) obtain u where "removeAssignment m i s = (Ok u, s')" by (auto simp: DeletingAssignment answering_Ok)
    from assignment_drop_grows [OF removeAssignment_documents [OF this store(1)] assms(4) store(5)]
    show ?thesis .
  qed
qed

section \<open>Calls that overlap\<close>

text \<open>
  Creating a policy reads nothing, and the reads write nothing: they are one step. Any other
  call begins, and ends later or never; a call that stops in between has written nothing.
\<close>

inductive overlapping :: "'w manager \<Rightarrow> 'w world \<Rightarrow> under_way list \<Rightarrow> 'w world \<Rightarrow> bool"
  for m :: "'w manager" and s :: "'w world" where
  ov_none: "overlapping m s [] s"
| ov_create_policy: "overlapping m s pend s1 \<Longrightarrow> CreatePolicy m pol s1 = (Ok q, s2) \<Longrightarrow> overlapping m s pend s2"
| ov_get_policy: "overlapping m s pend s1 \<Longrightarrow> GetPolicy m gp s1 = (rp, s2) \<Longrightarrow> overlapping m s pend s2"
| ov_get_group: "overlapping m s pend s1 \<Longrightarrow> GetPolicyGroup m gg s1 = (rg, s2) \<Longrightarrow> overlapping m s pend s2"
| ov_get_assignment: "overlapping m s pend s1 \<Longrightarrow> GetPolicyAssignment m ga s1 = (ra, s2) \<Longrightarrow>
    overlapping m s pend s2"
| ov_begin: "overlapping m s pend s1 \<Longrightarrow> plain_call c \<Longrightarrow> first_half m c s1 = (Ok x, s2) \<Longrightarrow>
    overlapping m s (x # pend) s2"
| ov_finish: "overlapping m s pend s1 \<Longrightarrow> x \<in> set pend \<Longrightarrow> second_half m x s1 = (Ok y, s2) \<Longrightarrow>
    overlapping m s (remove1 x pend) s2"
| ov_stop: "overlapping m s pend s1 \<Longrightarrow> overlapping m s (remove1 x pend) s1"

lemma ov_call:
  assumes "overlapping m s pend s1" "plain_call c" "whole_call m c s1 = (Ok y, s2)"
  shows "overlapping m s pend s2"
proof -
  from assms(3) obtain x t where "first_half m c s1 = (Ok x, t)" "second_half m x t = (Ok y, s2)"
    by (auto simp: call_halves attempt_Ok)
  from ov_finish [OF ov_begin [OF assms(1,2) this(1)] _ this(2)] show ?thesis by simp
qed

text \<open>Calls one after the other are calls that overlap.\<close>

lemma ov_step:
  assumes "overlapping m s pend s1" "catalogue_step m s1 s2"
  shows "overlapping m s pend s2"
  using assms(2)
proof cases
  case (step_create_policy pol q)
  from ov_create_policy [OF assms(1) this] show ?thesis .
next
  case (step_update_policy upd q)
  then show ?thesis by (intro ov_call [OF assms(1), of "CallUpdatePolicy upd"]) (simp_all add: answering_Ok)
next
  case (step_delete_policy dp u)
  then show ?thesis
    by (intro ov_call [OF assms(1), of "CallDeletePolicy (dpr_Id dp)"]) (cases dp; simp add: answering_Ok)+
next
  case (step_create_group pg g)
  then show ?thesis by (intro ov_call [OF assms(1), of "CallCreateGroup pg"]) (simp_all add: answering_Ok)
next
  case (step_update_group pg g)
  then show ?thesis by (intro ov_call [OF assms(1), of "CallUpdateGroup pg"]) (simp_all add: answering_Ok)
next
  case (step_delete_group dg u)
  then show ?thesis
    by (intro ov_call [OF assms(1), of "CallDeleteGroup (dgr_Name dg)"]) (cases dg; simp add: answering_Ok)+
next
  case (step_create_assignment a b)
  then show ?thesis by (intro ov_call [OF assms(1), of "CallCreateAssignment a"]) (simp_all add: answering_Ok)
next
  case (step_update_assignment a b)
  then show ?thesis by (intro ov_call [OF assms(1), of "CallUpdateAssignment a"]) (simp_all add: answering_Ok)
next
  case (step_delete_assignment da u)
  then show ?thesis
    by (intro ov_call [OF assms(1), of "CallDeleteAssignment (dar_Id da)"]) (cases da; simp add: answering_Ok)+
next
  case (step_get_policy gp rp)
  from ov_get_policy [OF assms(1) this] show ?thesis .
next
  case (step_get_group gg rg)
  from ov_get_group [OF assms(1) this] show ?thesis .
next
  case (step_get_assignment ga ra)
  from ov_get_assignment [OF assms(1) this] show ?thesis .
qed

lemma ov_steps: "(catalogue_step m)\<^sup>*\<^sup>* s1 s2 \<Longrightarrow> overlapping m s pend s1 \<Longrightarrow> overlapping m s pend s2"
  by (induction rule: rtranclp_induct) (auto intro: ov_step)

text \<open>Whatever overlaps, the catalogue is one, and what a call under way relies on holds.\<close>

definition overlap_ok ::
  "'w manager \<Rightarrow> (string \<Rightarrow> nat) \<Rightarrow> documents \<Rightarrow> under_way list \<Rightarrow> documents \<Rightarrow> bool" where
  "overlap_ok m shard d0 pend d \<longleftrightarrow> catalogue_grows m shard d0 d \<and> list_all (under_way_ok m shard d) pend"

lemma catalogue_grows_trans:
  assumes "catalogue_grows m shard d d'" "catalogue_grows m shard d' d''"
  shows "catalogue_grows m shard d d''"
proof -
  have "histories_grow m shard d d''"
    using catalogue_growsD(2) [OF assms(1)] catalogue_growsD(2) [OF assms(2)]
    unfolding histories_grow_def by (meson map_le_trans)
  with assms show ?thesis by (auto simp: catalogue_grows_def)
qed

lemma overlap_ok_grown:
  assumes "overlap_ok m shard d0 pend d" "catalogue_grows m shard d d'"
  shows "overlap_ok m shard d0 pend d'"
  using assms under_way_grown catalogue_grows_trans unfolding overlap_ok_def list_all_iff by blast

lemma overlapping_kept:
  assumes "overlapping m s pend s'" "catalogue_store m shard docs" "catalogue_ok m shard (docs (ext s))"
  shows "overlap_ok m shard (docs (ext s)) pend (docs (ext s'))"
  using assms(1)
proof induction
  case ov_none
  then show ?case using assms(3) by (simp add: overlap_ok_def catalogue_grows_refl)
next
  case (ov_create_policy pend s1 pol q s2)
  note store = catalogue_storeD [OF assms(2)]
  from ov_create_policy.IH have ok: "catalogue_ok m shard (docs (ext s1))"
    by (auto simp: overlap_ok_def dest: catalogue_growsD(1))
  from CreatePolicy_write [OF ov_create_policy.hyps(2) store(2,4) catalogue_okD(1) [OF ok]]
  show ?case by (intro overlap_ok_grown [OF ov_create_policy.IH] policy_write_grows [OF _ ok store(5)])
next
  case (ov_begin pend s1 c x s2)
  then have "catalogue_ok m shard (docs (ext s1))" by (auto simp: overlap_ok_def dest: catalogue_growsD(1))
  from first_half_ok [OF ov_begin.hyps(3,2) assms(2) this] ov_begin.IH show ?case by (simp add: overlap_ok_def)
next
  case (ov_finish pend s1 x y s2)
  then have ok: "catalogue_ok m shard (docs (ext s1))" and x: "under_way_ok m shard (docs (ext s1)) x"
    by (auto simp: overlap_ok_def list_all_iff dest: catalogue_growsD(1))
  from overlap_ok_grown [OF ov_finish.IH second_half_grows [OF ov_finish.hyps(3) x assms(2) ok]]
  show ?case by (auto simp: overlap_ok_def list_all_iff dest: set_remove1_subset [THEN subsetD])
next
  case (ov_stop pend s1 x)
  then show ?case by (auto simp: overlap_ok_def list_all_iff dest: set_remove1_subset [THEN subsetD])
next
  case (ov_get_policy pend s1 gp rp s2)
  then have "catalogue_ok m shard (docs (ext s1))" by (auto simp: overlap_ok_def dest: catalogue_growsD(1))
  from GetPolicy_read [OF catalogue_storeD(2,3) [OF assms(2)] catalogue_okD(1) [OF this], of gp] ov_get_policy
  show ?case by auto
next
  case (ov_get_group pend s1 gg rg s2)
  then have "catalogue_ok m shard (docs (ext s1))" by (auto simp: overlap_ok_def dest: catalogue_growsD(1))
  then obtain t where "docs (ext t) = docs (ext s1)" "GetPolicyGroup m \<lparr>ggr_Name = ggr_Name gg\<rparr> s1 =
      (read_group (groups_at m shard (docs (ext s1))) (ggr_Name gg), t)"
    by (rule GetPolicyGroup_answer [OF catalogue_storeD(2,3) [OF assms(2)] catalogue_okD(3)])
  with ov_get_group show ?case by - (cases gg; simp)
next
  case (ov_get_assignment pend s1 ga ra s2)
  then have "catalogue_ok m shard (docs (ext s1))" by (auto simp: overlap_ok_def dest: catalogue_growsD(1))
  then obtain t where "docs (ext t) = docs (ext s1)" "GetPolicyAssignment m \<lparr>gar_Id = gar_Id ga\<rparr> s1 =
      (read_assignment (assignments_at m shard (docs (ext s1))) (gar_Id ga), t)"
    by (rule GetPolicyAssignment_answer [OF catalogue_storeD(2,3) [OF assms(2)] catalogue_okD(4)])
  with ov_get_assignment show ?case by - (cases ga; simp)
qed

section \<open>What callers can rely on, and what they cannot\<close>

lemma read_assignment_refers:
  assumes "catalogue_store m shard docs" "catalogue_ok m shard (docs (ext s))"
    "fst (GetPolicyAssignment m \<lparr>gar_Id = i\<rparr> s) = Ok a"
  shows "refers (groups_at m shard (docs (ext s))) (history_at m shard (docs (ext s))) i a"
proof -
  note store = catalogue_storeD [OF assms(1)] and ok = catalogue_okD [OF assms(2)]
  obtain s1 where "GetPolicyAssignment m \<lparr>gar_Id = i\<rparr> s = (read_assignment (assignments_at m shard (docs (ext s))) i, s1)"
    by (rule GetPolicyAssignment_answer [OF store(2,3) ok(4)])
  with assms(3) have "assignments_at m shard (docs (ext s)) i = Some a" by (simp add: read_assignment_Ok)
  from assignment_refers [OF ok(4) this] show ?thesis .
qed

text \<open>C2: which calls of the catalogue leave every assignment referring to what is there. Let policies,
  groups and assignments be created, updated, deleted and read, one call after the other or
  overlapping, where each update and each deletion of a policy names it by an id without a
  dot, which a version id is not (under a version id an update can destroy a version, see
  C35), and where each part of a call that runs succeeds: a call reads, and later writes and
  returns, or it stops after it has read. Then every assignment that can be read has an id
  made of its policy and its group, the policy version it names can be read as a version of
  that policy, and its group can be read.\<close>

theorem assignments_refer_under_overlap:
  assumes "overlapping m s pend s'" "catalogue_store m shard docs" "catalogue_ok m shard (docs (ext s))"
    "fst (GetPolicyAssignment m \<lparr>gar_Id = i\<rparr> s') = Ok a"
  shows "pa_Id a = i \<and> (\<exists>p v q g. pa_PolicyVersionId a = policyVersionId p v \<and>
    i = policyAssignmentId p (pa_PolicyGroup a) \<and>
    fst (GetPolicy m \<lparr>gpr_Id = pa_PolicyVersionId a\<rparr> s') = Ok q \<and> p_Id q = p \<and>
    fst (GetPolicyGroup m \<lparr>ggr_Name = pa_PolicyGroup a\<rparr> s') = Ok g)"
proof -
  from overlapping_kept [OF assms(1-3)] have ok: "catalogue_ok m shard (docs (ext s'))"
    by (simp add: overlap_ok_def catalogue_grows_def)
  note ref = read_assignment_refers [OF assms(2) ok assms(4)]
  then have "pa_Id a = i" by (simp add: refers_def)
  with refers_readable [OF ref assms(2) ok] show ?thesis by blast
qed

lemma written_group_read:
  assumes "docs (ext s') = put_doc (group_key m shard (pg_Name g)) (MsgPolicyGroup g) d"
    "catalogue_ok m shard d" "catalogue_store m shard docs" "policyGroupNamePattern (pg_Name g)"
  shows "fst (GetPolicyGroup m \<lparr>ggr_Name = pg_Name g\<rparr> s') = Ok g"
proof -
  note store = catalogue_storeD [OF assms(3)]
  from group_write_catalogue [OF assms(1,2) store(5) assms(4)]
  have ok: "catalogue_ok m shard (docs (ext s'))"
    and at: "groups_at m shard (docs (ext s')) (pg_Name g) = Some g" by simp_all
  obtain s1 where "GetPolicyGroup m \<lparr>ggr_Name = pg_Name g\<rparr> s' =
      (read_group (groups_at m shard (docs (ext s'))) (pg_Name g), s1)"
    by (rule GetPolicyGroup_answer [OF store(2,3) catalogue_okD(3) [OF ok]])
  with at assms(4) show ?thesis by (auto simp: read_group_def policyGroupNamePattern_def)
qed

text \<open>C12: an update of a group undoes a deletion. Let an update of a group that is not deleted begin,
  let other calls run that name policies by ids without a dot, the deletion of the group
  among them, and let the update succeed in its second half:
  the group is there again as it was read at the beginning, not deleted, under the
  description of the request.\<close>

theorem group_update_undoes_deletion:
  assumes "overlapping m s pend s'" "UpdatingGroup pg cur \<in> set pend" "writeGroup m pg cur s' = (Ok g, s'')"
    "catalogue_store m shard docs" "catalogue_ok m shard (docs (ext s))"
  shows "fst (GetPolicyGroup m \<lparr>ggr_Name = pg_Name pg\<rparr> s'') = Ok g \<and> \<not> pg_Deleted g \<and>
    (\<exists>t. g = cur\<lparr>pg_Description := pg_Description pg, pg_Updated := Some t\<rparr>)"
proof -
  from overlapping_kept [OF assms(1,4,5)] assms(2) have ok: "catalogue_ok m shard (docs (ext s'))"
    and x: "under_way_ok m shard (docs (ext s')) (UpdatingGroup pg cur)"
    by (auto simp: overlap_ok_def catalogue_grows_def list_all_iff)
  from writeGroup_documents [OF assms(3) catalogue_storeD(2) [OF assms(4)]] obtain t where
    g: "g = cur\<lparr>pg_Description := pg_Description pg, pg_Updated := Some t\<rparr>"
    and d: "docs (ext s'') = put_doc (group_key m shard (pg_Name g)) (MsgPolicyGroup g) (docs (ext s'))" by blast
  from x g have "pg_Name g = pg_Name pg" "policyGroupNamePattern (pg_Name g)" "\<not> pg_Deleted g"
    by (simp_all add: named_group_def)
  with written_group_read [OF d ok assms(4)] g show ?thesis by auto
qed

text \<open>C13: an assignment is written whatever has happened since it was validated. Let the creation or
  the update of an assignment begin, let other calls run that name policies by ids without a
  dot, deletions of the policy, the
  group or the assignment among them, and let it succeed in its second half: its id answers the assignment that
  was written, and its policy and its group are what they were just before, deleted or not.\<close>

theorem assignments_written_unseen:
  assumes "overlapping m s pend s'" "x \<in> set pend" "second_half m x s' = (Ok (AnswerAssignment b), s'')"
    "catalogue_store m shard docs" "catalogue_ok m shard (docs (ext s))"
  shows "fst (GetPolicyAssignment m \<lparr>gar_Id = pa_Id b\<rparr> s'') = Ok b \<and>
    fst (GetPolicyGroup m \<lparr>ggr_Name = pa_PolicyGroup b\<rparr> s'') = fst (GetPolicyGroup m \<lparr>ggr_Name = pa_PolicyGroup b\<rparr> s') \<and>
    fst (GetPolicy m \<lparr>gpr_Id = pa_PolicyVersionId b\<rparr> s'') = fst (GetPolicy m \<lparr>gpr_Id = pa_PolicyVersionId b\<rparr> s')"
proof -
  note store = catalogue_storeD [OF assms(4)]
  from overlapping_kept [OF assms(1,4,5)] assms(2) have ok: "catalogue_ok m shard (docs (ext s'))"
    and x: "under_way_ok m shard (docs (ext s')) x"
    by (auto simp: overlap_ok_def catalogue_grows_def list_all_iff)
  have ref: "refers (groups_at m shard (docs (ext s'))) (history_at m shard (docs (ext s'))) (pa_Id b) b \<and>
    docs (ext s'') = put_doc (assignment_key m shard (pa_Id b)) (MsgPolicyAssignment b) (docs (ext s'))"
  proof (cases x)
    case (CreatingAssignment a)
    from assms(3) have "writeNewAssignment m a s' = (Ok b, s'')" by (simp add: CreatingAssignment answering_Ok)
    from writeNewAssignment_documents [OF this store(1)] x show ?thesis
      by (auto simp: CreatingAssignment refers_times)
  next
    case (UpdatingAssignment i a)
    from assms(3) have "writeAssignment m i a s' = (Ok b, s'')" by (simp add: UpdatingAssignment answering_Ok)
    note this = writeAssignment_documents [OF this store(2)]
    moreover from x have "refers (groups_at m shard (docs (ext s'))) (history_at m shard (docs (ext s'))) i a"
      by (simp add: UpdatingAssignment)
    moreover from this have "pa_Id a = i" by (simp add: refers_def)
    ultimately show ?thesis by (auto simp: refers_times)
  qed (use assms(3) in \<open>auto simp: answering_Ok\<close>)
  then have d: "docs (ext s'') = put_doc (assignment_key m shard (pa_Id b)) (MsgPolicyAssignment b) (docs (ext s'))"
    and ref: "refers (groups_at m shard (docs (ext s'))) (history_at m shard (docs (ext s'))) (pa_Id b) b" by simp_all
  from assignment_write_catalogue [OF d ok store(5) ref] have ok': "catalogue_ok m shard (docs (ext s''))"
    and at: "assignments_at m shard (docs (ext s'')) (pa_Id b) = Some b"
    and same: "groups_at m shard (docs (ext s'')) = groups_at m shard (docs (ext s'))"
    "history_at m shard (docs (ext s'')) = history_at m shard (docs (ext s'))" by simp_all
  obtain s1 where "GetPolicyAssignment m \<lparr>gar_Id = pa_Id b\<rparr> s'' =
      (read_assignment (assignments_at m shard (docs (ext s''))) (pa_Id b), s1)"
    by (rule GetPolicyAssignment_answer [OF store(2,3) catalogue_okD(4) [OF ok']])
  moreover have "pa_Id b \<noteq> ''''" using ref by (auto simp: refers_def policyAssignmentId_def)
  moreover have "fst (GetPolicyGroup m \<lparr>ggr_Name = i\<rparr> t) = read_group (groups_at m shard (docs (ext t))) i"
    if "catalogue_ok m shard (docs (ext t))" for i t
    by (rule GetPolicyGroup_answer [OF store(2,3) catalogue_okD(3) [OF that], of i]) simp
  moreover have "fst (GetPolicy m r t) = read_policy (history_at m shard (docs (ext t))) (gpr_Id r)"
    if "catalogue_ok m shard (docs (ext t))" for r t
    using GetPolicy_read [OF store(2,3) catalogue_okD(1) [OF that], of r] by auto
  ultimately show ?thesis using at same ok ok' by (simp add: read_assignment_def)
qed

end
