(* ===== verification/Example_Catalogue.thy ===== *)
theory Example_Catalogue
  imports Example_Store Catalogue_Overlap
begin

text \<open>
  Concrete runs on the store of \<open>Example_Store\<close>, for the witnesses of \<open>Policy_Overlap\<close>,
  \<open>Assignment_Store\<close> and \<open>Catalogue_Overlap\<close>: two updates that overlap, a policy that is
  assigned to a group, and deletions that fall between the halves of other calls.
\<close>

section \<open>Two updates that overlap\<close>

definition st_read_policy :: policy where
  "st_read_policy = st_created\<lparr>p_Policy := Some st_first\<rparr>"

definition st_rename :: policy where
  "st_rename = st_created\<lparr>p_Name := ''new'', p_Policy := Some st_first\<rparr>"

text \<open>The renaming begins, another update writes a second version, the renaming finishes.\<close>

definition st_begun :: "st_state world" where
  "st_begun = snd (GetPolicy st_manager \<lparr>gpr_Id = ''u1''\<rparr> st_stored)"

definition st_between :: "st_state world" where
  "st_between = snd (UpdatePolicy st_manager \<lparr>upr_Policy = Some st_new_content\<rparr> st_begun)"

definition st_late :: "st_state world" where
  "st_late = snd (applyUpdate st_manager st_rename st_read_policy st_between)"

lemma st_overlap_runs:
  "fst (GetPolicy st_manager \<lparr>gpr_Id = ''u1''\<rparr> st_stored) = Ok st_read_policy" (is ?A)
  "case fst (UpdatePolicy st_manager \<lparr>upr_Policy = Some st_new_content\<rparr> st_begun) of
    Ok q \<Rightarrow> p_Id q = ''u1'' \<and> p_CurrentVersion q = 2 | _ \<Rightarrow> False" (is ?B)
  "is_Ok (fst (applyUpdate st_manager st_rename st_read_policy st_between))" (is ?C)
proof -
  have "?A \<and> ?B \<and> ?C" by code_simp
  then show ?A ?B ?C by blast+
qed

lemma st_begin: "GetPolicy st_manager \<lparr>gpr_Id = ''u1''\<rparr> st_stored = (Ok st_read_policy, st_begun)"
  using st_overlap_runs(1) unfolding st_begun_def by (metis prod.collapse)

lemma st_between_run:
  obtains q where "UpdatePolicy st_manager \<lparr>upr_Policy = Some st_new_content\<rparr> st_begun = (Ok q, st_between)"
    "p_Id q = ''u1''" "p_CurrentVersion q = 2"
  using st_overlap_runs(2) unfolding st_between_def
  by (cases "UpdatePolicy st_manager \<lparr>upr_Policy = Some st_new_content\<rparr> st_begun")
    (auto split: outcome.splits)

lemma st_late_run:
  obtains q where "applyUpdate st_manager st_rename st_read_policy st_between = (Ok q, st_late)"
  using run_Ok [of "applyUpdate st_manager st_rename st_read_policy", OF st_overlap_runs(3)]
  unfolding st_late_def by blast

lemma st_overlap:
  obtains q ps where "overlap st_manager st_world [(st_rename, st_read_policy)] ps st_between" "q \<in> set ps"
    "p_Id q = ''u1''" "p_CurrentVersion q = 2"
proof -
  obtain q0 where create: "CreatePolicy st_manager st_new_policy st_world = (Ok q0, st_stored)"
    by (rule st_create_run)
  obtain q where update: "UpdatePolicy st_manager \<lparr>upr_Policy = Some st_new_content\<rparr> st_begun = (Ok q, st_between)"
    and q: "p_Id q = ''u1''" "p_CurrentVersion q = 2"
    by (rule st_between_run)
  have content: "upr_Policy \<lparr>upr_Policy = Some st_new_content\<rparr> = Some st_new_content" by simp
  from update [unfolded UpdatePolicy_halves [OF content]] obtain cur s1 where
    get: "GetPolicy st_manager \<lparr>gpr_Id = p_Id st_new_content\<rparr> st_begun = (Ok cur, s1)"
    and alive: "\<not> p_Deleted cur" and fin: "applyUpdate st_manager st_new_content cur s1 = (Ok q, st_between)"
    by blast
  have ids: "p_Id st_rename = ''u1''" "p_Id st_new_content = ''u1''" "\<not> p_Deleted st_read_policy"
    "st_new_content \<noteq> st_rename"
    by (simp_all add: st_rename_def st_new_content_def st_created_def st_read_policy_def)
  have "overlap st_manager st_world ([] @ [(st_rename, st_read_policy)]) ([] @ [q0]) st_begun"
    by (rule overlap_begin [OF overlap_create [OF overlap_none create]]) (simp_all add: ids st_begin)
  from overlap_begin [OF this get alive]
  have "overlap st_manager st_world ([] @ [(st_rename, st_read_policy)] @ [(st_new_content, cur)]) ([] @ [q0]) s1"
    by (simp add: ids)
  from overlap_finish [OF this _ fin]
  have "overlap st_manager st_world [(st_rename, st_read_policy)] [q0, q] st_between"
    using ids(4) by simp
  then show thesis by (rule that) (use q in simp_all)
qed

theorem versions_survive_overlap_witness:
  "\<exists>p. fst (GetPolicy st_manager \<lparr>gpr_Id = policyVersionId ''u1'' 2\<rparr> st_late) = Ok p \<and> p_Id p = ''u1''"
proof -
  obtain q ps where life: "overlap st_manager st_world [(st_rename, st_read_policy)] ps st_between"
    and q: "q \<in> set ps" "p_Id q = ''u1''" "p_CurrentVersion q = 2"
    by (rule st_overlap)
  obtain q2 where fin: "applyUpdate st_manager st_rename st_read_policy st_between = (Ok q2, st_late)"
    by (rule st_late_run)
  from overlap_finish [OF life _ fin]
  have "overlap st_manager st_world [] (ps @ [q2]) st_late" by simp
  from versions_survive_overlap [OF this _ _ st_store st_answered st_plain st_world_empty, of q] q
  show ?thesis by auto
qed

theorem update_overwrites_unread_witness:
  "\<exists>q p. fst (UpdatePolicy st_manager \<lparr>upr_Policy = Some st_new_content\<rparr> st_begun) = Ok q \<and>
     p_CurrentVersion q = 2 \<and> fst (GetPolicy st_manager \<lparr>gpr_Id = ''u1''\<rparr> st_late) = Ok p \<and>
     p_CurrentVersion p = 1"
proof -
  obtain q where update: "UpdatePolicy st_manager \<lparr>upr_Policy = Some st_new_content\<rparr> st_begun = (Ok q, st_between)"
    and v: "p_CurrentVersion q = 2"
    by (rule st_between_run)
  obtain p ps where life: "overlap st_manager st_world [(st_rename, st_read_policy)] ps st_between"
    by (rule st_overlap)
  obtain q2 where fin: "applyUpdate st_manager st_rename st_read_policy st_between = (Ok q2, st_late)"
    by (rule st_late_run)
  have "p_Policy st_rename = Some st_first" "same_content st_first (p_Policy st_read_policy)"
    "p_Id st_rename = ''u1''" "p_CurrentVersion st_read_policy = 1"
    by (simp_all add: st_rename_def st_read_policy_def same_content_def st_created_def)
  with update_overwrites_unread [OF life _ this(1,2) fin st_store st_answered st_plain st_world_empty] update v
  show ?thesis by auto
qed

section \<open>A policy assigned to a group\<close>

definition st_grouped :: "st_state world" where
  "st_grouped = snd (CreatePolicyGroup st_manager (st_group\<lparr>pg_Created := None\<rparr>) st_stored)"

definition st_assigned :: "st_state world" where
  "st_assigned = snd (CreatePolicyAssignment st_manager (st_assignment\<lparr>pa_Id := ''''\<rparr>) st_grouped)"

definition st_reassigned :: "st_state world" where
  "st_reassigned = snd (UpdatePolicyAssignment st_manager st_assignment st_assigned)"

definition st_dropped :: "st_state world" where
  "st_dropped = snd (DeletePolicyAssignment st_manager \<lparr>dar_Id = pa_Id st_assignment\<rparr> st_assigned)"

lemma st_group_runs:
  "fst (CreatePolicyGroup st_manager (st_group\<lparr>pg_Created := None\<rparr>) st_stored) = Ok st_group" (is ?A)
  "fst (CreatePolicyAssignment st_manager (st_assignment\<lparr>pa_Id := []\<rparr>) st_grouped) = Ok st_assignment" (is ?B)
  "aliases_apart st_manager" (is ?C)
  "fst (GetPolicyGroup st_manager \<lparr>ggr_Name = ''g''\<rparr> st_grouped) = Ok st_group" (is ?D)
  "groups_at st_manager st_shard (st_docs (ext st_stored)) ''g'' = None" (is ?E)
proof -
  have "?A \<and> ?B \<and> ?C \<and> ?D \<and> ?E" by code_simp
  then show ?A ?B ?C ?D ?E by blast+
qed

lemma st_reassign_run: "is_Ok (fst (UpdatePolicyAssignment st_manager st_assignment st_assigned))"
  by code_simp

lemma st_assignment_runs:
  "fst (DeletePolicyAssignment st_manager \<lparr>dar_Id = pa_Id st_assignment\<rparr> st_assigned) = Ok ()" (is ?A)
  "fst (GetPolicyAssignment st_manager \<lparr>gar_Id = pa_Id st_assignment\<rparr> st_assigned) = Ok st_assignment" (is ?B)
proof -
  have "?A \<and> ?B" by code_simp
  then show ?A ?B by blast+
qed

lemma st_group_run: "CreatePolicyGroup st_manager (st_group\<lparr>pg_Created := None\<rparr>) st_stored = (Ok st_group, st_grouped)"
  using st_group_runs(1) unfolding st_grouped_def by (metis prod.collapse)

lemma st_assign_run:
  "CreatePolicyAssignment st_manager (st_assignment\<lparr>pa_Id := ''''\<rparr>) st_grouped = (Ok st_assignment, st_assigned)"
  using st_group_runs(2) unfolding st_assigned_def by (metis prod.collapse)

lemma st_drop_run:
  "DeletePolicyAssignment st_manager \<lparr>dar_Id = pa_Id st_assignment\<rparr> st_assigned = (Ok (), st_dropped)"
  using st_assignment_runs(1) unfolding st_dropped_def by (metis prod.collapse)

lemma st_catalogue: "catalogue_store st_manager st_shard st_docs"
proof -
  note st_group_runs(3)
  then show ?thesis using st_full_store st_answered st_plain by (simp add: catalogue_store_def)
qed

lemma st_world_catalogue: "catalogue_ok st_manager st_shard (st_docs (ext st_world))"
  using st_world_empty
  by (simp add: catalogue_ok_def only_policies_def groups_ok_def assignments_ok_def st_docs_def st_world_def)

lemma st_steps: "(catalogue_step st_manager)\<^sup>*\<^sup>* st_world st_grouped"
  "(catalogue_step st_manager)\<^sup>*\<^sup>* st_grouped st_assigned"
proof -
  obtain q where create: "CreatePolicy st_manager st_new_policy st_world = (Ok q, st_stored)"
    by (rule st_create_run)
  from step_create_policy [OF create] step_create_group [OF st_group_run]
  show "(catalogue_step st_manager)\<^sup>*\<^sup>* st_world st_grouped" by (rule converse_rtranclp_into_rtranclp [OF _ r_into_rtranclp])
  from step_create_assignment [OF st_assign_run] show "(catalogue_step st_manager)\<^sup>*\<^sup>* st_grouped st_assigned"
    by (rule r_into_rtranclp)
qed

lemma st_catalogues:
  "catalogue_ok st_manager st_shard (st_docs (ext st_stored))"
  "catalogue_ok st_manager st_shard (st_docs (ext st_grouped))"
  "catalogue_ok st_manager st_shard (st_docs (ext st_assigned))"
proof -
  obtain q where create: "CreatePolicy st_manager st_new_policy st_world = (Ok q, st_stored)"
    by (rule st_create_run)
  from catalogue_step_kept [OF step_create_policy [OF create] st_catalogue st_world_catalogue]
  show "catalogue_ok st_manager st_shard (st_docs (ext st_stored))" by blast
  from catalogue_life_kept [OF st_steps(1) st_catalogue st_world_catalogue]
  show ok: "catalogue_ok st_manager st_shard (st_docs (ext st_grouped))" by blast
  from catalogue_life_kept [OF st_steps(2) st_catalogue ok]
  show "catalogue_ok st_manager st_shard (st_docs (ext st_assigned))" by blast
qed

theorem groups_stay_witness:
  "\<exists>g. fst (GetPolicyGroup st_manager \<lparr>ggr_Name = ''g''\<rparr> st_grouped) = Ok st_group \<and>
     fst (GetPolicyGroup st_manager \<lparr>ggr_Name = ''g''\<rparr> st_assigned) = Ok g \<and>
     pg_Created g = Some (Timestamp 3 0)"
proof -
  note get = st_group_runs(4)
  have "pg_Created st_group = Some (Timestamp 3 0)" by (simp add: st_group_def)
  with groups_stay [OF st_steps(2) st_catalogue st_catalogues(2) get] get show ?thesis by auto
qed


theorem UpdatePolicyAssignment_refines_witness:
  "\<exists>b. fst (UpdatePolicyAssignment st_manager st_assignment st_assigned) = Ok b \<and>
     fst (GetPolicyAssignment st_manager \<lparr>gar_Id = pa_Id st_assignment\<rparr> st_reassigned) = Ok b"
proof -
  from run_Ok [of "UpdatePolicyAssignment st_manager st_assignment", OF st_reassign_run] obtain b where
    run: "UpdatePolicyAssignment st_manager st_assignment st_assigned = (Ok b, st_reassigned)"
    unfolding st_reassigned_def by blast
  from UpdatePolicyAssignment_refines [OF run st_catalogue st_catalogues(3)] run show ?thesis by auto
qed

theorem DeletePolicyAssignment_refines_witness:
  "fst (GetPolicyAssignment st_manager \<lparr>gar_Id = pa_Id st_assignment\<rparr> st_dropped) =
     Err (createErrorWithCode ''assignment not found'' None NotFound)"
  using DeletePolicyAssignment_refines [OF st_drop_run st_catalogue st_catalogues(3)] by simp

theorem CreatePolicyGroup_refines_witness:
  "fst (CreatePolicyGroup st_manager (st_group\<lparr>pg_Created := None\<rparr>) st_grouped) =
     Err (createErrorWithCode ''policy group already exists'' None AlreadyExists) \<and>
   fst (GetPolicyGroup st_manager \<lparr>ggr_Name = ''g''\<rparr> st_grouped) = Ok st_group"
proof -
  have name: "pg_Name (st_group\<lparr>pg_Created := None\<rparr>) = ''g''" "pg_Name st_group = ''g''"
    by (simp_all add: st_group_def)
  note empty = st_group_runs(5)
  from CreatePolicyGroup_refines [OF st_group_run st_catalogue st_catalogues(1)] empty name
  have at: "groups_at st_manager st_shard (st_docs (ext st_grouped)) ''g'' = Some st_group"
    and read: "fst (GetPolicyGroup st_manager \<lparr>ggr_Name = ''g''\<rparr> st_grouped) = Ok st_group" by simp_all
  obtain r s' where again: "CreatePolicyGroup st_manager (st_group\<lparr>pg_Created := None\<rparr>) st_grouped = (r, s')"
    by (cases "CreatePolicyGroup st_manager (st_group\<lparr>pg_Created := None\<rparr>) st_grouped")
  from CreatePolicyGroup_refines [OF again st_catalogue st_catalogues(2)] at name again read show ?thesis by simp
qed

section \<open>A group deleted between the halves of other calls\<close>

text \<open>An assignment to the group is validated, the group is deleted, the assignment is written.\<close>

definition ov_call_assign :: call where
  "ov_call_assign = CallCreateAssignment (st_assignment\<lparr>pa_Id := ''''\<rparr>)"

definition ov_validated :: "st_state world" where
  "ov_validated = snd (first_half st_manager ov_call_assign st_grouped)"

definition ov_group_gone :: "st_state world" where
  "ov_group_gone = snd (DeletePolicyGroup st_manager \<lparr>dgr_Name = ''g''\<rparr> ov_validated)"

definition ov_assignment :: under_way where
  "ov_assignment = CreatingAssignment (st_assignment\<lparr>pa_Id := ''''\<rparr>)"

definition ov_written :: "st_state world" where
  "ov_written = snd (second_half st_manager ov_assignment ov_group_gone)"

text \<open>An update of the group begins, the group is deleted, the update finishes.\<close>

definition ov_group_read :: "st_state world" where
  "ov_group_read = snd (first_half st_manager (CallUpdateGroup st_group) st_grouped)"

definition ov_group_deleted :: "st_state world" where
  "ov_group_deleted = snd (DeletePolicyGroup st_manager \<lparr>dgr_Name = ''g''\<rparr> ov_group_read)"

definition ov_group_back :: "st_state world" where
  "ov_group_back = snd (writeGroup st_manager st_group st_group ov_group_deleted)"

definition answers_assignment :: "call_answer outcome \<Rightarrow> bool" where
  "answers_assignment r = (case r of Ok (AnswerAssignment b) \<Rightarrow> pa_Id b = pa_Id st_assignment \<and>
     pa_PolicyGroup b = ''g'' \<and> pa_PolicyVersionId b = pa_PolicyVersionId st_assignment | _ \<Rightarrow> False)"

definition answers_deleted :: "policy_group outcome \<Rightarrow> bool" where
  "answers_deleted r = (case r of Ok g \<Rightarrow> pg_Deleted g | _ \<Rightarrow> False)"

lemma ov_assign_runs:
  "fst (first_half st_manager ov_call_assign st_grouped) = Ok ov_assignment" (is ?A)
  "fst (DeletePolicyGroup st_manager \<lparr>dgr_Name = ''g''\<rparr> ov_validated) = Ok ()" (is ?B)
  "answers_assignment (fst (second_half st_manager ov_assignment ov_group_gone))" (is ?C)
  "answers_deleted (fst (GetPolicyGroup st_manager \<lparr>ggr_Name = ''g''\<rparr> ov_group_gone))" (is ?D)
proof -
  have "?A \<and> ?B \<and> ?C \<and> ?D" by code_simp
  then show ?A ?B ?C ?D by blast+
qed

lemma ov_group_update_runs:
  "fst (first_half st_manager (CallUpdateGroup st_group) st_grouped) = Ok (UpdatingGroup st_group st_group)" (is ?A)
  "fst (DeletePolicyGroup st_manager \<lparr>dgr_Name = ''g''\<rparr> ov_group_read) = Ok ()" (is ?B)
  "is_Ok (fst (writeGroup st_manager st_group st_group ov_group_deleted))" (is ?C)
  "answers_deleted (fst (GetPolicyGroup st_manager \<lparr>ggr_Name = ''g''\<rparr> ov_group_deleted))" (is ?D)
proof -
  have "?A \<and> ?B \<and> ?C \<and> ?D" by code_simp
  then show ?A ?B ?C ?D by blast+
qed

lemma ov_grouped: "overlapping st_manager st_world [] st_grouped"
  by (rule ov_steps [OF st_steps(1) ov_none])

lemma ov_between: "overlapping st_manager st_world [ov_assignment] ov_group_gone"
proof -
  have "first_half st_manager ov_call_assign st_grouped = (Ok ov_assignment, ov_validated)"
    using ov_assign_runs(1) unfolding ov_validated_def by (metis prod.collapse)
  from ov_begin [OF ov_grouped _ this] have "overlapping st_manager st_world [ov_assignment] ov_validated"
    by (simp add: ov_call_assign_def)
  moreover have "DeletePolicyGroup st_manager \<lparr>dgr_Name = ''g''\<rparr> ov_validated = (Ok (), ov_group_gone)"
    using ov_assign_runs(2) unfolding ov_group_gone_def by (metis prod.collapse)
  ultimately show ?thesis by (rule ov_step [OF _ step_delete_group])
qed

lemma ov_write:
  obtains b where "second_half st_manager ov_assignment ov_group_gone = (Ok (AnswerAssignment b), ov_written)"
    "pa_Id b = pa_Id st_assignment" "pa_PolicyGroup b = ''g''"
  using ov_assign_runs(3) unfolding ov_written_def answers_assignment_def
  by (cases "second_half st_manager ov_assignment ov_group_gone")
    (auto split: outcome.splits call_answer.splits)

theorem assignments_refer_under_overlap_witness:
  "\<exists>a q g. fst (GetPolicyAssignment st_manager \<lparr>gar_Id = pa_Id st_assignment\<rparr> st_assigned) = Ok a \<and>
     fst (GetPolicy st_manager \<lparr>gpr_Id = pa_PolicyVersionId a\<rparr> st_assigned) = Ok q \<and>
     fst (GetPolicyGroup st_manager \<lparr>ggr_Name = pa_PolicyGroup a\<rparr> st_assigned) = Ok g"
proof -
  note get = st_assignment_runs(2)
  from assignments_refer_under_overlap [OF ov_steps [OF st_steps(2) ov_grouped] st_catalogue st_world_catalogue get] get
  show ?thesis by auto
qed

theorem assignments_written_unseen_witness:
  "\<exists>b g. fst (GetPolicyAssignment st_manager \<lparr>gar_Id = pa_Id st_assignment\<rparr> ov_written) = Ok b \<and>
     fst (GetPolicyGroup st_manager \<lparr>ggr_Name = pa_PolicyGroup b\<rparr> ov_written) = Ok g \<and> pg_Deleted g"
proof -
  obtain b where run: "second_half st_manager ov_assignment ov_group_gone = (Ok (AnswerAssignment b), ov_written)"
    "pa_Id b = pa_Id st_assignment" "pa_PolicyGroup b = ''g''" by (rule ov_write)
  from assignments_written_unseen [OF ov_between _ run(1) st_catalogue st_world_catalogue] run(2,3) ov_assign_runs(4)
  show ?thesis by (auto simp: answers_deleted_def split: outcome.splits)
qed

theorem group_update_undoes_deletion_witness:
  "answers_deleted (fst (GetPolicyGroup st_manager \<lparr>ggr_Name = ''g''\<rparr> ov_group_deleted)) \<and>
   (\<exists>g. fst (GetPolicyGroup st_manager \<lparr>ggr_Name = ''g''\<rparr> ov_group_back) = Ok g \<and> \<not> pg_Deleted g)"
proof -
  have "first_half st_manager (CallUpdateGroup st_group) st_grouped = (Ok (UpdatingGroup st_group st_group), ov_group_read)"
    using ov_group_update_runs(1) unfolding ov_group_read_def by (metis prod.collapse)
  from ov_begin [OF ov_grouped _ this]
  have "overlapping st_manager st_world [UpdatingGroup st_group st_group] ov_group_read" by simp
  moreover have "DeletePolicyGroup st_manager \<lparr>dgr_Name = ''g''\<rparr> ov_group_read = (Ok (), ov_group_deleted)"
    using ov_group_update_runs(2) unfolding ov_group_deleted_def by (metis prod.collapse)
  ultimately have life: "overlapping st_manager st_world [UpdatingGroup st_group st_group] ov_group_deleted"
    by (rule ov_step [OF _ step_delete_group])
  obtain g where "writeGroup st_manager st_group st_group ov_group_deleted = (Ok g, ov_group_back)"
    using run_Ok [of "writeGroup st_manager st_group st_group", OF ov_group_update_runs(3)]
    unfolding ov_group_back_def by blast
  moreover have "pg_Name st_group = ''g''" by (simp add: st_group_def)
  ultimately show ?thesis
    using group_update_undoes_deletion [OF life _ _ st_catalogue st_world_catalogue, of st_group st_group g ov_group_back]
      ov_group_update_runs(4) by auto
qed

end
