(* ===== verification/Version_Store.thy ===== *)
theory Version_Store
  imports Resource_Store
begin

text \<open>
  What recording a batch of occurrences does to the stored resource versions,
  \<open>BatchCreateResourceVersions\<close> of \<open>pkg/resource/manager.go\<close>, as a function of the batch and
  of the documents that were there: what the occurrences say of each version they mention is
  folded together without the two loops over maps, and the documents after the call are given
  for every key.
\<close>

section \<open>What a batch says of a version\<close>

definition built_artifacts :: "occurrence \<Rightarrow> artifact list" where
  "built_artifacts occ = (if o_Kind occ = BUILD then
     (case o_Details occ of
        Some (Occurrence_Build (Some details)) \<Rightarrow>
          (case bd_Provenance details of Some p \<Rightarrow> bp_BuiltArtifacts p | None \<Rightarrow> [])
      | _ \<Rightarrow> [])
     else [])"

text \<open>
  What one occurrence says of a version: the names and the time of the last artifact with its
  id, or nothing but that it exists when the id is the resource URI.
\<close>

definition mention :: "occurrence \<Rightarrow> string \<Rightarrow> (string list \<times> timestamp option) option" where
  "mention occ i = (case filter (\<lambda>a. art_Id a = i) (built_artifacts occ) of
     [] \<Rightarrow> (if map_option gr_Uri (o_Resource occ) = Some i then Some ([], None) else None)
   | a # arts \<Rightarrow> Some (art_Names (last (a # arts)), o_CreateTime occ))"

definition mentions :: "occurrence list \<Rightarrow> string \<Rightarrow> (string list \<times> timestamp option) list" where
  "mentions occs i = List.map_filter (\<lambda>occ. mention occ i) occs"

definition last_or :: "'a \<Rightarrow> 'a list \<Rightarrow> 'a" where
  "last_or x xs = (if xs = [] then x else last xs)"

text \<open>What the batch says: the last names and the last time that are given.\<close>

definition mentioned_version :: "occurrence list \<Rightarrow> string \<Rightarrow> resource_version" where
  "mentioned_version occs i = \<lparr>rv_Version = i,
     rv_Names = last_or [] (filter (\<lambda>ns. ns \<noteq> []) (map fst (mentions occs i))),
     rv_Created = last_or None (filter (\<lambda>t. t \<noteq> None) (map snd (mentions occs i)))\<rparr>"

definition mentioned_ids :: "occurrence list \<Rightarrow> string set" where
  "mentioned_ids occs = (\<Union>occ\<in>set occs. occurrence_version_ids occ)"

section \<open>The loops that collect it\<close>

definition said :: "string \<Rightarrow> string list \<times> timestamp option \<Rightarrow> resource_version" where
  "said i = (\<lambda>(ns, t). \<lparr>rv_Version = i, rv_Names = ns, rv_Created = t\<rparr>)"

definition fold_mention :: "string \<Rightarrow> string list \<times> timestamp option \<Rightarrow> resource_version option \<Rightarrow> resource_version option" where
  "fold_mention i x known = Some (case known of None \<Rightarrow> said i x | Some v \<Rightarrow> merge_version v (said i x))"

lemma map_of_put_artifacts:
  "map_of (put_artifacts t arts vs) i = (case filter (\<lambda>a. art_Id a = i) arts of
     [] \<Rightarrow> map_of vs i | a # as' \<Rightarrow> Some (said i (art_Names (last (a # as')), t)))"
  by (induction arts arbitrary: vs) (auto simp: said_def split: list.splits)

lemma occurrence_says:
  assumes "resourceVersionsFromOccurrence occ s = (Ok new, s')"
  shows "map_of new i = map_option (said i) (mention occ i)"
proof -
  from assms obtain res where res: "o_Resource occ = Some res"
    and new: "new = put_artifacts (o_CreateTime occ) (built_artifacts occ)
          [(gr_Uri res, \<lparr>rv_Version = gr_Uri res, rv_Names = [], rv_Created = None\<rparr>)]"
    unfolding resourceVersionsFromOccurrence_def built_artifacts_def
    by (auto simp: attempt_Ok Let_def build_artifacts_Ok split: if_splits)
  show ?thesis unfolding new map_of_put_artifacts mention_def
    by (auto simp: res said_def split: list.splits)
qed

lemma map_of_merge_versions:
  "distinct order \<Longrightarrow> map_of (merge_versions new order known) i =
     (if i \<in> set order
      then (case map_of new i of None \<Rightarrow> map_of known i
        | Some v \<Rightarrow> Some (case map_of known i of None \<Rightarrow> v | Some e \<Rightarrow> merge_version e v))
      else map_of known i)"
proof (induction order arbitrary: known)
  case (Cons k order)
  then show ?case
    by (auto simp: map_add_def split: option.splits)
qed simp

lemma collect_versions_said:
  assumes "collect_versions m occs known s = (Ok vs, s')" "resource_store m shard docs"
  shows "map_of vs i = fold (fold_mention i) (mentions occs i) (map_of known i) \<and> docs (ext s') = docs (ext s)"
  using assms(1)
proof (induction occs arbitrary: known s)
  case Nil
  then show ?case by (simp add: mentions_def List.map_filter_simps)
next
  case (Cons occ occs)
  from Cons.prems obtain new s1 order x where run:
    "resourceVersionsFromOccurrence occ s = (Ok new, s1)"
    "rt_KeyOrder (runtime m) (map fst new) (ext s1) = (order, x)"
    "collect_versions m occs (merge_versions new order known) (s1\<lparr>ext := x\<rparr>) = (Ok vs, s')"
    by (auto simp: attempt_Ok draw_Ok)
  from resourceVersionsFromOccurrence_Ok [OF run(1)] have new: "s1 = s" "distinct (map fst new)"
    by (auto simp: versions_ok_def)
  from new(2) resource_storeD(4) [OF assms(2)] run(2) have order: "distinct order" "set order = fst ` set new"
    unfolding range_orders_ok_def by (metis fst_conv image_set)+
  have same: "docs x = docs (ext s)" using resource_storeD(3) [OF assms(2), of "map fst new" "ext s1"] run(2) new(1) by simp
  have "i \<in> set order \<longleftrightarrow> map_of new i \<noteq> None" by (simp add: order(2) map_of_eq_None_iff del: not_None_eq)
  then have "map_of (merge_versions new order known) i =
      (case mention occ i of None \<Rightarrow> map_of known i | Some y \<Rightarrow> fold_mention i y (map_of known i))"
    unfolding map_of_merge_versions [OF order(1)] occurrence_says [OF run(1)]
    by (auto simp: fold_mention_def split: option.splits)
  with Cons.IH [OF run(3)] same show ?case
    by (auto simp: mentions_def List.map_filter_simps split: option.splits)
qed

lemma last_or_Cons: "last_or x (y # ys) = last_or y ys"
  by (simp add: last_or_def)

lemma fold_mention_known:
  "fold (fold_mention i) xs (Some v) = Some (v\<lparr>
     rv_Created := last_or (rv_Created v) (filter (\<lambda>t. t \<noteq> None) (map snd xs)),
     rv_Names := last_or (rv_Names v) (filter (\<lambda>ns. ns \<noteq> []) (map fst xs))\<rparr>)"
proof (induction xs arbitrary: v)
  case Nil
  then show ?case by (simp add: last_or_def)
next
  case (Cons x xs)
  obtain ns t where x: "x = (ns, t)" by (cases x)
  show ?case using Cons.IH [of "merge_version v (said i x)"]
    by (simp add: x fold_mention_def merge_version_def said_def last_or_Cons)
qed

lemma fold_mention_new:
  "fold (fold_mention i) xs None = (if xs = [] then None else Some \<lparr>rv_Version = i,
     rv_Names = last_or [] (filter (\<lambda>ns. ns \<noteq> []) (map fst xs)),
     rv_Created = last_or None (filter (\<lambda>t. t \<noteq> None) (map snd xs))\<rparr>)"
proof (cases xs)
  case (Cons x xs')
  obtain ns t where x: "x = (ns, t)" by (cases x)
  show ?thesis by (simp add: Cons x fold_mention_def [of i "(ns, t)" None] said_def fold_mention_known last_or_Cons)
qed simp

lemma collect_versions_mentioned:
  assumes "collect_versions m occs [] s = (Ok vs, s')" "resource_store m shard docs"
  shows "versions_ok vs" "fst ` set vs = mentioned_ids occs" "trace s' = trace s" "docs (ext s') = docs (ext s)"
    "(i, v) \<in> set vs \<Longrightarrow> v = mentioned_version occs i"
proof -
  have "versions_ok []" by (simp add: versions_ok_def)
  from collect_versions_Ok [OF assms(1) this resource_storeD(4) [OF assms(2)]]
  show vs: "versions_ok vs" "fst ` set vs = mentioned_ids occs" "trace s' = trace s"
    by (simp_all add: mentioned_ids_def)
  note coll = collect_versions_said [OF assms, of i]
  from coll show "docs (ext s') = docs (ext s)" by blast
  assume "(i, v) \<in> set vs"
  with vs(1) have "map_of vs i = Some v" by (simp add: versions_ok_def)
  with coll show "v = mentioned_version occs i"
    by (simp add: fold_mention_new mentioned_version_def split: if_splits)
qed

section \<open>The shard of a version\<close>

lemma find_submatch_groups:
  assumes "find_submatch rx s = Some caps"
  shows "map fst caps = List.map_filter (\<lambda>item. case item of Group n \<Rightarrow> Some n | _ \<Rightarrow> None) (rx_Items rx)"
    "x \<in> set caps \<Longrightarrow> snd x \<noteq> []"
proof -
  from assms obtain r where "match_items (rx_Items rx) r = Some caps"
    by (auto simp: find_submatch_def simp del: upt_Suc split: if_splits dest!: first_some_Some_mem)
  from match_groups [OF this] show "map fst caps = List.map_filter (\<lambda>item. case item of Group n \<Rightarrow> Some n | _ \<Rightarrow> None) (rx_Items rx)"
    "x \<in> set caps \<Longrightarrow> snd x \<noteq> []" by auto
qed

text \<open>The id of the resource a URI names is never empty, so the join parent is the routing.\<close>

lemma parsed_parent:
  assumes "parseResourceUri order uri = Inr c"
  shows "uc_prefixedName c \<noteq> []"
proof -
  from assms obtain t h caps where h: "map_of uriHandlers t = Some h"
    and caps: "find_submatch (uh_pattern h) uri = Some caps"
    and c: "uc_prefixedName c = uh_prefix h @ submatch caps ''name''"
    by (auto simp: parseResourceUri_def split: option.splits)
  from h have "''name'' \<in> set (List.map_filter (\<lambda>item. case item of Group n \<Rightarrow> Some n | _ \<Rightarrow> None) (rx_Items (uh_pattern h)))"
    by (cases t) (auto simp: uriHandlers_def List.map_filter_simps)
  with find_submatch_groups(1) [OF caps] have "''name'' \<in> fst ` set caps" by (metis image_set)
  then obtain x where x: "map_of caps ''name'' = Some x" by (metis map_of_eq_None_iff not_Some_eq)
  with find_submatch_groups(2) [OF caps, of "(''name'', x)"] have "x \<noteq> []" by (auto dest: map_of_SomeD)
  with c x show ?thesis by (simp add: submatch_def)
qed

text \<open>The ids parse to the same components, whatever the order of the walk.\<close>

definition steady_ids :: "'w manager \<Rightarrow> (string \<Rightarrow> uri_components) \<Rightarrow> string set \<Rightarrow> bool" where
  "steady_ids m parsed ids \<longleftrightarrow> (\<forall>i\<in>ids. \<forall>w.
     parseResourceUri (fst (rt_HandlerOrder (runtime m) w)) i = Inr (parsed i))"

section \<open>What is written\<close>

definition version_item :: "uri_components \<Rightarrow> resource_version \<Rightarrow> bulk_item" where
  "version_item c v = \<lparr>bi_Operation = BULK_INDEX, bi_Message = MsgResourceVersion v,
     bi_DocumentId = rv_Version v,
     bi_Join = Some \<lparr>join_Field = ''join'', join_Name = ''version'', join_Parent = uc_prefixedName c\<rparr>,
     bi_Routing = []\<rparr>"

text \<open>The version as it goes out: stamped when it was not found and has no time.\<close>

definition outgoing :: "bool \<Rightarrow> resource_version \<Rightarrow> resource_version \<Rightarrow> bool" where
  "outgoing found v w \<longleftrightarrow> (if found \<or> rv_Created v \<noteq> None then w = v
     else \<exists>t. w = v\<lparr>rv_Created := Some t\<rparr>)"

lemma version_item_key:
  assumes "uc_prefixedName c \<noteq> []"
  shows "item_key shard (resourcesAlias m) (version_item c v) = stored_version_key m shard c (rv_Version v)"
  using assms by (simp add: item_key_def version_item_def stored_version_key_def)

lemma stamp_created_outgoing:
  assumes "stamp_created m v s = (Ok w, s')" "resource_store m shard docs"
  shows "outgoing False v w \<and> docs (ext s') = docs (ext s) \<and> trace s' = trace s"
proof (cases "rv_Created v")
  case None
  with assms(1) obtain t x where t: "rt_Now (runtime m) (ext s) = (t, x)" "w = v\<lparr>rv_Created := Some t\<rparr>"
    "s' = s\<lparr>ext := x\<rparr>"
    unfolding stamp_created_def by (auto simp: attempt_Ok draw_Ok)
  from store_now [OF full_store_documents [OF resource_storeD(1) [OF assms(2)]] t(1)] t None show ?thesis
    by (auto simp: outgoing_def)
next
  case (Some t)
  with assms(1) show ?thesis by (simp add: stamp_created_def outgoing_def)
qed

text \<open>The versions an item is made for: not found, or with names.\<close>

definition due :: "(string \<Rightarrow> bool) \<Rightarrow> (string \<times> resource_version) list \<Rightarrow> (string \<times> resource_version) list" where
  "due found vs = filter (\<lambda>(k, v). \<not> found k \<or> rv_Names v \<noteq> []) vs"

lemma version_items_due:
  assumes "version_items m answers j vs s = (Ok items, s')" "resource_store m shard docs"
    "\<forall>(k, v)\<in>set vs. rv_Version v = k" "steady_ids m parsed (fst ` set vs)"
    "list_all2 (\<lambda>k doc. grs_Found doc \<longleftrightarrow> found k) (map fst vs) (drop j answers)"
  shows "docs (ext s') = docs (ext s) \<and> trace s' = trace s \<and>
    list_all2 (\<lambda>(k, v) item. \<exists>w. outgoing (found k) v w \<and> item = version_item (parsed k) w) (due found vs) items"
  using assms
proof (induction m answers j vs arbitrary: s items rule: version_items.induct)
  case (1 m answers j)
  then show ?case by (simp add: due_def)
next
  case (2 m answers j k v vs)
  from "2.prems"(1) obtain c s1 where c: "parse_uri m k s = (Ok c, s1)" and j: "j < length answers"
    by (auto simp: attempt_Ok Let_def)
  have "c = parsed k \<and> docs (ext s1) = docs (ext s)"
    by (rule parse_uri_steady [OF c "2.prems"(2)]) (use "2.prems"(4) in \<open>simp add: steady_ids_def\<close>)
  then have ck: "c = parsed k" and same1: "docs (ext s1) = docs (ext s)" by simp_all
  from parse_uri_Ok [OF c] have trace1: "trace s1 = trace s" by blast
  from j have d: "drop j answers = answers ! j # drop (Suc j) answers" by (rule Cons_nth_drop_Suc [symmetric])
  from "2.prems"(5) have fk: "grs_Found (answers ! j) \<longleftrightarrow> found k"
    and rest: "list_all2 (\<lambda>k doc. grs_Found doc \<longleftrightarrow> found k) (map fst vs) (drop (Suc j) answers)"
    unfolding d by auto
  have item: "\<And>w. rv_Version w = k \<Longrightarrow> \<lparr>bi_Operation = BULK_INDEX, bi_Message = MsgResourceVersion w, bi_DocumentId = k,
      bi_Join = Some \<lparr>join_Field = resourceDocumentJoinField, join_Name = resourceVersionRelationName,
                      join_Parent = uc_prefixedName c\<rparr>, bi_Routing = ''''\<rparr> = version_item (parsed k) w"
    by (simp add: version_item_def ck resourceDocumentJoinField_def resourceVersionRelationName_def)
  have vk: "rv_Version v = k" and others: "\<forall>(k, v)\<in>set vs. rv_Version v = k"
    and steady: "steady_ids m parsed (fst ` set vs)"
    using "2.prems"(3,4) by (auto simp: steady_ids_def)
  show ?case
  proof (cases "grs_Found (answers ! j)")
    case True
    with "2.prems"(1) c j obtain items' where run: "version_items m answers (Suc j) vs s1 = (Ok items', s')"
      "items = (if rv_Names v \<noteq> [] then version_item (parsed k) v # items' else items')"
      by (auto simp: attempt_Ok Let_def item vk split: if_splits)
    from "2.IH"(1) [OF refl True run(1) "2.prems"(2) others steady rest] run(2) True fk same1 trace1 show ?thesis
      by (auto simp: due_def outgoing_def)
  next
    case False
    with "2.prems"(1) c j obtain w s2 items' where st: "stamp_created m v s1 = (Ok w, s2)" and run:
      "version_items m answers (Suc j) vs s2 = (Ok items', s')"
      and head: "items = \<lparr>bi_Operation = BULK_INDEX, bi_Message = MsgResourceVersion w, bi_DocumentId = k,
      bi_Join = Some \<lparr>join_Field = resourceDocumentJoinField, join_Name = resourceVersionRelationName,
                      join_Parent = uc_prefixedName c\<rparr>, bi_Routing = ''''\<rparr> # items'"
      by (auto simp: attempt_Ok Let_def)
    from stamp_created_outgoing [OF st "2.prems"(2)] have w: "outgoing False v w" "docs (ext s2) = docs (ext s1)"
      "trace s2 = trace s1" by simp_all
    from stamp_created_Ok [OF st] vk have "rv_Version w = k" by simp
    with head have "items = version_item (parsed k) w # items'" by (simp add: item)
    with "2.IH"(2) [OF refl False run "2.prems"(2) others steady rest] w False fk same1 trace1 show ?thesis
      by (auto simp: due_def)
  qed
qed

text \<open>Items under keys that differ: each document is the message of its item.\<close>

lemma apply_items_once:
  assumes "apply_items shard ix items d = Some d'" "distinct (map (item_key shard ix) items)" "item \<in> set items"
  shows "d' (item_key shard ix item) = put_doc (item_key shard ix item) (bi_Message item) d (item_key shard ix item)"
  using assms
proof (induction items arbitrary: d)
  case (Cons i items)
  then have run: "apply_items shard ix items (put_doc (item_key shard ix i) (bi_Message i) d) = Some d'"
    by (auto simp: Let_def item_key_def split: if_splits)
  show ?case
  proof (cases "item = i")
    case True
    with apply_items_elsewhere [OF run, of "item_key shard ix i"] Cons.prems(2) show ?thesis by auto
  next
    case False
    with Cons.prems(3) have item: "item \<in> set items" by simp
    then have "item_key shard ix item \<in> item_key shard ix ` set items" by simp
    with Cons.prems(2) have "item_key shard ix item \<noteq> item_key shard ix i" by auto
    with Cons.IH [OF run _ item] Cons.prems(2) show ?thesis by (simp add: put_doc_def)
  qed
qed simp

lemma list_all2_partner: "list_all2 P xs ys \<Longrightarrow> x \<in> set xs \<Longrightarrow> \<exists>y\<in>set ys. P x y"
  by (induction rule: list_all2_induct) auto

lemma outgoing_version: "outgoing found v w \<Longrightarrow> rv_Version w = rv_Version v"
  by (auto simp: outgoing_def split: if_splits)

lemma due_keys:
  assumes "list_all2 (\<lambda>(k, v) item. \<exists>w. outgoing (found k) v w \<and> item = version_item (parsed k) w) vs items"
    "\<forall>(k, v)\<in>set vs. rv_Version v = k \<and> uc_prefixedName (parsed k) \<noteq> []"
  shows "map (item_key shard (resourcesAlias m)) items = map (\<lambda>k. stored_version_key m shard (parsed k) k) (map fst vs)"
  using assms
  by (induction rule: list_all2_induct) (auto simp: version_item_key dest!: outgoing_version)

lemma answered_found:
  "list_all2 (\<lambda>k doc. get_answers cd (d k) doc) (map f ks) answers \<Longrightarrow>
     list_all2 (\<lambda>k doc. grs_Found doc \<longleftrightarrow> d (f k) \<noteq> None) ks answers"
  unfolding list_all2_map1
  by (erule list_all2_mono) (auto simp: get_answers_def split: option.splits)

text \<open>The documents after the items of a batch.\<close>

lemma version_items_documents:
  assumes "list_all2 (\<lambda>(k, v) item. \<exists>w. outgoing (found k) v w \<and> item = version_item (parsed k) w) (due found vs) items"
    "versions_ok vs" "\<forall>k\<in>fst ` set vs. uc_prefixedName (parsed k) \<noteq> []"
    "apply_items shard (resourcesAlias m) items d = Some d'"
    "place = (\<lambda>i. stored_version_key m shard (parsed i) i)"
  shows "(i, v) \<in> set vs \<Longrightarrow> if found i \<and> rv_Names v = [] then d' (place i) = d (place i)
      else \<exists>w. outgoing (found i) v w \<and> d' (place i) = put_doc (place i) (MsgResourceVersion w) d (place i)"
    "k \<notin> place ` fst ` set vs \<Longrightarrow> d' k = d k"
proof -
  have due: "set (due found vs) \<subseteq> set vs" by (auto simp: due_def)
  have fine: "\<forall>(k, v)\<in>set (due found vs). rv_Version v = k \<and> uc_prefixedName (parsed k) \<noteq> []"
    using assms(2,3) due by (force simp: versions_ok_def)
  have keys: "map (item_key shard (resourcesAlias m)) items = map place (map fst (due found vs))"
    using due_keys [OF assms(1) fine] unfolding assms(5) .
  then have key_set: "item_key shard (resourcesAlias m) ` set items = place ` fst ` set (due found vs)"
    by (metis image_set)
  have inj: "place a = place b \<longleftrightarrow> a = b" for a b by (auto simp: assms(5) stored_version_key_def)
  have "distinct (map fst (due found vs))"
    using assms(2) unfolding due_def versions_ok_def by (metis distinct_map_filter)
  then have dist: "distinct (map (item_key shard (resourcesAlias m)) items)"
    unfolding keys distinct_map by (auto simp: inj_on_def inj)
  show "d' k = d k" if "k \<notin> place ` fst ` set vs"
    by (rule apply_items_elsewhere [OF assms(4)]) (use that due key_set in blast)
  show "if found i \<and> rv_Names v = [] then d' (place i) = d (place i)
      else \<exists>w. outgoing (found i) v w \<and> d' (place i) = put_doc (place i) (MsgResourceVersion w) d (place i)"
    if iv: "(i, v) \<in> set vs"
  proof (cases "found i \<and> rv_Names v = []")
    case True
    have "v' = v" if "(i, v') \<in> set vs" for v'
      using iv that assms(2) unfolding versions_ok_def by (metis eq_key_imp_eq_value)
    with True due have "i \<notin> fst ` set (due found vs)" by (auto simp: due_def)
    then have "place i \<notin> item_key shard (resourcesAlias m) ` set items" unfolding key_set using inj by blast
    from apply_items_elsewhere [OF assms(4) this] True show ?thesis by simp
  next
    case False
    with iv have d: "(i, v) \<in> set (due found vs)" by (auto simp: due_def)
    from list_all2_partner [OF assms(1) d] obtain w where
      w: "version_item (parsed i) w \<in> set items" "outgoing (found i) v w" by auto
    have "item_key shard (resourcesAlias m) (version_item (parsed i) w) = place i"
      using fine d outgoing_version [OF w(2)] by (auto simp: version_item_key assms(5))
    with apply_items_once [OF assms(4) dist w(1)]
    have "d' (place i) = put_doc (place i) (MsgResourceVersion w) d (place i)" by (simp add: version_item_def)
    with w(2) show ?thesis unfolding if_not_P [OF False] by blast
  qed
qed

section \<open>What a batch does\<close>

text \<open>C25: what recording a batch of occurrences does to the stored versions. The versions looked up,
  in one request, are those the occurrences mention, each once: the URI of each resource and,
  for a build, its artifacts. Of a version the batch says the last names and the last time
  that any of its occurrences gives for it. A version the lookup finds and the batch has no
  names for is left as it is. Every other version is written, under its id and on the shard
  of its resource, with those names and that time, or with the time of the call when it was
  not found and no occurrence gives one. No other document is changed, all is written in one
  bulk request, and none is sent when there is nothing to write. The ids must parse alike in
  every order of the handlers; the lookup is not routed by the resource (see C22).\<close>

theorem BatchCreateResourceVersions_refines:
  assumes "BatchCreateResourceVersions m occs s = (Ok u, s')" "resource_store m shard docs"
    "steady_ids m parsed (mentioned_ids occs)"
    "found = (\<lambda>i. docs (ext s) (resource_key m shard i) \<noteq> None)"
    "place = (\<lambda>i. stored_version_key m shard (parsed i) i)"
  shows "(\<forall>i\<in>mentioned_ids occs.
      if found i \<and> rv_Names (mentioned_version occs i) = []
      then docs (ext s') (place i) = docs (ext s) (place i)
      else \<exists>w. outgoing (found i) (mentioned_version occs i) w \<and>
        docs (ext s') (place i) = put_doc (place i) (MsgResourceVersion w) (docs (ext s)) (place i)) \<and>
    (\<forall>k. k \<notin> place ` mentioned_ids occs \<longrightarrow> docs (ext s') k = docs (ext s) k) \<and>
    (\<exists>order items. distinct order \<and> set order = mentioned_ids occs \<and>
      (items = [] \<longleftrightarrow> (\<forall>i\<in>mentioned_ids occs. found i \<and> rv_Names (mentioned_version occs i) = [])) \<and>
      trace s' = trace s @ EsMultiGet \<lparr>mg_Index = resourcesAlias m, mg_DocumentIds = order, mg_Items = []\<rparr> #
        (if items = [] then [] else [EsBulk (resources_bulk m items)]))"
proof -
  note full = resource_storeD(1) [OF assms(2)]
  from assms(1) obtain vs s1 resp s2 items s3 where
    c: "collect_versions m occs [] s = (Ok vs, s1)"
    and g: "es_multi_get m \<lparr>mg_Index = resourcesAlias m, mg_DocumentIds = map fst vs, mg_Items = []\<rparr> s1
      = (Ok resp, s2)"
    and i: "version_items m (mgr_Docs resp) 0 vs s2 = (Ok items, s3)"
    and none: "items = [] \<longrightarrow> s' = s3"
    and some: "items \<noteq> [] \<longrightarrow> (\<exists>r s4. es_bulk m (resources_bulk m items) s3 = (Ok r, s4) \<and>
      index_errors ''error indexing resource'' (brs_Items r) s4 = (Ok [], s'))"
    unfolding BatchCreateResourceVersions_def by (auto simp: attempt_Ok split: if_splits)
  note vs = collect_versions_mentioned [OF c assms(2)]
  from g obtain y where mg: "esc_MultiGet (esClient m)
      \<lparr>mg_Index = resourcesAlias m, mg_DocumentIds = map fst vs, mg_Items = []\<rparr> (ext s1) = (Inr resp, y)"
    and s2: "ext s2 = y" "trace s2 = trace s1 @ [EsMultiGet
      \<lparr>mg_Index = resourcesAlias m, mg_DocumentIds = map fst vs, mg_Items = []\<rparr>]"
    by (auto simp: external_Ok)
  from store_multi_get [OF full mg] vs(4) s2
  have same2: "docs (ext s2) = docs (ext s)" and "list_all2 (\<lambda>k doc. get_answers (codec m) (docs (ext s) k) doc)
      (map (resource_key m shard) (map fst vs)) (mgr_Docs resp)"
    by (simp_all add: requested_keys_def resource_key_def comp_def)
  from answered_found [OF this(2)] have answers: "list_all2 (\<lambda>k doc. grs_Found doc \<longleftrightarrow> found k) (map fst vs) (drop 0 (mgr_Docs resp))"
    by (simp only: drop_0 assms(4))
  have named: "\<forall>(k, v)\<in>set vs. rv_Version v = k" using vs(1) by (simp add: versions_ok_def)
  have steady: "steady_ids m parsed (fst ` set vs)" using assms(3) vs(2) by simp
  from version_items_due [OF i assms(2) named steady answers]
  have s3: "docs (ext s3) = docs (ext s)" "trace s3 = trace s2"
    and out: "list_all2 (\<lambda>(k, v) item. \<exists>w. outgoing (found k) v w \<and> item = version_item (parsed k) w) (due found vs) items"
    using same2 by simp_all
  have applied: "apply_items shard (resourcesAlias m) items (docs (ext s)) = Some (docs (ext s')) \<and>
      trace s' = trace s3 @ (if items = [] then [] else [EsBulk (resources_bulk m items)])"
  proof (cases "items = []")
    case False
    with some obtain r s4 where bulk: "es_bulk m (resources_bulk m items) s3 = (Ok r, s4)"
      and errs: "index_errors ''error indexing resource'' (brs_Items r) s4 = (Ok [], s')" by auto
    from index_errors_Ok [OF errs] have s': "s' = s4"
      and fine: "\<forall>item\<in>set (brs_Items r). map_option bs_Error (bri_Index item) = Some None" by simp_all
    from bulk obtain y2 where run: "esc_Bulk (esClient m) (resources_bulk m items) (ext s3) = (Inr r, y2)"
      and s4: "ext s4 = y2" "trace s4 = trace s3 @ [EsBulk (resources_bulk m items)]" by (auto simp: external_Ok)
    have "\<forall>item\<in>set (br_Items (resources_bulk m items)). bi_Operation item = BULK_INDEX"
    proof
      fix item assume "item \<in> set (br_Items (resources_bulk m items))"
      then have "item \<in> set items" by (simp add: resources_bulk_def)
      with out show "bi_Operation item = BULK_INDEX"
        by (auto simp: list_all2_conv_all_nth in_set_conv_nth version_item_def split_beta)
    qed
    from store_index_bulk [OF assms(2) run this fine] s' s4 s3 False show ?thesis
      by (simp add: resources_bulk_def)
  qed (use none s3 in simp)
  have parents: "\<forall>k\<in>fst ` set vs. uc_prefixedName (parsed k) \<noteq> []"
    using steady parsed_parent unfolding steady_ids_def by blast
  note after = version_items_documents [OF out vs(1) parents conjunct1 [OF applied] assms(5)]
  have known: "(i, mentioned_version occs i) \<in> set vs" if "i \<in> mentioned_ids occs" for i
    using that vs(2,5) by force
  have "items = [] \<longleftrightarrow> due found vs = []" using list_all2_lengthD [OF out] by auto
  also have "\<dots> \<longleftrightarrow> (\<forall>i\<in>mentioned_ids occs. found i \<and> rv_Names (mentioned_version occs i) = [])"
    using vs(5) known unfolding due_def filter_empty_conv vs(2) [symmetric] by fastforce
  finally have empty: "items = [] \<longleftrightarrow> (\<forall>i\<in>mentioned_ids occs. found i \<and> rv_Names (mentioned_version occs i) = [])" .
  show ?thesis
  proof (intro conjI ballI allI impI exI [of _ "map fst vs"] exI [of _ items])
    show "distinct (map fst vs)" "set (map fst vs) = mentioned_ids occs"
      using vs(1,2) by (simp_all add: versions_ok_def)
    show "trace s' = trace s @ EsMultiGet \<lparr>mg_Index = resourcesAlias m, mg_DocumentIds = map fst vs, mg_Items = []\<rparr> #
        (if items = [] then [] else [EsBulk (resources_bulk m items)])"
      using applied s3 s2 vs(3) by simp
  qed (use after known empty vs(2) in blast)+
qed

end
