(* ===== verification/Example_Resources.thy ===== *)
theory Example_Resources
  imports Example_Store Version_Store
begin

text \<open>
  Concrete runs on the store of \<open>Example_Store\<close>, for the witnesses of \<open>Resource_Store\<close>: the
  occurrences of one scan, recorded twice, a scan of a version that is known, and a build with
  a scan of what it built.
\<close>

definition st_scan :: occurrence where
  "st_scan = ex_build\<lparr>o_Kind := VULNERABILITY\<rparr>"

definition st_parsed :: "string \<Rightarrow> uri_components" where
  "st_parsed uri = (case parseResourceUri (map fst uriHandlers) uri of Inr c \<Rightarrow> c | Inl _ \<Rightarrow> \<lparr>uc_name = uri, uc_version = [],
     uc_resourceType = RESOURCE_TYPE_UNSPECIFIED, uc_prefixedName = uri\<rparr>)"

lemma st_parse: "parseResourceUri (map fst uriHandlers) ex_uri =
    Inr \<lparr>uc_name = ''r'', uc_version = ''1'', uc_resourceType = GIT, uc_prefixedName = ''git://r''\<rparr>"
  by code_simp

lemma st_parsed_uri: "st_parsed ex_uri =
    \<lparr>uc_name = ''r'', uc_version = ''1'', uc_resourceType = GIT, uc_prefixedName = ''git://r''\<rparr>"
  by (simp add: st_parsed_def st_parse)

lemma st_steady: "steady_uris st_manager st_parsed [st_scan]"
  by (simp add: steady_uris_def st_scan_def ex_build_def st_manager_parts st_runtime_def st_parsed_uri st_parse)

lemma st_resource_store: "resource_store st_manager st_shard st_docs"
proof -
  have "index_bulk_contract st_manager st_shard st_docs"
    unfolding index_bulk_contract_def st_manager_parts
  proof (intro allI impI)
    fix q w r w'
    assume "st_bulk q w = (Inr r, w')"
    then have run: "esc_Bulk (esClient st_manager) q w = (Inr r, w')"
      and reply: "brs_Items r = map (\<lambda>_. \<lparr>bri_Create = None,
              bri_Index = Some \<lparr>bs_Status = 201, bs_Error = None\<rparr>\<rparr>) (br_Items q)"
      by (auto simp: st_manager_parts st_bulk_def split: if_splits option.splits)
    have "CheckBulkResponseErrors r = None"
      by (simp add: CheckBulkResponseErrors_None reply bulk_item_error_def)
    from store_bulk [OF st_store run this]
    show "apply_items st_shard (br_Index q) (br_Items q) (st_docs w) = Some (st_docs w')" .
  qed
  then show ?thesis using st_full_store
    by (simp add: resource_store_def st_manager_parts st_runtime_def st_docs_def range_orders_ok_def fun_eq_iff)
qed

section \<open>The same scan recorded twice\<close>

definition st_scanned :: "st_state world" where
  "st_scanned = snd (BatchCreateResources st_manager [st_scan] st_world)"

definition st_rescanned :: "st_state world" where
  "st_rescanned = snd (BatchCreateResources st_manager [st_scan] st_scanned)"

lemma st_scan_Ok: "is_Ok (fst (BatchCreateResources st_manager [st_scan] st_world))"
  "is_Ok (fst (BatchCreateResources st_manager [st_scan] st_scanned))"
  by code_simp+

theorem BatchCreateResources_idempotent_witness:
  "st_docs (ext st_scanned) (resource_key st_manager st_shard ''git://r'') \<noteq> None \<and>
   (\<exists>q. trace st_rescanned = trace st_scanned @ [EsMultiGet q])"
proof -
  from run_Ok [of "BatchCreateResources st_manager [st_scan]", OF st_scan_Ok(1)] obtain u where
    one: "BatchCreateResources st_manager [st_scan] st_world = (Ok u, st_scanned)"
    unfolding st_scanned_def by blast
  from run_Ok [of "BatchCreateResources st_manager [st_scan]", OF st_scan_Ok(2)] obtain v where
    two: "BatchCreateResources st_manager [st_scan] st_scanned = (Ok v, st_rescanned)"
    unfolding st_rescanned_def by blast
  have "resource_ids st_parsed [st_scan] = {''git://r''}"
    by (simp add: resource_ids_def st_scan_def ex_build_def st_parsed_uri)
  with BatchCreateResources_idempotent [OF one two refl st_resource_store st_steady] show ?thesis by simp
qed

section \<open>A scan of a version that is known\<close>

definition st_known :: "st_state world" where
  "st_known = \<lparr>ext = (1, \<lambda>k. if k = (resourcesAlias st_manager, 0, ex_uri) then Some (''named'', 1) else None),
     trace = []\<rparr>"

definition st_forgotten :: "st_state world" where
  "st_forgotten = snd (BatchCreateResourceVersions st_manager [st_scan] st_known)"

lemma st_known_Ok: "is_Ok (fst (BatchCreateResourceVersions st_manager [st_scan] st_known))"
  by code_simp


section \<open>A build and a scan in one batch\<close>

definition st_build :: occurrence where
  "st_build = ex_build\<lparr>o_Details := Some (Occurrence_Build (Some \<lparr>bd_Provenance = Some \<lparr>bp_Id = [],
     bp_BuiltArtifacts = [\<lparr>art_Checksum = [], art_Id = ex_uri, art_Names = [''n'']\<rparr>], bp_Rest = []\<rparr>,
     bd_ProvenanceBytes = []\<rparr>))\<rparr>"

definition st_built :: "st_state world" where
  "st_built = snd (BatchCreateResourceVersions st_manager [st_build, st_scan] st_world)"

lemma st_built_runs: "is_Ok (fst (BatchCreateResourceVersions st_manager [st_build, st_scan] st_world))"
  "mentioned_version [st_build, st_scan] ex_uri = st_named"
  by code_simp+

theorem BatchCreateResourceVersions_refines_witness:
  "map_option fst (st_docs (ext st_built) (stored_version_key st_manager st_shard (st_parsed ex_uri) ex_uri)) =
     Some (MsgResourceVersion st_named) \<and>
   (\<exists>items. items \<noteq> [] \<and> trace st_built = trace st_world @ [EsMultiGet \<lparr>mg_Index = resourcesAlias st_manager,
     mg_DocumentIds = [ex_uri], mg_Items = []\<rparr>, EsBulk (resources_bulk st_manager items)])"
proof -
  from run_Ok [of "BatchCreateResourceVersions st_manager [st_build, st_scan]", OF st_built_runs(1)] obtain u where
    run: "BatchCreateResourceVersions st_manager [st_build, st_scan] st_world = (Ok u, st_built)"
    unfolding st_built_def by blast
  have ids: "mentioned_ids [st_build, st_scan] = {ex_uri}"
    by (auto simp: mentioned_ids_def occurrence_version_ids_def st_build_def st_scan_def ex_build_def)
  have steady: "steady_ids st_manager st_parsed (mentioned_ids [st_build, st_scan])"
    by (simp add: steady_ids_def ids st_manager_parts st_runtime_def st_parsed_uri st_parse)
  have order: "order = [ex_uri]" if "distinct order" "set order = {ex_uri}" for order
    using that by (cases order; cases "tl order") auto
  have named: "rv_Names st_named = [''n'']" "rv_Created st_named \<noteq> None"
    by (simp_all add: st_named_def ex_time_def)
  note r = BatchCreateResourceVersions_refines [OF run st_resource_store steady refl refl]
  from conjunct1 [OF r] named have "map_option fst (st_docs (ext st_built)
      (stored_version_key st_manager st_shard (st_parsed ex_uri) ex_uri)) = Some (MsgResourceVersion st_named)"
    by (auto simp: ids st_built_runs(2) outgoing_def)
  moreover from conjunct2 [OF conjunct2 [OF r]] named have "\<exists>items. items \<noteq> [] \<and>
      trace st_built = trace st_world @ [EsMultiGet \<lparr>mg_Index = resourcesAlias st_manager,
        mg_DocumentIds = [ex_uri], mg_Items = []\<rparr>, EsBulk (resources_bulk st_manager items)]"
    by (auto simp: ids st_built_runs(2) dest!: order)
  ultimately show ?thesis by (rule conjI)
qed

end
