(* ===== verification/Counterfeiter.thy ===== *)
theory Counterfeiter
  imports Opa_Client Grafeas_Extensions
begin

text \<open>
  The test doubles. Each fake under \<open>*fakes\<close> and \<open>mocks\<close> gives every method of an interface
  the same six functions, written by the tool counterfeiter: the method itself, the number of
  its calls, a stub to run, the arguments of a call, and the results of all calls or of one.
  This theory holds these functions once, as \<open>counterfeit\<close>, and what a test can rely on; the
  fakes are its instances. A call holds the mutex of its method until the call is recorded,
  so the calls are one after the other; a stub runs after that and does not reach the fake.
\<close>

section \<open>What a fake keeps of a method\<close>

text \<open>Go's \<open>map[int]\<close> is a map from \<open>int\<close>, empty while it is nil; a stub may be nil.\<close>

record ('w, 'a, 'r) fake_method =
  fm_Stub :: "('a \<Rightarrow> ('w, 'r) io) option"
  fm_ArgsForCall :: "'a list"
  fm_Returns :: 'r
  fm_ReturnsOnCall :: "int \<rightharpoonup> 'r"

definition fresh_method :: "'r \<Rightarrow> ('w, 'a, 'r) fake_method" where
  "fresh_method zero = \<lparr>fm_Stub = None, fm_ArgsForCall = [], fm_Returns = zero, fm_ReturnsOnCall = Map.empty\<rparr>"

text \<open>The values a fake stores as \<open>interface{}\<close>: one constructor for each type an argument has.
  Contexts (\<open>'c\<close>), call options (\<open>'o\<close>) and the messages of Grafeas that the sources do not
  look into (\<open>'g\<close>) stay open.\<close>

datatype ('c, 'o, 'g) go_value =
    GoContext "'c"
  | GoPolicy "policy option"
  | GoDeletePolicyRequest "delete_policy_request option"
  | GoGetPolicyRequest "get_policy_request option"
  | GoString string
  | GoListPoliciesRequest "list_policies_request option"
  | GoListPolicyVersionsRequest "list_policy_versions_request option"
  | GoUpdatePolicyRequest "update_policy_request option"
  | GoValidatePolicyRequest "validate_policy_request option"
  | GoPolicyGroup "policy_group option"
  | GoDeletePolicyGroupRequest "delete_policy_group_request option"
  | GoGetPolicyGroupRequest "get_policy_group_request option"
  | GoListPolicyGroupsRequest "list_policy_groups_request option"
  | GoPolicyAssignment "policy_assignment option"
  | GoDeletePolicyAssignmentRequest "delete_policy_assignment_request option"
  | GoGetPolicyAssignmentRequest "get_policy_assignment_request option"
  | GoListPolicyAssignmentsRequest "list_policy_assignments_request option"
  | GoOccurrences "occurrence list"
  | GoListResourceVersionsRequest "list_resource_versions_request option"
  | GoListResourcesRequest "list_resources_request option"
  | GoEvaluatePolicyRequest "evaluate_policy_request option"
  | GoResourceEvaluationRequest "resource_evaluation_request option"
  | GoGetResourceEvaluationRequest "get_resource_evaluation_request option"
  | GoListResourceEvaluationsRequest "list_resource_evaluations_request option"
  | GoBytes string
  | GoInt32 int32
  | GoBatchCreateOccurrencesRequest "batch_create_occurrences_request option"
  | GoCallOptions "'o list"
  | GoCreateNoteRequest "create_note_request option"
  | GoListOccurrencesRequest "list_occurrences_request option"
  | GoListVersionedResourceOccurrencesRequest "list_versioned_resource_occurrences_request option"
  | GoRegisterCollectorRequest "register_collector_request option"
  | GoUpdateOccurrenceRequest "update_occurrence_request option"
  | GoGrafeasBatchCreateNotesRequest "g_batch_create_notes_request option"
  | GoGrafeasBatchCreateOccurrencesRequest "g_batch_create_occurrences_request option"
  | GoGrafeasCreateNoteRequest "g_create_note_request option"
  | GoGrafeasMessage "'g option"
  | GoGrafeasListNotesRequest "g_list_notes_request option"
  | GoGrafeasListOccurrencesRequest "g_list_occurrences_request option"
  | GoGrafeasUpdateOccurrenceRequest "g_update_occurrence_request option"

type_synonym 'v invocations = "string \<rightharpoonup> 'v list list"

definition record_invocation :: "string \<Rightarrow> 'v list \<Rightarrow> 'v invocations \<Rightarrow> 'v invocations" where
  "record_invocation key args invocations =
     (let earlier = (case invocations key of None \<Rightarrow> [] | Some calls \<Rightarrow> calls) in
      invocations(key \<mapsto> earlier @ [args]))"

definition copied_invocations :: "'v invocations \<Rightarrow> 'v invocations" where
  "copied_invocations invocations = (\<lambda>key. case invocations key of None \<Rightarrow> None | Some value \<Rightarrow> Some value)"

section \<open>The functions of a method\<close>

text \<open>A method reads and writes its part of the fake through \<open>get\<close> and \<open>upd\<close>, the field and the
  update of a record, and records its calls under its name.\<close>

type_synonym ('f, 'x) field_update = "('x \<Rightarrow> 'x) \<Rightarrow> 'f \<Rightarrow> 'f"
type_synonym ('f, 'v) recorder = "string \<Rightarrow> 'v list \<Rightarrow> 'f \<Rightarrow> 'f"

definition method_answer :: "('w, 'a, 'r) fake_method \<Rightarrow> nat \<Rightarrow> 'a \<Rightarrow> ('w, 'r) io" where
  "method_answer method n args = (case fm_Stub method of
       Some stub \<Rightarrow> stub args
     | None \<Rightarrow> (case fm_ReturnsOnCall method (int n) of Some specific \<Rightarrow> ret specific | None \<Rightarrow> ret (fm_Returns method)))"

definition fake_call ::
  "string \<Rightarrow> ('a \<Rightarrow> 'v list) \<Rightarrow> ('f \<Rightarrow> ('w, 'a, 'r) fake_method) \<Rightarrow> ('f, ('w, 'a, 'r) fake_method) field_update \<Rightarrow>
     ('f, 'v) recorder \<Rightarrow> 'a \<Rightarrow> 'f \<Rightarrow> ('w, 'r) io \<times> 'f" where
  "fake_call name values get upd rec args fake =
     (let answer = method_answer (get fake) (length (fm_ArgsForCall (get fake))) args;
          fake1 = upd (\<lambda>method. method\<lparr>fm_ArgsForCall := fm_ArgsForCall method @ [args]\<rparr>) fake in
      (answer, rec name (values args) fake1))"

definition fake_call_count :: "('f \<Rightarrow> ('w, 'a, 'r) fake_method) \<Rightarrow> 'f \<Rightarrow> nat" where
  "fake_call_count get fake = length (fm_ArgsForCall (get fake))"

definition fake_calls ::
  "('f, ('w, 'a, 'r) fake_method) field_update \<Rightarrow> ('a \<Rightarrow> ('w, 'r) io) option \<Rightarrow> 'f \<Rightarrow> 'f" where
  "fake_calls upd stub = upd (\<lambda>method. method\<lparr>fm_Stub := stub\<rparr>)"

definition fake_args_for_call :: "('f \<Rightarrow> ('w, 'a, 'r) fake_method) \<Rightarrow> int \<Rightarrow> 'f \<Rightarrow> ('w, 'a) io" where
  "fake_args_for_call get i fake =
     (if i < 0 then panic ''index out of range'' else index_at (fm_ArgsForCall (get fake)) (nat i))"

definition fake_returns :: "('f, ('w, 'a, 'r) fake_method) field_update \<Rightarrow> 'r \<Rightarrow> 'f \<Rightarrow> 'f" where
  "fake_returns upd result = upd (\<lambda>method. method\<lparr>fm_Stub := None, fm_Returns := result\<rparr>)"

definition fake_returns_on_call ::
  "('f, ('w, 'a, 'r) fake_method) field_update \<Rightarrow> int \<Rightarrow> 'r \<Rightarrow> 'f \<Rightarrow> 'f" where
  "fake_returns_on_call upd i result =
     upd (\<lambda>method. method\<lparr>fm_Stub := None, fm_ReturnsOnCall := (fm_ReturnsOnCall method)(i \<mapsto> result)\<rparr>)"

record ('f, 'w, 'a, 'r) fake_ops =
  fo_Call :: "'a \<Rightarrow> 'f \<Rightarrow> ('w, 'r) io \<times> 'f"
  fo_CallCount :: "'f \<Rightarrow> nat"
  fo_Calls :: "('a \<Rightarrow> ('w, 'r) io) option \<Rightarrow> 'f \<Rightarrow> 'f"
  fo_ArgsForCall :: "int \<Rightarrow> 'f \<Rightarrow> ('w, 'a) io"
  fo_Returns :: "'r \<Rightarrow> 'f \<Rightarrow> 'f"
  fo_ReturnsOnCall :: "int \<Rightarrow> 'r \<Rightarrow> 'f \<Rightarrow> 'f"

definition counterfeit ::
  "string \<Rightarrow> ('a \<Rightarrow> 'v list) \<Rightarrow> ('f \<Rightarrow> ('w, 'a, 'r) fake_method) \<Rightarrow> ('f, ('w, 'a, 'r) fake_method) field_update \<Rightarrow>
     ('f, 'v) recorder \<Rightarrow> ('f, 'w, 'a, 'r) fake_ops" where
  "counterfeit name values get upd rec = \<lparr>
     fo_Call = fake_call name values get upd rec,
     fo_CallCount = fake_call_count get,
     fo_Calls = fake_calls upd,
     fo_ArgsForCall = fake_args_for_call get,
     fo_Returns = fake_returns upd,
     fo_ReturnsOnCall = fake_returns_on_call upd\<rparr>"

lemma counterfeit_simps [simp]:
  "fo_Call (counterfeit name values get upd rec) = fake_call name values get upd rec"
  "fo_CallCount (counterfeit name values get upd rec) = fake_call_count get"
  "fo_Calls (counterfeit name values get upd rec) = fake_calls upd"
  "fo_ArgsForCall (counterfeit name values get upd rec) = fake_args_for_call get"
  "fo_Returns (counterfeit name values get upd rec) = fake_returns upd"
  "fo_ReturnsOnCall (counterfeit name values get upd rec) = fake_returns_on_call upd"
  by (simp_all add: counterfeit_def)

section \<open>What a test can rely on\<close>

text \<open>
  What a test does with a method of a fake, in order: it tells the fake how to answer, and it
  has the method called.
\<close>

datatype ('w, 'a, 'r) setting =
    Stubbed "('a \<Rightarrow> ('w, 'r) io) option"
  | Returning 'r
  | ReturningOnCall int 'r

datatype ('w, 'a, 'r) fake_use = Told "('w, 'a, 'r) setting" | Called 'a

fun use_once :: "('f, 'w, 'a, 'r) fake_ops \<Rightarrow> ('w, 'a, 'r) fake_use \<Rightarrow> 'f \<Rightarrow> 'f" where
  "use_once ops (Told (Stubbed stub)) fake = fo_Calls ops stub fake"
| "use_once ops (Told (Returning result)) fake = fo_Returns ops result fake"
| "use_once ops (Told (ReturningOnCall i result)) fake = fo_ReturnsOnCall ops i result fake"
| "use_once ops (Called args) fake = snd (fo_Call ops args fake)"

definition use_fake :: "('f, 'w, 'a, 'r) fake_ops \<Rightarrow> ('w, 'a, 'r) fake_use list \<Rightarrow> 'f \<Rightarrow> 'f" where
  "use_fake ops usage fake = fold (use_once ops) usage fake"

text \<open>
  What a fake has been told, read off the list of uses: a stub counts while nothing was set
  after it; of the results for one call, and of those for all calls, the latest counts.
\<close>

definition calls_of :: "('w, 'a, 'r) fake_use list \<Rightarrow> 'a list" where
  "calls_of usage = List.map_filter (\<lambda>u. case u of Called args \<Rightarrow> Some args | Told _ \<Rightarrow> None) usage"

definition settings_of :: "('w, 'a, 'r) fake_use list \<Rightarrow> ('w, 'a, 'r) setting list" where
  "settings_of usage = List.map_filter (\<lambda>u. case u of Told told \<Rightarrow> Some told | Called _ \<Rightarrow> None) usage"

definition stub_told :: "('w, 'a, 'r) fake_use list \<Rightarrow> ('a \<Rightarrow> ('w, 'r) io) option" where
  "stub_told usage = (case rev (settings_of usage) of Stubbed stub # _ \<Rightarrow> stub | _ \<Rightarrow> None)"

definition on_call_told :: "('w, 'a, 'r) fake_use list \<Rightarrow> int \<Rightarrow> 'r option" where
  "on_call_told usage n = map_of (rev (List.map_filter
     (\<lambda>told. case told of ReturningOnCall i result \<Rightarrow> Some (i, result) | _ \<Rightarrow> None) (settings_of usage))) n"

definition result_told :: "'r \<Rightarrow> ('w, 'a, 'r) fake_use list \<Rightarrow> 'r" where
  "result_told zero usage = (case rev (List.map_filter
     (\<lambda>told. case told of Returning result \<Rightarrow> Some result | _ \<Rightarrow> None) (settings_of usage)) of
       [] \<Rightarrow> zero | result # _ \<Rightarrow> result)"

definition told_answer :: "'r \<Rightarrow> ('w, 'a, 'r) fake_use list \<Rightarrow> 'a \<Rightarrow> ('w, 'r) io" where
  "told_answer zero usage args =
     (if stub_told usage \<noteq> None then the (stub_told usage) args
      else if on_call_told usage (int (length (calls_of usage))) \<noteq> None
        then ret (the (on_call_told usage (int (length (calls_of usage)))))
      else ret (result_told zero usage))"

lemma map_filter_append: "List.map_filter f (xs @ ys) = List.map_filter f xs @ List.map_filter f ys"
  by (induction xs) (auto simp: List.map_filter_simps split: option.split)

lemma uses_Nil [simp]:
  "calls_of [] = []" "stub_told [] = None" "on_call_told [] = Map.empty" "result_told zero [] = zero"
  by (simp_all add: calls_of_def stub_told_def on_call_told_def result_told_def settings_of_def
      List.map_filter_simps fun_eq_iff)

lemma uses_Called [simp]:
  "calls_of (usage @ [Called args]) = calls_of usage @ [args]" "settings_of (usage @ [Called args]) = settings_of usage"
  by (simp_all add: calls_of_def settings_of_def map_filter_append List.map_filter_simps)

lemma told_Called [simp]:
  "stub_told (usage @ [Called args]) = stub_told usage" "on_call_told (usage @ [Called args]) = on_call_told usage"
  "result_told zero (usage @ [Called args]) = result_told zero usage"
  by (simp_all add: stub_told_def on_call_told_def result_told_def fun_eq_iff)

lemma uses_Told [simp]:
  "calls_of (usage @ [Told told]) = calls_of usage" "settings_of (usage @ [Told told]) = settings_of usage @ [told]"
  by (simp_all add: calls_of_def settings_of_def map_filter_append List.map_filter_simps)

lemma told_Told [simp]:
  "stub_told (usage @ [Told told]) = (case told of Stubbed stub \<Rightarrow> stub | _ \<Rightarrow> None)"
  "on_call_told (usage @ [Told told]) = (case told of ReturningOnCall i result \<Rightarrow> (on_call_told usage)(i \<mapsto> result)
     | _ \<Rightarrow> on_call_told usage)"
  "result_told zero (usage @ [Told told]) = (case told of Returning result \<Rightarrow> result | _ \<Rightarrow> result_told zero usage)"
  by (cases told; simp add: stub_told_def on_call_told_def result_told_def map_filter_append
      List.map_filter_simps fun_eq_iff)+

text \<open>A field of a fake: what is written is read, recording a call leaves it, and the recorded
  calls are kept apart from it.\<close>

locale fake_slot =
  fixes get :: "'f \<Rightarrow> ('w, 'a, 'r) fake_method"
    and upd :: "('f, ('w, 'a, 'r) fake_method) field_update"
    and kept :: "'f \<Rightarrow> 'v invocations"
    and rec :: "('f, 'v) recorder"
  assumes get_upd [simp]: "get (upd change fake) = change (get fake)"
    and get_rec [simp]: "get (rec key args fake) = get fake"
    and inv_upd [simp]: "kept (upd change fake) = kept fake"
    and inv_rec [simp]: "kept (rec key args fake) = record_invocation key args (kept fake)"
begin

lemma call_effect:
  assumes "fake_call name values get upd rec args fake = (answer, fake')"
  shows "answer = method_answer (get fake) (length (fm_ArgsForCall (get fake))) args"
    "get fake' = (get fake)\<lparr>fm_ArgsForCall := fm_ArgsForCall (get fake) @ [args]\<rparr>"
    "kept fake' = record_invocation name (values args) (kept fake)"
  using assms by (auto simp: fake_call_def)

lemma recorded:
  "fold (record_invocation name) calls invs = (if calls = [] then invs
     else invs(name \<mapsto> (case invs name of None \<Rightarrow> [] | Some earlier \<Rightarrow> earlier) @ calls))"
  by (induction calls arbitrary: invs) (auto simp: record_invocation_def Let_def split: option.split)

text \<open>The fields of a method after any use are what it was told and the calls it got.\<close>

lemma used:
  assumes "get fake = fresh_method zero"
  shows "get (use_fake (counterfeit name values get upd rec) usage fake) = \<lparr>fm_Stub = stub_told usage,
      fm_ArgsForCall = calls_of usage, fm_Returns = result_told zero usage, fm_ReturnsOnCall = on_call_told usage\<rparr> \<and>
    kept (use_fake (counterfeit name values get upd rec) usage fake) =
      fold (record_invocation name) (map values (calls_of usage)) (kept fake)"
proof (induction usage rule: rev_induct)
  case Nil
  then show ?case using assms by (simp add: use_fake_def fresh_method_def)
next
  case (snoc u usage)
  let ?ops = "counterfeit name values get upd rec"
  have one: "use_fake ?ops (usage @ [u]) fake = use_once ?ops u (use_fake ?ops usage fake)"
    by (simp add: use_fake_def)
  show ?case
  proof (cases u)
    case (Called args)
    with snoc show ?thesis unfolding one by (simp add: fake_call_def)
  next
    case (Told told)
    with snoc show ?thesis unfolding one
      by (cases told) (simp_all add: fake_calls_def fake_returns_def fake_returns_on_call_def fun_upd_def fun_eq_iff)
  qed
qed

end

text \<open>C40: a fake records every call and answers as it was told. Let a test use a method of a new
  fake in any way, telling it how to answer and having it called, and then have it called
  once more. The answer is that of the stub, if a stub was the last thing it was told; or
  else the result last set for the call with this number, the calls counted from 0; or else
  the result last set for all calls, or the zero result. The number of calls is that of the
  calls made, the arguments of each can be read under its number and are in the recorded
  calls of the method, in order, and the recorded calls of other methods are unchanged.\<close>

theorem fake_records_and_answers:
  assumes "fake_slot get upd kept rec" "ops = counterfeit name values get upd rec"
    "get fake = fresh_method zero" "fo_Call ops args (use_fake ops usage fake) = (answer, fake')"
    "calls = calls_of usage @ [args]"
  shows "answer = told_answer zero usage args \<and> fo_CallCount ops fake' = length calls \<and>
    (\<forall>i < length calls. fo_ArgsForCall ops (int i) fake' = ret (calls ! i)) \<and>
    kept fake' name = Some ((case kept fake name of None \<Rightarrow> [] | Some earlier \<Rightarrow> earlier) @ map values calls) \<and>
    (\<forall>other. other \<noteq> name \<longrightarrow> kept fake' other = kept fake other)"
proof -
  note used = fake_slot.used [OF assms(1,3), of name "values" usage]
  note effect = fake_slot.call_effect [OF assms(1) assms(4) [unfolded assms(2) counterfeit_simps]]
  from used effect have fields: "fm_ArgsForCall (get fake') = calls"
    and log: "kept fake' = fold (record_invocation name) (map values calls) (kept fake)"
    by (simp_all add: assms(5))
  from used effect(1) have "answer = told_answer zero usage args"
    by (auto simp: method_answer_def told_answer_def split: option.split)
  moreover have "fo_ArgsForCall ops (int i) fake' = ret (calls ! i)" if "i < length calls" for i
    using that by (simp add: assms(2) fake_args_for_call_def index_at_def fields)
  moreover have "fo_CallCount ops fake' = length calls" by (simp add: assms(2) fake_call_count_def fields)
  moreover have "map values calls \<noteq> []" by (simp add: assms(5))
  ultimately show ?thesis
    using fake_slot.recorded [OF assms(1), of name "map values calls" "kept fake"] by (simp add: log)
qed

end
