(* ===== verification/Fake_Managers.thy ===== *)
theory Fake_Managers
  imports Counterfeiter
begin

text \<open>
  The test doubles of Rode's own interfaces: the managers of \<open>pkg\<close>, the OPA client and the
  Grafeas extensions. Each is a record with one \<open>fake_method\<close> per method of the interface and
  the record of all calls; each method is an instance of \<open>counterfeit\<close>.
\<close>

section \<open>pkg/policy/policyfakes/fake_manager.go\<close>

record ('w, 'c, 'o, 'g) fake_policy_manager =
  fpm_CreatePolicy :: "('w, 'c \<times> policy option,
     policy option \<times> go_error option) fake_method"
  fpm_DeletePolicy :: "('w, 'c \<times> delete_policy_request option,
     unit option \<times> go_error option) fake_method"
  fpm_GetPolicy :: "('w, 'c \<times> get_policy_request option,
     policy option \<times> go_error option) fake_method"
  fpm_GetPolicyVersion :: "('w, 'c \<times> string,
     policy_entity option \<times> go_error option) fake_method"
  fpm_ListPolicies :: "('w, 'c \<times> list_policies_request option,
     list_policies_response option \<times> go_error option) fake_method"
  fpm_ListPolicyVersions :: "('w, 'c \<times> list_policy_versions_request option,
     list_policy_versions_response option \<times> go_error option) fake_method"
  fpm_UpdatePolicy :: "('w, 'c \<times> update_policy_request option,
     policy option \<times> go_error option) fake_method"
  fpm_ValidatePolicy :: "('w, 'c \<times> validate_policy_request option,
     validate_policy_response option \<times> go_error option) fake_method"
  fpm_invocations :: "('c, 'o, 'g) go_value invocations"

definition FakePolicyManager_recordInvocation ::
  "string \<Rightarrow> ('c, 'o, 'g) go_value list \<Rightarrow> ('w, 'c, 'o, 'g) fake_policy_manager \<Rightarrow> ('w, 'c, 'o, 'g) fake_policy_manager" where
  "FakePolicyManager_recordInvocation key args fake =
     fake\<lparr>fpm_invocations := record_invocation key args (fpm_invocations fake)\<rparr>"

definition FakePolicyManager_Invocations :: "('w, 'c, 'o, 'g) fake_policy_manager \<Rightarrow> ('c, 'o, 'g) go_value invocations" where
  "FakePolicyManager_Invocations fake = copied_invocations (fpm_invocations fake)"

definition new_FakePolicyManager :: "('w, 'c, 'o, 'g) fake_policy_manager" where
  "new_FakePolicyManager = \<lparr>
     fpm_CreatePolicy = fresh_method (None, None),
     fpm_DeletePolicy = fresh_method (None, None),
     fpm_GetPolicy = fresh_method (None, None),
     fpm_GetPolicyVersion = fresh_method (None, None),
     fpm_ListPolicies = fresh_method (None, None),
     fpm_ListPolicyVersions = fresh_method (None, None),
     fpm_UpdatePolicy = fresh_method (None, None),
     fpm_ValidatePolicy = fresh_method (None, None),
     fpm_invocations = Map.empty\<rparr>"

definition FakePolicyManager_CreatePolicy ::
  "(('w, 'c, 'o, 'g) fake_policy_manager, 'w, 'c \<times> policy option,
     policy option \<times> go_error option) fake_ops" where
  "FakePolicyManager_CreatePolicy = counterfeit ''CreatePolicy'' (\<lambda>(ctx, arg2). [GoContext ctx, GoPolicy arg2])
     fpm_CreatePolicy fpm_CreatePolicy_update FakePolicyManager_recordInvocation"

definition FakePolicyManager_DeletePolicy ::
  "(('w, 'c, 'o, 'g) fake_policy_manager, 'w, 'c \<times> delete_policy_request option,
     unit option \<times> go_error option) fake_ops" where
  "FakePolicyManager_DeletePolicy = counterfeit ''DeletePolicy'' (\<lambda>(ctx, arg2). [GoContext ctx, GoDeletePolicyRequest arg2])
     fpm_DeletePolicy fpm_DeletePolicy_update FakePolicyManager_recordInvocation"

definition FakePolicyManager_GetPolicy ::
  "(('w, 'c, 'o, 'g) fake_policy_manager, 'w, 'c \<times> get_policy_request option,
     policy option \<times> go_error option) fake_ops" where
  "FakePolicyManager_GetPolicy = counterfeit ''GetPolicy'' (\<lambda>(ctx, arg2). [GoContext ctx, GoGetPolicyRequest arg2])
     fpm_GetPolicy fpm_GetPolicy_update FakePolicyManager_recordInvocation"

definition FakePolicyManager_GetPolicyVersion ::
  "(('w, 'c, 'o, 'g) fake_policy_manager, 'w, 'c \<times> string,
     policy_entity option \<times> go_error option) fake_ops" where
  "FakePolicyManager_GetPolicyVersion = counterfeit ''GetPolicyVersion'' (\<lambda>(ctx, arg2). [GoContext ctx, GoString arg2])
     fpm_GetPolicyVersion fpm_GetPolicyVersion_update FakePolicyManager_recordInvocation"

definition FakePolicyManager_ListPolicies ::
  "(('w, 'c, 'o, 'g) fake_policy_manager, 'w, 'c \<times> list_policies_request option,
     list_policies_response option \<times> go_error option) fake_ops" where
  "FakePolicyManager_ListPolicies = counterfeit ''ListPolicies'' (\<lambda>(ctx, arg2). [GoContext ctx, GoListPoliciesRequest arg2])
     fpm_ListPolicies fpm_ListPolicies_update FakePolicyManager_recordInvocation"

definition FakePolicyManager_ListPolicyVersions ::
  "(('w, 'c, 'o, 'g) fake_policy_manager, 'w, 'c \<times> list_policy_versions_request option,
     list_policy_versions_response option \<times> go_error option) fake_ops" where
  "FakePolicyManager_ListPolicyVersions = counterfeit ''ListPolicyVersions'' (\<lambda>(ctx, arg2). [GoContext ctx, GoListPolicyVersionsRequest arg2])
     fpm_ListPolicyVersions fpm_ListPolicyVersions_update FakePolicyManager_recordInvocation"

definition FakePolicyManager_UpdatePolicy ::
  "(('w, 'c, 'o, 'g) fake_policy_manager, 'w, 'c \<times> update_policy_request option,
     policy option \<times> go_error option) fake_ops" where
  "FakePolicyManager_UpdatePolicy = counterfeit ''UpdatePolicy'' (\<lambda>(ctx, arg2). [GoContext ctx, GoUpdatePolicyRequest arg2])
     fpm_UpdatePolicy fpm_UpdatePolicy_update FakePolicyManager_recordInvocation"

definition FakePolicyManager_ValidatePolicy ::
  "(('w, 'c, 'o, 'g) fake_policy_manager, 'w, 'c \<times> validate_policy_request option,
     validate_policy_response option \<times> go_error option) fake_ops" where
  "FakePolicyManager_ValidatePolicy = counterfeit ''ValidatePolicy'' (\<lambda>(ctx, arg2). [GoContext ctx, GoValidatePolicyRequest arg2])
     fpm_ValidatePolicy fpm_ValidatePolicy_update FakePolicyManager_recordInvocation"

interpretation fpmCreatePolicy: fake_slot fpm_CreatePolicy fpm_CreatePolicy_update fpm_invocations FakePolicyManager_recordInvocation
  by unfold_locales (simp_all add: FakePolicyManager_recordInvocation_def)

interpretation fpmDeletePolicy: fake_slot fpm_DeletePolicy fpm_DeletePolicy_update fpm_invocations FakePolicyManager_recordInvocation
  by unfold_locales (simp_all add: FakePolicyManager_recordInvocation_def)

interpretation fpmGetPolicy: fake_slot fpm_GetPolicy fpm_GetPolicy_update fpm_invocations FakePolicyManager_recordInvocation
  by unfold_locales (simp_all add: FakePolicyManager_recordInvocation_def)

interpretation fpmGetPolicyVersion: fake_slot fpm_GetPolicyVersion fpm_GetPolicyVersion_update fpm_invocations FakePolicyManager_recordInvocation
  by unfold_locales (simp_all add: FakePolicyManager_recordInvocation_def)

interpretation fpmListPolicies: fake_slot fpm_ListPolicies fpm_ListPolicies_update fpm_invocations FakePolicyManager_recordInvocation
  by unfold_locales (simp_all add: FakePolicyManager_recordInvocation_def)

interpretation fpmListPolicyVersions: fake_slot fpm_ListPolicyVersions fpm_ListPolicyVersions_update fpm_invocations FakePolicyManager_recordInvocation
  by unfold_locales (simp_all add: FakePolicyManager_recordInvocation_def)

interpretation fpmUpdatePolicy: fake_slot fpm_UpdatePolicy fpm_UpdatePolicy_update fpm_invocations FakePolicyManager_recordInvocation
  by unfold_locales (simp_all add: FakePolicyManager_recordInvocation_def)

interpretation fpmValidatePolicy: fake_slot fpm_ValidatePolicy fpm_ValidatePolicy_update fpm_invocations FakePolicyManager_recordInvocation
  by unfold_locales (simp_all add: FakePolicyManager_recordInvocation_def)

section \<open>pkg/policy/policyfakes/fake_policy_group_manager.go\<close>

record ('w, 'c, 'o, 'g) fake_policy_group_manager =
  fgm_CreatePolicyGroup :: "('w, 'c \<times> policy_group option,
     policy_group option \<times> go_error option) fake_method"
  fgm_DeletePolicyGroup :: "('w, 'c \<times> delete_policy_group_request option,
     unit option \<times> go_error option) fake_method"
  fgm_GetPolicyGroup :: "('w, 'c \<times> get_policy_group_request option,
     policy_group option \<times> go_error option) fake_method"
  fgm_ListPolicyGroups :: "('w, 'c \<times> list_policy_groups_request option,
     list_policy_groups_response option \<times> go_error option) fake_method"
  fgm_UpdatePolicyGroup :: "('w, 'c \<times> policy_group option,
     policy_group option \<times> go_error option) fake_method"
  fgm_invocations :: "('c, 'o, 'g) go_value invocations"

definition FakePolicyGroupManager_recordInvocation ::
  "string \<Rightarrow> ('c, 'o, 'g) go_value list \<Rightarrow> ('w, 'c, 'o, 'g) fake_policy_group_manager \<Rightarrow> ('w, 'c, 'o, 'g) fake_policy_group_manager" where
  "FakePolicyGroupManager_recordInvocation key args fake =
     fake\<lparr>fgm_invocations := record_invocation key args (fgm_invocations fake)\<rparr>"

definition FakePolicyGroupManager_Invocations :: "('w, 'c, 'o, 'g) fake_policy_group_manager \<Rightarrow> ('c, 'o, 'g) go_value invocations" where
  "FakePolicyGroupManager_Invocations fake = copied_invocations (fgm_invocations fake)"

definition new_FakePolicyGroupManager :: "('w, 'c, 'o, 'g) fake_policy_group_manager" where
  "new_FakePolicyGroupManager = \<lparr>
     fgm_CreatePolicyGroup = fresh_method (None, None),
     fgm_DeletePolicyGroup = fresh_method (None, None),
     fgm_GetPolicyGroup = fresh_method (None, None),
     fgm_ListPolicyGroups = fresh_method (None, None),
     fgm_UpdatePolicyGroup = fresh_method (None, None),
     fgm_invocations = Map.empty\<rparr>"

definition FakePolicyGroupManager_CreatePolicyGroup ::
  "(('w, 'c, 'o, 'g) fake_policy_group_manager, 'w, 'c \<times> policy_group option,
     policy_group option \<times> go_error option) fake_ops" where
  "FakePolicyGroupManager_CreatePolicyGroup = counterfeit ''CreatePolicyGroup'' (\<lambda>(ctx, arg2). [GoContext ctx, GoPolicyGroup arg2])
     fgm_CreatePolicyGroup fgm_CreatePolicyGroup_update FakePolicyGroupManager_recordInvocation"

definition FakePolicyGroupManager_DeletePolicyGroup ::
  "(('w, 'c, 'o, 'g) fake_policy_group_manager, 'w, 'c \<times> delete_policy_group_request option,
     unit option \<times> go_error option) fake_ops" where
  "FakePolicyGroupManager_DeletePolicyGroup = counterfeit ''DeletePolicyGroup'' (\<lambda>(ctx, arg2). [GoContext ctx, GoDeletePolicyGroupRequest arg2])
     fgm_DeletePolicyGroup fgm_DeletePolicyGroup_update FakePolicyGroupManager_recordInvocation"

definition FakePolicyGroupManager_GetPolicyGroup ::
  "(('w, 'c, 'o, 'g) fake_policy_group_manager, 'w, 'c \<times> get_policy_group_request option,
     policy_group option \<times> go_error option) fake_ops" where
  "FakePolicyGroupManager_GetPolicyGroup = counterfeit ''GetPolicyGroup'' (\<lambda>(ctx, arg2). [GoContext ctx, GoGetPolicyGroupRequest arg2])
     fgm_GetPolicyGroup fgm_GetPolicyGroup_update FakePolicyGroupManager_recordInvocation"

definition FakePolicyGroupManager_ListPolicyGroups ::
  "(('w, 'c, 'o, 'g) fake_policy_group_manager, 'w, 'c \<times> list_policy_groups_request option,
     list_policy_groups_response option \<times> go_error option) fake_ops" where
  "FakePolicyGroupManager_ListPolicyGroups = counterfeit ''ListPolicyGroups'' (\<lambda>(ctx, arg2). [GoContext ctx, GoListPolicyGroupsRequest arg2])
     fgm_ListPolicyGroups fgm_ListPolicyGroups_update FakePolicyGroupManager_recordInvocation"

definition FakePolicyGroupManager_UpdatePolicyGroup ::
  "(('w, 'c, 'o, 'g) fake_policy_group_manager, 'w, 'c \<times> policy_group option,
     policy_group option \<times> go_error option) fake_ops" where
  "FakePolicyGroupManager_UpdatePolicyGroup = counterfeit ''UpdatePolicyGroup'' (\<lambda>(ctx, arg2). [GoContext ctx, GoPolicyGroup arg2])
     fgm_UpdatePolicyGroup fgm_UpdatePolicyGroup_update FakePolicyGroupManager_recordInvocation"

interpretation fgmCreatePolicyGroup: fake_slot fgm_CreatePolicyGroup fgm_CreatePolicyGroup_update fgm_invocations FakePolicyGroupManager_recordInvocation
  by unfold_locales (simp_all add: FakePolicyGroupManager_recordInvocation_def)

interpretation fgmDeletePolicyGroup: fake_slot fgm_DeletePolicyGroup fgm_DeletePolicyGroup_update fgm_invocations FakePolicyGroupManager_recordInvocation
  by unfold_locales (simp_all add: FakePolicyGroupManager_recordInvocation_def)

interpretation fgmGetPolicyGroup: fake_slot fgm_GetPolicyGroup fgm_GetPolicyGroup_update fgm_invocations FakePolicyGroupManager_recordInvocation
  by unfold_locales (simp_all add: FakePolicyGroupManager_recordInvocation_def)

interpretation fgmListPolicyGroups: fake_slot fgm_ListPolicyGroups fgm_ListPolicyGroups_update fgm_invocations FakePolicyGroupManager_recordInvocation
  by unfold_locales (simp_all add: FakePolicyGroupManager_recordInvocation_def)

interpretation fgmUpdatePolicyGroup: fake_slot fgm_UpdatePolicyGroup fgm_UpdatePolicyGroup_update fgm_invocations FakePolicyGroupManager_recordInvocation
  by unfold_locales (simp_all add: FakePolicyGroupManager_recordInvocation_def)

section \<open>pkg/policy/policyfakes/fake_assignment_manager.go\<close>

record ('w, 'c, 'o, 'g) fake_assignment_manager =
  fam_CreatePolicyAssignment :: "('w, 'c \<times> policy_assignment option,
     policy_assignment option \<times> go_error option) fake_method"
  fam_DeletePolicyAssignment :: "('w, 'c \<times> delete_policy_assignment_request option,
     unit option \<times> go_error option) fake_method"
  fam_GetPolicyAssignment :: "('w, 'c \<times> get_policy_assignment_request option,
     policy_assignment option \<times> go_error option) fake_method"
  fam_ListPolicyAssignments :: "('w, 'c \<times> list_policy_assignments_request option,
     list_policy_assignments_response option \<times> go_error option) fake_method"
  fam_UpdatePolicyAssignment :: "('w, 'c \<times> policy_assignment option,
     policy_assignment option \<times> go_error option) fake_method"
  fam_invocations :: "('c, 'o, 'g) go_value invocations"

definition FakeAssignmentManager_recordInvocation ::
  "string \<Rightarrow> ('c, 'o, 'g) go_value list \<Rightarrow> ('w, 'c, 'o, 'g) fake_assignment_manager \<Rightarrow> ('w, 'c, 'o, 'g) fake_assignment_manager" where
  "FakeAssignmentManager_recordInvocation key args fake =
     fake\<lparr>fam_invocations := record_invocation key args (fam_invocations fake)\<rparr>"

definition FakeAssignmentManager_Invocations :: "('w, 'c, 'o, 'g) fake_assignment_manager \<Rightarrow> ('c, 'o, 'g) go_value invocations" where
  "FakeAssignmentManager_Invocations fake = copied_invocations (fam_invocations fake)"

definition new_FakeAssignmentManager :: "('w, 'c, 'o, 'g) fake_assignment_manager" where
  "new_FakeAssignmentManager = \<lparr>
     fam_CreatePolicyAssignment = fresh_method (None, None),
     fam_DeletePolicyAssignment = fresh_method (None, None),
     fam_GetPolicyAssignment = fresh_method (None, None),
     fam_ListPolicyAssignments = fresh_method (None, None),
     fam_UpdatePolicyAssignment = fresh_method (None, None),
     fam_invocations = Map.empty\<rparr>"

definition FakeAssignmentManager_CreatePolicyAssignment ::
  "(('w, 'c, 'o, 'g) fake_assignment_manager, 'w, 'c \<times> policy_assignment option,
     policy_assignment option \<times> go_error option) fake_ops" where
  "FakeAssignmentManager_CreatePolicyAssignment = counterfeit ''CreatePolicyAssignment'' (\<lambda>(ctx, arg2). [GoContext ctx, GoPolicyAssignment arg2])
     fam_CreatePolicyAssignment fam_CreatePolicyAssignment_update FakeAssignmentManager_recordInvocation"

definition FakeAssignmentManager_DeletePolicyAssignment ::
  "(('w, 'c, 'o, 'g) fake_assignment_manager, 'w, 'c \<times> delete_policy_assignment_request option,
     unit option \<times> go_error option) fake_ops" where
  "FakeAssignmentManager_DeletePolicyAssignment = counterfeit ''DeletePolicyAssignment'' (\<lambda>(ctx, arg2). [GoContext ctx, GoDeletePolicyAssignmentRequest arg2])
     fam_DeletePolicyAssignment fam_DeletePolicyAssignment_update FakeAssignmentManager_recordInvocation"

definition FakeAssignmentManager_GetPolicyAssignment ::
  "(('w, 'c, 'o, 'g) fake_assignment_manager, 'w, 'c \<times> get_policy_assignment_request option,
     policy_assignment option \<times> go_error option) fake_ops" where
  "FakeAssignmentManager_GetPolicyAssignment = counterfeit ''GetPolicyAssignment'' (\<lambda>(ctx, arg2). [GoContext ctx, GoGetPolicyAssignmentRequest arg2])
     fam_GetPolicyAssignment fam_GetPolicyAssignment_update FakeAssignmentManager_recordInvocation"

definition FakeAssignmentManager_ListPolicyAssignments ::
  "(('w, 'c, 'o, 'g) fake_assignment_manager, 'w, 'c \<times> list_policy_assignments_request option,
     list_policy_assignments_response option \<times> go_error option) fake_ops" where
  "FakeAssignmentManager_ListPolicyAssignments = counterfeit ''ListPolicyAssignments'' (\<lambda>(ctx, arg2). [GoContext ctx, GoListPolicyAssignmentsRequest arg2])
     fam_ListPolicyAssignments fam_ListPolicyAssignments_update FakeAssignmentManager_recordInvocation"

definition FakeAssignmentManager_UpdatePolicyAssignment ::
  "(('w, 'c, 'o, 'g) fake_assignment_manager, 'w, 'c \<times> policy_assignment option,
     policy_assignment option \<times> go_error option) fake_ops" where
  "FakeAssignmentManager_UpdatePolicyAssignment = counterfeit ''UpdatePolicyAssignment'' (\<lambda>(ctx, arg2). [GoContext ctx, GoPolicyAssignment arg2])
     fam_UpdatePolicyAssignment fam_UpdatePolicyAssignment_update FakeAssignmentManager_recordInvocation"

interpretation famCreatePolicyAssignment: fake_slot fam_CreatePolicyAssignment fam_CreatePolicyAssignment_update fam_invocations FakeAssignmentManager_recordInvocation
  by unfold_locales (simp_all add: FakeAssignmentManager_recordInvocation_def)

interpretation famDeletePolicyAssignment: fake_slot fam_DeletePolicyAssignment fam_DeletePolicyAssignment_update fam_invocations FakeAssignmentManager_recordInvocation
  by unfold_locales (simp_all add: FakeAssignmentManager_recordInvocation_def)

interpretation famGetPolicyAssignment: fake_slot fam_GetPolicyAssignment fam_GetPolicyAssignment_update fam_invocations FakeAssignmentManager_recordInvocation
  by unfold_locales (simp_all add: FakeAssignmentManager_recordInvocation_def)

interpretation famListPolicyAssignments: fake_slot fam_ListPolicyAssignments fam_ListPolicyAssignments_update fam_invocations FakeAssignmentManager_recordInvocation
  by unfold_locales (simp_all add: FakeAssignmentManager_recordInvocation_def)

interpretation famUpdatePolicyAssignment: fake_slot fam_UpdatePolicyAssignment fam_UpdatePolicyAssignment_update fam_invocations FakeAssignmentManager_recordInvocation
  by unfold_locales (simp_all add: FakeAssignmentManager_recordInvocation_def)

section \<open>pkg/resource/resourcefakes/fake_manager.go\<close>

record ('w, 'c, 'o, 'g) fake_resource_manager =
  frm_BatchCreateResourceVersions :: "('w, 'c \<times> occurrence list,
     go_error option) fake_method"
  frm_BatchCreateResources :: "('w, 'c \<times> occurrence list,
     go_error option) fake_method"
  frm_GetResource :: "('w, 'c \<times> string,
     resource option \<times> go_error option) fake_method"
  frm_GetResourceVersion :: "('w, 'c \<times> string,
     resource_version option \<times> go_error option) fake_method"
  frm_ListResourceVersions :: "('w, 'c \<times> list_resource_versions_request option,
     list_resource_versions_response option \<times> go_error option) fake_method"
  frm_ListResources :: "('w, 'c \<times> list_resources_request option,
     list_resources_response option \<times> go_error option) fake_method"
  frm_invocations :: "('c, 'o, 'g) go_value invocations"

definition FakeResourceManager_recordInvocation ::
  "string \<Rightarrow> ('c, 'o, 'g) go_value list \<Rightarrow> ('w, 'c, 'o, 'g) fake_resource_manager \<Rightarrow> ('w, 'c, 'o, 'g) fake_resource_manager" where
  "FakeResourceManager_recordInvocation key args fake =
     fake\<lparr>frm_invocations := record_invocation key args (frm_invocations fake)\<rparr>"

definition FakeResourceManager_Invocations :: "('w, 'c, 'o, 'g) fake_resource_manager \<Rightarrow> ('c, 'o, 'g) go_value invocations" where
  "FakeResourceManager_Invocations fake = copied_invocations (frm_invocations fake)"

definition new_FakeResourceManager :: "('w, 'c, 'o, 'g) fake_resource_manager" where
  "new_FakeResourceManager = \<lparr>
     frm_BatchCreateResourceVersions = fresh_method None,
     frm_BatchCreateResources = fresh_method None,
     frm_GetResource = fresh_method (None, None),
     frm_GetResourceVersion = fresh_method (None, None),
     frm_ListResourceVersions = fresh_method (None, None),
     frm_ListResources = fresh_method (None, None),
     frm_invocations = Map.empty\<rparr>"

definition FakeResourceManager_BatchCreateResourceVersions ::
  "(('w, 'c, 'o, 'g) fake_resource_manager, 'w, 'c \<times> occurrence list,
     go_error option) fake_ops" where
  "FakeResourceManager_BatchCreateResourceVersions = counterfeit ''BatchCreateResourceVersions'' (\<lambda>(ctx, arg2). [GoContext ctx, GoOccurrences arg2])
     frm_BatchCreateResourceVersions frm_BatchCreateResourceVersions_update FakeResourceManager_recordInvocation"

definition FakeResourceManager_BatchCreateResources ::
  "(('w, 'c, 'o, 'g) fake_resource_manager, 'w, 'c \<times> occurrence list,
     go_error option) fake_ops" where
  "FakeResourceManager_BatchCreateResources = counterfeit ''BatchCreateResources'' (\<lambda>(ctx, arg2). [GoContext ctx, GoOccurrences arg2])
     frm_BatchCreateResources frm_BatchCreateResources_update FakeResourceManager_recordInvocation"

definition FakeResourceManager_GetResource ::
  "(('w, 'c, 'o, 'g) fake_resource_manager, 'w, 'c \<times> string,
     resource option \<times> go_error option) fake_ops" where
  "FakeResourceManager_GetResource = counterfeit ''GetResource'' (\<lambda>(ctx, arg2). [GoContext ctx, GoString arg2])
     frm_GetResource frm_GetResource_update FakeResourceManager_recordInvocation"

definition FakeResourceManager_GetResourceVersion ::
  "(('w, 'c, 'o, 'g) fake_resource_manager, 'w, 'c \<times> string,
     resource_version option \<times> go_error option) fake_ops" where
  "FakeResourceManager_GetResourceVersion = counterfeit ''GetResourceVersion'' (\<lambda>(ctx, arg2). [GoContext ctx, GoString arg2])
     frm_GetResourceVersion frm_GetResourceVersion_update FakeResourceManager_recordInvocation"

definition FakeResourceManager_ListResourceVersions ::
  "(('w, 'c, 'o, 'g) fake_resource_manager, 'w, 'c \<times> list_resource_versions_request option,
     list_resource_versions_response option \<times> go_error option) fake_ops" where
  "FakeResourceManager_ListResourceVersions = counterfeit ''ListResourceVersions'' (\<lambda>(ctx, arg2). [GoContext ctx, GoListResourceVersionsRequest arg2])
     frm_ListResourceVersions frm_ListResourceVersions_update FakeResourceManager_recordInvocation"

definition FakeResourceManager_ListResources ::
  "(('w, 'c, 'o, 'g) fake_resource_manager, 'w, 'c \<times> list_resources_request option,
     list_resources_response option \<times> go_error option) fake_ops" where
  "FakeResourceManager_ListResources = counterfeit ''ListResources'' (\<lambda>(ctx, arg2). [GoContext ctx, GoListResourcesRequest arg2])
     frm_ListResources frm_ListResources_update FakeResourceManager_recordInvocation"

interpretation frmBatchCreateResourceVersions: fake_slot frm_BatchCreateResourceVersions frm_BatchCreateResourceVersions_update frm_invocations FakeResourceManager_recordInvocation
  by unfold_locales (simp_all add: FakeResourceManager_recordInvocation_def)

interpretation frmBatchCreateResources: fake_slot frm_BatchCreateResources frm_BatchCreateResources_update frm_invocations FakeResourceManager_recordInvocation
  by unfold_locales (simp_all add: FakeResourceManager_recordInvocation_def)

interpretation frmGetResource: fake_slot frm_GetResource frm_GetResource_update frm_invocations FakeResourceManager_recordInvocation
  by unfold_locales (simp_all add: FakeResourceManager_recordInvocation_def)

interpretation frmGetResourceVersion: fake_slot frm_GetResourceVersion frm_GetResourceVersion_update frm_invocations FakeResourceManager_recordInvocation
  by unfold_locales (simp_all add: FakeResourceManager_recordInvocation_def)

interpretation frmListResourceVersions: fake_slot frm_ListResourceVersions frm_ListResourceVersions_update frm_invocations FakeResourceManager_recordInvocation
  by unfold_locales (simp_all add: FakeResourceManager_recordInvocation_def)

interpretation frmListResources: fake_slot frm_ListResources frm_ListResources_update frm_invocations FakeResourceManager_recordInvocation
  by unfold_locales (simp_all add: FakeResourceManager_recordInvocation_def)

section \<open>pkg/evaluation/evaluationfakes/fake_manager.go\<close>

record ('w, 'c, 'o, 'g) fake_evaluation_manager =
  fem_EvaluatePolicy :: "('w, 'c \<times> evaluate_policy_request option,
     evaluate_policy_response option \<times> go_error option) fake_method"
  fem_EvaluateResource :: "('w, 'c \<times> resource_evaluation_request option,
     resource_evaluation_result option \<times> go_error option) fake_method"
  fem_GetResourceEvaluation :: "('w, 'c \<times> get_resource_evaluation_request option,
     resource_evaluation_result option \<times> go_error option) fake_method"
  fem_ListResourceEvaluations :: "('w, 'c \<times> list_resource_evaluations_request option,
     list_resource_evaluations_response option \<times> go_error option) fake_method"
  fem_invocations :: "('c, 'o, 'g) go_value invocations"

definition FakeEvaluationManager_recordInvocation ::
  "string \<Rightarrow> ('c, 'o, 'g) go_value list \<Rightarrow> ('w, 'c, 'o, 'g) fake_evaluation_manager \<Rightarrow> ('w, 'c, 'o, 'g) fake_evaluation_manager" where
  "FakeEvaluationManager_recordInvocation key args fake =
     fake\<lparr>fem_invocations := record_invocation key args (fem_invocations fake)\<rparr>"

definition FakeEvaluationManager_Invocations :: "('w, 'c, 'o, 'g) fake_evaluation_manager \<Rightarrow> ('c, 'o, 'g) go_value invocations" where
  "FakeEvaluationManager_Invocations fake = copied_invocations (fem_invocations fake)"

definition new_FakeEvaluationManager :: "('w, 'c, 'o, 'g) fake_evaluation_manager" where
  "new_FakeEvaluationManager = \<lparr>
     fem_EvaluatePolicy = fresh_method (None, None),
     fem_EvaluateResource = fresh_method (None, None),
     fem_GetResourceEvaluation = fresh_method (None, None),
     fem_ListResourceEvaluations = fresh_method (None, None),
     fem_invocations = Map.empty\<rparr>"

definition FakeEvaluationManager_EvaluatePolicy ::
  "(('w, 'c, 'o, 'g) fake_evaluation_manager, 'w, 'c \<times> evaluate_policy_request option,
     evaluate_policy_response option \<times> go_error option) fake_ops" where
  "FakeEvaluationManager_EvaluatePolicy = counterfeit ''EvaluatePolicy'' (\<lambda>(ctx, arg2). [GoContext ctx, GoEvaluatePolicyRequest arg2])
     fem_EvaluatePolicy fem_EvaluatePolicy_update FakeEvaluationManager_recordInvocation"

definition FakeEvaluationManager_EvaluateResource ::
  "(('w, 'c, 'o, 'g) fake_evaluation_manager, 'w, 'c \<times> resource_evaluation_request option,
     resource_evaluation_result option \<times> go_error option) fake_ops" where
  "FakeEvaluationManager_EvaluateResource = counterfeit ''EvaluateResource'' (\<lambda>(ctx, arg2). [GoContext ctx, GoResourceEvaluationRequest arg2])
     fem_EvaluateResource fem_EvaluateResource_update FakeEvaluationManager_recordInvocation"

definition FakeEvaluationManager_GetResourceEvaluation ::
  "(('w, 'c, 'o, 'g) fake_evaluation_manager, 'w, 'c \<times> get_resource_evaluation_request option,
     resource_evaluation_result option \<times> go_error option) fake_ops" where
  "FakeEvaluationManager_GetResourceEvaluation = counterfeit ''GetResourceEvaluation'' (\<lambda>(ctx, arg2). [GoContext ctx, GoGetResourceEvaluationRequest arg2])
     fem_GetResourceEvaluation fem_GetResourceEvaluation_update FakeEvaluationManager_recordInvocation"

definition FakeEvaluationManager_ListResourceEvaluations ::
  "(('w, 'c, 'o, 'g) fake_evaluation_manager, 'w, 'c \<times> list_resource_evaluations_request option,
     list_resource_evaluations_response option \<times> go_error option) fake_ops" where
  "FakeEvaluationManager_ListResourceEvaluations = counterfeit ''ListResourceEvaluations'' (\<lambda>(ctx, arg2). [GoContext ctx, GoListResourceEvaluationsRequest arg2])
     fem_ListResourceEvaluations fem_ListResourceEvaluations_update FakeEvaluationManager_recordInvocation"

interpretation femEvaluatePolicy: fake_slot fem_EvaluatePolicy fem_EvaluatePolicy_update fem_invocations FakeEvaluationManager_recordInvocation
  by unfold_locales (simp_all add: FakeEvaluationManager_recordInvocation_def)

interpretation femEvaluateResource: fake_slot fem_EvaluateResource fem_EvaluateResource_update fem_invocations FakeEvaluationManager_recordInvocation
  by unfold_locales (simp_all add: FakeEvaluationManager_recordInvocation_def)

interpretation femGetResourceEvaluation: fake_slot fem_GetResourceEvaluation fem_GetResourceEvaluation_update fem_invocations FakeEvaluationManager_recordInvocation
  by unfold_locales (simp_all add: FakeEvaluationManager_recordInvocation_def)

interpretation femListResourceEvaluations: fake_slot fem_ListResourceEvaluations fem_ListResourceEvaluations_update fem_invocations FakeEvaluationManager_recordInvocation
  by unfold_locales (simp_all add: FakeEvaluationManager_recordInvocation_def)

section \<open>opa/opafakes/fake_client.go\<close>

record ('w, 'c, 'o, 'g) fake_opa_client =
  foc_EvaluatePolicy :: "('w, string \<times> string,
     opa_response option \<times> go_error option) fake_method"
  foc_InitializePolicy :: "('w, string \<times> string,
     go_error option) fake_method"
  foc_invocations :: "('c, 'o, 'g) go_value invocations"

definition FakeOpaClient_recordInvocation ::
  "string \<Rightarrow> ('c, 'o, 'g) go_value list \<Rightarrow> ('w, 'c, 'o, 'g) fake_opa_client \<Rightarrow> ('w, 'c, 'o, 'g) fake_opa_client" where
  "FakeOpaClient_recordInvocation key args fake =
     fake\<lparr>foc_invocations := record_invocation key args (foc_invocations fake)\<rparr>"

definition FakeOpaClient_Invocations :: "('w, 'c, 'o, 'g) fake_opa_client \<Rightarrow> ('c, 'o, 'g) go_value invocations" where
  "FakeOpaClient_Invocations fake = copied_invocations (foc_invocations fake)"

definition new_FakeOpaClient :: "('w, 'c, 'o, 'g) fake_opa_client" where
  "new_FakeOpaClient = \<lparr>
     foc_EvaluatePolicy = fresh_method (None, None),
     foc_InitializePolicy = fresh_method None,
     foc_invocations = Map.empty\<rparr>"

definition FakeOpaClient_EvaluatePolicy ::
  "(('w, 'c, 'o, 'g) fake_opa_client, 'w, string \<times> string,
     opa_response option \<times> go_error option) fake_ops" where
  "FakeOpaClient_EvaluatePolicy = counterfeit ''EvaluatePolicy'' (\<lambda>(arg1, arg2). [GoString arg1, GoBytes arg2])
     foc_EvaluatePolicy foc_EvaluatePolicy_update FakeOpaClient_recordInvocation"

definition FakeOpaClient_InitializePolicy ::
  "(('w, 'c, 'o, 'g) fake_opa_client, 'w, string \<times> string,
     go_error option) fake_ops" where
  "FakeOpaClient_InitializePolicy = counterfeit ''InitializePolicy'' (\<lambda>(arg1, arg2). [GoString arg1, GoString arg2])
     foc_InitializePolicy foc_InitializePolicy_update FakeOpaClient_recordInvocation"

interpretation focEvaluatePolicy: fake_slot foc_EvaluatePolicy foc_EvaluatePolicy_update foc_invocations FakeOpaClient_recordInvocation
  by unfold_locales (simp_all add: FakeOpaClient_recordInvocation_def)

interpretation focInitializePolicy: fake_slot foc_InitializePolicy foc_InitializePolicy_update foc_invocations FakeOpaClient_recordInvocation
  by unfold_locales (simp_all add: FakeOpaClient_recordInvocation_def)

section \<open>pkg/grafeas/grafeasfakes/fake_extensions.go\<close>

record ('w, 'c, 'o, 'g) fake_extensions =
  fex_ListVersionedResourceOccurrences :: "('w, 'c \<times> string \<times> string \<times> int32,
     occurrence list \<times> string \<times> go_error option) fake_method"
  fex_invocations :: "('c, 'o, 'g) go_value invocations"

definition FakeExtensions_recordInvocation ::
  "string \<Rightarrow> ('c, 'o, 'g) go_value list \<Rightarrow> ('w, 'c, 'o, 'g) fake_extensions \<Rightarrow> ('w, 'c, 'o, 'g) fake_extensions" where
  "FakeExtensions_recordInvocation key args fake =
     fake\<lparr>fex_invocations := record_invocation key args (fex_invocations fake)\<rparr>"

definition FakeExtensions_Invocations :: "('w, 'c, 'o, 'g) fake_extensions \<Rightarrow> ('c, 'o, 'g) go_value invocations" where
  "FakeExtensions_Invocations fake = copied_invocations (fex_invocations fake)"

definition new_FakeExtensions :: "('w, 'c, 'o, 'g) fake_extensions" where
  "new_FakeExtensions = \<lparr>
     fex_ListVersionedResourceOccurrences = fresh_method ([], '''', None),
     fex_invocations = Map.empty\<rparr>"

definition FakeExtensions_ListVersionedResourceOccurrences ::
  "(('w, 'c, 'o, 'g) fake_extensions, 'w, 'c \<times> string \<times> string \<times> int32,
     occurrence list \<times> string \<times> go_error option) fake_ops" where
  "FakeExtensions_ListVersionedResourceOccurrences = counterfeit ''ListVersionedResourceOccurrences'' (\<lambda>(ctx, arg2, arg3, arg4). [GoContext ctx, GoString arg2, GoString arg3, GoInt32 arg4])
     fex_ListVersionedResourceOccurrences fex_ListVersionedResourceOccurrences_update FakeExtensions_recordInvocation"

interpretation fexListVersionedResourceOccurrences: fake_slot fex_ListVersionedResourceOccurrences fex_ListVersionedResourceOccurrences_update fex_invocations FakeExtensions_recordInvocation
  by unfold_locales (simp_all add: FakeExtensions_recordInvocation_def)

end
