(* ===== verification/Fake_Rode_Client.thy ===== *)
theory Fake_Rode_Client
  imports Counterfeiter
begin

text \<open>
  The test double of the client of the service, \<open>proto/v1alpha1fakes/fake_rode_client.go\<close>:
  one method per remote call, with the options of the call as its last argument.
\<close>

section \<open>proto/v1alpha1fakes/fake_rode_client.go\<close>

record ('w, 'c, 'o, 'g) fake_rode_client =
  frc_BatchCreateOccurrences :: "('w, 'c \<times> batch_create_occurrences_request option \<times> 'o list,
     batch_create_occurrences_response option \<times> go_error option) fake_method"
  frc_CreateNote :: "('w, 'c \<times> create_note_request option \<times> 'o list,
     grafeas_note option \<times> go_error option) fake_method"
  frc_CreatePolicy :: "('w, 'c \<times> policy option \<times> 'o list,
     policy option \<times> go_error option) fake_method"
  frc_CreatePolicyAssignment :: "('w, 'c \<times> policy_assignment option \<times> 'o list,
     policy_assignment option \<times> go_error option) fake_method"
  frc_CreatePolicyGroup :: "('w, 'c \<times> policy_group option \<times> 'o list,
     policy_group option \<times> go_error option) fake_method"
  frc_DeletePolicy :: "('w, 'c \<times> delete_policy_request option \<times> 'o list,
     unit option \<times> go_error option) fake_method"
  frc_DeletePolicyAssignment :: "('w, 'c \<times> delete_policy_assignment_request option \<times> 'o list,
     unit option \<times> go_error option) fake_method"
  frc_DeletePolicyGroup :: "('w, 'c \<times> delete_policy_group_request option \<times> 'o list,
     unit option \<times> go_error option) fake_method"
  frc_EvaluatePolicy :: "('w, 'c \<times> evaluate_policy_request option \<times> 'o list,
     evaluate_policy_response option \<times> go_error option) fake_method"
  frc_EvaluateResource :: "('w, 'c \<times> resource_evaluation_request option \<times> 'o list,
     resource_evaluation_result option \<times> go_error option) fake_method"
  frc_GetPolicy :: "('w, 'c \<times> get_policy_request option \<times> 'o list,
     policy option \<times> go_error option) fake_method"
  frc_GetPolicyAssignment :: "('w, 'c \<times> get_policy_assignment_request option \<times> 'o list,
     policy_assignment option \<times> go_error option) fake_method"
  frc_GetPolicyGroup :: "('w, 'c \<times> get_policy_group_request option \<times> 'o list,
     policy_group option \<times> go_error option) fake_method"
  frc_GetResourceEvaluation :: "('w, 'c \<times> get_resource_evaluation_request option \<times> 'o list,
     resource_evaluation_result option \<times> go_error option) fake_method"
  frc_ListOccurrences :: "('w, 'c \<times> list_occurrences_request option \<times> 'o list,
     list_occurrences_response option \<times> go_error option) fake_method"
  frc_ListPolicies :: "('w, 'c \<times> list_policies_request option \<times> 'o list,
     list_policies_response option \<times> go_error option) fake_method"
  frc_ListPolicyAssignments :: "('w, 'c \<times> list_policy_assignments_request option \<times> 'o list,
     list_policy_assignments_response option \<times> go_error option) fake_method"
  frc_ListPolicyGroups :: "('w, 'c \<times> list_policy_groups_request option \<times> 'o list,
     list_policy_groups_response option \<times> go_error option) fake_method"
  frc_ListPolicyVersions :: "('w, 'c \<times> list_policy_versions_request option \<times> 'o list,
     list_policy_versions_response option \<times> go_error option) fake_method"
  frc_ListResourceEvaluations :: "('w, 'c \<times> list_resource_evaluations_request option \<times> 'o list,
     list_resource_evaluations_response option \<times> go_error option) fake_method"
  frc_ListResourceVersions :: "('w, 'c \<times> list_resource_versions_request option \<times> 'o list,
     list_resource_versions_response option \<times> go_error option) fake_method"
  frc_ListResources :: "('w, 'c \<times> list_resources_request option \<times> 'o list,
     list_resources_response option \<times> go_error option) fake_method"
  frc_ListVersionedResourceOccurrences :: "('w, 'c \<times> list_versioned_resource_occurrences_request option \<times> 'o list,
     list_versioned_resource_occurrences_response option \<times> go_error option) fake_method"
  frc_RegisterCollector :: "('w, 'c \<times> register_collector_request option \<times> 'o list,
     register_collector_response option \<times> go_error option) fake_method"
  frc_UpdateOccurrence :: "('w, 'c \<times> update_occurrence_request option \<times> 'o list,
     occurrence option \<times> go_error option) fake_method"
  frc_UpdatePolicy :: "('w, 'c \<times> update_policy_request option \<times> 'o list,
     policy option \<times> go_error option) fake_method"
  frc_UpdatePolicyAssignment :: "('w, 'c \<times> policy_assignment option \<times> 'o list,
     policy_assignment option \<times> go_error option) fake_method"
  frc_UpdatePolicyGroup :: "('w, 'c \<times> policy_group option \<times> 'o list,
     policy_group option \<times> go_error option) fake_method"
  frc_ValidatePolicy :: "('w, 'c \<times> validate_policy_request option \<times> 'o list,
     validate_policy_response option \<times> go_error option) fake_method"
  frc_invocations :: "('c, 'o, 'g) go_value invocations"

definition FakeRodeClient_recordInvocation ::
  "string \<Rightarrow> ('c, 'o, 'g) go_value list \<Rightarrow> ('w, 'c, 'o, 'g) fake_rode_client \<Rightarrow> ('w, 'c, 'o, 'g) fake_rode_client" where
  "FakeRodeClient_recordInvocation key args fake =
     fake\<lparr>frc_invocations := record_invocation key args (frc_invocations fake)\<rparr>"

definition FakeRodeClient_Invocations :: "('w, 'c, 'o, 'g) fake_rode_client \<Rightarrow> ('c, 'o, 'g) go_value invocations" where
  "FakeRodeClient_Invocations fake = copied_invocations (frc_invocations fake)"

definition new_FakeRodeClient :: "('w, 'c, 'o, 'g) fake_rode_client" where
  "new_FakeRodeClient = \<lparr>
     frc_BatchCreateOccurrences = fresh_method (None, None),
     frc_CreateNote = fresh_method (None, None),
     frc_CreatePolicy = fresh_method (None, None),
     frc_CreatePolicyAssignment = fresh_method (None, None),
     frc_CreatePolicyGroup = fresh_method (None, None),
     frc_DeletePolicy = fresh_method (None, None),
     frc_DeletePolicyAssignment = fresh_method (None, None),
     frc_DeletePolicyGroup = fresh_method (None, None),
     frc_EvaluatePolicy = fresh_method (None, None),
     frc_EvaluateResource = fresh_method (None, None),
     frc_GetPolicy = fresh_method (None, None),
     frc_GetPolicyAssignment = fresh_method (None, None),
     frc_GetPolicyGroup = fresh_method (None, None),
     frc_GetResourceEvaluation = fresh_method (None, None),
     frc_ListOccurrences = fresh_method (None, None),
     frc_ListPolicies = fresh_method (None, None),
     frc_ListPolicyAssignments = fresh_method (None, None),
     frc_ListPolicyGroups = fresh_method (None, None),
     frc_ListPolicyVersions = fresh_method (None, None),
     frc_ListResourceEvaluations = fresh_method (None, None),
     frc_ListResourceVersions = fresh_method (None, None),
     frc_ListResources = fresh_method (None, None),
     frc_ListVersionedResourceOccurrences = fresh_method (None, None),
     frc_RegisterCollector = fresh_method (None, None),
     frc_UpdateOccurrence = fresh_method (None, None),
     frc_UpdatePolicy = fresh_method (None, None),
     frc_UpdatePolicyAssignment = fresh_method (None, None),
     frc_UpdatePolicyGroup = fresh_method (None, None),
     frc_ValidatePolicy = fresh_method (None, None),
     frc_invocations = Map.empty\<rparr>"

definition FakeRodeClient_BatchCreateOccurrences ::
  "(('w, 'c, 'o, 'g) fake_rode_client, 'w, 'c \<times> batch_create_occurrences_request option \<times> 'o list,
     batch_create_occurrences_response option \<times> go_error option) fake_ops" where
  "FakeRodeClient_BatchCreateOccurrences = counterfeit ''BatchCreateOccurrences'' (\<lambda>(ctx, arg2, opts). [GoContext ctx, GoBatchCreateOccurrencesRequest arg2, GoCallOptions opts])
     frc_BatchCreateOccurrences frc_BatchCreateOccurrences_update FakeRodeClient_recordInvocation"

definition FakeRodeClient_CreateNote ::
  "(('w, 'c, 'o, 'g) fake_rode_client, 'w, 'c \<times> create_note_request option \<times> 'o list,
     grafeas_note option \<times> go_error option) fake_ops" where
  "FakeRodeClient_CreateNote = counterfeit ''CreateNote'' (\<lambda>(ctx, arg2, opts). [GoContext ctx, GoCreateNoteRequest arg2, GoCallOptions opts])
     frc_CreateNote frc_CreateNote_update FakeRodeClient_recordInvocation"

definition FakeRodeClient_CreatePolicy ::
  "(('w, 'c, 'o, 'g) fake_rode_client, 'w, 'c \<times> policy option \<times> 'o list,
     policy option \<times> go_error option) fake_ops" where
  "FakeRodeClient_CreatePolicy = counterfeit ''CreatePolicy'' (\<lambda>(ctx, arg2, opts). [GoContext ctx, GoPolicy arg2, GoCallOptions opts])
     frc_CreatePolicy frc_CreatePolicy_update FakeRodeClient_recordInvocation"

definition FakeRodeClient_CreatePolicyAssignment ::
  "(('w, 'c, 'o, 'g) fake_rode_client, 'w, 'c \<times> policy_assignment option \<times> 'o list,
     policy_assignment option \<times> go_error option) fake_ops" where
  "FakeRodeClient_CreatePolicyAssignment = counterfeit ''CreatePolicyAssignment'' (\<lambda>(ctx, arg2, opts). [GoContext ctx, GoPolicyAssignment arg2, GoCallOptions opts])
     frc_CreatePolicyAssignment frc_CreatePolicyAssignment_update FakeRodeClient_recordInvocation"

definition FakeRodeClient_CreatePolicyGroup ::
  "(('w, 'c, 'o, 'g) fake_rode_client, 'w, 'c \<times> policy_group option \<times> 'o list,
     policy_group option \<times> go_error option) fake_ops" where
  "FakeRodeClient_CreatePolicyGroup = counterfeit ''CreatePolicyGroup'' (\<lambda>(ctx, arg2, opts). [GoContext ctx, GoPolicyGroup arg2, GoCallOptions opts])
     frc_CreatePolicyGroup frc_CreatePolicyGroup_update FakeRodeClient_recordInvocation"

definition FakeRodeClient_DeletePolicy ::
  "(('w, 'c, 'o, 'g) fake_rode_client, 'w, 'c \<times> delete_policy_request option \<times> 'o list,
     unit option \<times> go_error option) fake_ops" where
  "FakeRodeClient_DeletePolicy = counterfeit ''DeletePolicy'' (\<lambda>(ctx, arg2, opts). [GoContext ctx, GoDeletePolicyRequest arg2, GoCallOptions opts])
     frc_DeletePolicy frc_DeletePolicy_update FakeRodeClient_recordInvocation"

definition FakeRodeClient_DeletePolicyAssignment ::
  "(('w, 'c, 'o, 'g) fake_rode_client, 'w, 'c \<times> delete_policy_assignment_request option \<times> 'o list,
     unit option \<times> go_error option) fake_ops" where
  "FakeRodeClient_DeletePolicyAssignment = counterfeit ''DeletePolicyAssignment'' (\<lambda>(ctx, arg2, opts). [GoContext ctx, GoDeletePolicyAssignmentRequest arg2, GoCallOptions opts])
     frc_DeletePolicyAssignment frc_DeletePolicyAssignment_update FakeRodeClient_recordInvocation"

definition FakeRodeClient_DeletePolicyGroup ::
  "(('w, 'c, 'o, 'g) fake_rode_client, 'w, 'c \<times> delete_policy_group_request option \<times> 'o list,
     unit option \<times> go_error option) fake_ops" where
  "FakeRodeClient_DeletePolicyGroup = counterfeit ''DeletePolicyGroup'' (\<lambda>(ctx, arg2, opts). [GoContext ctx, GoDeletePolicyGroupRequest arg2, GoCallOptions opts])
     frc_DeletePolicyGroup frc_DeletePolicyGroup_update FakeRodeClient_recordInvocation"

definition FakeRodeClient_EvaluatePolicy ::
  "(('w, 'c, 'o, 'g) fake_rode_client, 'w, 'c \<times> evaluate_policy_request option \<times> 'o list,
     evaluate_policy_response option \<times> go_error option) fake_ops" where
  "FakeRodeClient_EvaluatePolicy = counterfeit ''EvaluatePolicy'' (\<lambda>(ctx, arg2, opts). [GoContext ctx, GoEvaluatePolicyRequest arg2, GoCallOptions opts])
     frc_EvaluatePolicy frc_EvaluatePolicy_update FakeRodeClient_recordInvocation"

definition FakeRodeClient_EvaluateResource ::
  "(('w, 'c, 'o, 'g) fake_rode_client, 'w, 'c \<times> resource_evaluation_request option \<times> 'o list,
     resource_evaluation_result option \<times> go_error option) fake_ops" where
  "FakeRodeClient_EvaluateResource = counterfeit ''EvaluateResource'' (\<lambda>(ctx, arg2, opts). [GoContext ctx, GoResourceEvaluationRequest arg2, GoCallOptions opts])
     frc_EvaluateResource frc_EvaluateResource_update FakeRodeClient_recordInvocation"

definition FakeRodeClient_GetPolicy ::
  "(('w, 'c, 'o, 'g) fake_rode_client, 'w, 'c \<times> get_policy_request option \<times> 'o list,
     policy option \<times> go_error option) fake_ops" where
  "FakeRodeClient_GetPolicy = counterfeit ''GetPolicy'' (\<lambda>(ctx, arg2, opts). [GoContext ctx, GoGetPolicyRequest arg2, GoCallOptions opts])
     frc_GetPolicy frc_GetPolicy_update FakeRodeClient_recordInvocation"

definition FakeRodeClient_GetPolicyAssignment ::
  "(('w, 'c, 'o, 'g) fake_rode_client, 'w, 'c \<times> get_policy_assignment_request option \<times> 'o list,
     policy_assignment option \<times> go_error option) fake_ops" where
  "FakeRodeClient_GetPolicyAssignment = counterfeit ''GetPolicyAssignment'' (\<lambda>(ctx, arg2, opts). [GoContext ctx, GoGetPolicyAssignmentRequest arg2, GoCallOptions opts])
     frc_GetPolicyAssignment frc_GetPolicyAssignment_update FakeRodeClient_recordInvocation"

definition FakeRodeClient_GetPolicyGroup ::
  "(('w, 'c, 'o, 'g) fake_rode_client, 'w, 'c \<times> get_policy_group_request option \<times> 'o list,
     policy_group option \<times> go_error option) fake_ops" where
  "FakeRodeClient_GetPolicyGroup = counterfeit ''GetPolicyGroup'' (\<lambda>(ctx, arg2, opts). [GoContext ctx, GoGetPolicyGroupRequest arg2, GoCallOptions opts])
     frc_GetPolicyGroup frc_GetPolicyGroup_update FakeRodeClient_recordInvocation"

definition FakeRodeClient_GetResourceEvaluation ::
  "(('w, 'c, 'o, 'g) fake_rode_client, 'w, 'c \<times> get_resource_evaluation_request option \<times> 'o list,
     resource_evaluation_result option \<times> go_error option) fake_ops" where
  "FakeRodeClient_GetResourceEvaluation = counterfeit ''GetResourceEvaluation'' (\<lambda>(ctx, arg2, opts). [GoContext ctx, GoGetResourceEvaluationRequest arg2, GoCallOptions opts])
     frc_GetResourceEvaluation frc_GetResourceEvaluation_update FakeRodeClient_recordInvocation"

definition FakeRodeClient_ListOccurrences ::
  "(('w, 'c, 'o, 'g) fake_rode_client, 'w, 'c \<times> list_occurrences_request option \<times> 'o list,
     list_occurrences_response option \<times> go_error option) fake_ops" where
  "FakeRodeClient_ListOccurrences = counterfeit ''ListOccurrences'' (\<lambda>(ctx, arg2, opts). [GoContext ctx, GoListOccurrencesRequest arg2, GoCallOptions opts])
     frc_ListOccurrences frc_ListOccurrences_update FakeRodeClient_recordInvocation"

definition FakeRodeClient_ListPolicies ::
  "(('w, 'c, 'o, 'g) fake_rode_client, 'w, 'c \<times> list_policies_request option \<times> 'o list,
     list_policies_response option \<times> go_error option) fake_ops" where
  "FakeRodeClient_ListPolicies = counterfeit ''ListPolicies'' (\<lambda>(ctx, arg2, opts). [GoContext ctx, GoListPoliciesRequest arg2, GoCallOptions opts])
     frc_ListPolicies frc_ListPolicies_update FakeRodeClient_recordInvocation"

definition FakeRodeClient_ListPolicyAssignments ::
  "(('w, 'c, 'o, 'g) fake_rode_client, 'w, 'c \<times> list_policy_assignments_request option \<times> 'o list,
     list_policy_assignments_response option \<times> go_error option) fake_ops" where
  "FakeRodeClient_ListPolicyAssignments = counterfeit ''ListPolicyAssignments'' (\<lambda>(ctx, arg2, opts). [GoContext ctx, GoListPolicyAssignmentsRequest arg2, GoCallOptions opts])
     frc_ListPolicyAssignments frc_ListPolicyAssignments_update FakeRodeClient_recordInvocation"

definition FakeRodeClient_ListPolicyGroups ::
  "(('w, 'c, 'o, 'g) fake_rode_client, 'w, 'c \<times> list_policy_groups_request option \<times> 'o list,
     list_policy_groups_response option \<times> go_error option) fake_ops" where
  "FakeRodeClient_ListPolicyGroups = counterfeit ''ListPolicyGroups'' (\<lambda>(ctx, arg2, opts). [GoContext ctx, GoListPolicyGroupsRequest arg2, GoCallOptions opts])
     frc_ListPolicyGroups frc_ListPolicyGroups_update FakeRodeClient_recordInvocation"

definition FakeRodeClient_ListPolicyVersions ::
  "(('w, 'c, 'o, 'g) fake_rode_client, 'w, 'c \<times> list_policy_versions_request option \<times> 'o list,
     list_policy_versions_response option \<times> go_error option) fake_ops" where
  "FakeRodeClient_ListPolicyVersions = counterfeit ''ListPolicyVersions'' (\<lambda>(ctx, arg2, opts). [GoContext ctx, GoListPolicyVersionsRequest arg2, GoCallOptions opts])
     frc_ListPolicyVersions frc_ListPolicyVersions_update FakeRodeClient_recordInvocation"

definition FakeRodeClient_ListResourceEvaluations ::
  "(('w, 'c, 'o, 'g) fake_rode_client, 'w, 'c \<times> list_resource_evaluations_request option \<times> 'o list,
     list_resource_evaluations_response option \<times> go_error option) fake_ops" where
  "FakeRodeClient_ListResourceEvaluations = counterfeit ''ListResourceEvaluations'' (\<lambda>(ctx, arg2, opts). [GoContext ctx, GoListResourceEvaluationsRequest arg2, GoCallOptions opts])
     frc_ListResourceEvaluations frc_ListResourceEvaluations_update FakeRodeClient_recordInvocation"

definition FakeRodeClient_ListResourceVersions ::
  "(('w, 'c, 'o, 'g) fake_rode_client, 'w, 'c \<times> list_resource_versions_request option \<times> 'o list,
     list_resource_versions_response option \<times> go_error option) fake_ops" where
  "FakeRodeClient_ListResourceVersions = counterfeit ''ListResourceVersions'' (\<lambda>(ctx, arg2, opts). [GoContext ctx, GoListResourceVersionsRequest arg2, GoCallOptions opts])
     frc_ListResourceVersions frc_ListResourceVersions_update FakeRodeClient_recordInvocation"

definition FakeRodeClient_ListResources ::
  "(('w, 'c, 'o, 'g) fake_rode_client, 'w, 'c \<times> list_resources_request option \<times> 'o list,
     list_resources_response option \<times> go_error option) fake_ops" where
  "FakeRodeClient_ListResources = counterfeit ''ListResources'' (\<lambda>(ctx, arg2, opts). [GoContext ctx, GoListResourcesRequest arg2, GoCallOptions opts])
     frc_ListResources frc_ListResources_update FakeRodeClient_recordInvocation"

definition FakeRodeClient_ListVersionedResourceOccurrences ::
  "(('w, 'c, 'o, 'g) fake_rode_client, 'w, 'c \<times> list_versioned_resource_occurrences_request option \<times> 'o list,
     list_versioned_resource_occurrences_response option \<times> go_error option) fake_ops" where
  "FakeRodeClient_ListVersionedResourceOccurrences = counterfeit ''ListVersionedResourceOccurrences'' (\<lambda>(ctx, arg2, opts). [GoContext ctx, GoListVersionedResourceOccurrencesRequest arg2, GoCallOptions opts])
     frc_ListVersionedResourceOccurrences frc_ListVersionedResourceOccurrences_update FakeRodeClient_recordInvocation"

definition FakeRodeClient_RegisterCollector ::
  "(('w, 'c, 'o, 'g) fake_rode_client, 'w, 'c \<times> register_collector_request option \<times> 'o list,
     register_collector_response option \<times> go_error option) fake_ops" where
  "FakeRodeClient_RegisterCollector = counterfeit ''RegisterCollector'' (\<lambda>(ctx, arg2, opts). [GoContext ctx, GoRegisterCollectorRequest arg2, GoCallOptions opts])
     frc_RegisterCollector frc_RegisterCollector_update FakeRodeClient_recordInvocation"

definition FakeRodeClient_UpdateOccurrence ::
  "(('w, 'c, 'o, 'g) fake_rode_client, 'w, 'c \<times> update_occurrence_request option \<times> 'o list,
     occurrence option \<times> go_error option) fake_ops" where
  "FakeRodeClient_UpdateOccurrence = counterfeit ''UpdateOccurrence'' (\<lambda>(ctx, arg2, opts). [GoContext ctx, GoUpdateOccurrenceRequest arg2, GoCallOptions opts])
     frc_UpdateOccurrence frc_UpdateOccurrence_update FakeRodeClient_recordInvocation"

definition FakeRodeClient_UpdatePolicy ::
  "(('w, 'c, 'o, 'g) fake_rode_client, 'w, 'c \<times> update_policy_request option \<times> 'o list,
     policy option \<times> go_error option) fake_ops" where
  "FakeRodeClient_UpdatePolicy = counterfeit ''UpdatePolicy'' (\<lambda>(ctx, arg2, opts). [GoContext ctx, GoUpdatePolicyRequest arg2, GoCallOptions opts])
     frc_UpdatePolicy frc_UpdatePolicy_update FakeRodeClient_recordInvocation"

definition FakeRodeClient_UpdatePolicyAssignment ::
  "(('w, 'c, 'o, 'g) fake_rode_client, 'w, 'c \<times> policy_assignment option \<times> 'o list,
     policy_assignment option \<times> go_error option) fake_ops" where
  "FakeRodeClient_UpdatePolicyAssignment = counterfeit ''UpdatePolicyAssignment'' (\<lambda>(ctx, arg2, opts). [GoContext ctx, GoPolicyAssignment arg2, GoCallOptions opts])
     frc_UpdatePolicyAssignment frc_UpdatePolicyAssignment_update FakeRodeClient_recordInvocation"

definition FakeRodeClient_UpdatePolicyGroup ::
  "(('w, 'c, 'o, 'g) fake_rode_client, 'w, 'c \<times> policy_group option \<times> 'o list,
     policy_group option \<times> go_error option) fake_ops" where
  "FakeRodeClient_UpdatePolicyGroup = counterfeit ''UpdatePolicyGroup'' (\<lambda>(ctx, arg2, opts). [GoContext ctx, GoPolicyGroup arg2, GoCallOptions opts])
     frc_UpdatePolicyGroup frc_UpdatePolicyGroup_update FakeRodeClient_recordInvocation"

definition FakeRodeClient_ValidatePolicy ::
  "(('w, 'c, 'o, 'g) fake_rode_client, 'w, 'c \<times> validate_policy_request option \<times> 'o list,
     validate_policy_response option \<times> go_error option) fake_ops" where
  "FakeRodeClient_ValidatePolicy = counterfeit ''ValidatePolicy'' (\<lambda>(ctx, arg2, opts). [GoContext ctx, GoValidatePolicyRequest arg2, GoCallOptions opts])
     frc_ValidatePolicy frc_ValidatePolicy_update FakeRodeClient_recordInvocation"

interpretation frcBatchCreateOccurrences: fake_slot frc_BatchCreateOccurrences frc_BatchCreateOccurrences_update frc_invocations FakeRodeClient_recordInvocation
  by unfold_locales (simp_all add: FakeRodeClient_recordInvocation_def)

interpretation frcCreateNote: fake_slot frc_CreateNote frc_CreateNote_update frc_invocations FakeRodeClient_recordInvocation
  by unfold_locales (simp_all add: FakeRodeClient_recordInvocation_def)

interpretation frcCreatePolicy: fake_slot frc_CreatePolicy frc_CreatePolicy_update frc_invocations FakeRodeClient_recordInvocation
  by unfold_locales (simp_all add: FakeRodeClient_recordInvocation_def)

interpretation frcCreatePolicyAssignment: fake_slot frc_CreatePolicyAssignment frc_CreatePolicyAssignment_update frc_invocations FakeRodeClient_recordInvocation
  by unfold_locales (simp_all add: FakeRodeClient_recordInvocation_def)

interpretation frcCreatePolicyGroup: fake_slot frc_CreatePolicyGroup frc_CreatePolicyGroup_update frc_invocations FakeRodeClient_recordInvocation
  by unfold_locales (simp_all add: FakeRodeClient_recordInvocation_def)

interpretation frcDeletePolicy: fake_slot frc_DeletePolicy frc_DeletePolicy_update frc_invocations FakeRodeClient_recordInvocation
  by unfold_locales (simp_all add: FakeRodeClient_recordInvocation_def)

interpretation frcDeletePolicyAssignment: fake_slot frc_DeletePolicyAssignment frc_DeletePolicyAssignment_update frc_invocations FakeRodeClient_recordInvocation
  by unfold_locales (simp_all add: FakeRodeClient_recordInvocation_def)

interpretation frcDeletePolicyGroup: fake_slot frc_DeletePolicyGroup frc_DeletePolicyGroup_update frc_invocations FakeRodeClient_recordInvocation
  by unfold_locales (simp_all add: FakeRodeClient_recordInvocation_def)

interpretation frcEvaluatePolicy: fake_slot frc_EvaluatePolicy frc_EvaluatePolicy_update frc_invocations FakeRodeClient_recordInvocation
  by unfold_locales (simp_all add: FakeRodeClient_recordInvocation_def)

interpretation frcEvaluateResource: fake_slot frc_EvaluateResource frc_EvaluateResource_update frc_invocations FakeRodeClient_recordInvocation
  by unfold_locales (simp_all add: FakeRodeClient_recordInvocation_def)

interpretation frcGetPolicy: fake_slot frc_GetPolicy frc_GetPolicy_update frc_invocations FakeRodeClient_recordInvocation
  by unfold_locales (simp_all add: FakeRodeClient_recordInvocation_def)

interpretation frcGetPolicyAssignment: fake_slot frc_GetPolicyAssignment frc_GetPolicyAssignment_update frc_invocations FakeRodeClient_recordInvocation
  by unfold_locales (simp_all add: FakeRodeClient_recordInvocation_def)

interpretation frcGetPolicyGroup: fake_slot frc_GetPolicyGroup frc_GetPolicyGroup_update frc_invocations FakeRodeClient_recordInvocation
  by unfold_locales (simp_all add: FakeRodeClient_recordInvocation_def)

interpretation frcGetResourceEvaluation: fake_slot frc_GetResourceEvaluation frc_GetResourceEvaluation_update frc_invocations FakeRodeClient_recordInvocation
  by unfold_locales (simp_all add: FakeRodeClient_recordInvocation_def)

interpretation frcListOccurrences: fake_slot frc_ListOccurrences frc_ListOccurrences_update frc_invocations FakeRodeClient_recordInvocation
  by unfold_locales (simp_all add: FakeRodeClient_recordInvocation_def)

interpretation frcListPolicies: fake_slot frc_ListPolicies frc_ListPolicies_update frc_invocations FakeRodeClient_recordInvocation
  by unfold_locales (simp_all add: FakeRodeClient_recordInvocation_def)

interpretation frcListPolicyAssignments: fake_slot frc_ListPolicyAssignments frc_ListPolicyAssignments_update frc_invocations FakeRodeClient_recordInvocation
  by unfold_locales (simp_all add: FakeRodeClient_recordInvocation_def)

interpretation frcListPolicyGroups: fake_slot frc_ListPolicyGroups frc_ListPolicyGroups_update frc_invocations FakeRodeClient_recordInvocation
  by unfold_locales (simp_all add: FakeRodeClient_recordInvocation_def)

interpretation frcListPolicyVersions: fake_slot frc_ListPolicyVersions frc_ListPolicyVersions_update frc_invocations FakeRodeClient_recordInvocation
  by unfold_locales (simp_all add: FakeRodeClient_recordInvocation_def)

interpretation frcListResourceEvaluations: fake_slot frc_ListResourceEvaluations frc_ListResourceEvaluations_update frc_invocations FakeRodeClient_recordInvocation
  by unfold_locales (simp_all add: FakeRodeClient_recordInvocation_def)

interpretation frcListResourceVersions: fake_slot frc_ListResourceVersions frc_ListResourceVersions_update frc_invocations FakeRodeClient_recordInvocation
  by unfold_locales (simp_all add: FakeRodeClient_recordInvocation_def)

interpretation frcListResources: fake_slot frc_ListResources frc_ListResources_update frc_invocations FakeRodeClient_recordInvocation
  by unfold_locales (simp_all add: FakeRodeClient_recordInvocation_def)

interpretation frcListVersionedResourceOccurrences: fake_slot frc_ListVersionedResourceOccurrences frc_ListVersionedResourceOccurrences_update frc_invocations FakeRodeClient_recordInvocation
  by unfold_locales (simp_all add: FakeRodeClient_recordInvocation_def)

interpretation frcRegisterCollector: fake_slot frc_RegisterCollector frc_RegisterCollector_update frc_invocations FakeRodeClient_recordInvocation
  by unfold_locales (simp_all add: FakeRodeClient_recordInvocation_def)

interpretation frcUpdateOccurrence: fake_slot frc_UpdateOccurrence frc_UpdateOccurrence_update frc_invocations FakeRodeClient_recordInvocation
  by unfold_locales (simp_all add: FakeRodeClient_recordInvocation_def)

interpretation frcUpdatePolicy: fake_slot frc_UpdatePolicy frc_UpdatePolicy_update frc_invocations FakeRodeClient_recordInvocation
  by unfold_locales (simp_all add: FakeRodeClient_recordInvocation_def)

interpretation frcUpdatePolicyAssignment: fake_slot frc_UpdatePolicyAssignment frc_UpdatePolicyAssignment_update frc_invocations FakeRodeClient_recordInvocation
  by unfold_locales (simp_all add: FakeRodeClient_recordInvocation_def)

interpretation frcUpdatePolicyGroup: fake_slot frc_UpdatePolicyGroup frc_UpdatePolicyGroup_update frc_invocations FakeRodeClient_recordInvocation
  by unfold_locales (simp_all add: FakeRodeClient_recordInvocation_def)

interpretation frcValidatePolicy: fake_slot frc_ValidatePolicy frc_ValidatePolicy_update frc_invocations FakeRodeClient_recordInvocation
  by unfold_locales (simp_all add: FakeRodeClient_recordInvocation_def)

end
