(* ===== verification/Fake_Grafeas.thy ===== *)
theory Fake_Grafeas
  imports Counterfeiter
begin

text \<open>
  The test doubles of the two clients of Grafeas, \<open>mocks/grafeas_client.go\<close> and
  \<open>mocks/grafeas_projects_client.go\<close>. The messages of Grafeas that the sources never look into are
  of the open type \<open>'g\<close>.
\<close>

section \<open>mocks/grafeas_client.go\<close>

record ('w, 'c, 'o, 'g) fake_grafeas_client =
  fgc_BatchCreateNotes :: "('w, 'c \<times> g_batch_create_notes_request option \<times> 'o list,
     g_batch_create_notes_response option \<times> go_error option) fake_method"
  fgc_BatchCreateOccurrences :: "('w, 'c \<times> g_batch_create_occurrences_request option \<times> 'o list,
     g_batch_create_occurrences_response option \<times> go_error option) fake_method"
  fgc_CreateNote :: "('w, 'c \<times> g_create_note_request option \<times> 'o list,
     grafeas_note option \<times> go_error option) fake_method"
  fgc_CreateOccurrence :: "('w, 'c \<times> 'g option \<times> 'o list,
     occurrence option \<times> go_error option) fake_method"
  fgc_DeleteNote :: "('w, 'c \<times> 'g option \<times> 'o list,
     unit option \<times> go_error option) fake_method"
  fgc_DeleteOccurrence :: "('w, 'c \<times> 'g option \<times> 'o list,
     unit option \<times> go_error option) fake_method"
  fgc_GetNote :: "('w, 'c \<times> 'g option \<times> 'o list,
     grafeas_note option \<times> go_error option) fake_method"
  fgc_GetOccurrence :: "('w, 'c \<times> 'g option \<times> 'o list,
     occurrence option \<times> go_error option) fake_method"
  fgc_GetOccurrenceNote :: "('w, 'c \<times> 'g option \<times> 'o list,
     grafeas_note option \<times> go_error option) fake_method"
  fgc_GetVulnerabilityOccurrencesSummary :: "('w, 'c \<times> 'g option \<times> 'o list,
     'g option \<times> go_error option) fake_method"
  fgc_ListNoteOccurrences :: "('w, 'c \<times> 'g option \<times> 'o list,
     'g option \<times> go_error option) fake_method"
  fgc_ListNotes :: "('w, 'c \<times> g_list_notes_request option \<times> 'o list,
     g_list_notes_response option \<times> go_error option) fake_method"
  fgc_ListOccurrences :: "('w, 'c \<times> g_list_occurrences_request option \<times> 'o list,
     g_list_occurrences_response option \<times> go_error option) fake_method"
  fgc_UpdateNote :: "('w, 'c \<times> 'g option \<times> 'o list,
     grafeas_note option \<times> go_error option) fake_method"
  fgc_UpdateOccurrence :: "('w, 'c \<times> g_update_occurrence_request option \<times> 'o list,
     occurrence option \<times> go_error option) fake_method"
  fgc_invocations :: "('c, 'o, 'g) go_value invocations"

definition FakeGrafeasV1Beta1Client_recordInvocation ::
  "string \<Rightarrow> ('c, 'o, 'g) go_value list \<Rightarrow> ('w, 'c, 'o, 'g) fake_grafeas_client \<Rightarrow> ('w, 'c, 'o, 'g) fake_grafeas_client" where
  "FakeGrafeasV1Beta1Client_recordInvocation key args fake =
     fake\<lparr>fgc_invocations := record_invocation key args (fgc_invocations fake)\<rparr>"

definition FakeGrafeasV1Beta1Client_Invocations :: "('w, 'c, 'o, 'g) fake_grafeas_client \<Rightarrow> ('c, 'o, 'g) go_value invocations" where
  "FakeGrafeasV1Beta1Client_Invocations fake = copied_invocations (fgc_invocations fake)"

definition new_FakeGrafeasV1Beta1Client :: "('w, 'c, 'o, 'g) fake_grafeas_client" where
  "new_FakeGrafeasV1Beta1Client = \<lparr>
     fgc_BatchCreateNotes = fresh_method (None, None),
     fgc_BatchCreateOccurrences = fresh_method (None, None),
     fgc_CreateNote = fresh_method (None, None),
     fgc_CreateOccurrence = fresh_method (None, None),
     fgc_DeleteNote = fresh_method (None, None),
     fgc_DeleteOccurrence = fresh_method (None, None),
     fgc_GetNote = fresh_method (None, None),
     fgc_GetOccurrence = fresh_method (None, None),
     fgc_GetOccurrenceNote = fresh_method (None, None),
     fgc_GetVulnerabilityOccurrencesSummary = fresh_method (None, None),
     fgc_ListNoteOccurrences = fresh_method (None, None),
     fgc_ListNotes = fresh_method (None, None),
     fgc_ListOccurrences = fresh_method (None, None),
     fgc_UpdateNote = fresh_method (None, None),
     fgc_UpdateOccurrence = fresh_method (None, None),
     fgc_invocations = Map.empty\<rparr>"

definition FakeGrafeasV1Beta1Client_BatchCreateNotes ::
  "(('w, 'c, 'o, 'g) fake_grafeas_client, 'w, 'c \<times> g_batch_create_notes_request option \<times> 'o list,
     g_batch_create_notes_response option \<times> go_error option) fake_ops" where
  "FakeGrafeasV1Beta1Client_BatchCreateNotes = counterfeit ''BatchCreateNotes'' (\<lambda>(ctx, arg2, opts). [GoContext ctx, GoGrafeasBatchCreateNotesRequest arg2, GoCallOptions opts])
     fgc_BatchCreateNotes fgc_BatchCreateNotes_update FakeGrafeasV1Beta1Client_recordInvocation"

definition FakeGrafeasV1Beta1Client_BatchCreateOccurrences ::
  "(('w, 'c, 'o, 'g) fake_grafeas_client, 'w, 'c \<times> g_batch_create_occurrences_request option \<times> 'o list,
     g_batch_create_occurrences_response option \<times> go_error option) fake_ops" where
  "FakeGrafeasV1Beta1Client_BatchCreateOccurrences = counterfeit ''BatchCreateOccurrences'' (\<lambda>(ctx, arg2, opts). [GoContext ctx, GoGrafeasBatchCreateOccurrencesRequest arg2, GoCallOptions opts])
     fgc_BatchCreateOccurrences fgc_BatchCreateOccurrences_update FakeGrafeasV1Beta1Client_recordInvocation"

definition FakeGrafeasV1Beta1Client_CreateNote ::
  "(('w, 'c, 'o, 'g) fake_grafeas_client, 'w, 'c \<times> g_create_note_request option \<times> 'o list,
     grafeas_note option \<times> go_error option) fake_ops" where
  "FakeGrafeasV1Beta1Client_CreateNote = counterfeit ''CreateNote'' (\<lambda>(ctx, arg2, opts). [GoContext ctx, GoGrafeasCreateNoteRequest arg2, GoCallOptions opts])
     fgc_CreateNote fgc_CreateNote_update FakeGrafeasV1Beta1Client_recordInvocation"

definition FakeGrafeasV1Beta1Client_CreateOccurrence ::
  "(('w, 'c, 'o, 'g) fake_grafeas_client, 'w, 'c \<times> 'g option \<times> 'o list,
     occurrence option \<times> go_error option) fake_ops" where
  "FakeGrafeasV1Beta1Client_CreateOccurrence = counterfeit ''CreateOccurrence'' (\<lambda>(ctx, arg2, opts). [GoContext ctx, GoGrafeasMessage arg2, GoCallOptions opts])
     fgc_CreateOccurrence fgc_CreateOccurrence_update FakeGrafeasV1Beta1Client_recordInvocation"

definition FakeGrafeasV1Beta1Client_DeleteNote ::
  "(('w, 'c, 'o, 'g) fake_grafeas_client, 'w, 'c \<times> 'g option \<times> 'o list,
     unit option \<times> go_error option) fake_ops" where
  "FakeGrafeasV1Beta1Client_DeleteNote = counterfeit ''DeleteNote'' (\<lambda>(ctx, arg2, opts). [GoContext ctx, GoGrafeasMessage arg2, GoCallOptions opts])
     fgc_DeleteNote fgc_DeleteNote_update FakeGrafeasV1Beta1Client_recordInvocation"

definition FakeGrafeasV1Beta1Client_DeleteOccurrence ::
  "(('w, 'c, 'o, 'g) fake_grafeas_client, 'w, 'c \<times> 'g option \<times> 'o list,
     unit option \<times> go_error option) fake_ops" where
  "FakeGrafeasV1Beta1Client_DeleteOccurrence = counterfeit ''DeleteOccurrence'' (\<lambda>(ctx, arg2, opts). [GoContext ctx, GoGrafeasMessage arg2, GoCallOptions opts])
     fgc_DeleteOccurrence fgc_DeleteOccurrence_update FakeGrafeasV1Beta1Client_recordInvocation"

definition FakeGrafeasV1Beta1Client_GetNote ::
  "(('w, 'c, 'o, 'g) fake_grafeas_client, 'w, 'c \<times> 'g option \<times> 'o list,
     grafeas_note option \<times> go_error option) fake_ops" where
  "FakeGrafeasV1Beta1Client_GetNote = counterfeit ''GetNote'' (\<lambda>(ctx, arg2, opts). [GoContext ctx, GoGrafeasMessage arg2, GoCallOptions opts])
     fgc_GetNote fgc_GetNote_update FakeGrafeasV1Beta1Client_recordInvocation"

definition FakeGrafeasV1Beta1Client_GetOccurrence ::
  "(('w, 'c, 'o, 'g) fake_grafeas_client, 'w, 'c \<times> 'g option \<times> 'o list,
     occurrence option \<times> go_error option) fake_ops" where
  "FakeGrafeasV1Beta1Client_GetOccurrence = counterfeit ''GetOccurrence'' (\<lambda>(ctx, arg2, opts). [GoContext ctx, GoGrafeasMessage arg2, GoCallOptions opts])
     fgc_GetOccurrence fgc_GetOccurrence_update FakeGrafeasV1Beta1Client_recordInvocation"

definition FakeGrafeasV1Beta1Client_GetOccurrenceNote ::
  "(('w, 'c, 'o, 'g) fake_grafeas_client, 'w, 'c \<times> 'g option \<times> 'o list,
     grafeas_note option \<times> go_error option) fake_ops" where
  "FakeGrafeasV1Beta1Client_GetOccurrenceNote = counterfeit ''GetOccurrenceNote'' (\<lambda>(ctx, arg2, opts). [GoContext ctx, GoGrafeasMessage arg2, GoCallOptions opts])
     fgc_GetOccurrenceNote fgc_GetOccurrenceNote_update FakeGrafeasV1Beta1Client_recordInvocation"

definition FakeGrafeasV1Beta1Client_GetVulnerabilityOccurrencesSummary ::
  "(('w, 'c, 'o, 'g) fake_grafeas_client, 'w, 'c \<times> 'g option \<times> 'o list,
     'g option \<times> go_error option) fake_ops" where
  "FakeGrafeasV1Beta1Client_GetVulnerabilityOccurrencesSummary = counterfeit ''GetVulnerabilityOccurrencesSummary'' (\<lambda>(ctx, arg2, opts). [GoContext ctx, GoGrafeasMessage arg2, GoCallOptions opts])
     fgc_GetVulnerabilityOccurrencesSummary fgc_GetVulnerabilityOccurrencesSummary_update FakeGrafeasV1Beta1Client_recordInvocation"

definition FakeGrafeasV1Beta1Client_ListNoteOccurrences ::
  "(('w, 'c, 'o, 'g) fake_grafeas_client, 'w, 'c \<times> 'g option \<times> 'o list,
     'g option \<times> go_error option) fake_ops" where
  "FakeGrafeasV1Beta1Client_ListNoteOccurrences = counterfeit ''ListNoteOccurrences'' (\<lambda>(ctx, arg2, opts). [GoContext ctx, GoGrafeasMessage arg2, GoCallOptions opts])
     fgc_ListNoteOccurrences fgc_ListNoteOccurrences_update FakeGrafeasV1Beta1Client_recordInvocation"

definition FakeGrafeasV1Beta1Client_ListNotes ::
  "(('w, 'c, 'o, 'g) fake_grafeas_client, 'w, 'c \<times> g_list_notes_request option \<times> 'o list,
     g_list_notes_response option \<times> go_error option) fake_ops" where
  "FakeGrafeasV1Beta1Client_ListNotes = counterfeit ''ListNotes'' (\<lambda>(ctx, arg2, opts). [GoContext ctx, GoGrafeasListNotesRequest arg2, GoCallOptions opts])
     fgc_ListNotes fgc_ListNotes_update FakeGrafeasV1Beta1Client_recordInvocation"

definition FakeGrafeasV1Beta1Client_ListOccurrences ::
  "(('w, 'c, 'o, 'g) fake_grafeas_client, 'w, 'c \<times> g_list_occurrences_request option \<times> 'o list,
     g_list_occurrences_response option \<times> go_error option) fake_ops" where
  "FakeGrafeasV1Beta1Client_ListOccurrences = counterfeit ''ListOccurrences'' (\<lambda>(ctx, arg2, opts). [GoContext ctx, GoGrafeasListOccurrencesRequest arg2, GoCallOptions opts])
     fgc_ListOccurrences fgc_ListOccurrences_update FakeGrafeasV1Beta1Client_recordInvocation"

definition FakeGrafeasV1Beta1Client_UpdateNote ::
  "(('w, 'c, 'o, 'g) fake_grafeas_client, 'w, 'c \<times> 'g option \<times> 'o list,
     grafeas_note option \<times> go_error option) fake_ops" where
  "FakeGrafeasV1Beta1Client_UpdateNote = counterfeit ''UpdateNote'' (\<lambda>(ctx, arg2, opts). [GoContext ctx, GoGrafeasMessage arg2, GoCallOptions opts])
     fgc_UpdateNote fgc_UpdateNote_update FakeGrafeasV1Beta1Client_recordInvocation"

definition FakeGrafeasV1Beta1Client_UpdateOccurrence ::
  "(('w, 'c, 'o, 'g) fake_grafeas_client, 'w, 'c \<times> g_update_occurrence_request option \<times> 'o list,
     occurrence option \<times> go_error option) fake_ops" where
  "FakeGrafeasV1Beta1Client_UpdateOccurrence = counterfeit ''UpdateOccurrence'' (\<lambda>(ctx, arg2, opts). [GoContext ctx, GoGrafeasUpdateOccurrenceRequest arg2, GoCallOptions opts])
     fgc_UpdateOccurrence fgc_UpdateOccurrence_update FakeGrafeasV1Beta1Client_recordInvocation"

interpretation fgcBatchCreateNotes: fake_slot fgc_BatchCreateNotes fgc_BatchCreateNotes_update fgc_invocations FakeGrafeasV1Beta1Client_recordInvocation
  by unfold_locales (simp_all add: FakeGrafeasV1Beta1Client_recordInvocation_def)

interpretation fgcBatchCreateOccurrences: fake_slot fgc_BatchCreateOccurrences fgc_BatchCreateOccurrences_update fgc_invocations FakeGrafeasV1Beta1Client_recordInvocation
  by unfold_locales (simp_all add: FakeGrafeasV1Beta1Client_recordInvocation_def)

interpretation fgcCreateNote: fake_slot fgc_CreateNote fgc_CreateNote_update fgc_invocations FakeGrafeasV1Beta1Client_recordInvocation
  by unfold_locales (simp_all add: FakeGrafeasV1Beta1Client_recordInvocation_def)

interpretation fgcCreateOccurrence: fake_slot fgc_CreateOccurrence fgc_CreateOccurrence_update fgc_invocations FakeGrafeasV1Beta1Client_recordInvocation
  by unfold_locales (simp_all add: FakeGrafeasV1Beta1Client_recordInvocation_def)

interpretation fgcDeleteNote: fake_slot fgc_DeleteNote fgc_DeleteNote_update fgc_invocations FakeGrafeasV1Beta1Client_recordInvocation
  by unfold_locales (simp_all add: FakeGrafeasV1Beta1Client_recordInvocation_def)

interpretation fgcDeleteOccurrence: fake_slot fgc_DeleteOccurrence fgc_DeleteOccurrence_update fgc_invocations FakeGrafeasV1Beta1Client_recordInvocation
  by unfold_locales (simp_all add: FakeGrafeasV1Beta1Client_recordInvocation_def)

interpretation fgcGetNote: fake_slot fgc_GetNote fgc_GetNote_update fgc_invocations FakeGrafeasV1Beta1Client_recordInvocation
  by unfold_locales (simp_all add: FakeGrafeasV1Beta1Client_recordInvocation_def)

interpretation fgcGetOccurrence: fake_slot fgc_GetOccurrence fgc_GetOccurrence_update fgc_invocations FakeGrafeasV1Beta1Client_recordInvocation
  by unfold_locales (simp_all add: FakeGrafeasV1Beta1Client_recordInvocation_def)

interpretation fgcGetOccurrenceNote: fake_slot fgc_GetOccurrenceNote fgc_GetOccurrenceNote_update fgc_invocations FakeGrafeasV1Beta1Client_recordInvocation
  by unfold_locales (simp_all add: FakeGrafeasV1Beta1Client_recordInvocation_def)

interpretation fgcGetVulnerabilityOccurrencesSummary: fake_slot fgc_GetVulnerabilityOccurrencesSummary fgc_GetVulnerabilityOccurrencesSummary_update fgc_invocations FakeGrafeasV1Beta1Client_recordInvocation
  by unfold_locales (simp_all add: FakeGrafeasV1Beta1Client_recordInvocation_def)

interpretation fgcListNoteOccurrences: fake_slot fgc_ListNoteOccurrences fgc_ListNoteOccurrences_update fgc_invocations FakeGrafeasV1Beta1Client_recordInvocation
  by unfold_locales (simp_all add: FakeGrafeasV1Beta1Client_recordInvocation_def)

interpretation fgcListNotes: fake_slot fgc_ListNotes fgc_ListNotes_update fgc_invocations FakeGrafeasV1Beta1Client_recordInvocation
  by unfold_locales (simp_all add: FakeGrafeasV1Beta1Client_recordInvocation_def)

interpretation fgcListOccurrences: fake_slot fgc_ListOccurrences fgc_ListOccurrences_update fgc_invocations FakeGrafeasV1Beta1Client_recordInvocation
  by unfold_locales (simp_all add: FakeGrafeasV1Beta1Client_recordInvocation_def)

interpretation fgcUpdateNote: fake_slot fgc_UpdateNote fgc_UpdateNote_update fgc_invocations FakeGrafeasV1Beta1Client_recordInvocation
  by unfold_locales (simp_all add: FakeGrafeasV1Beta1Client_recordInvocation_def)

interpretation fgcUpdateOccurrence: fake_slot fgc_UpdateOccurrence fgc_UpdateOccurrence_update fgc_invocations FakeGrafeasV1Beta1Client_recordInvocation
  by unfold_locales (simp_all add: FakeGrafeasV1Beta1Client_recordInvocation_def)

section \<open>mocks/grafeas_projects_client.go\<close>

record ('w, 'c, 'o, 'g) fake_projects_client =
  fpc_CreateProject :: "('w, 'c \<times> 'g option \<times> 'o list,
     project option \<times> go_error option) fake_method"
  fpc_DeleteProject :: "('w, 'c \<times> 'g option \<times> 'o list,
     unit option \<times> go_error option) fake_method"
  fpc_GetProject :: "('w, 'c \<times> 'g option \<times> 'o list,
     project option \<times> go_error option) fake_method"
  fpc_ListProjects :: "('w, 'c \<times> 'g option \<times> 'o list,
     'g option \<times> go_error option) fake_method"
  fpc_invocations :: "('c, 'o, 'g) go_value invocations"

definition FakeProjectsClient_recordInvocation ::
  "string \<Rightarrow> ('c, 'o, 'g) go_value list \<Rightarrow> ('w, 'c, 'o, 'g) fake_projects_client \<Rightarrow> ('w, 'c, 'o, 'g) fake_projects_client" where
  "FakeProjectsClient_recordInvocation key args fake =
     fake\<lparr>fpc_invocations := record_invocation key args (fpc_invocations fake)\<rparr>"

definition FakeProjectsClient_Invocations :: "('w, 'c, 'o, 'g) fake_projects_client \<Rightarrow> ('c, 'o, 'g) go_value invocations" where
  "FakeProjectsClient_Invocations fake = copied_invocations (fpc_invocations fake)"

definition new_FakeProjectsClient :: "('w, 'c, 'o, 'g) fake_projects_client" where
  "new_FakeProjectsClient = \<lparr>
     fpc_CreateProject = fresh_method (None, None),
     fpc_DeleteProject = fresh_method (None, None),
     fpc_GetProject = fresh_method (None, None),
     fpc_ListProjects = fresh_method (None, None),
     fpc_invocations = Map.empty\<rparr>"

definition FakeProjectsClient_CreateProject ::
  "(('w, 'c, 'o, 'g) fake_projects_client, 'w, 'c \<times> 'g option \<times> 'o list,
     project option \<times> go_error option) fake_ops" where
  "FakeProjectsClient_CreateProject = counterfeit ''CreateProject'' (\<lambda>(ctx, arg2, opts). [GoContext ctx, GoGrafeasMessage arg2, GoCallOptions opts])
     fpc_CreateProject fpc_CreateProject_update FakeProjectsClient_recordInvocation"

definition FakeProjectsClient_DeleteProject ::
  "(('w, 'c, 'o, 'g) fake_projects_client, 'w, 'c \<times> 'g option \<times> 'o list,
     unit option \<times> go_error option) fake_ops" where
  "FakeProjectsClient_DeleteProject = counterfeit ''DeleteProject'' (\<lambda>(ctx, arg2, opts). [GoContext ctx, GoGrafeasMessage arg2, GoCallOptions opts])
     fpc_DeleteProject fpc_DeleteProject_update FakeProjectsClient_recordInvocation"

definition FakeProjectsClient_GetProject ::
  "(('w, 'c, 'o, 'g) fake_projects_client, 'w, 'c \<times> 'g option \<times> 'o list,
     project option \<times> go_error option) fake_ops" where
  "FakeProjectsClient_GetProject = counterfeit ''GetProject'' (\<lambda>(ctx, arg2, opts). [GoContext ctx, GoGrafeasMessage arg2, GoCallOptions opts])
     fpc_GetProject fpc_GetProject_update FakeProjectsClient_recordInvocation"

definition FakeProjectsClient_ListProjects ::
  "(('w, 'c, 'o, 'g) fake_projects_client, 'w, 'c \<times> 'g option \<times> 'o list,
     'g option \<times> go_error option) fake_ops" where
  "FakeProjectsClient_ListProjects = counterfeit ''ListProjects'' (\<lambda>(ctx, arg2, opts). [GoContext ctx, GoGrafeasMessage arg2, GoCallOptions opts])
     fpc_ListProjects fpc_ListProjects_update FakeProjectsClient_recordInvocation"

interpretation fpcCreateProject: fake_slot fpc_CreateProject fpc_CreateProject_update fpc_invocations FakeProjectsClient_recordInvocation
  by unfold_locales (simp_all add: FakeProjectsClient_recordInvocation_def)

interpretation fpcDeleteProject: fake_slot fpc_DeleteProject fpc_DeleteProject_update fpc_invocations FakeProjectsClient_recordInvocation
  by unfold_locales (simp_all add: FakeProjectsClient_recordInvocation_def)

interpretation fpcGetProject: fake_slot fpc_GetProject fpc_GetProject_update fpc_invocations FakeProjectsClient_recordInvocation
  by unfold_locales (simp_all add: FakeProjectsClient_recordInvocation_def)

interpretation fpcListProjects: fake_slot fpc_ListProjects fpc_ListProjects_update fpc_invocations FakeProjectsClient_recordInvocation
  by unfold_locales (simp_all add: FakeProjectsClient_recordInvocation_def)

end
