(* ===== verification/Example_Fakes.thy ===== *)
theory Example_Fakes
  imports Fake_Managers Fake_Rode_Client Fake_Grafeas
begin

text \<open>
  A use of a fake as the tests make it: the fake of the policy manager answers NotFound, but
  for its second call, for which a policy is set; it is called twice.
\<close>

definition fk_policy :: policy where
  "fk_policy = \<lparr>p_Id = ''p'', p_Name = ''n'', p_Description = '''', p_CurrentVersion = 1, p_Policy = None,
     p_Created = None, p_Updated = None, p_Deleted = False\<rparr>"

definition fk_missing :: go_error where
  "fk_missing = StatusError NotFound ''policy not found'' None []"

definition fk_uses :: "(unit, unit \<times> get_policy_request option, policy option \<times> go_error option) fake_use list" where
  "fk_uses = [Told (Returning (None, Some fk_missing)), Told (ReturningOnCall 1 (Some fk_policy, None)),
     Called ((), Some \<lparr>gpr_Id = ''a''\<rparr>)]"

definition fk_used :: "(unit, unit, unit, unit) fake_policy_manager" where
  "fk_used = use_fake FakePolicyManager_GetPolicy fk_uses new_FakePolicyManager"

definition fk_answer :: "(unit, policy option \<times> go_error option) io" where
  "fk_answer = fst (fo_Call FakePolicyManager_GetPolicy ((), Some \<lparr>gpr_Id = ''b''\<rparr>) fk_used)"

definition fk_after :: "(unit, unit, unit, unit) fake_policy_manager" where
  "fk_after = snd (fo_Call FakePolicyManager_GetPolicy ((), Some \<lparr>gpr_Id = ''b''\<rparr>) fk_used)"

lemma fk_slot:
  "fake_slot fpm_GetPolicy fpm_GetPolicy_update fpm_invocations FakePolicyManager_recordInvocation"
  by (rule fpmGetPolicy.fake_slot_axioms)

lemma fk_uses_read:
  "calls_of fk_uses = [((), Some \<lparr>gpr_Id = ''a''\<rparr>)]" "stub_told fk_uses = None"
  "on_call_told fk_uses 1 = Some (Some fk_policy, None)"
  by (simp_all add: fk_uses_def calls_of_def stub_told_def on_call_told_def settings_of_def List.map_filter_simps)

theorem fake_records_and_answers_witness:
  "fk_answer = ret (Some fk_policy, None) \<and> fo_CallCount FakePolicyManager_GetPolicy fk_after = 2 \<and>
   fo_ArgsForCall FakePolicyManager_GetPolicy 1 fk_after = ret ((), Some \<lparr>gpr_Id = ''b''\<rparr>) \<and>
   FakePolicyManager_Invocations fk_after ''GetPolicy'' = Some
     [[GoContext (), GoGetPolicyRequest (Some \<lparr>gpr_Id = ''a''\<rparr>)], [GoContext (), GoGetPolicyRequest (Some \<lparr>gpr_Id = ''b''\<rparr>)]]"
proof -
  have fresh: "fpm_GetPolicy new_FakePolicyManager = fresh_method (None, None)"
    "fpm_invocations new_FakePolicyManager = Map.empty"
    by (simp_all add: new_FakePolicyManager_def)
  have run: "fo_Call FakePolicyManager_GetPolicy ((), Some \<lparr>gpr_Id = ''b''\<rparr>)
      (use_fake FakePolicyManager_GetPolicy fk_uses new_FakePolicyManager) = (fk_answer, fk_after)"
    by (simp add: fk_answer_def fk_after_def fk_used_def)
  from fake_records_and_answers [OF fk_slot FakePolicyManager_GetPolicy_def fresh(1) run refl]
  have all: "fk_answer = told_answer (None, None) fk_uses ((), Some \<lparr>gpr_Id = ''b''\<rparr>)"
    "fo_CallCount FakePolicyManager_GetPolicy fk_after = 2"
    and "\<forall>i < Suc (Suc 0). fo_ArgsForCall FakePolicyManager_GetPolicy (int i) fk_after =
      ret ([((), Some \<lparr>gpr_Id = ''a''\<rparr>), ((), Some \<lparr>gpr_Id = ''b''\<rparr>)] ! i)"
    and log: "fpm_invocations fk_after ''GetPolicy'' = Some (map (\<lambda>(ctx, arg2). [GoContext ctx, GoGetPolicyRequest arg2])
       [((), Some \<lparr>gpr_Id = ''a''\<rparr>), ((), Some \<lparr>gpr_Id = ''b''\<rparr>)])"
    by (simp_all add: fk_uses_read fresh(2))
  from all(1) have "fk_answer = ret (Some fk_policy, None)" by (simp add: told_answer_def fk_uses_read)
  moreover from \<open>\<forall>i < Suc (Suc 0). _\<close> [rule_format, of 1]
  have "fo_ArgsForCall FakePolicyManager_GetPolicy 1 fk_after = ret ((), Some \<lparr>gpr_Id = ''b''\<rparr>)" by simp
  ultimately show ?thesis using all(2) log by (simp add: FakePolicyManager_Invocations_def copied_invocations_def)
qed

end
