(* ===== verification/Test_Clients.thy ===== *)
theory Test_Clients
  imports Rode_Client Opa_Client
begin

text \<open>
  The helpers of the integration tests, \<open>test/util\<close>: a client for each role
  (\<open>auth.go\<close>), the table of roles that may and may not make a call, and the matcher for gRPC
  status codes (\<open>grpc_matcher.go\<close>). The environment is a parameter, like dialling and the
  token source of \<open>Rode_Client\<close>; the order in which a set is walked is one too.
\<close>

section \<open>Clients by role\<close>

definition getEnvOrDefault :: "(string \<Rightarrow> string option) \<Rightarrow> string \<Rightarrow> string \<Rightarrow> string" where
  "getEnvOrDefault lookup_env envName fallback =
     (case lookup_env envName of Some val \<Rightarrow> val | None \<Rightarrow> fallback)"

definition tokenUrl :: "(string \<Rightarrow> string option) \<Rightarrow> string" where
  "tokenUrl env = getEnvOrDefault env ''TOKEN_URL'' ''http://localhost:3000/token''"

definition rodeHost :: "(string \<Rightarrow> string option) \<Rightarrow> string" where
  "rodeHost env = getEnvOrDefault env ''RODE_HOST'' ''localhost:50051''"

definition rodeRoles :: "string list" where
  "rodeRoles = [''Anonymous'', ''Collector'', ''Enforcer'', ''PolicyDeveloper'', ''PolicyAdministrator'',
     ''ApplicationDeveloper'', ''Administrator'']"

text \<open>\<open>strings.ToLower\<close> and \<open>strings.ToUpper\<close> on the ASCII letters, which is all that role names hold.\<close>

definition to_lower :: "string \<Rightarrow> string" where
  "to_lower s = map (\<lambda>c. let n = of_char c :: nat in if 65 \<le> n \<and> n \<le> 90 then char_of (n + 32) else c) s"

definition to_upper :: "string \<Rightarrow> string" where
  "to_upper s = map (\<lambda>c. let n = of_char c :: nat in if 97 \<le> n \<and> n \<le> 122 then char_of (n - 32) else c) s"

text \<open>A client is the target it dialled and the options it dialled with.\<close>

type_synonym test_client = "string \<times> dial_option list"
type_synonym 'w dialer = "string \<Rightarrow> dial_option list \<Rightarrow> 'w \<Rightarrow> (go_error + unit) \<times> 'w"

definition role_config :: "(string \<Rightarrow> string option) \<Rightarrow> string \<Rightarrow> client_config" where
  "role_config env role =
     (let fallbackCredentials = replace_char CHR '' '' CHR ''-'' (to_lower role);
          envBase = to_upper (replace_char CHR '' '' CHR ''_'' role) in
      \<lparr>cc_Rode = Some \<lparr>rcc_Host = rodeHost env, rcc_DisableTransportSecurity = True\<rparr>,
       cc_OIDCAuth = Some
         \<lparr>coc_ClientID = getEnvOrDefault env (envBase @ ''_CLIENT_ID'') fallbackCredentials,
          coc_ClientSecret = getEnvOrDefault env (envBase @ ''_CLIENT_SECRET'') fallbackCredentials,
          coc_TokenURL = tokenUrl env, coc_TlsInsecureSkipVerify = True, coc_Scopes = ''''\<rparr>,
       cc_BasicAuth = None, cc_ProxyAuth = False\<rparr>)"

definition newTestClient ::
  "(string \<Rightarrow> string option) \<Rightarrow> 'w token_source \<Rightarrow> 'w dialer \<Rightarrow> string \<Rightarrow> ('w, test_client) io" where
  "newTestClient env src dial role = NewRodeClient src dial (Some (role_config env role)) []"

text \<open>The embedded client is the field \<open>cs_RodeClient\<close>.\<close>

record rode_client_set =
  cs_Anonymous :: test_client
  cs_Collector :: test_client
  cs_Enforcer :: test_client
  cs_ApplicationDeveloper :: test_client
  cs_PolicyDeveloper :: test_client
  cs_PolicyAdministrator :: test_client
  cs_Administrator :: test_client
  cs_RodeClient :: test_client

definition anonymous_config :: "(string \<Rightarrow> string option) \<Rightarrow> client_config" where
  "anonymous_config env = \<lparr>cc_Rode = Some \<lparr>rcc_Host = rodeHost env, rcc_DisableTransportSecurity = True\<rparr>,
     cc_OIDCAuth = None, cc_BasicAuth = None, cc_ProxyAuth = False\<rparr>"

definition NewRodeClientSet ::
  "(string \<Rightarrow> string option) \<Rightarrow> 'w token_source \<Rightarrow> 'w dialer \<Rightarrow> ('w, rode_client_set) io" where
  "NewRodeClientSet env src dial =
     attempt (NewRodeClient src dial (Some (anonymous_config env)) []) id (\<lambda>anonymous.
     attempt (newTestClient env src dial ''Collector'') id (\<lambda>collector.
     attempt (newTestClient env src dial ''Enforcer'') id (\<lambda>enforcer.
     attempt (newTestClient env src dial ''Application Developer'') id (\<lambda>applicationDeveloper.
     attempt (newTestClient env src dial ''Policy Developer'') id (\<lambda>policyDeveloper.
     attempt (newTestClient env src dial ''Policy Administrator'') id (\<lambda>policyAdministrator.
     attempt (newTestClient env src dial ''Administrator'') id (\<lambda>administrator.
     ret \<lparr>cs_Anonymous = anonymous, cs_Collector = collector, cs_Enforcer = enforcer,
          cs_ApplicationDeveloper = applicationDeveloper, cs_PolicyDeveloper = policyDeveloper,
          cs_PolicyAdministrator = policyAdministrator, cs_Administrator = administrator,
          cs_RodeClient = administrator\<rparr>)))))))"

definition WithRole :: "rode_client_set \<Rightarrow> string \<Rightarrow> test_client" where
  "WithRole rcs roleName =
     (if roleName = ''Collector'' then cs_Collector rcs
      else if roleName = ''Enforcer'' then cs_Enforcer rcs
      else if roleName = ''ApplicationDeveloper'' then cs_ApplicationDeveloper rcs
      else if roleName = ''PolicyDeveloper'' then cs_PolicyDeveloper rcs
      else if roleName = ''PolicyAdministrator'' then cs_PolicyAdministrator rcs
      else if roleName = ''Administrator'' then cs_Administrator rcs
      else cs_Anonymous rcs)"

section \<open>The table of roles\<close>

record authz_test_entry =
  ate_Role :: string
  ate_Permitted :: bool

definition authzDescription :: "authz_test_entry \<Rightarrow> string" where
  "authzDescription entry =
     ''should '' @ (if ate_Permitted entry then ''allow'' else ''deny'') @ '' a caller with the role ''
       @ [CHR 0x27] @ ate_Role entry @ [CHR 0x27]"

text \<open>\<open>walk\<close> gives the elements of a set in the order in which \<open>Each\<close> visits them.\<close>

definition NewAuthzTableTest ::
  "(string set \<Rightarrow> string list) \<Rightarrow> string list \<Rightarrow> (string \<times> authz_test_entry) list" where
  "NewAuthzTableTest walk roles =
     (let permittedRoles = set roles;
          forbiddenRoles = set rodeRoles - permittedRoles;
          entries = map (\<lambda>role. \<lparr>ate_Role = role, ate_Permitted = True\<rparr>) (walk permittedRoles)
            @ map (\<lambda>role. \<lparr>ate_Role = role, ate_Permitted = False\<rparr>) (walk forbiddenRoles) in
      map (\<lambda>entry. (authzDescription entry, entry)) entries)"

section \<open>The matcher for gRPC codes\<close>

fun code_number :: "grpc_code \<Rightarrow> nat" where
  "code_number OK = 0"
| "code_number Canceled = 1"
| "code_number Unknown = 2"
| "code_number InvalidArgument = 3"
| "code_number DeadlineExceeded = 4"
| "code_number NotFound = 5"
| "code_number AlreadyExists = 6"
| "code_number PermissionDenied = 7"
| "code_number ResourceExhausted = 8"
| "code_number FailedPrecondition = 9"
| "code_number Aborted = 10"
| "code_number OutOfRange = 11"
| "code_number Unimplemented = 12"
| "code_number Internal = 13"
| "code_number Unavailable = 14"
| "code_number DataLoss = 15"
| "code_number Unauthenticated = 16"

text \<open>The value a test matches: nil, an error, or anything else, with its text and its type.\<close>

datatype matched = Matched_Nil | Matched_Error go_error | Matched_Other string string

record grpc_matcher =
  hm_expected :: grpc_code
  hm_actual :: grpc_code

definition HaveGrpcStatus :: "grpc_code \<Rightarrow> grpc_matcher" where
  "HaveGrpcStatus expected = \<lparr>hm_expected = expected, hm_actual = OK\<rparr>"

definition toGrpcStatus :: "matched \<Rightarrow> go_error + grpc_code" where
  "toGrpcStatus actual = (case actual of
       Matched_Nil \<Rightarrow> Inl (ErrorNew ''expected a gRPC status, but was nil'')
     | Matched_Other txt typ \<Rightarrow> Inl (ErrorNew (''expected '' @ txt @ '' to be an error, but was of type '' @ typ))
     | Matched_Error (StatusError c msg cause details) \<Rightarrow> Inr c
     | Matched_Error err \<Rightarrow> Inl (ErrorNew ([CHR 0x27] @ error_text err @ [CHR 0x27]
         @ '' was an error, but not a gRPC status'')))"

definition Match :: "grpc_matcher \<Rightarrow> matched \<Rightarrow> (go_error + bool) \<times> grpc_matcher" where
  "Match h actual = (case toGrpcStatus actual of
       Inl err \<Rightarrow> (Inl err, h)
     | Inr c \<Rightarrow> (Inr (c = hm_expected h), h\<lparr>hm_actual := c\<rparr>))"

definition FailureMessage :: "grpc_matcher \<Rightarrow> string" where
  "FailureMessage h = ''Expected gRPC status code to be '' @ code_name (hm_expected h) @ '' (''
     @ format_nat (code_number (hm_expected h)) @ ''), but was '' @ code_name (hm_actual h) @ '' (''
     @ format_nat (code_number (hm_actual h)) @ '')''"

definition NegatedFailureMessage :: "grpc_matcher \<Rightarrow> string" where
  "NegatedFailureMessage h = ''Expected gRPC status code not to equal '' @ code_name (hm_actual h) @ '' (''
     @ format_nat (code_number (hm_actual h)) @ '')''"

section \<open>What the tests get\<close>

text \<open>The roles of the tests are the roles of the server.\<close>

lemma rodeRoles_registered: "set rodeRoles = dom (map_of registry)" "distinct rodeRoles"
  by (auto simp: rodeRoles_def registry_def RoleAnonymous_def RoleEnforcer_def RoleCollector_def
      RoleApplicationDeveloper_def RolePolicyDeveloper_def RolePolicyAdministrator_def RoleAdministrator_def
      dom_map_of_conv_image_fst)

text \<open>The table has one entry for each role of the server, in whatever order the sets are walked: it
  is permitted if it is among the roles of the test.\<close>

lemma authz_table_complete:
  assumes "\<And>A. finite A \<Longrightarrow> distinct (walk A) \<and> set (walk A) = A" "set roles \<subseteq> set rodeRoles"
  shows "distinct (map (ate_Role \<circ> snd) (NewAuthzTableTest walk roles)) \<and>
    set (map snd (NewAuthzTableTest walk roles)) =
      (\<lambda>role. \<lparr>ate_Role = role, ate_Permitted = role \<in> set roles\<rparr>) ` set rodeRoles"
proof -
  have walked: "distinct (walk (set roles))" "set (walk (set roles)) = set roles"
    "distinct (walk (set rodeRoles - set roles))" "set (walk (set rodeRoles - set roles)) = set rodeRoles - set roles"
    using assms(1) by simp_all
  then show ?thesis
    using assms(2) by (auto simp: NewAuthzTableTest_def Let_def comp_def distinct_map inj_on_def)
qed

text \<open>A client made for a role dials without transport security and with OIDC credentials of that role.\<close>

lemma newTestClient_Ok:
  assumes "newTestClient env src dial role s = (Ok (host, opts), s')"
    "role_config env role = conf" "oidcAuthIsConfigured conf"
  shows "host = rodeHost env \<and> length (credentials_of opts) = 1 \<and>
    (\<forall>c\<in>set (credentials_of opts). \<not> RequireTransportSecurity c)"
proof -
  have parts: "cc_BasicAuth conf = None" "\<not> cc_ProxyAuth conf" "\<exists>oc. cc_OIDCAuth conf = Some oc"
    "cc_Rode conf = Some \<lparr>rcc_Host = rodeHost env, rcc_DisableTransportSecurity = True\<rparr>"
    using assms(2) by (auto simp: role_config_def Let_def)
  from parts(1) have basic: "\<not> basicAuthIsConfigured conf" by (simp add: basicAuthIsConfigured_def)
  show ?thesis
    using assms(1,3) parts basic unfolding newTestClient_def NewRodeClient_def assms(2) dial_options_def
    by (auto simp: attempt_Ok draw_Ok Let_def credentials_of_def dest!: newOidcAuth_Ok split: if_splits)
qed

text \<open>The matcher accepts exactly the errors with the expected code, and fails on all that has none.\<close>

lemma Match_exact:
  "fst (Match (HaveGrpcStatus c) actual) = Inr True \<longleftrightarrow>
     (\<exists>msg cause details. actual = Matched_Error (StatusError c msg cause details))"
  by (auto simp: Match_def HaveGrpcStatus_def toGrpcStatus_def split: matched.splits go_error.splits)

end
