(* ===== verification/Developer_Tools.thy ===== *)
theory Developer_Tools
  imports Rode_Client Opa_Client
begin

text \<open>
  The command-line programs under \<open>hack\<close>: one asks the service for the policy groups, the
  other for the evaluation of a policy. Each connects, makes one call and prints the answer,
  or ends with a fatal message. The remote calls and the texts of printed values are
  parameters.
\<close>

text \<open>How a program ends: it returned after printing some lines, or \<open>log.Fatal\<close> stopped it, which
  leaves the lines printed before.\<close>

datatype program_end = Returned "string list" | Fatal "string list" string

definition or_fatal ::
  "('w, 'a) io \<Rightarrow> string list \<Rightarrow> (go_error \<Rightarrow> string) \<Rightarrow> ('a \<Rightarrow> ('w, program_end) io) \<Rightarrow> ('w, program_end) io" where
  "or_fatal f printed message k =
     inspect f (\<lambda>r. case r of Inl err \<Rightarrow> ret (Fatal printed (message err)) | Inr x \<Rightarrow> k x)"

section \<open>hack/client\<close>

definition hack_client_config :: client_config where
  "hack_client_config =
     \<lparr>cc_Rode = Some \<lparr>rcc_Host = ''localhost:50051'', rcc_DisableTransportSecurity = True\<rparr>,
      cc_OIDCAuth = Some
        \<lparr>coc_ClientID = ''rode-ui'', coc_ClientSecret = ''8a487ca4-6a96-4dc2-affa-35ea7f67e50c'',
         coc_TokenURL = ''https://keycloak.test/auth/realms/rode-demo/protocol/openid-connect/token'',
         coc_TlsInsecureSkipVerify = True, coc_Scopes = ''''\<rparr>,
      cc_BasicAuth = None, cc_ProxyAuth = False\<rparr>"

definition client_main ::
  "'w token_source \<Rightarrow> (string \<Rightarrow> dial_option list \<Rightarrow> 'w \<Rightarrow> (go_error + unit) \<times> 'w) \<Rightarrow>
     (string \<times> dial_option list \<Rightarrow> list_policy_groups_request \<Rightarrow> ('w, list_policy_groups_response) io) \<Rightarrow>
     (list_policy_groups_response \<Rightarrow> string) \<Rightarrow> ('w, program_end) io" where
  "client_main src dial listPolicyGroups text_of =
     or_fatal (NewRodeClient src dial (Some hack_client_config) []) [] error_text (\<lambda>rodeClient.
     or_fatal (listPolicyGroups rodeClient \<lparr>lgr_Filter = '''', lgr_PageSize = 0, lgr_PageToken = ''''\<rparr>) []
       (\<lambda>err. ''error listing policy groups: '' @ error_text err) (\<lambda>policyGroups.
     ret (Returned [text_of policyGroups])))"

section \<open>hack/evaluate_policy\<close>

record evaluate_flags =
  ef_opaHost :: string
  ef_policy :: string
  ef_resource :: string

definition default_evaluate_flags :: evaluate_flags where
  "default_evaluate_flags = \<lparr>ef_opaHost = ''localhost:50051'', ef_policy = ''example'',
     ef_resource = ''harbor.localhost/library/nginx:latest''\<rparr>"

definition evaluate_policy_main ::
  "evaluate_flags \<Rightarrow> (string \<Rightarrow> dial_option list \<Rightarrow> 'w \<Rightarrow> (go_error + unit) \<times> 'w) \<Rightarrow>
     (string \<Rightarrow> evaluate_policy_request \<Rightarrow> ('w, evaluate_policy_response) io) \<Rightarrow>
     (string list \<Rightarrow> string) \<Rightarrow> (evaluate_policy_response \<Rightarrow> go_error + string) \<Rightarrow> ('w, program_end) io" where
  "evaluate_policy_main flags dial evaluatePolicy marshal_list marshal =
     or_fatal (attempt (draw (dial (ef_opaHost flags) [WithInsecure, WithBlock])) id lift) []
       (\<lambda>err. ''did not connect: '' @ error_text err) (\<lambda>_.
     or_fatal (evaluatePolicy (ef_opaHost flags) \<lparr>epr_Policy = ef_policy flags, epr_ResourceUri = ef_resource flags\<rparr>) []
       (\<lambda>err. ''attest policy returned error: '' @ error_text err) (\<lambda>response.
     let printed = (case ersp_Explanation response of [] \<Rightarrow> [] | explanation \<Rightarrow> [marshal_list explanation]);
         response1 = response\<lparr>ersp_Explanation := []\<rparr> in
     or_fatal (lift (marshal response1)) printed (\<lambda>_. ''error json encoding response'') (\<lambda>json.
     ret (Returned (printed @ [json])))))"

section \<open>How the programs end\<close>

text \<open>Every error ends in a fatal message: neither program returns one.\<close>

lemma or_fatal_returns:
  assumes "\<And>x s e s'. k x s \<noteq> (Err e, s')"
  shows "or_fatal f printed message k s \<noteq> (Err e, s')"
  using assms unfolding or_fatal_def inspect_def ret_def by (auto split: prod.splits outcome.splits)

lemma client_main_returns: "client_main src dial listPolicyGroups text_of s \<noteq> (Err e, s')"
  unfolding client_main_def by (intro or_fatal_returns) (simp add: ret_def)

lemma evaluate_policy_main_returns:
  "evaluate_policy_main flags dial evaluatePolicy marshal_list marshal s \<noteq> (Err e, s')"
  unfolding evaluate_policy_main_def Let_def by (intro or_fatal_returns) (simp add: ret_def)

text \<open>When the evaluation is printed, the explanation is a line of its own and not part of the answer.\<close>

lemma evaluate_policy_main_prints:
  assumes "evaluate_policy_main flags dial evaluatePolicy marshal_list marshal s = (Ok (Returned printed), s')"
  shows "\<exists>response json s1. evaluatePolicy (ef_opaHost flags)
      \<lparr>epr_Policy = ef_policy flags, epr_ResourceUri = ef_resource flags\<rparr> s1 = (Ok response, s') \<and>
    marshal (response\<lparr>ersp_Explanation := []\<rparr>) = Inr json \<and>
    printed = (if ersp_Explanation response = [] then [json] else [marshal_list (ersp_Explanation response), json])"
proof -
  from assms obtain response s1 s2 where
    call: "evaluatePolicy (ef_opaHost flags) \<lparr>epr_Policy = ef_policy flags, epr_ResourceUri = ef_resource flags\<rparr> s1
      = (Ok response, s2)"
    and rest: "inspect (lift (marshal (response\<lparr>ersp_Explanation := []\<rparr>)))
      (\<lambda>r. case r of Inl err \<Rightarrow> ret (Fatal (case ersp_Explanation response of [] \<Rightarrow> [] | e # es \<Rightarrow> [marshal_list (e # es)])
          ''error json encoding response'')
        | Inr json \<Rightarrow> ret (Returned ((case ersp_Explanation response of [] \<Rightarrow> [] | e # es \<Rightarrow> [marshal_list (e # es)]) @ [json]))) s2
      = (Ok (Returned printed), s')"
    unfolding evaluate_policy_main_def or_fatal_def by (auto simp: inspect_Ok [of "attempt _ _ _"] inspect_Ok [of "evaluatePolicy _ _"] Let_def)
  show ?thesis
  proof (cases "marshal (response\<lparr>ersp_Explanation := []\<rparr>)")
    case (Inl err)
    with rest show ?thesis by (simp add: inspect_def)
  next
    case (Inr json)
    with rest call show ?thesis
      by (intro exI [of _ response] exI [of _ json] exI [of _ s1]) (auto simp: inspect_def split: list.splits)
  qed
qed

end
